(* ===== verification/Transport_Prelude.thy ===== *)
theory Transport_Prelude
  imports Complex_Main
begin

text \<open>
  Shared vocabulary of the development: the exceptions the two kernels of
  \<^verbatim>\<open>src/Shared_Funcs/pemfc_transport_funcs.py\<close> can raise, results as values of a sum
  type, the sequencing of expressions (left operand first, then the right one, then the
  operator) and of statements (each statement sees the provider object the previous one
  left), the fact collections the component theories extend, and the lemmas on lists
  that the elementwise arithmetic needs.
\<close>

section \<open>Fact collections\<close>

named_theorems expr_defs \<open>definitions of the lifted expression operators\<close>
named_theorems stmt_defs \<open>definitions of the statement combinators\<close>
named_theorems fin_simps \<open>closure of finiteness under the float operations\<close>

section \<open>Exceptions and results\<close>

text \<open>
  The exceptions of the Python run-time that the kernels can meet. \<open>KeyError\<close> carries the
  missing key and \<open>UnboundLocalError\<close> the name of the local variable that was read before
  any assignment. \<open>OverflowError\<close> is raised when an integer is too large to be converted
  to a float. \<open>CanteraError\<close> stands for whatever the property provider raises when it
  refuses a state.
\<close>

datatype pyerr =
    KeyError string
  | IndexError
  | TypeError
  | ValueError
  | ZeroDivisionError
  | OverflowError
  | UnboundLocalError string
  | CanteraError string

type_synonym 'a res = "pyerr + 'a"

definition bindE :: "'a res \<Rightarrow> ('a \<Rightarrow> 'b res) \<Rightarrow> 'b res" where
  "bindE m f = (case m of Inl e \<Rightarrow> Inl e | Inr x \<Rightarrow> f x)"

definition lift1E :: "('a \<Rightarrow> 'b res) \<Rightarrow> 'a res \<Rightarrow> 'b res" where
  "lift1E f a = bindE a f"

definition lift2E :: "('a \<Rightarrow> 'b \<Rightarrow> 'c res) \<Rightarrow> 'a res \<Rightarrow> 'b res \<Rightarrow> 'c res" where
  "lift2E f a b = bindE a (\<lambda>x. bindE b (\<lambda>y. f x y))"

abbreviation map_res :: "('a \<Rightarrow> 'b) \<Rightarrow> 'a res \<Rightarrow> 'b res" where
  "map_res f \<equiv> map_sum (\<lambda>e. e) f"

definition raises :: "'a res \<Rightarrow> bool" where
  "raises r = (case r of Inl _ \<Rightarrow> True | Inr _ \<Rightarrow> False)"

section \<open>Statements over a mutable object\<close>

text \<open>
  A statement runs on the state of the one object it may mutate and yields a value or an
  exception together with the state it leaves: after an exception the caller still holds
  the object, so the state is part of the outcome on both branches.
\<close>

type_synonym ('s, 'a) sx = "'s \<Rightarrow> 'a res \<times> 's"

definition returnS :: "'a \<Rightarrow> ('s, 'a) sx" where
  "returnS x = (\<lambda>s. (Inr x, s))"

definition evalS :: "'a res \<Rightarrow> ('s, 'a) sx" where
  "evalS r = (\<lambda>s. (r, s))"

definition readS :: "('s \<Rightarrow> 'a) \<Rightarrow> ('s, 'a) sx" where
  "readS f = (\<lambda>s. (Inr (f s), s))"

definition assignS :: "('s \<Rightarrow> 's res) \<Rightarrow> ('s, unit) sx" where
  "assignS f = (\<lambda>s. case f s of Inl e \<Rightarrow> (Inl e, s) | Inr s' \<Rightarrow> (Inr (), s'))"

definition bindS :: "('s, 'a) sx \<Rightarrow> ('a \<Rightarrow> ('s, 'b) sx) \<Rightarrow> ('s, 'b) sx" where
  "bindS m f = (\<lambda>s. case m s of (Inl e, s') \<Rightarrow> (Inl e, s') | (Inr x, s') \<Rightarrow> f x s')"

section \<open>Laws of expression sequencing\<close>

lemma bindE_Inl [simp]: "bindE (Inl e) f = Inl e"
  by (simp add: bindE_def)

lemma bindE_Inr [simp]: "bindE (Inr x) f = f x"
  by (simp add: bindE_def)

lemma bindE_right_unit [simp]: "bindE m Inr = m"
  by (cases m) simp_all

lemma bindE_assoc: "bindE (bindE m f) g = bindE m (\<lambda>x. bindE (f x) g)"
  by (cases m) simp_all

lemma bindE_eq_Inr_iff: "bindE m f = Inr y \<longleftrightarrow> (\<exists>x. m = Inr x \<and> f x = Inr y)"
  by (cases m) simp_all

lemma bindE_eq_Inl_iff:
  "bindE m f = Inl e \<longleftrightarrow> m = Inl e \<or> (\<exists>x. m = Inr x \<and> f x = Inl e)"
  by (cases m) simp_all

lemma lift1E_simps [simp]:
  "lift1E f (Inl e) = Inl e"
  "lift1E f (Inr x) = f x"
  by (simp_all add: lift1E_def)

lemma lift2E_simps [simp]:
  "lift2E f (Inl e) b = Inl e"
  "lift2E f (Inr x) (Inl e) = Inl e"
  "lift2E f (Inr x) (Inr y) = f x y"
  by (simp_all add: lift2E_def)

lemma lift2E_eq_Inr_iff:
  "lift2E f a b = Inr z \<longleftrightarrow> (\<exists>x y. a = Inr x \<and> b = Inr y \<and> f x y = Inr z)"
  by (cases a; cases b) simp_all

lemma lift2E_left_error_first:
  "a = Inl e \<Longrightarrow> lift2E f a b = Inl e"
  by simp

lemma map_res_lift2E:
  assumes "\<And>x y. map_res h (f x y) = g x y"
  shows "map_res h (lift2E f a b) = lift2E g a b"
  using assms by (cases a; cases b) simp_all

lemma map_res_bindE: "map_res h (bindE m f) = bindE m (\<lambda>x. map_res h (f x))"
  by (cases m) simp_all

lemma map_res_comp: "map_res f (map_res g r) = map_res (\<lambda>x. f (g x)) r"
  by (cases r) simp_all

lemma raises_simps [simp]:
  "raises (Inl e)"
  "\<not> raises (Inr x)"
  by (simp_all add: raises_def)

lemma raises_lift2E:
  "raises (lift2E f a b) \<longleftrightarrow>
     raises a \<or> raises b \<or> (\<exists>x y. a = Inr x \<and> b = Inr y \<and> raises (f x y))"
  by (cases a; cases b) simp_all

section \<open>Laws of statement sequencing\<close>

lemma bindS_returnS [simp]: "bindS (returnS x) f = f x"
  by (simp add: bindS_def returnS_def)

lemma bindS_right_unit [simp]: "bindS m returnS = m"
  by (auto simp: bindS_def returnS_def fun_eq_iff split: prod.splits sum.splits)

lemma bindS_assoc: "bindS (bindS m f) g = bindS m (\<lambda>x. bindS (f x) g)"
  by (auto simp: bindS_def fun_eq_iff split: prod.splits sum.splits)

lemma bindS_readS [simp]: "bindS (readS f) k s = k (f s) s"
  by (simp add: bindS_def readS_def)

lemma bindS_evalS_Inr [simp]: "bindS (evalS (Inr x)) k s = k x s"
  by (simp add: bindS_def evalS_def)

lemma bindS_evalS_Inl [simp]: "bindS (evalS (Inl e)) k s = (Inl e, s)"
  by (simp add: bindS_def evalS_def)

lemma bindS_evalS: "bindS (evalS r) k s = (case r of Inl e \<Rightarrow> (Inl e, s) | Inr x \<Rightarrow> k x s)"
  by (cases r) simp_all

lemma bindS_assignS:
  "bindS (assignS f) k s = (case f s of Inl e \<Rightarrow> (Inl e, s) | Inr s' \<Rightarrow> k () s')"
  by (simp add: bindS_def assignS_def split: sum.splits)

lemma returnS_apply [simp]: "returnS x s = (Inr x, s)"
  by (simp add: returnS_def)

lemma evalS_apply [simp]: "evalS r s = (r, s)"
  by (simp add: evalS_def)

lemmas stmt_simps = bindS_assignS bindS_evalS

section \<open>Lists under elementwise operations\<close>

lemma map2_same: "map2 f xs xs = map (\<lambda>x. f x x) xs"
  by (induction xs) simp_all

lemma map2_swap: "map2 f xs ys = map2 (\<lambda>y x. f x y) ys xs"
  by (induction xs arbitrary: ys) (simp, case_tac ys, simp_all)

lemma map2_flip: "map2 (\<lambda>a b. g b a) xs ys = map2 g ys xs"
  by (rule map2_swap [symmetric])

lemma map_map2: "map h (map2 f xs ys) = map2 (\<lambda>x y. h (f x y)) xs ys"
  by (induction xs arbitrary: ys) (simp, case_tac ys, simp_all)

lemma map2_map_left: "map2 f (map g xs) ys = map2 (\<lambda>x y. f (g x) y) xs ys"
  by (induction xs arbitrary: ys) (simp, case_tac ys, simp_all)

lemma map2_map_right: "map2 f xs (map g ys) = map2 (\<lambda>x y. f x (g y)) xs ys"
  by (induction xs arbitrary: ys) (simp, case_tac ys, simp_all)

lemma map2_cong_elem:
  assumes "\<And>x y. (x, y) \<in> set (zip xs ys) \<Longrightarrow> f x y = g x y"
  shows "map2 f xs ys = map2 g xs ys"
  using assms by (intro map_cong) auto

lemma length_map2 [simp]: "length (map2 f xs ys) = min (length xs) (length ys)"
  by simp

lemma nth_map2:
  "i < length xs \<Longrightarrow> i < length ys \<Longrightarrow> map2 f xs ys ! i = f (xs ! i) (ys ! i)"
  by simp

lemma singleton_conv_hd: "length xs = Suc 0 \<Longrightarrow> xs = [hd xs]"
  by (cases xs) simp_all

lemma map2_singleton_left: "map2 f [a] ys = map (f a) (take 1 ys)"
  by (cases ys) simp_all

lemma map2_singleton_right: "map2 f xs [b] = map (\<lambda>x. f x b) (take 1 xs)"
  by (cases xs) simp_all

lemma list_all_map2:
  "length xs = length ys \<Longrightarrow>
   list_all P (map2 f xs ys) \<longleftrightarrow> (\<forall>i < length xs. P (f (xs ! i) (ys ! i)))"
  by (auto simp: list_all_length)

end
