(* ===== verification/PyFloat.thy ===== *)
theory PyFloat
  imports Transport_Prelude
begin

text \<open>
  Python's \<^verbatim>\<open>float\<close> (an IEEE-754 double) as the kernels use it: a finite value, one of the two
  infinities, or NaN. The operations follow the standard's rules for the special values;
  on finite values they are the operations of the reals.
\<close>

section \<open>Values\<close>

datatype pyfloat = Fin real | PInf | NInf | NaN

primrec is_fin :: "pyfloat \<Rightarrow> bool" where
  "is_fin (Fin r) = True"
| "is_fin PInf = False"
| "is_fin NInf = False"
| "is_fin NaN = False"

primrec is_nan :: "pyfloat \<Rightarrow> bool" where
  "is_nan (Fin r) = False"
| "is_nan PInf = False"
| "is_nan NInf = False"
| "is_nan NaN = True"

primrec is_pos :: "pyfloat \<Rightarrow> bool" where
  "is_pos (Fin r) = (0 < r)"
| "is_pos PInf = False"
| "is_pos NInf = False"
| "is_pos NaN = False"

primrec is_nonneg :: "pyfloat \<Rightarrow> bool" where
  "is_nonneg (Fin r) = (0 \<le> r)"
| "is_nonneg PInf = False"
| "is_nonneg NInf = False"
| "is_nonneg NaN = False"

primrec fin_of :: "pyfloat \<Rightarrow> real option" where
  "fin_of (Fin r) = Some r"
| "fin_of PInf = None"
| "fin_of NInf = None"
| "fin_of NaN = None"

definition signed_inf :: "real \<Rightarrow> pyfloat" where
  "signed_inf s = (if s = 0 then NaN else if 0 < s then PInf else NInf)"

section \<open>Arithmetic\<close>

instantiation pyfloat :: "{zero, one, plus, uminus, minus, times, inverse}"
begin

definition zero_pyfloat :: pyfloat where
  "zero_pyfloat = Fin 0"

definition one_pyfloat :: pyfloat where
  "one_pyfloat = Fin 1"

fun uminus_pyfloat :: "pyfloat \<Rightarrow> pyfloat" where
  "uminus_pyfloat (Fin a) = Fin (- a)"
| "uminus_pyfloat PInf = NInf"
| "uminus_pyfloat NInf = PInf"
| "uminus_pyfloat NaN = NaN"

fun plus_pyfloat :: "pyfloat \<Rightarrow> pyfloat \<Rightarrow> pyfloat" where
  "plus_pyfloat (Fin a) (Fin b) = Fin (a + b)"
| "plus_pyfloat NaN y = NaN"
| "plus_pyfloat x NaN = NaN"
| "plus_pyfloat PInf NInf = NaN"
| "plus_pyfloat NInf PInf = NaN"
| "plus_pyfloat PInf y = PInf"
| "plus_pyfloat x PInf = PInf"
| "plus_pyfloat NInf y = NInf"
| "plus_pyfloat x NInf = NInf"

definition minus_pyfloat :: "pyfloat \<Rightarrow> pyfloat \<Rightarrow> pyfloat" where
  "minus_pyfloat x y = x + (- y)"

fun times_pyfloat :: "pyfloat \<Rightarrow> pyfloat \<Rightarrow> pyfloat" where
  "times_pyfloat (Fin a) (Fin b) = Fin (a * b)"
| "times_pyfloat NaN y = NaN"
| "times_pyfloat x NaN = NaN"
| "times_pyfloat (Fin a) PInf = signed_inf a"
| "times_pyfloat (Fin a) NInf = signed_inf (- a)"
| "times_pyfloat PInf (Fin b) = signed_inf b"
| "times_pyfloat NInf (Fin b) = signed_inf (- b)"
| "times_pyfloat PInf PInf = PInf"
| "times_pyfloat PInf NInf = NInf"
| "times_pyfloat NInf PInf = NInf"
| "times_pyfloat NInf NInf = PInf"

fun divide_pyfloat :: "pyfloat \<Rightarrow> pyfloat \<Rightarrow> pyfloat" where
  "divide_pyfloat (Fin a) (Fin b) = (if b = 0 then signed_inf a else Fin (a / b))"
| "divide_pyfloat NaN y = NaN"
| "divide_pyfloat x NaN = NaN"
| "divide_pyfloat (Fin a) PInf = Fin 0"
| "divide_pyfloat (Fin a) NInf = Fin 0"
| "divide_pyfloat PInf (Fin b) = (if 0 \<le> b then PInf else NInf)"
| "divide_pyfloat NInf (Fin b) = (if 0 \<le> b then NInf else PInf)"
| "divide_pyfloat PInf PInf = NaN"
| "divide_pyfloat PInf NInf = NaN"
| "divide_pyfloat NInf PInf = NaN"
| "divide_pyfloat NInf NInf = NaN"

definition inverse_pyfloat :: "pyfloat \<Rightarrow> pyfloat" where
  "inverse_pyfloat x = divide (Fin 1) x"

instance ..

end

section \<open>Special values\<close>

lemma signed_inf_simps [simp]:
  "signed_inf 0 = NaN"
  "0 < s \<Longrightarrow> signed_inf s = PInf"
  "s < 0 \<Longrightarrow> signed_inf s = NInf"
  by (simp_all add: signed_inf_def)

lemma signed_inf_not_fin [simp]:
  "signed_inf s \<noteq> Fin r"
  "\<not> is_fin (signed_inf s)"
  by (simp_all add: signed_inf_def)

lemma uminus_signed_inf [simp]: "- signed_inf s = signed_inf (- s)"
  by (simp add: signed_inf_def)

lemma Fin_times_signed_inf [simp]: "Fin a * signed_inf s = signed_inf (a * s)"
  by (auto simp: signed_inf_def zero_less_mult_iff mult_less_0_iff not_less
      dest: order.strict_implies_order)

lemma signed_inf_times_Fin [simp]: "signed_inf s * Fin a = signed_inf (s * a)"
  by (auto simp: signed_inf_def zero_less_mult_iff mult_less_0_iff not_less
      dest: order.strict_implies_order)

lemma signed_inf_times_signed_inf [simp]:
  "signed_inf s * signed_inf t = signed_inf (s * t)"
  by (auto simp: signed_inf_def zero_less_mult_iff mult_less_0_iff not_less
      dest: order.strict_implies_order)

lemma inf_times_signed_inf [simp]:
  "PInf * signed_inf s = signed_inf s"
  "NInf * signed_inf s = signed_inf (- s)"
  "signed_inf s * PInf = signed_inf s"
  "signed_inf s * NInf = signed_inf (- s)"
  by (simp_all add: signed_inf_def)

lemma NaN_absorbs [simp]:
  "x + NaN = NaN"
  "x * NaN = NaN"
  "x / NaN = NaN"
  "NaN / x = NaN"
  "x - NaN = NaN"
  "NaN - x = NaN"
  by (cases x; simp add: minus_pyfloat_def)+

section \<open>The additive and the multiplicative monoid\<close>

lemma pyfloat_add_commute: "x + y = y + (x::pyfloat)"
  by (cases x; cases y) simp_all

lemma pyfloat_add_assoc: "(x + y) + z = x + (y + (z::pyfloat))"
  by (cases x; cases y; cases z) simp_all

lemma pyfloat_mult_commute: "x * y = y * (x::pyfloat)"
  by (cases x; cases y) (simp_all add: mult.commute)

lemma pyfloat_mult_assoc: "(x * y) * z = x * (y * (z::pyfloat))"
  by (cases x; cases y; cases z) (simp_all add: mult.assoc)

lemma Fin_zero_plus [simp]: "Fin 0 + x = x" "x + Fin 0 = x"
  by (cases x; simp)+

lemma Fin_one_times [simp]: "Fin 1 * x = x" "x * Fin 1 = x"
  by (cases x; simp)+

instance pyfloat :: comm_monoid_add
proof
  fix a b c :: pyfloat
  show "a + b + c = a + (b + c)" by (rule pyfloat_add_assoc)
  show "a + b = b + a" by (rule pyfloat_add_commute)
  show "0 + a = a" by (simp add: zero_pyfloat_def)
qed

instance pyfloat :: comm_monoid_mult
proof
  fix a b c :: pyfloat
  show "a * b * c = a * (b * c)" by (rule pyfloat_mult_assoc)
  show "a * b = b * a" by (rule pyfloat_mult_commute)
  show "1 * a = a" by (simp add: one_pyfloat_def)
qed

section \<open>Negation, subtraction and division\<close>

lemma pyfloat_uminus_uminus [simp]: "- (- x) = (x::pyfloat)"
  by (cases x) simp_all

lemma pyfloat_uminus_add: "- (x + y) = - x + - (y::pyfloat)"
  by (cases x; cases y) simp_all

lemma pyfloat_minus_swap: "x - y = - (y - (x::pyfloat))"
  by (simp add: minus_pyfloat_def pyfloat_uminus_add pyfloat_add_commute)

lemma pyfloat_mult_uminus_left: "(- x) * y = - (x * (y::pyfloat))"
  by (cases x; cases y) simp_all

lemma pyfloat_mult_uminus_right: "x * (- y) = - (x * (y::pyfloat))"
  by (cases x; cases y) simp_all

lemma pyfloat_divide_uminus_left: "(- x) / y = - (x / (y::pyfloat))"
  by (cases x; cases y) (simp_all add: not_le)

lemma pyfloat_divide_eq_mult_inverse: "x / y = x * inverse (y::pyfloat)"
  by (cases x; cases y) (auto simp: inverse_pyfloat_def signed_inf_def divide_inverse)

lemma Fin_minus_Fin [simp]: "Fin a - Fin b = Fin (a - b)"
  by (simp add: minus_pyfloat_def)

lemma pyfloat_minus_self: "x - x = (if is_fin x then Fin 0 else NaN)"
  by (cases x) (simp_all add: minus_pyfloat_def)

lemma Fin_zero_times: "Fin 0 * x = (if is_fin x then Fin 0 else NaN)"
  by (cases x) simp_all

lemma times_Fin_zero: "x * Fin 0 = (if is_fin x then Fin 0 else NaN)"
  by (cases x) simp_all

lemma Fin_zero_divide: "Fin 0 / x = (if x = Fin 0 \<or> is_nan x then NaN else Fin 0)"
  by (cases x) simp_all

lemma pyfloat_power2: "x ^ 2 = x * (x::pyfloat)"
  by (simp add: power2_eq_square)

lemma Fin_power [simp]: "Fin a ^ n = Fin (a ^ n)"
  by (induction n) (simp_all add: one_pyfloat_def)

lemma pyfloat_half_sum: "Fin (1/2) * x + Fin (1/2) * y = (x + y) / Fin 2"
  by (cases x; cases y) (simp_all add: field_simps)

section \<open>Finiteness\<close>

lemma is_fin_conv: "is_fin x \<longleftrightarrow> (\<exists>r. x = Fin r)"
  by (cases x) simp_all

lemma is_fin_zero_one [simp, fin_simps]: "is_fin 0" "is_fin 1"
  by (simp_all add: zero_pyfloat_def one_pyfloat_def)

lemma is_fin_uminus [simp, fin_simps]: "is_fin (- x) \<longleftrightarrow> is_fin x"
  by (cases x) simp_all

lemma is_fin_plus [simp, fin_simps]: "is_fin (x + y) \<longleftrightarrow> is_fin x \<and> is_fin y"
  by (cases x; cases y) simp_all

lemma is_fin_minus [simp, fin_simps]: "is_fin (x - y) \<longleftrightarrow> is_fin x \<and> is_fin y"
  by (simp add: minus_pyfloat_def)

lemma is_fin_times [simp, fin_simps]: "is_fin (x * y) \<longleftrightarrow> is_fin x \<and> is_fin y"
  by (cases x; cases y) simp_all

lemma is_fin_divide [fin_simps]:
  "is_fin (x / y) \<longleftrightarrow> is_fin x \<and> (y = PInf \<or> y = NInf \<or> (is_fin y \<and> y \<noteq> Fin 0))"
  by (cases x; cases y) simp_all

lemma is_fin_power [simp, fin_simps]: "is_fin x \<Longrightarrow> is_fin (x ^ n)"
  by (auto simp: is_fin_conv)

lemma fin_of_eq_Some_iff [simp]: "fin_of x = Some r \<longleftrightarrow> x = Fin r"
  by (cases x) simp_all

lemma fin_of_eq_None_iff [simp]: "fin_of x = None \<longleftrightarrow> \<not> is_fin x"
  by (cases x) simp_all

section \<open>Signs of finite values\<close>

lemma is_pos_conv: "is_pos x \<longleftrightarrow> (\<exists>r. x = Fin r \<and> 0 < r)"
  by (cases x) simp_all

lemma is_nonneg_conv: "is_nonneg x \<longleftrightarrow> (\<exists>r. x = Fin r \<and> 0 \<le> r)"
  by (cases x) simp_all

lemma is_pos_imp [simp]: "is_pos x \<Longrightarrow> is_fin x" "is_pos x \<Longrightarrow> is_nonneg x" "is_pos x \<Longrightarrow> x \<noteq> Fin 0"
  by (cases x; simp)+

lemma is_nonneg_imp_fin [simp]: "is_nonneg x \<Longrightarrow> is_fin x"
  by (cases x) simp_all

lemma is_pos_times: "is_pos x \<Longrightarrow> is_pos y \<Longrightarrow> is_pos (x * y)"
  by (auto simp: is_pos_conv)

lemma is_pos_plus: "is_pos x \<Longrightarrow> is_nonneg y \<Longrightarrow> is_pos (x + y)"
  "is_nonneg x \<Longrightarrow> is_pos y \<Longrightarrow> is_pos (x + y)"
  by (auto simp: is_pos_conv is_nonneg_conv intro: add_pos_nonneg add_nonneg_pos)

lemma is_pos_divide: "is_pos x \<Longrightarrow> is_pos y \<Longrightarrow> is_pos (x / y)"
  by (auto simp: is_pos_conv)

lemma is_nonneg_times: "is_nonneg x \<Longrightarrow> is_nonneg y \<Longrightarrow> is_nonneg (x * y)"
  by (auto simp: is_nonneg_conv)

lemma is_nonneg_plus: "is_nonneg x \<Longrightarrow> is_nonneg y \<Longrightarrow> is_nonneg (x + y)"
  by (auto simp: is_nonneg_conv)

lemma is_nonneg_divide: "is_nonneg x \<Longrightarrow> is_pos y \<Longrightarrow> is_nonneg (x / y)"
  by (auto simp: is_nonneg_conv is_pos_conv)

lemmas sign_intros =
  is_pos_times is_pos_plus is_pos_divide is_nonneg_times is_nonneg_plus is_nonneg_divide

lemmas pyfloat_neg_simps =
  pyfloat_uminus_add pyfloat_mult_uminus_left pyfloat_mult_uminus_right
  pyfloat_divide_uminus_left

end
