(* ===== verification/NumPy.thy ===== *)
theory NumPy
  imports PyFloat
begin

text \<open>
  The values the kernels compute with and the operators they apply to them: a scalar (a
  Python \<^verbatim>\<open>float\<close>) or a one-dimensional \<^verbatim>\<open>numpy.ndarray\<close> over the species; the binary
  operators with NumPy's broadcasting; the subscript of a parameter dictionary by a key
  and of an array by a node index. Every operator that can raise returns a result.
\<close>

section \<open>Values and shapes\<close>

datatype pyval = Scalar pyfloat | Vec "pyfloat list"

type_synonym pdict = "string \<rightharpoonup> pyval"

primrec shape :: "pyval \<Rightarrow> nat option" where
  "shape (Scalar a) = None"
| "shape (Vec xs) = Some (length xs)"

fun broadcast_shape :: "nat option \<Rightarrow> nat option \<Rightarrow> nat option res" where
  "broadcast_shape None s = Inr s"
| "broadcast_shape (Some m) None = Inr (Some m)"
| "broadcast_shape (Some m) (Some n) =
     (if m = n then Inr (Some m)
      else if m = 1 then Inr (Some n)
      else if n = 1 then Inr (Some m)
      else Inl ValueError)"

primrec is_vec :: "pyval \<Rightarrow> bool" where
  "is_vec (Scalar a) = False"
| "is_vec (Vec xs) = True"

primrec elems :: "pyval \<Rightarrow> pyfloat list" where
  "elems (Scalar a) = [a]"
| "elems (Vec xs) = xs"

definition all_fin :: "pyval \<Rightarrow> bool" where
  "all_fin v = list_all is_fin (elems v)"

primrec zeros_like :: "pyval \<Rightarrow> pyval" where
  "zeros_like (Scalar a) = Scalar (Fin 0)"
| "zeros_like (Vec xs) = Vec (replicate (length xs) (Fin 0))"

section \<open>Operators\<close>

fun np_binop :: "(pyfloat \<Rightarrow> pyfloat \<Rightarrow> pyfloat) \<Rightarrow> pyval \<Rightarrow> pyval \<Rightarrow> pyval res" where
  "np_binop f (Scalar a) (Scalar b) = Inr (Scalar (f a b))"
| "np_binop f (Scalar a) (Vec ys) = Inr (Vec (map (f a) ys))"
| "np_binop f (Vec xs) (Scalar b) = Inr (Vec (map (\<lambda>x. f x b) xs))"
| "np_binop f (Vec xs) (Vec ys) =
     (if length xs = length ys then Inr (Vec (map2 f xs ys))
      else if length xs = 1 then Inr (Vec (map (f (hd xs)) ys))
      else if length ys = 1 then Inr (Vec (map (\<lambda>x. f x (hd ys)) xs))
      else Inl ValueError)"

definition np_add :: "pyval \<Rightarrow> pyval \<Rightarrow> pyval res" where
  "np_add = np_binop (+)"

definition np_sub :: "pyval \<Rightarrow> pyval \<Rightarrow> pyval res" where
  "np_sub = np_binop (-)"

definition np_mul :: "pyval \<Rightarrow> pyval \<Rightarrow> pyval res" where
  "np_mul = np_binop (*)"

fun np_truediv :: "pyval \<Rightarrow> pyval \<Rightarrow> pyval res" where
  "np_truediv (Scalar a) (Scalar b) =
     (if b = Fin 0 then Inl ZeroDivisionError else Inr (Scalar (a / b)))"
| "np_truediv (Scalar a) (Vec ys) = np_binop (/) (Scalar a) (Vec ys)"
| "np_truediv (Vec xs) y = np_binop (/) (Vec xs) y"

primrec np_map :: "(pyfloat \<Rightarrow> pyfloat) \<Rightarrow> pyval \<Rightarrow> pyval" where
  "np_map f (Scalar a) = Scalar (f a)"
| "np_map f (Vec xs) = Vec (map f xs)"

definition np_neg :: "pyval \<Rightarrow> pyval" where
  "np_neg = np_map uminus"

definition np_pow :: "pyval \<Rightarrow> nat \<Rightarrow> pyval" where
  "np_pow v n = np_map (\<lambda>x. x ^ n) v"

section \<open>Subscripts\<close>

definition getp :: "pdict \<Rightarrow> string \<Rightarrow> pyval res" where
  "getp p k = (case p k of None \<Rightarrow> Inl (KeyError k) | Some v \<Rightarrow> Inr v)"

definition py_index :: "pyval \<Rightarrow> int \<Rightarrow> pyval res" where
  "py_index v i =
     (case v of
        Scalar a \<Rightarrow> Inl TypeError
      | Vec xs \<Rightarrow>
          (let n = int (length xs); j = (if i < 0 then i + n else i)
           in if 0 \<le> j \<and> j < n then Inr (Scalar (xs ! nat j)) else Inl IndexError))"

section \<open>Expressions\<close>

definition addE :: "pyval res \<Rightarrow> pyval res \<Rightarrow> pyval res" where
  [expr_defs]: "addE = lift2E np_add"

definition subE :: "pyval res \<Rightarrow> pyval res \<Rightarrow> pyval res" where
  [expr_defs]: "subE = lift2E np_sub"

definition mulE :: "pyval res \<Rightarrow> pyval res \<Rightarrow> pyval res" where
  [expr_defs]: "mulE = lift2E np_mul"

definition divE :: "pyval res \<Rightarrow> pyval res \<Rightarrow> pyval res" where
  [expr_defs]: "divE = lift2E np_truediv"

definition negE :: "pyval res \<Rightarrow> pyval res" where
  [expr_defs]: "negE = map_res np_neg"

definition powE :: "pyval res \<Rightarrow> nat \<Rightarrow> pyval res" where
  [expr_defs]: "powE a n = map_res (\<lambda>v. np_pow v n) a"

definition idxE :: "pyval res \<Rightarrow> int \<Rightarrow> pyval res" where
  [expr_defs]: "idxE a i = lift1E (\<lambda>v. py_index v i) a"

definition no_zde :: "'a res \<Rightarrow> bool" where
  "no_zde r \<longleftrightarrow> r \<noteq> Inl ZeroDivisionError"

definition vec_res :: "pyval res \<Rightarrow> bool" where
  "vec_res r \<longleftrightarrow> (case r of Inl e \<Rightarrow> True | Inr v \<Rightarrow> is_vec v)"

definition raises_only :: "pyerr set \<Rightarrow> 'a res \<Rightarrow> bool" where
  "raises_only E r = (case r of Inl e \<Rightarrow> e \<in> E | Inr x \<Rightarrow> True)"

section \<open>Elementwise maps\<close>

lemma np_neg_simps [simp]:
  "np_neg (Scalar a) = Scalar (- a)"
  "np_neg (Vec xs) = Vec (map uminus xs)"
  by (simp_all add: np_neg_def)

lemma np_pow_simps [simp]:
  "np_pow (Scalar a) n = Scalar (a ^ n)"
  "np_pow (Vec xs) n = Vec (map (\<lambda>x. x ^ n) xs)"
  by (simp_all add: np_pow_def)

lemma shape_np_map [simp]: "shape (np_map f v) = shape v"
  by (cases v) simp_all

lemma np_map_np_map: "np_map f (np_map g v) = np_map (\<lambda>x. f (g x)) v"
  by (cases v) simp_all

lemma np_map_ident [simp]: "np_map (\<lambda>x. x) v = v"
  by (cases v) simp_all

lemma np_map_cong_elem:
  "(\<And>a. a \<in> set (elems v) \<Longrightarrow> f a = g a) \<Longrightarrow> np_map f v = np_map g v"
  by (cases v) simp_all

lemma np_neg_np_neg [simp]: "np_neg (np_neg v) = v"
  by (simp add: np_neg_def np_map_np_map)

lemma shape_np_neg [simp]: "shape (np_neg v) = shape v"
  by (simp add: np_neg_def)

lemma all_fin_simps [simp]:
  "all_fin (Scalar a) = is_fin a"
  "all_fin (Vec xs) = list_all is_fin xs"
  by (simp_all add: all_fin_def)

lemma np_map_const_zeros:
  "np_map (\<lambda>x. Fin 0) v = zeros_like v"
  by (cases v) (simp_all add: map_replicate_const)

section \<open>Broadcasting\<close>

lemma np_binop_shape:
  "map_res shape (np_binop f x y) = broadcast_shape (shape x) (shape y)"
  by (cases x; cases y) auto

lemma np_binop_error: "np_binop f x y = Inl e \<Longrightarrow> e = ValueError"
  by (cases x; cases y) (auto split: if_splits)

lemma np_binop_raises_iff:
  "raises (np_binop f x y) \<longleftrightarrow> raises (broadcast_shape (shape x) (shape y))"
  by (cases x; cases y) auto

lemma np_binop_Scalar_left: "np_binop f (Scalar a) y = Inr (np_map (f a) y)"
  by (cases y) simp_all

lemma np_binop_Scalar_right: "np_binop f x (Scalar b) = Inr (np_map (\<lambda>a. f a b) x)"
  by (cases x) simp_all

lemma np_binop_Vec_Vec:
  "length xs = length ys \<Longrightarrow> np_binop f (Vec xs) (Vec ys) = Inr (Vec (map2 f xs ys))"
  by simp

lemma np_binop_swap:
  assumes "\<And>a b. f a b = g b a"
  shows "np_binop f x y = np_binop g y x"
proof -
  have f: "f = (\<lambda>a b. g b a)"
    using assms by (intro ext)
  have m: "map2 f xs ys = map2 g ys xs" for xs ys
    unfolding f by (rule map2_flip)
  have l: "map (f a) ys = map (\<lambda>y. g y a) ys" for a ys
    by (simp add: assms)
  have r: "map (\<lambda>x. f x b) xs = map (g b) xs" for b xs
    by (simp add: assms)
  show ?thesis
    by (cases x; cases y) (simp_all add: m l r, simp_all add: assms)
qed

lemma np_binop_neg_result:
  assumes "\<And>a b. g a b = - f a b"
  shows "np_binop g x y = map_res np_neg (np_binop f x y)"
  by (cases x; cases y) (auto simp: assms map_map2 comp_def)

lemma np_binop_neg_left:
  assumes "\<And>a b. f (- a) b = - f a b"
  shows "np_binop f (np_neg x) y = map_res np_neg (np_binop f x y)"
  by (cases x; cases y)
     (auto simp: assms map_map2 map2_map_left comp_def hd_map length_Suc_conv)

lemma np_binop_neg_right:
  assumes "\<And>a b. f a (- b) = - f a b"
  shows "np_binop f x (np_neg y) = map_res np_neg (np_binop f x y)"
  by (cases x; cases y)
     (auto simp: assms map_map2 map2_map_right comp_def hd_map length_Suc_conv)

lemma np_binop_neg_both:
  assumes "\<And>a b. f (- a) (- b) = - f a b"
  shows "np_binop f (np_neg x) (np_neg y) = map_res np_neg (np_binop f x y)"
  by (cases x; cases y)
     (auto simp: assms map_map2 map2_map_left map2_map_right comp_def hd_map length_Suc_conv)

section \<open>Laws of the operators\<close>

lemma np_add_simps [simp]:
  "np_add (Scalar a) y = Inr (np_map ((+) a) y)"
  "np_add (Vec xs) (Scalar b) = Inr (Vec (map (\<lambda>x. x + b) xs))"
  "length xs = length ys \<Longrightarrow> np_add (Vec xs) (Vec ys) = Inr (Vec (map2 (+) xs ys))"
  by (simp_all add: np_add_def np_binop_Scalar_left)

lemma np_sub_simps [simp]:
  "np_sub (Scalar a) y = Inr (np_map ((-) a) y)"
  "np_sub (Vec xs) (Scalar b) = Inr (Vec (map (\<lambda>x. x - b) xs))"
  "length xs = length ys \<Longrightarrow> np_sub (Vec xs) (Vec ys) = Inr (Vec (map2 (-) xs ys))"
  by (simp_all add: np_sub_def np_binop_Scalar_left)

lemma np_mul_simps [simp]:
  "np_mul (Scalar a) y = Inr (np_map ((*) a) y)"
  "np_mul (Vec xs) (Scalar b) = Inr (Vec (map (\<lambda>x. x * b) xs))"
  "length xs = length ys \<Longrightarrow> np_mul (Vec xs) (Vec ys) = Inr (Vec (map2 (*) xs ys))"
  by (simp_all add: np_mul_def np_binop_Scalar_left)

lemma np_truediv_Vec_simps [simp]:
  "np_truediv (Scalar a) (Vec ys) = Inr (Vec (map ((/) a) ys))"
  "np_truediv (Vec xs) (Scalar b) = Inr (Vec (map (\<lambda>x. x / b) xs))"
  "length xs = length ys \<Longrightarrow> np_truediv (Vec xs) (Vec ys) = Inr (Vec (map2 (/) xs ys))"
  by simp_all

lemma np_add_commute: "np_add x y = np_add y x"
  unfolding np_add_def by (rule np_binop_swap) (rule pyfloat_add_commute)

lemma np_mul_commute: "np_mul x y = np_mul y x"
  unfolding np_mul_def by (rule np_binop_swap) (rule pyfloat_mult_commute)

lemma np_sub_swap: "np_sub y x = map_res np_neg (np_sub x y)"
proof -
  have "np_sub y x = np_binop (\<lambda>a b. b - a) x y"
    unfolding np_sub_def by (rule np_binop_swap) simp
  also have "\<dots> = map_res np_neg (np_binop (-) x y)"
    by (rule np_binop_neg_result) (rule pyfloat_minus_swap)
  finally show ?thesis by (simp add: np_sub_def)
qed

lemma np_mul_neg_left: "np_mul (np_neg x) y = map_res np_neg (np_mul x y)"
  unfolding np_mul_def by (rule np_binop_neg_left) (rule pyfloat_mult_uminus_left)

lemma np_mul_neg_right: "np_mul x (np_neg y) = map_res np_neg (np_mul x y)"
  unfolding np_mul_def by (rule np_binop_neg_right) (rule pyfloat_mult_uminus_right)

lemma np_add_neg: "np_add (np_neg x) (np_neg y) = map_res np_neg (np_add x y)"
  unfolding np_add_def by (rule np_binop_neg_both) (simp add: pyfloat_uminus_add)

lemma np_truediv_neg_left: "np_truediv (np_neg x) y = map_res np_neg (np_truediv x y)"
proof (cases "\<exists>a b. x = Scalar a \<and> y = Scalar b")
  case True
  then show ?thesis by (auto simp: pyfloat_divide_uminus_left)
next
  case False
  then have "np_truediv x y = np_binop (/) x y" "np_truediv (np_neg x) y = np_binop (/) (np_neg x) y"
    by (cases x; cases y; simp)+
  then show ?thesis
    by (simp add: np_binop_neg_left pyfloat_divide_uminus_left)
qed

lemma np_truediv_error:
  "np_truediv x y = Inl e \<Longrightarrow> e = ZeroDivisionError \<and> shape x = None \<and> y = Scalar (Fin 0) \<or> e = ValueError"
  by (cases x; cases y) (auto split: if_splits)

lemma np_mul_one_left: "np_mul (Scalar (Fin 1)) v = Inr v"
  by (cases v) (simp_all add: map_idI)

lemma np_mul_zero_left:
  "np_mul (Scalar (Fin 0)) v = Inr (np_map (\<lambda>x. if is_fin x then Fin 0 else NaN) v)"
  by (simp add: Fin_zero_times [abs_def])

lemma np_mul_zero_left_fin: "all_fin v \<Longrightarrow> np_mul (Scalar (Fin 0)) v = Inr (zeros_like v)"
  by (cases v) (simp_all add: Fin_zero_times list_all_iff map_replicate_const [symmetric])

lemma np_mul_scalar_assoc:
  "bindE (np_mul v (Scalar a)) (\<lambda>w. np_mul w (Scalar b)) = np_mul v (Scalar (a * b))"
  by (cases v) (simp_all add: pyfloat_mult_assoc)

lemma np_pow_two: "np_mul v v = Inr (np_pow v 2)"
  by (cases v) (simp_all add: pyfloat_power2 map2_same)

section \<open>Laws of the subscripts\<close>

lemma getp_Some [simp]: "p k = Some v \<Longrightarrow> getp p k = Inr v"
  by (simp add: getp_def)

lemma getp_None [simp]: "p k = None \<Longrightarrow> getp p k = Inl (KeyError k)"
  by (simp add: getp_def)

lemma getp_eq_Inr_iff: "getp p k = Inr v \<longleftrightarrow> p k = Some v"
  by (simp add: getp_def split: option.splits)

lemma getp_eq_Inl_iff: "getp p k = Inl e \<longleftrightarrow> p k = None \<and> e = KeyError k"
  by (auto simp: getp_def split: option.splits)

lemma getp_upd: "getp (p(k \<mapsto> v)) k' = (if k' = k then Inr v else getp p k')"
  by (simp add: getp_def)

lemma getp_map_of_Cons [simp]:
  "getp (map_of ((k, v) # kvs)) k' = (if k' = k then Inr v else getp (map_of kvs) k')"
  by (simp add: getp_def)

lemma getp_map_of_Nil [simp]: "getp (map_of []) k = Inl (KeyError k)"
  by (simp add: getp_def)

lemma py_index_Scalar [simp]: "py_index (Scalar a) i = Inl TypeError"
  by (simp add: py_index_def)

lemma py_index_nonneg:
  "0 \<le> i \<Longrightarrow> i < int (length xs) \<Longrightarrow> py_index (Vec xs) i = Inr (Scalar (xs ! nat i))"
  by (simp add: py_index_def)

lemma py_index_neg:
  "- int (length xs) \<le> i \<Longrightarrow> i < 0 \<Longrightarrow>
   py_index (Vec xs) i = Inr (Scalar (xs ! nat (i + int (length xs))))"
  by (simp add: py_index_def)

lemma py_index_out_of_range:
  "int (length xs) \<le> i \<or> i < - int (length xs) \<Longrightarrow> py_index (Vec xs) i = Inl IndexError"
  by (auto simp: py_index_def Let_def)

lemma py_index_wrap:
  "- int (length xs) \<le> i \<Longrightarrow> i < 0 \<Longrightarrow>
   py_index (Vec xs) i = py_index (Vec xs) (i + int (length xs))"
  by (simp add: py_index_def)

lemma py_index_eq_Inr_iff:
  "py_index v i = Inr w \<longleftrightarrow>
     (\<exists>xs. v = Vec xs \<and> - int (length xs) \<le> i \<and> i < int (length xs) \<and>
           w = Scalar (xs ! nat (if i < 0 then i + int (length xs) else i)))"
  by (cases v) (auto simp: py_index_def Let_def)

lemma py_index_error: "py_index v i = Inl e \<Longrightarrow> e = TypeError \<or> e = IndexError"
  by (cases v) (auto simp: py_index_def Let_def split: if_splits)

section \<open>Laws of the lifted operators\<close>

lemma addE_simps [simp]:
  "addE (Inl e) b = Inl e"
  "addE (Inr x) (Inl e) = Inl e"
  "addE (Inr x) (Inr y) = np_add x y"
  by (simp_all add: addE_def)

lemma subE_simps [simp]:
  "subE (Inl e) b = Inl e"
  "subE (Inr x) (Inl e) = Inl e"
  "subE (Inr x) (Inr y) = np_sub x y"
  by (simp_all add: subE_def)

lemma mulE_simps [simp]:
  "mulE (Inl e) b = Inl e"
  "mulE (Inr x) (Inl e) = Inl e"
  "mulE (Inr x) (Inr y) = np_mul x y"
  by (simp_all add: mulE_def)

lemma divE_simps [simp]:
  "divE (Inl e) b = Inl e"
  "divE (Inr x) (Inl e) = Inl e"
  "divE (Inr x) (Inr y) = np_truediv x y"
  by (simp_all add: divE_def)

lemma negE_simps [simp]:
  "negE (Inl e) = Inl e"
  "negE (Inr x) = Inr (np_neg x)"
  by (simp_all add: negE_def)

lemma powE_simps [simp]:
  "powE (Inl e) n = Inl e"
  "powE (Inr x) n = Inr (np_pow x n)"
  by (simp_all add: powE_def)

lemma idxE_simps [simp]:
  "idxE (Inl e) i = Inl e"
  "idxE (Inr v) i = py_index v i"
  by (simp_all add: idxE_def)

lemma negE_negE [simp]: "negE (negE a) = a"
  by (cases a) simp_all

lemma mulE_negE_left: "mulE (negE a) b = negE (mulE a b)"
  by (cases a; cases b) (simp_all add: np_mul_neg_left negE_def del: np_mul_simps)

lemma mulE_negE_right: "mulE a (negE b) = negE (mulE a b)"
  by (cases a; cases b) (simp_all add: np_mul_neg_right negE_def del: np_mul_simps)

lemma divE_negE_left: "divE (negE a) b = negE (divE a b)"
  by (cases a; cases b) (simp_all add: np_truediv_neg_left negE_def)

lemma addE_negE: "addE (negE a) (negE b) = negE (addE a b)"
  by (cases a; cases b) (simp_all add: np_add_neg negE_def del: np_add_simps)

lemma subE_swap_values: "subE (Inr y) (Inr x) = negE (subE (Inr x) (Inr y))"
  using np_sub_swap [of y x] by (simp add: negE_def del: np_sub_simps)

lemma addE_commute_values: "addE (Inr x) (Inr y) = addE (Inr y) (Inr x)"
  using np_add_commute [of x y] by (simp del: np_add_simps)

lemma mulE_commute_values: "mulE (Inr x) (Inr y) = mulE (Inr y) (Inr x)"
  using np_mul_commute [of x y] by (simp del: np_mul_simps)

lemma mulE_Scalar_left: "mulE (Inr (Scalar a)) r = map_res (np_map ((*) a)) r"
  by (cases r) simp_all

lemma mulE_Scalar_right: "mulE r (Inr (Scalar b)) = map_res (np_map (\<lambda>x. x * b)) r"
  by (cases r) (simp_all add: np_mul_def np_binop_Scalar_right)

lemma mulE_Scalar_Scalar [simp]:
  "mulE (Inr (Scalar a)) (Inr (Scalar b)) = Inr (Scalar (a * b))"
  by simp

lemma mulE_mulE_Scalar:
  "mulE (mulE r (Inr (Scalar a))) (Inr (Scalar b)) = mulE r (Inr (Scalar (a * b)))"
  using np_mul_scalar_assoc [of _ a b]
  by (cases r) (simp_all add: bindE_def mulE_def lift2E_def split: sum.splits)

lemma map_res_np_map_np_map:
  "map_res (np_map f) (map_res (np_map g) r) = map_res (np_map (\<lambda>x. f (g x))) r"
  by (cases r) (simp_all add: np_map_np_map)

lemma negE_conv_np_map: "negE r = map_res (np_map uminus) r"
  by (cases r) (simp_all add: np_neg_def)

lemmas negE_out = mulE_negE_left mulE_negE_right divE_negE_left addE_negE

lemma bindE_negE: "bindE (negE a) f = bindE a (\<lambda>x. f (np_neg x))"
  by (cases a) simp_all

lemma negE_bindE: "negE (bindE a f) = bindE a (\<lambda>x. negE (f x))"
  by (cases a) simp_all

lemma np_error_ValueError:
  "np_add x y = Inl e \<Longrightarrow> e = ValueError"
  "np_mul x y = Inl e \<Longrightarrow> e = ValueError"
  "np_sub x y = Inl e \<Longrightarrow> e = ValueError"
  by (auto simp: np_add_def np_mul_def np_sub_def dest: np_binop_error)

lemma addE_commute_np_mul:
  "addE (np_mul a x) (np_mul b y) = addE (np_mul b y) (np_mul a x)"
proof (cases "np_mul a x"; cases "np_mul b y")
  fix u v assume "np_mul a x = Inr u" "np_mul b y = Inr v"
  then show ?thesis
    using np_add_commute [of u v] by (simp del: np_mul_simps np_add_simps)
qed (auto dest: np_error_ValueError simp del: np_mul_simps)

lemma gate_neg:
  "mulE (Inr tog) (addE (Inr (np_neg a)) (Inr (np_neg b))) =
   negE (mulE (Inr tog) (addE (Inr a) (Inr b)))"
  using addE_negE [of "Inr a" "Inr b"] mulE_negE_right [of "Inr tog" "addE (Inr a) (Inr b)"]
  by (simp del: np_add_simps np_mul_simps)

section \<open>Which expressions can raise ZeroDivisionError\<close>

text \<open>
  A division raises \<open>ZeroDivisionError\<close> only when both operands are Python scalars. The
  two predicates track, through an expression, that no such error has been raised and
  that the value, if there is one, is an array.
\<close>

named_theorems zde_intros \<open>rules that show an expression free of ZeroDivisionError\<close>

lemma is_vec_np_map [simp]: "is_vec (np_map f v) = is_vec v"
  by (cases v) simp_all

lemma is_vec_np_neg [simp]: "is_vec (np_neg v) = is_vec v"
  by (simp add: np_neg_def)

lemma is_vec_np_binop:
  "np_binop f x y = Inr z \<Longrightarrow> is_vec z \<longleftrightarrow> is_vec x \<or> is_vec y"
  by (cases x; cases y) (auto split: if_splits)

lemma no_zde_simps [simp]:
  "no_zde (Inr x)"
  "no_zde (Inl e) \<longleftrightarrow> e \<noteq> ZeroDivisionError"
  by (simp_all add: no_zde_def)

lemma vec_res_simps [simp]:
  "vec_res (Inl e)"
  "vec_res (Inr v) \<longleftrightarrow> is_vec v"
  by (simp_all add: vec_res_def)

lemma no_zde_getp [zde_intros]: "no_zde (getp p k)"
  by (simp add: getp_def split: option.splits)

lemma no_zde_bindE [zde_intros]:
  "no_zde m \<Longrightarrow> (\<And>x. m = Inr x \<Longrightarrow> no_zde (f x)) \<Longrightarrow> no_zde (bindE m f)"
  by (cases m) simp_all

lemma no_zde_np_binop: "no_zde (np_binop f x y)"
  by (auto simp: no_zde_def dest: np_binop_error)

lemma no_zde_lift2E_np_binop:
  "no_zde a \<Longrightarrow> no_zde b \<Longrightarrow> no_zde (lift2E (np_binop f) a b)"
  by (cases a; cases b) (simp_all add: no_zde_np_binop)

lemma no_zde_ops [zde_intros]:
  "no_zde a \<Longrightarrow> no_zde b \<Longrightarrow> no_zde (addE a b)"
  "no_zde a \<Longrightarrow> no_zde b \<Longrightarrow> no_zde (subE a b)"
  "no_zde a \<Longrightarrow> no_zde b \<Longrightarrow> no_zde (mulE a b)"
  "no_zde a \<Longrightarrow> no_zde (negE a)"
  by (simp_all add: addE_def subE_def mulE_def np_add_def np_sub_def np_mul_def
      no_zde_lift2E_np_binop, cases a, simp_all)

lemma no_zde_divE [zde_intros]:
  "no_zde a \<Longrightarrow> no_zde b \<Longrightarrow> vec_res a \<Longrightarrow> no_zde (divE a b)"
proof (cases a; cases b)
  fix x y assume "a = Inr x" "b = Inr y" "vec_res a"
  then show ?thesis
    by (cases x) (simp_all add: no_zde_np_binop)
qed simp_all

lemma vec_res_lift2E_np_binop:
  "vec_res a \<or> vec_res b \<Longrightarrow> vec_res (lift2E (np_binop f) a b)"
  by (cases a; cases b; cases "np_binop f (projr a) (projr b)")
     (auto simp: is_vec_np_binop)

lemma vec_res_ops [zde_intros]:
  "vec_res a \<or> vec_res b \<Longrightarrow> vec_res (addE a b)"
  "vec_res a \<or> vec_res b \<Longrightarrow> vec_res (subE a b)"
  "vec_res a \<or> vec_res b \<Longrightarrow> vec_res (mulE a b)"
  "vec_res a \<Longrightarrow> vec_res (negE a)"
  by (simp_all add: addE_def subE_def mulE_def np_add_def np_sub_def np_mul_def
      vec_res_lift2E_np_binop, cases a, simp_all)

section \<open>Which exceptions an expression can raise\<close>

text \<open>
  \<open>raises_only E r\<close> bounds the exceptions of an outcome by the set \<open>E\<close>. The rules follow
  the operators: a subscript by a key adds its \<open>KeyError\<close>, a broadcasting operator
  \<open>ValueError\<close>, a subscript by an index \<open>TypeError\<close> and \<open>IndexError\<close>, and a division
  whose numerator is an array adds nothing to what a product raises.
\<close>

named_theorems raise_intros \<open>rules that bound the exceptions of an expression\<close>

lemma raises_only_simps [simp]:
  "raises_only E (Inr x)"
  "raises_only E (Inl e) \<longleftrightarrow> e \<in> E"
  by (simp_all add: raises_only_def)

lemma raises_only_iff: "raises_only E r \<longleftrightarrow> (\<forall>e. r = Inl e \<longrightarrow> e \<in> E)"
  by (cases r) simp_all

lemma raises_only_mono: "raises_only E r \<Longrightarrow> E \<subseteq> F \<Longrightarrow> raises_only F r"
  by (cases r) auto

lemma no_zde_conv: "no_zde r \<longleftrightarrow> raises_only (- {ZeroDivisionError}) r"
  by (cases r) simp_all

lemma raises_only_getp [raise_intros]: "KeyError k \<in> E \<Longrightarrow> raises_only E (getp p k)"
  by (simp add: getp_def split: option.splits)

lemma raises_only_bindE [raise_intros]:
  "raises_only E m \<Longrightarrow> (\<And>x. m = Inr x \<Longrightarrow> raises_only E (f x)) \<Longrightarrow> raises_only E (bindE m f)"
  by (cases m) simp_all

lemma raises_only_np_binop: "ValueError \<in> E \<Longrightarrow> raises_only E (np_binop f x y)"
  by (cases "np_binop f x y") (auto dest: np_binop_error)

lemma raises_only_lift2E_np_binop:
  "ValueError \<in> E \<Longrightarrow> raises_only E a \<Longrightarrow> raises_only E b \<Longrightarrow>
   raises_only E (lift2E (np_binop f) a b)"
  by (cases a; cases b) (simp_all add: raises_only_np_binop)

lemma raises_only_ops [raise_intros]:
  "ValueError \<in> E \<Longrightarrow> raises_only E a \<Longrightarrow> raises_only E b \<Longrightarrow> raises_only E (addE a b)"
  "ValueError \<in> E \<Longrightarrow> raises_only E a \<Longrightarrow> raises_only E b \<Longrightarrow> raises_only E (subE a b)"
  "ValueError \<in> E \<Longrightarrow> raises_only E a \<Longrightarrow> raises_only E b \<Longrightarrow> raises_only E (mulE a b)"
  by (simp_all add: addE_def subE_def mulE_def np_add_def np_sub_def np_mul_def
      raises_only_lift2E_np_binop)

lemma raises_only_unary [raise_intros]:
  "raises_only E a \<Longrightarrow> raises_only E (negE a)"
  "raises_only E a \<Longrightarrow> raises_only E (powE a n)"
  by (cases a; simp)+

lemma raises_only_idxE [raise_intros]:
  "TypeError \<in> E \<Longrightarrow> IndexError \<in> E \<Longrightarrow> raises_only E a \<Longrightarrow> raises_only E (idxE a i)"
  by (cases a; cases "py_index (projr a) i") (auto dest: py_index_error)

lemma raises_only_divE [raise_intros]:
  assumes "ValueError \<in> E" "raises_only E a" "raises_only E b" "vec_res a"
  shows "raises_only E (divE a b)"
proof (cases a; cases b)
  fix x y assume "a = Inr x" "b = Inr y"
  with assms(1,4) show ?thesis
    by (cases x) (simp_all add: raises_only_np_binop)
qed (use assms in simp_all)

end
