(* ===== verification/Provider.thy ===== *)
theory Provider
  imports NumPy
begin

text \<open>
  The property provider that \<^verbatim>\<open>fickian_adf\<close> receives as \<^verbatim>\<open>gas\<close>: an object whose state is set
  by assigning to \<^verbatim>\<open>gas.TDY\<close> and whose transport and thermodynamic properties are then read
  as attributes. The provider's class is a record of operations over the type of its
  state; the kernel is stated over any such record. Two implementations follow: a
  provider whose properties are a function of the state that was set, and a scripted one
  that serves a prepared list of property sets.
\<close>

section \<open>The interface\<close>

type_synonym tdy = "pyfloat \<times> pyfloat \<times> pyfloat list"

record 'g gas_ops =
  set_TDY :: "tdy \<Rightarrow> 'g \<Rightarrow> 'g res"
  mix_diff_coeffs_mass :: "'g \<Rightarrow> pyfloat list"
  density_mass :: "'g \<Rightarrow> pyfloat"
  viscosity :: "'g \<Rightarrow> pyfloat"
  gas_P :: "'g \<Rightarrow> pyfloat"
  gas_Y :: "'g \<Rightarrow> pyfloat list"

record snapshot =
  snap_D_k :: "pyfloat list"
  snap_rho :: pyfloat
  snap_mu :: pyfloat
  snap_P :: pyfloat
  snap_Y :: "pyfloat list"

definition properties_at :: "'g gas_ops \<Rightarrow> 'g \<Rightarrow> snapshot" where
  "properties_at gas g =
     \<lparr>snap_D_k = mix_diff_coeffs_mass gas g, snap_rho = density_mass gas g,
      snap_mu = viscosity gas g, snap_P = gas_P gas g, snap_Y = gas_Y gas g\<rparr>"

definition read_vec :: "('g \<Rightarrow> pyfloat list) \<Rightarrow> ('g, pyval) sx" where
  "read_vec f = readS (\<lambda>g. Vec (f g))"

definition read_scalar :: "('g \<Rightarrow> pyfloat) \<Rightarrow> ('g, pyval) sx" where
  "read_scalar f = readS (\<lambda>g. Scalar (f g))"

section \<open>What the kernels may assume of a provider\<close>

definition n_species_ok :: "'g gas_ops \<Rightarrow> nat \<Rightarrow> 'g \<Rightarrow> bool" where
  "n_species_ok gas n g \<longleftrightarrow>
     length (mix_diff_coeffs_mass gas g) = n \<and> length (gas_Y gas g) = n"

definition state_determined :: "'g gas_ops \<Rightarrow> bool" where
  "state_determined gas \<longleftrightarrow>
     (\<forall>t g h g' h'. set_TDY gas t g = Inr g' \<longrightarrow> set_TDY gas t h = Inr h' \<longrightarrow>
        properties_at gas g' = properties_at gas h')"

definition accepted :: "'g gas_ops \<Rightarrow> tdy \<Rightarrow> bool" where
  "accepted gas T \<longleftrightarrow> (\<forall>g. \<exists>g'. set_TDY gas T g = Inr g')"

definition snapshot_fin :: "snapshot \<Rightarrow> bool" where
  "snapshot_fin s \<longleftrightarrow>
     list_all is_fin (snap_D_k s) \<and> is_fin (snap_rho s) \<and> is_fin (snap_mu s) \<and>
     is_fin (snap_P s) \<and> list_all is_fin (snap_Y s)"

section \<open>A provider determined by the state that was set\<close>

definition tdy_valid :: "tdy \<Rightarrow> bool" where
  "tdy_valid = (\<lambda>(T, rho, Y).
     (case T of Fin t \<Rightarrow> 0 < t | _ \<Rightarrow> False) \<and>
     (case rho of Fin r \<Rightarrow> 0 < r | _ \<Rightarrow> False) \<and>
     list_all (\<lambda>y. case y of Fin v \<Rightarrow> 0 \<le> v | _ \<Rightarrow> False) Y \<and>
     sum_list Y = Fin 1)"

definition table_gas :: "(tdy \<Rightarrow> bool) \<Rightarrow> (tdy \<Rightarrow> snapshot) \<Rightarrow> tdy gas_ops" where
  "table_gas valid props =
     \<lparr>set_TDY = (\<lambda>t g. if valid t then Inr t else Inl (CanteraError ''invalid state'')),
      mix_diff_coeffs_mass = (\<lambda>g. snap_D_k (props g)),
      density_mass = (\<lambda>g. snap_rho (props g)),
      viscosity = (\<lambda>g. snap_mu (props g)),
      gas_P = (\<lambda>g. snap_P (props g)),
      gas_Y = (\<lambda>g. snap_Y (props g))\<rparr>"

definition ideal_props :: "pyfloat \<Rightarrow> pyfloat \<Rightarrow> pyfloat \<Rightarrow> tdy \<Rightarrow> snapshot" where
  "ideal_props Rs D mu = (\<lambda>(T, rho, Y).
     \<lparr>snap_D_k = map (\<lambda>y. D) Y, snap_rho = rho, snap_mu = mu,
      snap_P = rho * Rs * T, snap_Y = Y\<rparr>)"

section \<open>A scripted provider\<close>

type_synonym script = "snapshot \<times> snapshot list"

definition scripted_gas :: "script gas_ops" where
  "scripted_gas =
     \<lparr>set_TDY = (\<lambda>t g. case snd g of
                     [] \<Rightarrow> Inl (CanteraError ''script exhausted'')
                   | s # ss \<Rightarrow> Inr (s, ss)),
      mix_diff_coeffs_mass = (\<lambda>g. snap_D_k (fst g)),
      density_mass = (\<lambda>g. snap_rho (fst g)),
      viscosity = (\<lambda>g. snap_mu (fst g)),
      gas_P = (\<lambda>g. snap_P (fst g)),
      gas_Y = (\<lambda>g. snap_Y (fst g))\<rparr>"

section \<open>Laws\<close>

lemma bindS_read_vec [simp]: "bindS (read_vec f) k s = k (Vec (f s)) s"
  by (simp add: read_vec_def)

lemma bindS_read_scalar [simp]: "bindS (read_scalar f) k s = k (Scalar (f s)) s"
  by (simp add: read_scalar_def)

lemma properties_at_simps [simp]:
  "snap_D_k (properties_at gas g) = mix_diff_coeffs_mass gas g"
  "snap_rho (properties_at gas g) = density_mass gas g"
  "snap_mu (properties_at gas g) = viscosity gas g"
  "snap_P (properties_at gas g) = gas_P gas g"
  "snap_Y (properties_at gas g) = gas_Y gas g"
  by (simp_all add: properties_at_def)

lemma n_species_ok_lengths:
  "n_species_ok gas n g \<Longrightarrow> length (mix_diff_coeffs_mass gas g) = n"
  "n_species_ok gas n g \<Longrightarrow> length (gas_Y gas g) = n"
  by (simp_all add: n_species_ok_def)

lemma state_determinedD:
  "state_determined gas \<Longrightarrow> set_TDY gas t g = Inr g' \<Longrightarrow> set_TDY gas t h = Inr h' \<Longrightarrow>
   properties_at gas g' = properties_at gas h'"
  unfolding state_determined_def by blast

lemma table_gas_simps [simp]:
  "set_TDY (table_gas valid props) t g =
     (if valid t then Inr t else Inl (CanteraError ''invalid state''))"
  "mix_diff_coeffs_mass (table_gas valid props) g = snap_D_k (props g)"
  "density_mass (table_gas valid props) g = snap_rho (props g)"
  "viscosity (table_gas valid props) g = snap_mu (props g)"
  "gas_P (table_gas valid props) g = snap_P (props g)"
  "gas_Y (table_gas valid props) g = snap_Y (props g)"
  by (simp_all add: table_gas_def)

lemma properties_at_table_gas [simp]: "properties_at (table_gas valid props) g = props g"
  by (simp add: properties_at_def)

lemma table_gas_state_determined: "state_determined (table_gas valid props)"
  by (simp add: state_determined_def split: if_splits)

lemma acceptedE:
  assumes "accepted gas T"
  obtains g' where "set_TDY gas T g = Inr g'"
  using assms unfolding accepted_def by blast

lemma accepted_table_gas [simp]: "accepted (table_gas valid props) T \<longleftrightarrow> valid T"
  by (cases T) (simp add: accepted_def)

lemma table_gas_set_TDY_idem:
  "set_TDY (table_gas valid props) t g = Inr g' \<Longrightarrow> g' = t"
  by (simp split: if_splits)

lemma ideal_props_simps [simp]:
  "snap_D_k (ideal_props Rs D mu (T, rho, Y)) = map (\<lambda>y. D) Y"
  "snap_rho (ideal_props Rs D mu (T, rho, Y)) = rho"
  "snap_mu (ideal_props Rs D mu (T, rho, Y)) = mu"
  "snap_P (ideal_props Rs D mu (T, rho, Y)) = rho * Rs * T"
  "snap_Y (ideal_props Rs D mu (T, rho, Y)) = Y"
  by (simp_all add: ideal_props_def)

lemma ideal_gas_n_species:
  "set_TDY (table_gas valid (ideal_props Rs D mu)) (T, rho, Y) g = Inr g' \<Longrightarrow>
   n_species_ok (table_gas valid (ideal_props Rs D mu)) (length Y) g'"
  by (auto simp: n_species_ok_def split: if_splits)

lemma scripted_gas_simps [simp]:
  "set_TDY scripted_gas t (c, []) = Inl (CanteraError ''script exhausted'')"
  "set_TDY scripted_gas t (c, s # ss) = Inr (s, ss)"
  "mix_diff_coeffs_mass scripted_gas (c, ss) = snap_D_k c"
  "density_mass scripted_gas (c, ss) = snap_rho c"
  "viscosity scripted_gas (c, ss) = snap_mu c"
  "gas_P scripted_gas (c, ss) = snap_P c"
  "gas_Y scripted_gas (c, ss) = snap_Y c"
  by (simp_all add: scripted_gas_def)

lemma properties_at_scripted_gas [simp]: "properties_at scripted_gas (c, ss) = c"
  by (simp add: properties_at_def)

lemma scripted_gas_not_state_determined: "\<not> state_determined scripted_gas"
proof
  let ?a = "\<lparr>snap_D_k = [], snap_rho = Fin 0, snap_mu = Fin 0, snap_P = Fin 0, snap_Y = []\<rparr>"
  let ?b = "\<lparr>snap_D_k = [], snap_rho = Fin 0, snap_mu = Fin 0, snap_P = Fin 1, snap_Y = []\<rparr>"
  assume "state_determined scripted_gas"
  moreover have "set_TDY scripted_gas (Fin 0, Fin 0, []) (?a, [?a]) = Inr (?a, [])"
    and "set_TDY scripted_gas (Fin 0, Fin 0, []) (?a, [?b]) = Inr (?b, [])"
    by simp_all
  ultimately have "properties_at scripted_gas (?a, []) = properties_at scripted_gas (?b, [])"
    by (rule state_determinedD)
  then show False by simp
qed

end
