(* ===== verification/Fickian.thy ===== *)
theory Fickian
  imports Provider
begin

text \<open>
  The planar advection-diffusion flux \<^verbatim>\<open>fickian_adf\<close> (lines 12 to 59 of
  \<^verbatim>\<open>src/Shared_Funcs/pemfc_transport_funcs.py\<close>), statement by statement, over any
  provider; the same arithmetic as a function of two property snapshots; and the typed
  closed form the flux is specified by.
\<close>

section \<open>The kernel\<close>

definition boundary_avg :: "pdict \<Rightarrow> pyval \<Rightarrow> pyval \<Rightarrow> pyval res" where
  "boundary_avg p x1 x2 =
     addE (mulE (getp p ''wt1'') (Inr x1)) (mulE (getp p ''wt2'') (Inr x2))"

definition J_conv :: "pdict \<Rightarrow> pyval \<Rightarrow> pyval \<Rightarrow> pyval \<Rightarrow> pyval \<Rightarrow> pyval res" where
  "J_conv p rho_k P1 P2 mu =
     divE (mulE (mulE (mulE (negE (Inr rho_k)) (getp p ''K_g'')) (subE (Inr P2) (Inr P1)))
                (getp p ''1/dy''))
          (Inr mu)"

definition J_diff :: "pdict \<Rightarrow> pyval \<Rightarrow> pyval \<Rightarrow> pyval \<Rightarrow> pyval \<Rightarrow> pyval res" where
  "J_diff p D_k rho Y1 Y2 =
     mulE (mulE (mulE (mulE (negE (getp p ''eps/tau2'')) (Inr D_k)) (Inr rho))
                (subE (Inr Y2) (Inr Y1)))
          (getp p ''1/dy'')"

definition fickian_adf :: "tdy \<Rightarrow> tdy \<Rightarrow> 'g gas_ops \<Rightarrow> pdict \<Rightarrow> pyval \<Rightarrow> ('g, pyval) sx" where
  "fickian_adf TDY1 TDY2 gas p tog =
     bindS (assignS (set_TDY gas TDY1)) (\<lambda>_.
     bindS (read_vec (mix_diff_coeffs_mass gas)) (\<lambda>D_k1.
     bindS (read_scalar (density_mass gas)) (\<lambda>rho1.
     bindS (read_scalar (viscosity gas)) (\<lambda>mu1.
     bindS (read_scalar (gas_P gas)) (\<lambda>P1.
     bindS (read_vec (gas_Y gas)) (\<lambda>Y1.
     bindS (evalS (mulE (Inr rho1) (Inr Y1))) (\<lambda>rho_k1.
     bindS (assignS (set_TDY gas TDY2)) (\<lambda>_.
     bindS (read_vec (mix_diff_coeffs_mass gas)) (\<lambda>D_k2.
     bindS (read_scalar (density_mass gas)) (\<lambda>rho2.
     bindS (read_scalar (viscosity gas)) (\<lambda>mu2.
     bindS (read_scalar (gas_P gas)) (\<lambda>P2.
     bindS (read_vec (gas_Y gas)) (\<lambda>Y2.
     bindS (evalS (mulE (Inr rho2) (Inr Y2))) (\<lambda>rho_k2.
     bindS (evalS (boundary_avg p D_k1 D_k2)) (\<lambda>D_k.
     bindS (evalS (boundary_avg p rho1 rho2)) (\<lambda>rho.
     bindS (evalS (boundary_avg p mu1 mu2)) (\<lambda>mu.
     bindS (evalS (boundary_avg p rho_k1 rho_k2)) (\<lambda>rho_k.
     bindS (evalS (J_conv p rho_k P1 P2 mu)) (\<lambda>Jconv.
     bindS (evalS (J_diff p D_k rho Y1 Y2)) (\<lambda>Jdiff.
     bindS (evalS (mulE (Inr tog) (addE (Inr Jconv) (Inr Jdiff)))) (\<lambda>mass_flux.
     returnS mass_flux)))))))))))))))))))))"

section \<open>The arithmetic on two snapshots\<close>

definition adf_pure :: "pdict \<Rightarrow> snapshot \<Rightarrow> snapshot \<Rightarrow> pyval \<Rightarrow> pyval res" where
  "adf_pure p s1 s2 tog =
     bindE (mulE (Inr (Scalar (snap_rho s1))) (Inr (Vec (snap_Y s1)))) (\<lambda>rho_k1.
     bindE (mulE (Inr (Scalar (snap_rho s2))) (Inr (Vec (snap_Y s2)))) (\<lambda>rho_k2.
     bindE (boundary_avg p (Vec (snap_D_k s1)) (Vec (snap_D_k s2))) (\<lambda>D_k.
     bindE (boundary_avg p (Scalar (snap_rho s1)) (Scalar (snap_rho s2))) (\<lambda>rho.
     bindE (boundary_avg p (Scalar (snap_mu s1)) (Scalar (snap_mu s2))) (\<lambda>mu.
     bindE (boundary_avg p rho_k1 rho_k2) (\<lambda>rho_k.
     bindE (J_conv p rho_k (Scalar (snap_P s1)) (Scalar (snap_P s2)) mu) (\<lambda>Jconv.
     bindE (J_diff p D_k rho (Vec (snap_Y s1)) (Vec (snap_Y s2))) (\<lambda>Jdiff.
     mulE (Inr tog) (addE (Inr Jconv) (Inr Jdiff))))))))))"

section \<open>The closed form\<close>

record planar_params =
  wt1 :: pyfloat
  wt2 :: pyfloat
  K_g :: pyfloat
  inv_dy :: pyfloat
  eps_tau2 :: pyfloat

definition has_params :: "pdict \<Rightarrow> planar_params \<Rightarrow> bool" where
  "has_params p q \<longleftrightarrow>
     p ''wt1'' = Some (Scalar (wt1 q)) \<and> p ''wt2'' = Some (Scalar (wt2 q)) \<and>
     p ''K_g'' = Some (Scalar (K_g q)) \<and> p ''1/dy'' = Some (Scalar (inv_dy q)) \<and>
     p ''eps/tau2'' = Some (Scalar (eps_tau2 q))"

definition avg :: "planar_params \<Rightarrow> pyfloat \<Rightarrow> pyfloat \<Rightarrow> pyfloat" where
  "avg q a b = wt1 q * a + wt2 q * b"

definition conv_k :: "planar_params \<Rightarrow> snapshot \<Rightarrow> snapshot \<Rightarrow> nat \<Rightarrow> pyfloat" where
  "conv_k q s1 s2 k =
     - avg q (snap_rho s1 * snap_Y s1 ! k) (snap_rho s2 * snap_Y s2 ! k) * K_g q
       * (snap_P s2 - snap_P s1) * inv_dy q / avg q (snap_mu s1) (snap_mu s2)"

definition diff_k :: "planar_params \<Rightarrow> snapshot \<Rightarrow> snapshot \<Rightarrow> nat \<Rightarrow> pyfloat" where
  "diff_k q s1 s2 k =
     - eps_tau2 q * avg q (snap_D_k s1 ! k) (snap_D_k s2 ! k) * avg q (snap_rho s1) (snap_rho s2)
       * (snap_Y s2 ! k - snap_Y s1 ! k) * inv_dy q"

definition params_fin :: "planar_params \<Rightarrow> bool" where
  "params_fin q \<longleftrightarrow>
     is_fin (wt1 q) \<and> is_fin (wt2 q) \<and> is_fin (K_g q) \<and> is_fin (inv_dy q) \<and>
     is_fin (eps_tau2 q)"

definition params_pos :: "planar_params \<Rightarrow> bool" where
  "params_pos q \<longleftrightarrow>
     is_pos (wt1 q) \<and> is_pos (wt2 q) \<and> is_pos (K_g q) \<and> is_pos (inv_dy q) \<and>
     is_pos (eps_tau2 q)"

definition snapshot_pos :: "snapshot \<Rightarrow> bool" where
  "snapshot_pos s \<longleftrightarrow>
     list_all is_nonneg (snap_D_k s) \<and> is_pos (snap_rho s) \<and> is_pos (snap_mu s) \<and>
     is_fin (snap_P s) \<and> list_all is_pos (snap_Y s)"

definition flux_spec :: "planar_params \<Rightarrow> snapshot \<Rightarrow> snapshot \<Rightarrow> pyfloat \<Rightarrow> pyfloat list" where
  "flux_spec q s1 s2 tog =
     map (\<lambda>k. tog * (conv_k q s1 s2 k + diff_k q s1 s2 k)) [0..<length (snap_Y s1)]"

definition rho_k_of :: "snapshot \<Rightarrow> pyval" where
  "rho_k_of s = Vec (map ((*) (snap_rho s)) (snap_Y s))"

definition swap_wts :: "pdict \<Rightarrow> pdict" where
  "swap_wts p = p(''wt1'' := p ''wt2'', ''wt2'' := p ''wt1'')"

definition planar_keys :: "string list" where
  "planar_keys = [''wt1'', ''wt2'', ''K_g'', ''1/dy'', ''eps/tau2'']"

definition planar_errors :: "pyerr set" where
  "planar_errors = insert ValueError (KeyError ` set planar_keys)"

section \<open>A concrete interface, for instances of the theorems\<close>

definition params_dict :: "planar_params \<Rightarrow> pdict" where
  "params_dict q = map_of [(''wt1'', Scalar (wt1 q)), (''wt2'', Scalar (wt2 q)),
     (''K_g'', Scalar (K_g q)), (''1/dy'', Scalar (inv_dy q)),
     (''eps/tau2'', Scalar (eps_tau2 q))]"

definition demo_gas :: "pyfloat \<Rightarrow> tdy gas_ops" where
  "demo_gas mu = table_gas tdy_valid (ideal_props (Fin 287) (Fin (1/50000)) mu)"

definition demo_T1 :: tdy where
  "demo_T1 = (Fin 350, Fin 1, [Fin (1/4), Fin (3/4)])"

definition demo_T2 :: tdy where
  "demo_T2 = (Fin 300, Fin 2, [Fin (1/2), Fin (1/2)])"

definition demo_T3 :: tdy where
  "demo_T3 = (Fin 300, Fin 2, [Fin (1/4), Fin (3/4)])"

definition demo_q :: planar_params where
  "demo_q = \<lparr>wt1 = Fin (1/4), wt2 = Fin (3/4), K_g = Fin (1/10^12), inv_dy = Fin 100,
     eps_tau2 = Fin (1/2)\<rparr>"

section \<open>The kernel is the provider protocol followed by the arithmetic\<close>

lemma bindS_evalS_evalS: "bindS (evalS r) (\<lambda>x. evalS (f x)) = evalS (bindE r f)"
  by (cases r) (simp_all add: fun_eq_iff)

lemma returnS_evalS: "returnS x = evalS (Inr x)"
  by (simp add: fun_eq_iff)

lemma fickian_adf_factor:
  "fickian_adf TDY1 TDY2 gas p tog g =
     (case set_TDY gas TDY1 g of
        Inl e \<Rightarrow> (Inl e, g)
      | Inr g1 \<Rightarrow>
          (case set_TDY gas TDY2 g1 of
             Inl e \<Rightarrow> (Inl e, g1)
           | Inr g2 \<Rightarrow> (adf_pure p (properties_at gas g1) (properties_at gas g2) tog, g2)))"
  by (simp add: fickian_adf_def adf_pure_def bindS_assignS bindS_evalS_evalS returnS_evalS
      split: sum.splits)

lemma fickian_adf_accepted:
  "set_TDY gas TDY1 g = Inr g1 \<Longrightarrow> set_TDY gas TDY2 g1 = Inr g2 \<Longrightarrow>
   fickian_adf TDY1 TDY2 gas p tog g =
     (adf_pure p (properties_at gas g1) (properties_at gas g2) tog, g2)"
  by (simp add: fickian_adf_factor)

lemma adf_pure_unfold:
  "adf_pure p s1 s2 tog =
     bindE (boundary_avg p (Vec (snap_D_k s1)) (Vec (snap_D_k s2))) (\<lambda>D_k.
     bindE (boundary_avg p (Scalar (snap_rho s1)) (Scalar (snap_rho s2))) (\<lambda>rho.
     bindE (boundary_avg p (Scalar (snap_mu s1)) (Scalar (snap_mu s2))) (\<lambda>mu.
     bindE (boundary_avg p (rho_k_of s1) (rho_k_of s2)) (\<lambda>rho_k.
     bindE (J_conv p rho_k (Scalar (snap_P s1)) (Scalar (snap_P s2)) mu) (\<lambda>Jconv.
     bindE (J_diff p D_k rho (Vec (snap_Y s1)) (Vec (snap_Y s2))) (\<lambda>Jdiff.
     mulE (Inr tog) (addE (Inr Jconv) (Inr Jdiff))))))))"
  by (simp add: adf_pure_def rho_k_of_def)

section \<open>The arithmetic refines the closed form\<close>

lemma has_params_getp [simp]:
  assumes "has_params p q"
  shows "getp p ''wt1'' = Inr (Scalar (wt1 q))"
    and "getp p ''wt2'' = Inr (Scalar (wt2 q))"
    and "getp p ''K_g'' = Inr (Scalar (K_g q))"
    and "getp p ''1/dy'' = Inr (Scalar (inv_dy q))"
    and "getp p ''eps/tau2'' = Inr (Scalar (eps_tau2 q))"
  using assms by (simp_all add: has_params_def)

lemma boundary_avg_Scalar:
  "has_params p q \<Longrightarrow> boundary_avg p (Scalar a) (Scalar b) = Inr (Scalar (avg q a b))"
  by (simp add: boundary_avg_def avg_def)

lemma boundary_avg_Vec:
  "has_params p q \<Longrightarrow> length xs = length ys \<Longrightarrow>
   boundary_avg p (Vec xs) (Vec ys) = Inr (Vec (map2 (avg q) xs ys))"
  by (simp add: boundary_avg_def avg_def map2_map_left map2_map_right)

lemma J_conv_closed:
  "has_params p q \<Longrightarrow>
   J_conv p (Vec rk) (Scalar P1) (Scalar P2) (Scalar mu) =
     Inr (Vec (map (\<lambda>r. - r * K_g q * (P2 - P1) * inv_dy q / mu) rk))"
  by (simp add: J_conv_def comp_def)

lemma J_diff_closed:
  "has_params p q \<Longrightarrow> length D = length Y1 \<Longrightarrow> length Y2 = length Y1 \<Longrightarrow>
   J_diff p (Vec D) (Scalar rho) (Vec Y1) (Vec Y2) =
     Inr (Vec (map2 (\<lambda>d dy. - eps_tau2 q * d * rho * dy * inv_dy q) D (map2 (-) Y2 Y1)))"
  by (auto simp: J_diff_def comp_def map2_map_left map_map2)

lemmas adf_closed = boundary_avg_Scalar boundary_avg_Vec J_conv_closed J_diff_closed

lemma length_flux_spec [simp]: "length (flux_spec q s1 s2 tog) = length (snap_Y s1)"
  by (simp add: flux_spec_def)

lemma nth_flux_spec:
  "k < length (snap_Y s1) \<Longrightarrow>
   flux_spec q s1 s2 tog ! k = tog * (conv_k q s1 s2 k + diff_k q s1 s2 k)"
  by (simp add: flux_spec_def)

lemma adf_pure_closed_form:
  assumes "has_params p q"
    and "length (snap_D_k s1) = n" "length (snap_Y s1) = n"
    and "length (snap_D_k s2) = n" "length (snap_Y s2) = n"
  shows "adf_pure p s1 s2 (Scalar tog) = Inr (Vec (flux_spec q s1 s2 tog))"
proof -
  obtain xs where xs: "adf_pure p s1 s2 (Scalar tog) = Inr (Vec xs)" "length xs = n"
    and nth: "\<And>k. k < n \<Longrightarrow> xs ! k = tog * (conv_k q s1 s2 k + diff_k q s1 s2 k)"
    using assms by (simp add: adf_pure_def adf_closed conv_k_def diff_k_def)
  have "xs = flux_spec q s1 s2 tog"
    using assms xs(2) nth by (intro nth_equalityI) (simp_all add: nth_flux_spec)
  with xs(1) show ?thesis by simp
qed

section \<open>Laws of the closed form\<close>

lemma flux_spec_toggle_on: "flux_spec q s1 s2 (Fin 1) =
    map (\<lambda>k. conv_k q s1 s2 k + diff_k q s1 s2 k) [0..<length (snap_Y s1)]"
  by (simp add: flux_spec_def)

lemma flux_spec_toggle_off:
  "flux_spec q s1 s2 (Fin 0) =
     map (\<lambda>x. if is_fin x then Fin 0 else NaN) (flux_spec q s1 s2 (Fin 1))"
  by (simp add: flux_spec_def Fin_zero_times comp_def)

lemma snapshot_fin_nth:
  assumes "snapshot_fin s"
  shows "is_fin (snap_rho s)" "is_fin (snap_mu s)" "is_fin (snap_P s)"
    and "k < length (snap_Y s) \<Longrightarrow> is_fin (snap_Y s ! k)"
    and "k < length (snap_D_k s) \<Longrightarrow> is_fin (snap_D_k s ! k)"
  using assms by (simp_all add: snapshot_fin_def list_all_length)

lemma is_fin_avg [simp]: "is_fin (avg q a b) \<longleftrightarrow> is_fin (wt1 q) \<and> is_fin a \<and> is_fin (wt2 q) \<and> is_fin b"
  by (auto simp: avg_def)

lemma flux_k_fin:
  assumes "params_fin q" "snapshot_fin s1" "snapshot_fin s2"
    and "avg q (snap_mu s1) (snap_mu s2) \<noteq> Fin 0"
    and "k < length (snap_Y s1)" "k < length (snap_Y s2)"
    and "k < length (snap_D_k s1)" "k < length (snap_D_k s2)"
  shows "is_fin (conv_k q s1 s2 k + diff_k q s1 s2 k)"
  using assms snapshot_fin_nth [OF assms(2)] snapshot_fin_nth [OF assms(3)]
  by (simp add: conv_k_def diff_k_def params_fin_def is_fin_divide)

lemma flux_k_zero_gradient:
  assumes "params_fin q" "snapshot_fin s" "avg q (snap_mu s) (snap_mu s) \<noteq> Fin 0"
    and "k < length (snap_Y s)" "k < length (snap_D_k s)"
  shows "conv_k q s s k + diff_k q s s k = Fin 0"
proof -
  note fin = snapshot_fin_nth [OF assms(2)] assms(1) [unfolded params_fin_def]
  have "is_fin (avg q (snap_mu s) (snap_mu s))"
    and "is_fin (- avg q (snap_rho s * snap_Y s ! k) (snap_rho s * snap_Y s ! k) * K_g q)"
    and "is_fin (- eps_tau2 q * avg q (snap_D_k s ! k) (snap_D_k s ! k)
      * avg q (snap_rho s) (snap_rho s))"
    and "is_fin (snap_P s)" "is_fin (snap_Y s ! k)" "is_fin (inv_dy q)"
    using assms(4,5) fin by simp_all
  then obtain m a b P y d where
    "avg q (snap_mu s) (snap_mu s) = Fin m"
    "- avg q (snap_rho s * snap_Y s ! k) (snap_rho s * snap_Y s ! k) * K_g q = Fin a"
    "- eps_tau2 q * avg q (snap_D_k s ! k) (snap_D_k s ! k) * avg q (snap_rho s) (snap_rho s)
       = Fin b"
    "snap_P s = Fin P" "snap_Y s ! k = Fin y" "inv_dy q = Fin d"
    unfolding is_fin_conv by blast
  with assms(3) show ?thesis
    by (simp add: conv_k_def diff_k_def)
qed

section \<open>Signs\<close>

lemma is_pos_avg: "is_pos (wt1 q) \<Longrightarrow> is_pos (wt2 q) \<Longrightarrow> is_pos a \<Longrightarrow> is_pos b \<Longrightarrow> is_pos (avg q a b)"
  by (simp add: avg_def sign_intros)

lemma is_nonneg_avg:
  "is_pos (wt1 q) \<Longrightarrow> is_pos (wt2 q) \<Longrightarrow> is_nonneg a \<Longrightarrow> is_nonneg b \<Longrightarrow> is_nonneg (avg q a b)"
  by (simp add: avg_def sign_intros)

lemma snapshot_pos_nth:
  assumes "snapshot_pos s"
  shows "is_pos (snap_rho s)" "is_pos (snap_mu s)" "is_fin (snap_P s)"
    and "k < length (snap_Y s) \<Longrightarrow> is_pos (snap_Y s ! k)"
    and "k < length (snap_D_k s) \<Longrightarrow> is_nonneg (snap_D_k s ! k)"
  using assms by (simp_all add: snapshot_pos_def list_all_length)

lemma conv_k_alt:
  "conv_k q s1 s2 k =
     avg q (snap_rho s1 * snap_Y s1 ! k) (snap_rho s2 * snap_Y s2 ! k) * K_g q
       * (snap_P s1 - snap_P s2) * inv_dy q / avg q (snap_mu s1) (snap_mu s2)"
  by (simp add: conv_k_def pyfloat_minus_swap [of "snap_P s2" "snap_P s1"] pyfloat_neg_simps)

lemma diff_k_alt:
  "diff_k q s1 s2 k =
     eps_tau2 q * avg q (snap_D_k s1 ! k) (snap_D_k s2 ! k) * avg q (snap_rho s1) (snap_rho s2)
       * (snap_Y s1 ! k - snap_Y s2 ! k) * inv_dy q"
  by (simp add: diff_k_def pyfloat_minus_swap [of "snap_Y s2 ! k" "snap_Y s1 ! k"]
      pyfloat_neg_simps)

lemma conv_k_pos:
  assumes "params_pos q" "snapshot_pos s1" "snapshot_pos s2"
    and "k < length (snap_Y s1)" "k < length (snap_Y s2)"
    and "is_pos (snap_P s1 - snap_P s2)"
  shows "is_pos (conv_k q s1 s2 k)"
  unfolding conv_k_alt
  using snapshot_pos_nth [OF assms(2)] snapshot_pos_nth [OF assms(3)]
    assms(1) [unfolded params_pos_def] assms(4-6)
  by (intro sign_intros is_pos_avg) simp_all

lemma diff_k_nonneg:
  assumes "params_pos q" "snapshot_pos s1" "snapshot_pos s2"
    and "k < length (snap_D_k s1)" "k < length (snap_D_k s2)"
    and "is_nonneg (snap_Y s1 ! k - snap_Y s2 ! k)"
  shows "is_nonneg (diff_k q s1 s2 k)"
  unfolding diff_k_alt
  using snapshot_pos_nth [OF assms(2)] snapshot_pos_nth [OF assms(3)]
    assms(1) [unfolded params_pos_def] assms(4-6)
  by (intro sign_intros is_nonneg_avg) simp_all

section \<open>Swapping the two nodes\<close>

lemma getp_swap_wts [simp]:
  "k \<noteq> ''wt1'' \<Longrightarrow> k \<noteq> ''wt2'' \<Longrightarrow> getp (swap_wts p) k = getp p k"
  by (simp add: swap_wts_def getp_def)

lemma boundary_avg_swap:
  assumes "p ''wt1'' \<noteq> None" "p ''wt2'' \<noteq> None"
  shows "boundary_avg (swap_wts p) x2 x1 = boundary_avg p x1 x2"
  using assms
  by (auto simp: boundary_avg_def swap_wts_def getp_def addE_commute_np_mul
      simp del: np_mul_simps)

lemma J_conv_swap: "J_conv p rho_k b a mu = negE (J_conv p rho_k a b mu)"
  by (simp add: J_conv_def subE_swap_values [of a b] negE_out del: subE_simps)

lemma J_diff_swap: "J_diff p D_k rho b a = negE (J_diff p D_k rho a b)"
  by (simp add: J_diff_def subE_swap_values [of a b] negE_out del: subE_simps)

lemma J_conv_swap_wts [simp]: "J_conv (swap_wts p) = J_conv p"
  by (simp add: J_conv_def fun_eq_iff)

lemma J_diff_swap_wts [simp]: "J_diff (swap_wts p) = J_diff p"
  by (simp add: J_diff_def fun_eq_iff)

lemma adf_pure_antisymmetric:
  assumes "p ''wt1'' \<noteq> None" "p ''wt2'' \<noteq> None"
  shows "adf_pure (swap_wts p) s2 s1 tog = negE (adf_pure p s1 s2 tog)"
  by (simp only: adf_pure_unfold boundary_avg_swap [OF assms] J_conv_swap_wts J_diff_swap_wts
      J_conv_swap [where a = "Scalar (snap_P s1)" and b = "Scalar (snap_P s2)"]
      J_diff_swap [where a = "Vec (snap_Y s1)" and b = "Vec (snap_Y s2)"]
      bindE_negE negE_bindE gate_neg)

section \<open>No division of scalars\<close>

lemma vec_res_boundary_avg: "is_vec x1 \<Longrightarrow> vec_res (boundary_avg p x1 x2)"
  unfolding boundary_avg_def by (intro zde_intros disjI1 disjI2) simp

lemma no_zde_boundary_avg: "no_zde (boundary_avg p x1 x2)"
  unfolding boundary_avg_def by (intro zde_intros) simp_all

lemma no_zde_J_conv: "is_vec rho_k \<Longrightarrow> no_zde (J_conv p rho_k P1 P2 mu)"
  unfolding J_conv_def by (intro zde_intros disjI1) simp_all

lemma no_zde_J_diff: "no_zde (J_diff p D_k rho Y1 Y2)"
  unfolding J_diff_def by (intro zde_intros) simp_all

lemma no_zde_adf_pure: "no_zde (adf_pure p s1 s2 tog)"
proof -
  have "is_vec rho_k" if "boundary_avg p (rho_k_of s1) (rho_k_of s2) = Inr rho_k" for rho_k
    using vec_res_boundary_avg [of "rho_k_of s1" p "rho_k_of s2"] that
    by (simp add: rho_k_of_def)
  then show ?thesis
    unfolding adf_pure_unfold
    by (intro zde_intros no_zde_boundary_avg no_zde_J_conv no_zde_J_diff) simp_all
qed

section \<open>The exceptions of the arithmetic\<close>

lemma planar_errors_simps [simp]:
  "ValueError \<in> planar_errors"
  "KeyError ''wt1'' \<in> planar_errors" "KeyError ''wt2'' \<in> planar_errors"
  "KeyError ''K_g'' \<in> planar_errors" "KeyError ''1/dy'' \<in> planar_errors"
  "KeyError ''eps/tau2'' \<in> planar_errors"
  by (simp_all add: planar_errors_def planar_keys_def)

lemma planar_errors_iff:
  "e \<in> planar_errors \<longleftrightarrow> e = ValueError \<or> (\<exists>k \<in> set planar_keys. e = KeyError k)"
  by (auto simp: planar_errors_def)

lemma raises_only_boundary_avg: "raises_only planar_errors (boundary_avg p x1 x2)"
  unfolding boundary_avg_def by (intro raise_intros) simp_all

lemma raises_only_J_conv:
  "is_vec rho_k \<Longrightarrow> raises_only planar_errors (J_conv p rho_k P1 P2 mu)"
  unfolding J_conv_def by (intro raise_intros zde_intros disjI1) simp_all

lemma raises_only_J_diff: "raises_only planar_errors (J_diff p D_k rho Y1 Y2)"
  unfolding J_diff_def by (intro raise_intros) simp_all

lemma raises_only_adf_pure: "raises_only planar_errors (adf_pure p s1 s2 tog)"
proof -
  have "is_vec rho_k" if "boundary_avg p (rho_k_of s1) (rho_k_of s2) = Inr rho_k" for rho_k
    using vec_res_boundary_avg [of "rho_k_of s1" p "rho_k_of s2"] that
    by (simp add: rho_k_of_def)
  then show ?thesis
    unfolding adf_pure_unfold
    by (intro raise_intros raises_only_boundary_avg raises_only_J_conv raises_only_J_diff)
      simp_all
qed

section \<open>Facts about the concrete interface\<close>

lemma has_params_params_dict [simp]: "has_params (params_dict q) q"
  by (simp add: has_params_def params_dict_def)

lemma demo_valid [simp]: "tdy_valid demo_T1" "tdy_valid demo_T2"
  by (simp_all add: tdy_valid_def demo_T1_def demo_T2_def)

lemma demo_set_TDY [simp]:
  "set_TDY (demo_gas mu) demo_T1 g = Inr demo_T1"
  "set_TDY (demo_gas mu) demo_T2 g = Inr demo_T2"
  by (simp_all add: demo_gas_def)

lemma demo_n_species [simp]:
  "n_species_ok (demo_gas mu) 2 demo_T1"
  "n_species_ok (demo_gas mu) 2 demo_T2"
  by (simp_all add: n_species_ok_def demo_gas_def demo_T1_def demo_T2_def)

lemma demo_state_determined [simp]: "state_determined (demo_gas mu)"
  by (simp add: demo_gas_def table_gas_state_determined)

lemma demo_params_fin [simp]: "params_fin demo_q"
  by (simp add: params_fin_def demo_q_def)

lemma demo_lengths [simp]:
  "length (snap_Y (properties_at (demo_gas mu) demo_T1)) = 2"
  "length (snap_D_k (properties_at (demo_gas mu) demo_T1)) = 2"
  "length (snap_Y (properties_at (demo_gas mu) demo_T2)) = 2"
  "length (snap_D_k (properties_at (demo_gas mu) demo_T2)) = 2"
  by (simp_all add: demo_gas_def demo_T1_def demo_T2_def)

lemma demo_snapshot_fin [simp]:
  "is_fin mu \<Longrightarrow> snapshot_fin (properties_at (demo_gas mu) demo_T1)"
  "is_fin mu \<Longrightarrow> snapshot_fin (properties_at (demo_gas mu) demo_T2)"
  by (simp_all add: snapshot_fin_def demo_gas_def demo_T1_def demo_T2_def)

lemma demo_T3_simps [simp]:
  "tdy_valid demo_T3"
  "set_TDY (demo_gas mu) demo_T3 g = Inr demo_T3"
  "n_species_ok (demo_gas mu) 2 demo_T3"
  by (simp_all add: tdy_valid_def demo_T3_def demo_gas_def n_species_ok_def)

lemma demo_pos:
  "params_pos demo_q"
  "is_pos mu \<Longrightarrow> snapshot_pos (properties_at (demo_gas mu) demo_T1)"
  "is_pos mu \<Longrightarrow> snapshot_pos (properties_at (demo_gas mu) demo_T3)"
  "is_pos (gas_P (demo_gas mu) demo_T3 - gas_P (demo_gas mu) demo_T1)"
  "\<forall>k<2. is_nonneg (gas_Y (demo_gas mu) demo_T3 ! k - gas_Y (demo_gas mu) demo_T1 ! k)"
  by (simp_all add: params_pos_def snapshot_pos_def demo_q_def demo_gas_def demo_T1_def
      demo_T3_def less_2_cases_iff)

lemmas demo_defs = demo_gas_def demo_T1_def demo_T2_def demo_q_def params_dict_def

lemmas flux_spec_defs = flux_spec_def conv_k_def diff_k_def avg_def

lemma replicate_2: "replicate 2 x = [x, x]"
  by (simp add: numeral_2_eq_2)

lemma demo_flux_spec:
  "flux_spec demo_q (properties_at (demo_gas (Fin (1/50000))) demo_T1)
     (properties_at (demo_gas (Fin (1/50000))) demo_T2) (Fin 1) =
   [Fin (- (18683 / 64000)), Fin (- (21497 / 64000))]"
  by (simp add: flux_spec_defs demo_defs upt_rec)

lemma demo_run:
  "fickian_adf demo_T1 demo_T2 (demo_gas (Fin (1/50000))) (params_dict demo_q) (Scalar (Fin 1))
     demo_T1 = (Inr (Vec [Fin (- (18683 / 64000)), Fin (- (21497 / 64000))]), demo_T2)"
  by (simp add: fickian_adf_accepted adf_pure_closed_form [where n = 2 and q = demo_q]
      demo_flux_spec del: properties_at_simps)

section \<open>Properties of the kernel\<close>

text \<open>
  C1 (functional refinement). When the dictionary holds the five scalar coefficients, the
  provider accepts both states and reports as many diffusion coefficients as mass
  fractions in each, \<open>fickian_adf\<close> returns the closed-form flux of the specification,
  one component per species, computed from the properties at the two states, and leaves
  the provider in the second state.
\<close>

theorem fickian_adf_closed_form:
  assumes "has_params p q"
    and "set_TDY gas TDY1 g = Inr g1" "set_TDY gas TDY2 g1 = Inr g2"
    and "n_species_ok gas n g1" "n_species_ok gas n g2"
  shows "fickian_adf TDY1 TDY2 gas p (Scalar tog) g =
    (Inr (Vec (flux_spec q (properties_at gas g1) (properties_at gas g2) tog)), g2)"
  using assms
  by (simp add: fickian_adf_accepted adf_pure_closed_form [where n = n] n_species_ok_def)

theorem fickian_adf_closed_form_witness:
  "has_params (params_dict demo_q) demo_q \<and>
   fickian_adf demo_T1 demo_T2 (demo_gas (Fin (1/50000))) (params_dict demo_q) (Scalar (Fin 1))
     demo_T1 = (Inr (Vec [Fin (- (18683 / 64000)), Fin (- (21497 / 64000))]), demo_T2)"
  using fickian_adf_closed_form [of "params_dict demo_q" demo_q "demo_gas (Fin (1/50000))"
      demo_T1 demo_T1 demo_T1 demo_T2 demo_T2 2 "Fin 1"]
  by (simp add: demo_flux_spec)

text \<open>
  C3 (side effect on the provider). Whatever the call returns or raises, the provider is
  left in the last state it accepted: unchanged if it refuses the first state, in the
  first state if it refuses the second, and in the second state otherwise, also when the
  arithmetic that follows raises.
\<close>

theorem fickian_adf_provider_state:
  "snd (fickian_adf TDY1 TDY2 gas p tog g) =
     (case set_TDY gas TDY1 g of
        Inl e \<Rightarrow> g
      | Inr g1 \<Rightarrow> (case set_TDY gas TDY2 g1 of Inl e \<Rightarrow> g1 | Inr g2 \<Rightarrow> g2))"
  by (simp add: fickian_adf_factor split: sum.splits)

text \<open>
  C8 (propagation of the provider's refusal). If the provider refuses the first state, or
  accepts it and refuses the second, the call raises the provider's exception unchanged
  and computes no flux.
\<close>

theorem fickian_adf_invalid_state:
  assumes "set_TDY gas TDY1 g = Inl e \<or>
    (\<exists>g1. set_TDY gas TDY1 g = Inr g1 \<and> set_TDY gas TDY2 g1 = Inl e)"
  shows "fst (fickian_adf TDY1 TDY2 gas p tog g) = Inl e"
  using assms by (auto simp: fickian_adf_factor)

theorem fickian_adf_invalid_state_witness:
  "fickian_adf demo_T1 (Fin 300, Fin (- 2), [Fin 1]) (demo_gas (Fin 1)) (params_dict demo_q)
     (Scalar (Fin 1)) demo_T2 = (Inl (CanteraError ''invalid state''), demo_T1)"
proof -
  have "set_TDY (demo_gas (Fin 1)) (Fin 300, Fin (- 2), [Fin 1]) demo_T1 =
      Inl (CanteraError ''invalid state'')"
    by (simp add: demo_gas_def tdy_valid_def)
  then show ?thesis
    using fickian_adf_invalid_state [of "demo_gas (Fin 1)" demo_T1 demo_T2
        "CanteraError ''invalid state''" "(Fin 300, Fin (- 2), [Fin 1])" "params_dict demo_q"
        "Scalar (Fin 1)"]
    by (simp add: prod_eq_iff fickian_adf_factor)
qed

text \<open>
  Sign antisymmetry in exact arithmetic. For a provider whose properties are determined by the state that
  was set, exchanging the two states together with the two weights negates the result:
  the flux from node 2 into node 1 is minus the flux from node 1 into node 2. This holds
  for every outcome of the arithmetic, a raised exception included.
\<close>

theorem fickian_adf_antisymmetric:
  assumes "state_determined gas"
    and "set_TDY gas TDY1 g = Inr g1" "set_TDY gas TDY2 g1 = Inr g2"
    and "set_TDY gas TDY2 g = Inr h1" "set_TDY gas TDY1 h1 = Inr h2"
    and "p ''wt1'' \<noteq> None" "p ''wt2'' \<noteq> None"
  shows "fst (fickian_adf TDY2 TDY1 gas (swap_wts p) tog g) =
    negE (fst (fickian_adf TDY1 TDY2 gas p tog g))"
proof -
  have "properties_at gas h1 = properties_at gas g2" "properties_at gas h2 = properties_at gas g1"
    using assms(1-5) by (blast intro: state_determinedD)+
  then show ?thesis
    using assms by (simp add: fickian_adf_accepted adf_pure_antisymmetric)
qed

theorem fickian_adf_antisymmetric_witness:
  "fst (fickian_adf demo_T2 demo_T1 (demo_gas (Fin (1/50000))) (swap_wts (params_dict demo_q))
     (Scalar (Fin 1)) demo_T1) = Inr (Vec [Fin (18683 / 64000), Fin (21497 / 64000)]) \<and>
   fst (fickian_adf demo_T1 demo_T2 (demo_gas (Fin (1/50000))) (params_dict demo_q)
     (Scalar (Fin 1)) demo_T1) = Inr (Vec [Fin (- (18683 / 64000)), Fin (- (21497 / 64000))])"
proof -
  have "params_dict demo_q ''wt1'' \<noteq> None" "params_dict demo_q ''wt2'' \<noteq> None"
    by (simp_all add: params_dict_def)
  with demo_run show ?thesis
    using fickian_adf_antisymmetric [of "demo_gas (Fin (1/50000))" demo_T1 demo_T1 demo_T1
        demo_T2 demo_T2 demo_T2 demo_T1 "params_dict demo_q" "Scalar (Fin 1)"]
    by simp
qed

text \<open>
  Zero gradient in exact arithmetic. If both nodes are in the same state, the provider's properties are
  determined by the state, and the coefficients, the properties and the toggle are finite
  with a non-zero averaged viscosity, the flux is the zero vector: the pressure
  difference and every mass-fraction difference vanish.
\<close>

theorem fickian_adf_zero_gradient:
  assumes "state_determined gas" "has_params p q" "params_fin q"
    and "set_TDY gas TDY g = Inr g1" "set_TDY gas TDY g1 = Inr g2"
    and "n_species_ok gas n g1" "snapshot_fin (properties_at gas g1)"
    and "avg q (viscosity gas g1) (viscosity gas g1) \<noteq> Fin 0"
  shows "fickian_adf TDY TDY gas p (Scalar (Fin t)) g = (Inr (Vec (replicate n (Fin 0))), g2)"
proof -
  let ?s = "properties_at gas g1"
  have same: "properties_at gas g2 = ?s"
    using assms(1,4,5) by (blast intro: state_determinedD)
  have len: "length (snap_D_k ?s) = n" "length (snap_Y ?s) = n"
    using assms(6) by (simp_all add: n_species_ok_def)
  have "flux_spec q ?s ?s (Fin t) = replicate n (Fin 0)"
    using assms(3,7,8) len
    by (intro nth_equalityI) (simp_all add: nth_flux_spec flux_k_zero_gradient)
  then show ?thesis
    using assms(2,4,5) len
    by (simp add: fickian_adf_accepted same adf_pure_closed_form [where n = n])
qed

theorem fickian_adf_zero_gradient_witness:
  "fickian_adf demo_T1 demo_T1 (demo_gas (Fin (1/50000))) (params_dict demo_q) (Scalar (Fin 1))
     demo_T2 = (Inr (Vec [Fin 0, Fin 0]), demo_T1)"
proof -
  have "avg demo_q (viscosity (demo_gas (Fin (1/50000))) demo_T1)
      (viscosity (demo_gas (Fin (1/50000))) demo_T1) \<noteq> Fin 0"
    by (simp add: avg_def demo_defs)
  then show ?thesis
    using fickian_adf_zero_gradient [of "demo_gas (Fin (1/50000))" "params_dict demo_q" demo_q
        demo_T1 demo_T2 demo_T1 demo_T1 2 1]
    by (simp add: replicate_2)
qed

text \<open>
  The toggle switches the flux off, in exact arithmetic. With the toggle at 0, finite coefficients and
  properties and a non-zero averaged viscosity, the result is the zero vector over the
  species.
\<close>

theorem fickian_adf_toggle_off:
  assumes "has_params p q" "params_fin q"
    and "set_TDY gas TDY1 g = Inr g1" "set_TDY gas TDY2 g1 = Inr g2"
    and "n_species_ok gas n g1" "n_species_ok gas n g2"
    and "snapshot_fin (properties_at gas g1)" "snapshot_fin (properties_at gas g2)"
    and "avg q (viscosity gas g1) (viscosity gas g2) \<noteq> Fin 0"
  shows "fickian_adf TDY1 TDY2 gas p (Scalar (Fin 0)) g = (Inr (Vec (replicate n (Fin 0))), g2)"
proof -
  let ?s1 = "properties_at gas g1" and ?s2 = "properties_at gas g2"
  have len: "length (snap_D_k ?s1) = n" "length (snap_Y ?s1) = n"
    "length (snap_D_k ?s2) = n" "length (snap_Y ?s2) = n"
    using assms(5,6) by (simp_all add: n_species_ok_def)
  have "flux_spec q ?s1 ?s2 (Fin 0) = replicate n (Fin 0)"
    using assms(2,7,8,9) len
    by (intro nth_equalityI)
       (simp_all add: nth_flux_spec Fin_zero_times flux_k_fin del: is_fin_plus)
  then show ?thesis
    using assms(1,3,4) len by (simp add: fickian_adf_accepted adf_pure_closed_form [where n = n])
qed

theorem fickian_adf_toggle_off_witness:
  "fickian_adf demo_T1 demo_T2 (demo_gas (Fin (1/50000))) (params_dict demo_q) (Scalar (Fin 0))
     demo_T1 = (Inr (Vec [Fin 0, Fin 0]), demo_T2)"
proof -
  have "avg demo_q (viscosity (demo_gas (Fin (1/50000))) demo_T1)
      (viscosity (demo_gas (Fin (1/50000))) demo_T2) \<noteq> Fin 0"
    by (simp add: avg_def demo_defs)
  then show ?thesis
    using fickian_adf_toggle_off [of "params_dict demo_q" demo_q "demo_gas (Fin (1/50000))"
        demo_T1 demo_T1 demo_T1 demo_T2 demo_T2 2]
    by (simp add: replicate_2)
qed

text \<open>
  The toggle does not switch a non-finite flux off. With a provider that reports a
  zero viscosity, the advective term divides by zero, the flux is not finite, and the
  product with the toggle 0 is NaN in every component, not zero.
\<close>

theorem fickian_adf_toggle_off_nan:
  "fickian_adf demo_T1 demo_T2 (demo_gas (Fin 0)) (params_dict demo_q) (Scalar (Fin 0)) demo_T1
     = (Inr (Vec [NaN, NaN]), demo_T2)"
proof -
  have "flux_spec demo_q (properties_at (demo_gas (Fin 0)) demo_T1)
     (properties_at (demo_gas (Fin 0)) demo_T2) (Fin 0) = [NaN, NaN]"
    by (simp add: flux_spec_defs demo_defs upt_rec)
  then show ?thesis
    by (simp add: fickian_adf_accepted adf_pure_closed_form [where n = 2 and q = demo_q]
        del: properties_at_simps)
qed

text \<open>
  Weight normalisation in exact arithmetic. With both weights equal to one half, the boundary value of a
  property is the arithmetic mean of the two node values, for scalars and, componentwise,
  for vectors of equal length; non-finite node values included.
\<close>

theorem boundary_avg_mean:
  assumes "p ''wt1'' = Some (Scalar (Fin (1/2)))" "p ''wt2'' = Some (Scalar (Fin (1/2)))"
    and "length xs = length ys"
  shows "boundary_avg p (Scalar a) (Scalar b) = Inr (Scalar ((a + b) / Fin 2)) \<and>
    boundary_avg p (Vec xs) (Vec ys) = Inr (Vec (map2 (\<lambda>x y. (x + y) / Fin 2) xs ys))"
  using assms
  by (simp add: boundary_avg_def pyfloat_half_sum map2_map_left map2_map_right)

theorem boundary_avg_mean_witness:
  "boundary_avg (map_of [(''wt1'', Scalar (Fin (1/2))), (''wt2'', Scalar (Fin (1/2)))])
     (Vec [Fin 1, Fin 4, PInf]) (Vec [Fin 2, Fin 0, Fin 3]) = Inr (Vec [Fin (3/2), Fin 2, PInf])"
  using boundary_avg_mean [of "map_of [(''wt1'', Scalar (Fin (1/2))), (''wt2'', Scalar (Fin (1/2)))]"
      "[Fin 1, Fin 4, PInf]" "[Fin 2, Fin 0, Fin 3]"]
  by simp

text \<open>
  No ZeroDivisionError. Once the provider has accepted both states the call never
  raises \<open>ZeroDivisionError\<close>, whatever the dictionary and the properties are: the
  numerator of the only division is an array, so a zero viscosity yields infinities or
  NaN in the result instead of an exception.
\<close>

theorem fickian_adf_no_zero_division:
  assumes "set_TDY gas TDY1 g = Inr g1" "set_TDY gas TDY2 g1 = Inr g2"
  shows "fst (fickian_adf TDY1 TDY2 gas p tog g) \<noteq> Inl ZeroDivisionError"
  using assms no_zde_adf_pure [of p "properties_at gas g1" "properties_at gas g2" tog]
  by (simp add: fickian_adf_accepted no_zde_def)

theorem fickian_adf_no_zero_division_witness:
  "fst (fickian_adf demo_T1 demo_T2 (demo_gas (Fin 0)) (params_dict demo_q) (Scalar (Fin 1))
     demo_T1) = Inr (Vec [NInf, NInf])"
proof -
  have "flux_spec demo_q (properties_at (demo_gas (Fin 0)) demo_T1)
     (properties_at (demo_gas (Fin 0)) demo_T2) (Fin 1) = [NInf, NInf]"
    by (simp add: flux_spec_defs demo_defs upt_rec)
  then show ?thesis
    using fickian_adf_no_zero_division [of "demo_gas (Fin 0)" demo_T1 demo_T1 demo_T1 demo_T2
        demo_T2 "params_dict demo_q" "Scalar (Fin 1)"]
    by (simp add: fickian_adf_accepted adf_pure_closed_form [where n = 2 and q = demo_q]
        del: properties_at_simps)
qed

text \<open>
  C17 (a missing coefficient). If the dictionary has no entry \<open>wt1\<close> the call raises
  \<open>KeyError\<close> for that key, and it does so only after the provider has been set to both
  states: the provider is left in the second state although no flux was computed.
\<close>

theorem fickian_adf_missing_key:
  assumes "set_TDY gas TDY1 g = Inr g1" "set_TDY gas TDY2 g1 = Inr g2" "p ''wt1'' = None"
  shows "fickian_adf TDY1 TDY2 gas p tog g = (Inl (KeyError ''wt1''), g2)"
  using assms by (simp add: fickian_adf_accepted adf_pure_def boundary_avg_def)

theorem fickian_adf_missing_key_witness:
  "fickian_adf demo_T1 demo_T2 (demo_gas (Fin 1)) Map.empty (Scalar (Fin 1)) demo_T1 =
     (Inl (KeyError ''wt1''), demo_T2)"
  using fickian_adf_missing_key [of "demo_gas (Fin 1)" demo_T1 demo_T1 demo_T1 demo_T2 demo_T2
      Map.empty "Scalar (Fin 1)"]
  by simp

text \<open>
  C4 (sign convention). With positive weights, permeability, spacing and porosity factor,
  positive densities, viscosities and mass fractions, a pressure at node 1 above the
  pressure at node 2 and no mass fraction at node 1 below its value at node 2, every
  component of the flux is positive: the net flux runs from node 1 into node 2.
\<close>

theorem fickian_adf_sign_convention:
  assumes "has_params p q" "params_pos q"
    and "set_TDY gas TDY1 g = Inr g1" "set_TDY gas TDY2 g1 = Inr g2"
    and "n_species_ok gas n g1" "n_species_ok gas n g2"
    and "snapshot_pos (properties_at gas g1)" "snapshot_pos (properties_at gas g2)"
    and "is_pos (gas_P gas g1 - gas_P gas g2)"
    and "\<forall>k<n. is_nonneg (gas_Y gas g1 ! k - gas_Y gas g2 ! k)"
  shows "\<exists>xs. fst (fickian_adf TDY1 TDY2 gas p (Scalar (Fin 1)) g) = Inr (Vec xs) \<and>
    length xs = n \<and> list_all is_pos xs"
proof -
  let ?s1 = "properties_at gas g1" and ?s2 = "properties_at gas g2"
  have len: "length (snap_D_k ?s1) = n" "length (snap_Y ?s1) = n"
    "length (snap_D_k ?s2) = n" "length (snap_Y ?s2) = n"
    using assms(5,6) by (simp_all add: n_species_ok_def)
  have "is_pos (conv_k q ?s1 ?s2 k + diff_k q ?s1 ?s2 k)" if "k < n" for k
    using assms(2,7-10) len that
    by (intro is_pos_plus(1) conv_k_pos diff_k_nonneg) simp_all
  then have "list_all is_pos (flux_spec q ?s1 ?s2 (Fin 1))"
    using len by (simp add: list_all_length nth_flux_spec)
  then show ?thesis
    using assms(1,3,4) len by (simp add: fickian_adf_accepted adf_pure_closed_form [where n = n])
qed

theorem fickian_adf_sign_convention_witness:
  "\<exists>xs. fst (fickian_adf demo_T3 demo_T1 (demo_gas (Fin (1/50000))) (params_dict demo_q)
     (Scalar (Fin 1)) demo_T1) = Inr (Vec xs) \<and> length xs = 2 \<and> list_all is_pos xs"
  using fickian_adf_sign_convention [of "params_dict demo_q" demo_q "demo_gas (Fin (1/50000))"
      demo_T3 demo_T1 demo_T3 demo_T1 demo_T1 2]
  by (simp add: demo_pos del: properties_at_simps)

text \<open>
  The exceptions of the planar kernel in exact arithmetic. An exception of \<open>fickian_adf\<close> is the
  provider's refusal of the first state, its refusal of the second state, \<open>KeyError\<close> for
  one of the five keys \<open>wt1\<close>, \<open>wt2\<close>, \<open>K_g\<close>, \<open>1/dy\<close>, \<open>eps/tau2\<close>, or \<open>ValueError\<close> from
  operands that do not broadcast; there is no other.
\<close>

theorem fickian_adf_exceptions:
  assumes "fst (fickian_adf TDY1 TDY2 gas p tog g) = Inl e"
  shows "set_TDY gas TDY1 g = Inl e \<or>
    (\<exists>g1. set_TDY gas TDY1 g = Inr g1 \<and> set_TDY gas TDY2 g1 = Inl e) \<or>
    e \<in> planar_errors"
proof (cases "set_TDY gas TDY1 g")
  case (Inr g1)
  show ?thesis
  proof (cases "set_TDY gas TDY2 g1")
    case (Inr g2)
    with \<open>set_TDY gas TDY1 g = Inr g1\<close> assms
      raises_only_adf_pure [of p "properties_at gas g1" "properties_at gas g2" tog]
    show ?thesis by (simp add: fickian_adf_accepted)
  qed (use \<open>set_TDY gas TDY1 g = Inr g1\<close> assms in \<open>simp add: fickian_adf_factor\<close>)
qed (use assms in \<open>simp add: fickian_adf_factor\<close>)

theorem fickian_adf_exceptions_witness:
  "fst (fickian_adf demo_T1 demo_T2 (demo_gas (Fin 1)) Map.empty (Scalar (Fin 1)) demo_T1) =
     Inl (KeyError ''wt1'') \<and> KeyError ''wt1'' \<in> planar_errors"
  using fickian_adf_exceptions [of demo_T1 demo_T2 "demo_gas (Fin 1)" Map.empty "Scalar (Fin 1)"
      demo_T1 "KeyError ''wt1''"]
  by (simp add: fickian_adf_accepted adf_pure_def boundary_avg_def)

text \<open>
  The toggle 1. With the toggle at 1 the flux is the sum of the advective and the
  diffusive term, for every species and for non-finite terms as well.
\<close>

theorem fickian_adf_toggle_on:
  assumes "has_params p q"
    and "set_TDY gas TDY1 g = Inr g1" "set_TDY gas TDY2 g1 = Inr g2"
    and "n_species_ok gas n g1" "n_species_ok gas n g2"
  shows "fst (fickian_adf TDY1 TDY2 gas p (Scalar (Fin 1)) g) =
    Inr (Vec (map (\<lambda>k. conv_k q (properties_at gas g1) (properties_at gas g2) k +
                        diff_k q (properties_at gas g1) (properties_at gas g2) k) [0..<n]))"
  using assms
  by (simp add: fickian_adf_accepted adf_pure_closed_form [where n = n] n_species_ok_def
      flux_spec_toggle_on)

theorem fickian_adf_toggle_on_witness:
  "fst (fickian_adf demo_T1 demo_T2 (demo_gas (Fin 0)) (params_dict demo_q) (Scalar (Fin 1))
     demo_T1) = Inr (Vec [NInf, NInf])"
proof -
  let ?s1 = "properties_at (demo_gas (Fin 0)) demo_T1"
  let ?s2 = "properties_at (demo_gas (Fin 0)) demo_T2"
  have "map (\<lambda>k. conv_k demo_q ?s1 ?s2 k + diff_k demo_q ?s1 ?s2 k) [0..<2] = [NInf, NInf]"
    by (simp add: conv_k_def diff_k_def avg_def demo_defs upt_rec)
  then show ?thesis
    using fickian_adf_toggle_on [of "params_dict demo_q" demo_q "demo_gas (Fin 0)" demo_T1
        demo_T1 demo_T1 demo_T2 demo_T2 2]
    by (simp del: properties_at_simps)
qed

text \<open>
  The boundary value lies between the node values. With finite weights that are
  not negative and sum to one, the boundary average of two finite scalars is a finite
  scalar between them.
\<close>

theorem boundary_avg_between:
  assumes "p ''wt1'' = Some (Scalar (Fin w1))" "p ''wt2'' = Some (Scalar (Fin w2))"
    and "0 \<le> w1" "0 \<le> w2" "w1 + w2 = 1" "a \<le> b"
  shows "\<exists>c. boundary_avg p (Scalar (Fin a)) (Scalar (Fin b)) = Inr (Scalar (Fin c)) \<and>
    a \<le> c \<and> c \<le> b"
proof -
  have w: "w1 = 1 - w2"
    using assms(5) by simp
  have "0 \<le> w2 * (b - a)" "0 \<le> (1 - w2) * (b - a)"
    using assms(3,4,6) w by (simp_all add: mult_nonneg_nonneg)
  then have "a \<le> w1 * a + w2 * b" "w1 * a + w2 * b \<le> b"
    unfolding w by (simp_all add: algebra_simps)
  then show ?thesis
    using assms(1,2) by (simp add: boundary_avg_def)
qed

theorem boundary_avg_between_witness:
  "\<exists>c. boundary_avg (params_dict demo_q) (Scalar (Fin 1)) (Scalar (Fin 5)) =
     Inr (Scalar (Fin c)) \<and> 1 \<le> c \<and> c \<le> 5"
  using boundary_avg_between [of "params_dict demo_q" "1/4" "3/4" 1 5]
  by (simp add: params_dict_def demo_q_def)

end
