(* ===== verification/Radial.thy ===== *)
theory Radial
  imports NumPy
begin

text \<open>
  The radial kernel \<^verbatim>\<open>radial_fdiff\<close> of \<^verbatim>\<open>src/Shared_Funcs/pemfc_transport_funcs.py\<close>: the rate
  of diffusion between two adjacent shells of a spherical agglomerate, in two variants.
  The kernel is one expression per variant over the parameter dictionary, which holds
  three coefficients and up to four arrays indexed by the node. The theory gives the
  expression as the code writes it, a typed closed form with the proof that the kernel
  computes it, and the behaviour on every error branch: an unknown variant, a missing
  key, a subscript out of range, operands that do not broadcast.
\<close>

section \<open>The kernel\<close>

definition shell_rate :: "pdict \<Rightarrow> pyval \<Rightarrow> pyval \<Rightarrow> int \<Rightarrow> pyval res" where
  "shell_rate p rho_k1 rho_k2 node =
     mulE (mulE (mulE (getp p ''D_eff_naf'') (getp p ''p_eff_SAnaf'')) (getp p ''eps/tau2_n2''))
       (mulE (mulE (powE (idxE (getp p ''r_jph'') node) 2) (subE (Inr rho_k1) (Inr rho_k2)))
          (idxE (getp p ''1/dr'') node))"

definition radial_fdiff :: "pyval \<Rightarrow> pyval \<Rightarrow> pdict \<Rightarrow> int \<Rightarrow> int \<Rightarrow> 'f \<Rightarrow> pyval res" where
  "radial_fdiff rho_k1 rho_k2 p node ver flag =
     (if ver = 1 then
        mulE (mulE (mulE (getp p ''D_eff_naf'') (getp p ''p_eff_SAnaf'')) (getp p ''eps/tau2_n2''))
          (mulE (mulE (powE (idxE (getp p ''r_jph'') node) 2) (subE (Inr rho_k1) (Inr rho_k2)))
             (idxE (getp p ''1/dr'') node))
      else if ver = 2 then
        mulE (mulE
          (mulE (mulE (mulE (getp p ''D_eff_naf'') (getp p ''p_eff_SAnaf''))
                   (getp p ''eps/tau2_n2''))
             (mulE (mulE (powE (idxE (getp p ''r_jph'') node) 2) (subE (Inr rho_k1) (Inr rho_k2)))
                (idxE (getp p ''1/dr'') node)))
          (powE (idxE (getp p ''1/r_j'') node) 2))
          (idxE (getp p ''1/t_shl'') node)
      else Inl (UnboundLocalError ''drho_dt''))"

section \<open>The closed form\<close>

record shell_params =
  D_eff_naf :: pyfloat
  p_eff_SAnaf :: pyfloat
  eps_tau2_n2 :: pyfloat
  r_jph :: "pyfloat list"
  inv_dr :: "pyfloat list"
  inv_r_j :: "pyfloat list"
  inv_t_shl :: "pyfloat list"

definition has_shell_params :: "pdict \<Rightarrow> shell_params \<Rightarrow> bool" where
  "has_shell_params p q \<longleftrightarrow>
     p ''D_eff_naf'' = Some (Scalar (D_eff_naf q)) \<and>
     p ''p_eff_SAnaf'' = Some (Scalar (p_eff_SAnaf q)) \<and>
     p ''eps/tau2_n2'' = Some (Scalar (eps_tau2_n2 q)) \<and>
     p ''r_jph'' = Some (Vec (r_jph q)) \<and>
     p ''1/dr'' = Some (Vec (inv_dr q)) \<and>
     p ''1/r_j'' = Some (Vec (inv_r_j q)) \<and>
     p ''1/t_shl'' = Some (Vec (inv_t_shl q))"

definition n_shells :: "shell_params \<Rightarrow> nat \<Rightarrow> bool" where
  "n_shells q n \<longleftrightarrow>
     length (r_jph q) = n \<and> length (inv_dr q) = n \<and> length (inv_r_j q) = n \<and>
     length (inv_t_shl q) = n"

definition shell_fin :: "shell_params \<Rightarrow> bool" where
  "shell_fin q \<longleftrightarrow>
     is_fin (D_eff_naf q) \<and> is_fin (p_eff_SAnaf q) \<and> is_fin (eps_tau2_n2 q) \<and>
     list_all is_fin (r_jph q) \<and> list_all is_fin (inv_dr q) \<and> list_all is_fin (inv_r_j q) \<and>
     list_all is_fin (inv_t_shl q)"

definition shell_pos :: "shell_params \<Rightarrow> bool" where
  "shell_pos q \<longleftrightarrow>
     is_pos (D_eff_naf q) \<and> is_pos (p_eff_SAnaf q) \<and> is_pos (eps_tau2_n2 q) \<and>
     list_all is_pos (r_jph q) \<and> list_all is_pos (inv_dr q) \<and> list_all is_pos (inv_r_j q) \<and>
     list_all is_pos (inv_t_shl q)"

definition mass_rate :: "shell_params \<Rightarrow> nat \<Rightarrow> pyfloat \<Rightarrow> pyfloat" where
  "mass_rate q j d =
     D_eff_naf q * p_eff_SAnaf q * eps_tau2_n2 q * ((r_jph q ! j)\<^sup>2 * d * inv_dr q ! j)"

definition shell_factor :: "shell_params \<Rightarrow> nat \<Rightarrow> pyfloat" where
  "shell_factor q j = (inv_r_j q ! j)\<^sup>2 * inv_t_shl q ! j"

definition rate_k :: "shell_params \<Rightarrow> nat \<Rightarrow> int \<Rightarrow> pyfloat \<Rightarrow> pyfloat" where
  "rate_k q j ver d =
     (if ver = 1 then mass_rate q j d else mass_rate q j d * (inv_r_j q ! j)\<^sup>2 * inv_t_shl q ! j)"

definition radial_spec :: "shell_params \<Rightarrow> nat \<Rightarrow> int \<Rightarrow> pyfloat list \<Rightarrow> pyfloat list \<Rightarrow> pyfloat list"
  where "radial_spec q j ver xs ys = map2 (\<lambda>x y. rate_k q j ver (x - y)) xs ys"

definition norm_node :: "nat \<Rightarrow> int \<Rightarrow> nat" where
  "norm_node n node = nat (if node < 0 then node + int n else node)"

definition node_in_range :: "nat \<Rightarrow> int \<Rightarrow> bool" where
  "node_in_range n node \<longleftrightarrow> - int n \<le> node \<and> node < int n"

definition shell_keys :: "string list" where
  "shell_keys = [''D_eff_naf'', ''p_eff_SAnaf'', ''eps/tau2_n2'', ''r_jph'', ''1/dr'', ''1/r_j'',
     ''1/t_shl'']"

definition radial_errors :: "pyerr set" where
  "radial_errors =
     {ValueError, TypeError, IndexError, UnboundLocalError ''drho_dt''} \<union>
     KeyError ` set shell_keys"

section \<open>A concrete parameter set, for instances of the theorems\<close>

definition shell_dict :: "shell_params \<Rightarrow> pdict" where
  "shell_dict q = map_of [(''D_eff_naf'', Scalar (D_eff_naf q)),
     (''p_eff_SAnaf'', Scalar (p_eff_SAnaf q)), (''eps/tau2_n2'', Scalar (eps_tau2_n2 q)),
     (''r_jph'', Vec (r_jph q)), (''1/dr'', Vec (inv_dr q)), (''1/r_j'', Vec (inv_r_j q)),
     (''1/t_shl'', Vec (inv_t_shl q))]"

definition demo_shell :: shell_params where
  "demo_shell = \<lparr>D_eff_naf = Fin (1/4), p_eff_SAnaf = Fin (1/2), eps_tau2_n2 = Fin (1/5),
     r_jph = [Fin 1, Fin 2, Fin 3], inv_dr = [Fin 10, Fin 10, Fin 10],
     inv_r_j = [Fin 2, Fin 1, Fin (1/2)], inv_t_shl = [Fin 4, Fin 5, Fin 6]\<rparr>"

section \<open>The two variants share the mass rate\<close>

lemma radial_fdiff_ver1: "radial_fdiff r1 r2 p node 1 flag = shell_rate p r1 r2 node"
  by (simp add: radial_fdiff_def shell_rate_def)

lemma radial_fdiff_ver2:
  "radial_fdiff r1 r2 p node 2 flag =
     mulE (mulE (shell_rate p r1 r2 node) (powE (idxE (getp p ''1/r_j'') node) 2))
       (idxE (getp p ''1/t_shl'') node)"
  by (simp add: radial_fdiff_def shell_rate_def)

lemma radial_fdiff_other:
  "ver \<noteq> 1 \<Longrightarrow> ver \<noteq> 2 \<Longrightarrow> radial_fdiff r1 r2 p node ver flag = Inl (UnboundLocalError ''drho_dt'')"
  by (simp add: radial_fdiff_def)

lemmas radial_fdiff_vers = radial_fdiff_ver1 radial_fdiff_ver2 radial_fdiff_other

lemma radial_fdiff_cases:
  obtains (core_shell) "ver = 1" | (flooded) "ver = 2" | (unbound) "ver \<noteq> 1" "ver \<noteq> 2"
  by blast

section \<open>Subscripts of the typed parameters\<close>

lemma has_shell_params_getp [simp]:
  assumes "has_shell_params p q"
  shows "getp p ''D_eff_naf'' = Inr (Scalar (D_eff_naf q))"
    and "getp p ''p_eff_SAnaf'' = Inr (Scalar (p_eff_SAnaf q))"
    and "getp p ''eps/tau2_n2'' = Inr (Scalar (eps_tau2_n2 q))"
    and "getp p ''r_jph'' = Inr (Vec (r_jph q))"
    and "getp p ''1/dr'' = Inr (Vec (inv_dr q))"
    and "getp p ''1/r_j'' = Inr (Vec (inv_r_j q))"
    and "getp p ''1/t_shl'' = Inr (Vec (inv_t_shl q))"
  using assms by (simp_all add: has_shell_params_def)

lemma py_index_norm_node:
  "node_in_range (length xs) node \<Longrightarrow>
   py_index (Vec xs) node = Inr (Scalar (xs ! norm_node (length xs) node))"
  by (simp add: node_in_range_def norm_node_def py_index_def)

lemma py_index_not_in_range:
  "\<not> node_in_range (length xs) node \<Longrightarrow> py_index (Vec xs) node = Inl IndexError"
  by (auto simp: node_in_range_def py_index_def Let_def)

lemma norm_node_less: "node_in_range n node \<Longrightarrow> norm_node n node < n"
  by (auto simp: node_in_range_def norm_node_def)

lemma norm_node_nonneg [simp]: "0 \<le> node \<Longrightarrow> norm_node n node = nat node"
  by (simp add: norm_node_def)

lemma norm_node_wrap:
  "node_in_range n node \<Longrightarrow> node < 0 \<Longrightarrow> norm_node n (node + int n) = norm_node n node"
  by (simp add: norm_node_def node_in_range_def)

lemma node_in_range_wrap:
  "node < 0 \<Longrightarrow> node_in_range n node \<Longrightarrow> node_in_range n (node + int n)"
  by (simp add: node_in_range_def)

lemma n_shells_lengths:
  assumes "n_shells q n"
  shows "length (r_jph q) = n" "length (inv_dr q) = n" "length (inv_r_j q) = n"
    "length (inv_t_shl q) = n"
  using assms by (simp_all add: n_shells_def)

section \<open>The kernel refines the closed form\<close>

lemma mass_rate_fun:
  "mass_rate q j =
     (\<lambda>d. D_eff_naf q * p_eff_SAnaf q * eps_tau2_n2 q *
        (r_jph q ! j * r_jph q ! j * d * inv_dr q ! j))"
  by (simp add: fun_eq_iff mass_rate_def pyfloat_power2)

lemma rate_k_fun:
  "rate_k q j 1 = mass_rate q j"
  "rate_k q j 2 = (\<lambda>d. mass_rate q j d * (inv_r_j q ! j * inv_r_j q ! j) * inv_t_shl q ! j)"
  by (simp_all add: fun_eq_iff rate_k_def pyfloat_power2)

lemma shell_rate_typed:
  assumes "has_shell_params p q" "n_shells q n" "node_in_range n node"
  shows "shell_rate p r1 r2 node =
    map_res (np_map (mass_rate q (norm_node n node))) (np_sub r1 r2)"
  using assms
  by (cases "np_sub r1 r2")
    (simp_all add: shell_rate_def n_shells_lengths py_index_norm_node mulE_Scalar_left
      mulE_Scalar_right np_map_np_map mass_rate_fun pyfloat_power2 del: np_sub_simps)

lemma radial_fdiff_typed:
  assumes "has_shell_params p q" "n_shells q n" "node_in_range n node" "ver = 1 \<or> ver = 2"
  shows "radial_fdiff r1 r2 p node ver flag =
    map_res (np_map (rate_k q (norm_node n node) ver)) (np_sub r1 r2)"
  using assms(4)
proof
  assume "ver = 1"
  then show ?thesis
    by (simp add: radial_fdiff_ver1 shell_rate_typed [OF assms(1-3)] rate_k_fun)
next
  assume "ver = 2"
  then show ?thesis
    using assms(1-3)
    by (simp add: radial_fdiff_ver2 shell_rate_typed [OF assms(1-3)] rate_k_fun
        n_shells_lengths py_index_norm_node mulE_Scalar_right map_res_np_map_np_map
        pyfloat_power2)
qed

lemma np_map_rate_k_sub:
  "length xs = length ys \<Longrightarrow>
   map_res (np_map (rate_k q j ver)) (np_sub (Vec xs) (Vec ys)) =
     Inr (Vec (radial_spec q j ver xs ys))"
  by (auto simp: radial_spec_def)

lemma length_radial_spec [simp]:
  "length (radial_spec q j ver xs ys) = min (length xs) (length ys)"
  by (simp add: radial_spec_def)

lemma nth_radial_spec:
  "k < length xs \<Longrightarrow> k < length ys \<Longrightarrow>
   radial_spec q j ver xs ys ! k = rate_k q j ver (xs ! k - ys ! k)"
  by (simp add: radial_spec_def)

section \<open>Swapping the two shells\<close>

lemma shell_rate_swap: "shell_rate p r2 r1 node = negE (shell_rate p r1 r2 node)"
  by (simp only: shell_rate_def subE_swap_values [where x = r1 and y = r2] mulE_negE_left
      mulE_negE_right)

section \<open>Signs and zeros of the closed form\<close>

lemma shell_fin_nth:
  assumes "shell_fin q" "n_shells q n" "j < n"
  shows "is_fin (D_eff_naf q)" "is_fin (p_eff_SAnaf q)" "is_fin (eps_tau2_n2 q)"
    "is_fin (r_jph q ! j)" "is_fin (inv_dr q ! j)" "is_fin (inv_r_j q ! j)"
    "is_fin (inv_t_shl q ! j)"
  using assms by (simp_all add: shell_fin_def n_shells_def list_all_length)

lemma shell_pos_nth:
  assumes "shell_pos q" "n_shells q n" "j < n"
  shows "is_pos (D_eff_naf q)" "is_pos (p_eff_SAnaf q)" "is_pos (eps_tau2_n2 q)"
    "is_pos (r_jph q ! j)" "is_pos (inv_dr q ! j)" "is_pos (inv_r_j q ! j)"
    "is_pos (inv_t_shl q ! j)"
  using assms by (simp_all add: shell_pos_def n_shells_def list_all_length)

lemma rate_k_unfold:
  "ver = 1 \<or> ver = 2 \<Longrightarrow>
   rate_k q j ver d =
     (if ver = 1 then D_eff_naf q * p_eff_SAnaf q * eps_tau2_n2 q *
          (r_jph q ! j * r_jph q ! j * d * inv_dr q ! j)
      else D_eff_naf q * p_eff_SAnaf q * eps_tau2_n2 q *
          (r_jph q ! j * r_jph q ! j * d * inv_dr q ! j) *
          (inv_r_j q ! j * inv_r_j q ! j) * inv_t_shl q ! j)"
  by (auto simp: rate_k_fun mass_rate_fun)

lemma rate_k_zero:
  assumes "shell_fin q" "n_shells q n" "j < n" "ver = 1 \<or> ver = 2" "is_fin x"
  shows "rate_k q j ver (x - x) = Fin 0"
proof -
  note fin = shell_fin_nth [OF assms(1-3)]
  from fin assms(5) obtain D a e r dr rj t v where
    "D_eff_naf q = Fin D" "p_eff_SAnaf q = Fin a" "eps_tau2_n2 q = Fin e"
    "r_jph q ! j = Fin r" "inv_dr q ! j = Fin dr" "inv_r_j q ! j = Fin rj"
    "inv_t_shl q ! j = Fin t" "x = Fin v"
    unfolding is_fin_conv by blast
  then show ?thesis
    using assms(4) by (auto simp: rate_k_unfold)
qed

lemma rate_k_pos:
  assumes "shell_pos q" "n_shells q n" "j < n" "ver = 1 \<or> ver = 2" "is_pos d"
  shows "is_pos (rate_k q j ver d)"
  using shell_pos_nth [OF assms(1-3)] assms(4,5)
  by (auto simp: rate_k_unfold intro!: sign_intros)

section \<open>The exceptions of the expression\<close>

lemma radial_errors_simps [simp]:
  "ValueError \<in> radial_errors" "TypeError \<in> radial_errors" "IndexError \<in> radial_errors"
  "UnboundLocalError ''drho_dt'' \<in> radial_errors"
  "KeyError ''D_eff_naf'' \<in> radial_errors" "KeyError ''p_eff_SAnaf'' \<in> radial_errors"
  "KeyError ''eps/tau2_n2'' \<in> radial_errors" "KeyError ''r_jph'' \<in> radial_errors"
  "KeyError ''1/dr'' \<in> radial_errors" "KeyError ''1/r_j'' \<in> radial_errors"
  "KeyError ''1/t_shl'' \<in> radial_errors"
  by (simp_all add: radial_errors_def shell_keys_def)

lemma raises_only_shell_rate: "raises_only radial_errors (shell_rate p r1 r2 node)"
  unfolding shell_rate_def by (intro raise_intros) simp_all

section \<open>Facts about the concrete parameter set\<close>

lemma has_shell_params_shell_dict [simp]: "has_shell_params (shell_dict q) q"
  by (simp add: has_shell_params_def shell_dict_def)

lemma demo_shell_simps [simp]:
  "n_shells demo_shell 3" "shell_fin demo_shell" "shell_pos demo_shell"
  by (simp_all add: n_shells_def shell_fin_def shell_pos_def demo_shell_def)

lemma demo_node [simp]:
  "node_in_range 3 1" "node_in_range 3 (- 2)" "\<not> node_in_range 3 3"
  "norm_node 3 1 = 1" "norm_node 3 (- 2) = 1"
  by (simp_all add: node_in_range_def norm_node_def)

lemma demo_radial_spec:
  "radial_spec demo_shell (Suc 0) 1 [Fin 3, Fin 5] [Fin 1, Fin 4] = [Fin 2, Fin 1]"
  "radial_spec demo_shell (Suc 0) 2 [Fin 3, Fin 5] [Fin 1, Fin 4] = [Fin 10, Fin 5]"
  "shell_factor demo_shell (Suc 0) = Fin 5"
  by (simp_all add: radial_spec_def rate_k_def mass_rate_def shell_factor_def demo_shell_def
      pyfloat_power2)

lemma demo_rate_k:
  "rate_k demo_shell (Suc 0) 1 (Fin d) = Fin d"
  "rate_k demo_shell (Suc 0) 2 (Fin d) = Fin (5 * d)"
  by (simp_all add: rate_k_def mass_rate_def demo_shell_def pyfloat_power2)

lemma demo_core_shell:
  "radial_fdiff (Vec [Fin 3, Fin 5]) (Vec [Fin 1, Fin 4]) (shell_dict demo_shell) 1 1 flag =
     Inr (Vec [Fin 2, Fin 1])"
  using demo_radial_spec(1)
  by (simp add: radial_fdiff_typed [where q = demo_shell and n = 3] radial_spec_def)

section \<open>Properties of the kernel\<close>

text \<open>
  C2 (functional refinement). With the three coefficients and the four node arrays in the
  dictionary, all arrays of the length \<open>n\<close>, a node index that Python accepts for that
  length and one of the two variants, \<open>radial_fdiff\<close> on two species vectors of equal
  length returns the closed-form rate at the selected node, one component per species.
\<close>

theorem radial_fdiff_closed_form:
  assumes "has_shell_params p q" "n_shells q n" "node_in_range n node" "ver = 1 \<or> ver = 2"
    and "length xs = length ys"
  shows "radial_fdiff (Vec xs) (Vec ys) p node ver flag =
    Inr (Vec (radial_spec q (norm_node n node) ver xs ys))"
  by (simp only: radial_fdiff_typed [OF assms(1-4)] np_map_rate_k_sub [OF assms(5)])

theorem radial_fdiff_closed_form_witness:
  "radial_fdiff (Vec [Fin 3, Fin 5]) (Vec [Fin 1, Fin 4]) (shell_dict demo_shell) 1 1 () =
     Inr (Vec [Fin 2, Fin 1]) \<and>
   radial_fdiff (Vec [Fin 3, Fin 5]) (Vec [Fin 1, Fin 4]) (shell_dict demo_shell) 1 2 () =
     Inr (Vec [Fin 10, Fin 5])"
  using radial_fdiff_closed_form [of "shell_dict demo_shell" demo_shell 3 1 1
      "[Fin 3, Fin 5]" "[Fin 1, Fin 4]" "()"]
    radial_fdiff_closed_form [of "shell_dict demo_shell" demo_shell 3 1 2
      "[Fin 3, Fin 5]" "[Fin 1, Fin 4]" "()"]
  by (simp add: demo_radial_spec)

text \<open>
  Antisymmetry in exact arithmetic. Swapping the two density arguments negates the outcome of
  \<open>radial_fdiff\<close>, for every dictionary, node and variant; a call that raises keeps
  raising the same exception.
\<close>

theorem radial_fdiff_antisymmetric:
  "radial_fdiff r2 r1 p node ver flag = negE (radial_fdiff r1 r2 p node ver flag)"
proof (cases ver rule: radial_fdiff_cases)
  case core_shell
  then show ?thesis by (simp add: radial_fdiff_ver1 shell_rate_swap [of p r2 r1])
next
  case flooded
  then show ?thesis
    by (simp add: radial_fdiff_ver2 shell_rate_swap [of p r2 r1] mulE_negE_left)
next
  case unbound
  then show ?thesis by (simp add: radial_fdiff_other)
qed

text \<open>
  C7 (unknown variant). A variant selector other than 1 and 2 makes \<open>radial_fdiff\<close> raise
  \<open>UnboundLocalError\<close> for the local variable \<open>drho_dt\<close> at its \<open>return\<close> statement: no
  branch has assigned it. The dictionary is not read, so no other exception can come
  first, and no value is returned.
\<close>

theorem radial_fdiff_invalid_variant:
  assumes "ver \<noteq> 1" "ver \<noteq> 2"
  shows "radial_fdiff r1 r2 p node ver flag = Inl (UnboundLocalError ''drho_dt'')"
  using assms by (rule radial_fdiff_other)

theorem radial_fdiff_invalid_variant_witness:
  "radial_fdiff (Vec [Fin 1]) (Vec [Fin 2]) Map.empty 0 3 () = Inl (UnboundLocalError ''drho_dt'')"
  using radial_fdiff_invalid_variant [of 3 "Vec [Fin 1]" "Vec [Fin 2]" Map.empty 0 "()"]
  by simp

text \<open>
  C13 (node out of range). With typed parameters whose arrays have the length \<open>n\<close>, a node
  index outside \<open>-n \<le> node < n\<close> makes either variant raise \<open>IndexError\<close>, whatever the two
  density arguments are: the subscript of \<open>r_jph\<close> is evaluated before the difference of
  the densities.
\<close>

theorem radial_fdiff_index_error:
  assumes "has_shell_params p q" "n_shells q n" "\<not> node_in_range n node" "ver = 1 \<or> ver = 2"
  shows "radial_fdiff r1 r2 p node ver flag = Inl IndexError"
  using assms
  by (auto simp: radial_fdiff_ver1 radial_fdiff_ver2 shell_rate_def n_shells_lengths
      py_index_not_in_range)

theorem radial_fdiff_index_error_witness:
  "radial_fdiff (Vec [Fin 3, Fin 5]) (Scalar NaN) (shell_dict demo_shell) 3 2 () = Inl IndexError"
  using radial_fdiff_index_error [of "shell_dict demo_shell" demo_shell 3 3 2
      "Vec [Fin 3, Fin 5]" "Scalar NaN" "()"]
  by simp

text \<open>
  C14 (negative node). A negative node index that Python accepts is not refused: with
  typed parameters whose arrays have the length \<open>n\<close> and \<open>-n \<le> node < 0\<close>, the call is the
  call at the node \<open>node + n\<close>, counted from the end of the arrays.
\<close>

theorem radial_fdiff_negative_node:
  assumes "has_shell_params p q" "n_shells q n" "node_in_range n node" "node < 0"
  shows "radial_fdiff r1 r2 p node ver flag = radial_fdiff r1 r2 p (node + int n) ver flag"
proof (cases ver rule: radial_fdiff_cases)
  case unbound
  then show ?thesis by (simp add: radial_fdiff_other)
qed (simp_all add: radial_fdiff_typed [OF assms(1,2)] assms node_in_range_wrap norm_node_wrap)

theorem radial_fdiff_negative_node_witness:
  "radial_fdiff (Vec [Fin 3, Fin 5]) (Vec [Fin 1, Fin 4]) (shell_dict demo_shell) (- 2) 1 () =
     Inr (Vec [Fin 2, Fin 1])"
  using radial_fdiff_negative_node [of "shell_dict demo_shell" demo_shell 3 "- 2"
      "Vec [Fin 3, Fin 5]" "Vec [Fin 1, Fin 4]" 1 "()"]
  by (simp add: demo_core_shell)

text \<open>
  C18 (both area factors are required). Each variant reads \<open>p_eff_SAnaf\<close> and then
  \<open>eps/tau2_n2\<close>: with \<open>D_eff_naf\<close> present, a dictionary without \<open>p_eff_SAnaf\<close> raises
  \<open>KeyError\<close> for it, and one with a scalar \<open>p_eff_SAnaf\<close> but without \<open>eps/tau2_n2\<close> raises
  \<open>KeyError\<close> for that key, in variant 1 as in variant 2.
\<close>

theorem radial_fdiff_missing_key:
  assumes "ver = 1 \<or> ver = 2" "p ''D_eff_naf'' = Some (Scalar D)"
  shows "(p ''p_eff_SAnaf'' = None \<longrightarrow>
      radial_fdiff r1 r2 p node ver flag = Inl (KeyError ''p_eff_SAnaf'')) \<and>
    (p ''p_eff_SAnaf'' = Some (Scalar a) \<and> p ''eps/tau2_n2'' = None \<longrightarrow>
      radial_fdiff r1 r2 p node ver flag = Inl (KeyError ''eps/tau2_n2''))"
  using assms by (auto simp: radial_fdiff_ver1 radial_fdiff_ver2 shell_rate_def)

theorem radial_fdiff_missing_key_witness:
  "radial_fdiff (Vec [Fin 1]) (Vec [Fin 2])
     (map_of [(''D_eff_naf'', Scalar (Fin 1)), (''p_eff_SAnaf'', Scalar (Fin 1)),
        (''r_jph'', Vec [Fin 1]), (''1/dr'', Vec [Fin 1])]) 0 1 () =
   Inl (KeyError ''eps/tau2_n2'')"
  using radial_fdiff_missing_key [where ver = 1 and D = "Fin 1" and a = "Fin 1" and node = 0
      and ?r1.0 = "Vec [Fin 1]" and ?r2.0 = "Vec [Fin 2]" and flag = "()" and p =
      "map_of [(''D_eff_naf'', Scalar (Fin 1)), (''p_eff_SAnaf'', Scalar (Fin 1)),
        (''r_jph'', Vec [Fin 1]), (''1/dr'', Vec [Fin 1])]"]
  by simp

text \<open>
  Zero gradient. With finite typed parameters and a node in range, equal finite
  densities in the two shells give a rate of exactly zero for every species, in both
  variants.
\<close>

theorem radial_fdiff_zero_gradient:
  assumes "has_shell_params p q" "n_shells q n" "node_in_range n node" "ver = 1 \<or> ver = 2"
    and "shell_fin q" "list_all is_fin xs"
  shows "radial_fdiff (Vec xs) (Vec xs) p node ver flag = Inr (Vec (replicate (length xs) (Fin 0)))"
proof -
  have "rate_k q (norm_node n node) ver (x - x) = Fin 0" if "x \<in> set xs" for x
    using that assms(6) rate_k_zero [OF assms(5,2) norm_node_less [OF assms(3)] assms(4)]
    by (simp add: list_all_iff)
  then show ?thesis
    by (simp add: radial_fdiff_typed [OF assms(1-4)] map2_same map_replicate_const [symmetric])
qed

theorem radial_fdiff_zero_gradient_witness:
  "radial_fdiff (Vec [Fin 3, Fin 5]) (Vec [Fin 3, Fin 5]) (shell_dict demo_shell) 1 2 () =
     Inr (Vec [Fin 0, Fin 0])"
  using radial_fdiff_zero_gradient [of "shell_dict demo_shell" demo_shell 3 1 2 "[Fin 3, Fin 5]" "()"]
  by (simp add: numeral_2_eq_2)

text \<open>
  C20 (sign convention). With positive typed parameters and a node in range, if every
  species has a larger density in the outer shell (the first argument) than in the inner
  one, every component of the rate is positive: a positive rate is a net flux from the
  outer node into the inner node.
\<close>

theorem radial_fdiff_sign_convention:
  assumes "has_shell_params p q" "n_shells q n" "node_in_range n node" "ver = 1 \<or> ver = 2"
    and "shell_pos q" "length xs = length ys"
    and "\<forall>k<length xs. is_pos (xs ! k - ys ! k)"
  shows "\<exists>zs. radial_fdiff (Vec xs) (Vec ys) p node ver flag = Inr (Vec zs) \<and>
    length zs = length xs \<and> list_all is_pos zs"
proof -
  have "list_all is_pos (radial_spec q (norm_node n node) ver xs ys)"
    using assms(6,7) rate_k_pos [OF assms(5,2) norm_node_less [OF assms(3)] assms(4)]
    by (simp add: list_all_length nth_radial_spec)
  then show ?thesis
    using assms(6)
    by (simp add: radial_fdiff_typed [OF assms(1-4)] np_map_rate_k_sub [OF assms(6)]
        del: np_sub_simps)
qed

theorem radial_fdiff_sign_convention_witness:
  "\<exists>zs. radial_fdiff (Vec [Fin 3, Fin 5]) (Vec [Fin 1, Fin 4]) (shell_dict demo_shell) 1 2 () =
     Inr (Vec zs) \<and> length zs = 2 \<and> list_all is_pos zs"
  using radial_fdiff_sign_convention [of "shell_dict demo_shell" demo_shell 3 1 2
      "[Fin 3, Fin 5]" "[Fin 1, Fin 4]" "()"]
  by (simp add: less_Suc_eq numeral_2_eq_2)

text \<open>
  C19 (scalars, broadcasting and shape errors). For arbitrary density arguments, with
  typed parameters, a node in range and a variant 1 or 2, the outcome of \<open>radial_fdiff\<close>
  is the outcome of the NumPy subtraction of the two arguments with the closed-form
  rate applied to every element: a scalar for two scalars, a broadcast array for a
  scalar and an array, and \<open>ValueError\<close> exactly when the subtraction raises it.
\<close>

theorem radial_fdiff_broadcast:
  assumes "has_shell_params p q" "n_shells q n" "node_in_range n node" "ver = 1 \<or> ver = 2"
  shows "radial_fdiff r1 r2 p node ver flag =
      map_res (np_map (rate_k q (norm_node n node) ver)) (np_sub r1 r2) \<and>
    (raises (radial_fdiff r1 r2 p node ver flag) \<longleftrightarrow>
      radial_fdiff r1 r2 p node ver flag = Inl ValueError)"
  using np_error_ValueError(3) [of r1 r2]
  by (cases "np_sub r1 r2") (auto simp: radial_fdiff_typed [OF assms] simp del: np_sub_simps)

theorem radial_fdiff_broadcast_witness:
  "radial_fdiff (Scalar (Fin 3)) (Vec [Fin 1, Fin 2]) (shell_dict demo_shell) 1 1 () =
     Inr (Vec [Fin 2, Fin 1]) \<and>
   radial_fdiff (Vec [Fin 3, Fin 5]) (Vec [Fin 1, Fin 4, Fin 2]) (shell_dict demo_shell) 1 1 () =
     Inl ValueError"
  using radial_fdiff_broadcast [of "shell_dict demo_shell" demo_shell 3 1 1
      "Scalar (Fin 3)" "Vec [Fin 1, Fin 2]" "()"]
    radial_fdiff_broadcast [of "shell_dict demo_shell" demo_shell 3 1 1
      "Vec [Fin 3, Fin 5]" "Vec [Fin 1, Fin 4, Fin 2]" "()"]
  by (simp add: demo_rate_k np_sub_def)

text \<open>
  What variant 1 reads. Variant 1 does not depend on the entries \<open>1/r_j\<close> and
  \<open>1/t_shl\<close> of the dictionary: changing or removing them leaves its outcome unchanged.
\<close>

theorem radial_fdiff_core_shell_frame:
  "radial_fdiff r1 r2 (p(''1/r_j'' := x, ''1/t_shl'' := y)) node 1 flag =
   radial_fdiff r1 r2 p node 1 flag"
  by (simp add: radial_fdiff_ver1 shell_rate_def getp_def)

text \<open>
  The exceptions of the radial kernel in exact arithmetic. Whatever its arguments are, \<open>radial_fdiff\<close>
  raises nothing but \<open>KeyError\<close> for one of its seven keys, \<open>TypeError\<close> or \<open>IndexError\<close>
  from a subscript by the node, \<open>ValueError\<close> from operands that do not broadcast, and
  \<open>UnboundLocalError\<close> for \<open>drho_dt\<close>; in particular it never divides by zero.
\<close>

theorem radial_fdiff_exceptions:
  "raises_only radial_errors (radial_fdiff r1 r2 p node ver flag)"
proof (cases ver rule: radial_fdiff_cases)
  case core_shell
  then show ?thesis by (simp add: radial_fdiff_ver1 raises_only_shell_rate)
next
  case flooded
  then show ?thesis
    unfolding \<open>ver = 2\<close> radial_fdiff_ver2
    by (intro raise_intros raises_only_shell_rate) simp_all
next
  case unbound
  then show ?thesis by (simp add: radial_fdiff_other)
qed

end
