(* ===== verification/Sharing.thy ===== *)
theory Sharing
  imports Fickian
begin

text \<open>
  Calls of \<^verbatim>\<open>fickian_adf\<close> that share one provider. A call touches the provider twelve
  times: it assigns the state of node 1, reads five attributes, assigns the state of
  node 2 and reads the five attributes again; everything else is arithmetic on its own
  local variables. The theory gives this sequence of operations, a thread that executes
  it one operation at a time, and systems of threads that run under a schedule, either
  on one shared provider or each on a provider of its own. It proves that a thread run
  alone is the kernel, that calls run one after the other are the calls in sequence,
  that each thread with a provider of its own gets the result of its call under every
  schedule, that two calls interleaved on one provider can return a flux that neither
  call returns alone, and that a call on a shared provider returns its own result when
  each of its two blocks of six operations runs without interruption.
\<close>

section \<open>The provider operations of one call\<close>

datatype node = Node1 | Node2

datatype attr = Attr_D | Attr_rho | Attr_mu | Attr_P | Attr_Y

datatype gas_op = Assign tdy | Read attr node

definition adf_ops :: "tdy \<Rightarrow> tdy \<Rightarrow> gas_op list" where
  "adf_ops TDY1 TDY2 =
     [Assign TDY1, Read Attr_D Node1, Read Attr_rho Node1, Read Attr_mu Node1,
      Read Attr_P Node1, Read Attr_Y Node1,
      Assign TDY2, Read Attr_D Node2, Read Attr_rho Node2, Read Attr_mu Node2,
      Read Attr_P Node2, Read Attr_Y Node2]"

record thread =
  pc :: "gas_op list"
  node1 :: snapshot
  node2 :: snapshot
  raised :: "pyerr option"

primrec store :: "'g gas_ops \<Rightarrow> 'g \<Rightarrow> attr \<Rightarrow> snapshot \<Rightarrow> snapshot" where
  "store gas g Attr_D s = s\<lparr>snap_D_k := mix_diff_coeffs_mass gas g\<rparr>"
| "store gas g Attr_rho s = s\<lparr>snap_rho := density_mass gas g\<rparr>"
| "store gas g Attr_mu s = s\<lparr>snap_mu := viscosity gas g\<rparr>"
| "store gas g Attr_P s = s\<lparr>snap_P := gas_P gas g\<rparr>"
| "store gas g Attr_Y s = s\<lparr>snap_Y := gas_Y gas g\<rparr>"

fun exec_op :: "'g gas_ops \<Rightarrow> gas_op \<Rightarrow> 'g \<times> thread \<Rightarrow> 'g \<times> thread" where
  "exec_op gas (Assign t) (g, th) =
     (case set_TDY gas t g of
        Inl e \<Rightarrow> (g, th\<lparr>pc := [], raised := Some e\<rparr>)
      | Inr g' \<Rightarrow> (g', th))"
| "exec_op gas (Read a Node1) (g, th) = (g, th\<lparr>node1 := store gas g a (node1 th)\<rparr>)"
| "exec_op gas (Read a Node2) (g, th) = (g, th\<lparr>node2 := store gas g a (node2 th)\<rparr>)"

definition thread_step :: "'g gas_ops \<Rightarrow> 'g \<times> thread \<Rightarrow> 'g \<times> thread" where
  "thread_step gas = (\<lambda>(g, th).
     case pc th of [] \<Rightarrow> (g, th) | op # ops \<Rightarrow> exec_op gas op (g, th\<lparr>pc := ops\<rparr>))"

definition run_thread :: "'g gas_ops \<Rightarrow> nat \<Rightarrow> 'g \<times> thread \<Rightarrow> 'g \<times> thread" where
  "run_thread gas n = thread_step gas ^^ n"

definition blank :: snapshot where
  "blank = \<lparr>snap_D_k = [], snap_rho = NaN, snap_mu = NaN, snap_P = NaN, snap_Y = []\<rparr>"

definition spawn :: "tdy \<Rightarrow> tdy \<Rightarrow> thread" where
  "spawn TDY1 TDY2 = \<lparr>pc = adf_ops TDY1 TDY2, node1 = blank, node2 = blank, raised = None\<rparr>"

definition outcome :: "pdict \<Rightarrow> pyval \<Rightarrow> thread \<Rightarrow> pyval res" where
  "outcome p tog th =
     (case raised th of Some e \<Rightarrow> Inl e | None \<Rightarrow> adf_pure p (node1 th) (node2 th) tog)"

section \<open>Threads under a schedule\<close>

type_synonym 'g shared = "'g \<times> thread list"

type_synonym 'g owned = "'g list \<times> thread list"

definition shared_step :: "'g gas_ops \<Rightarrow> nat \<Rightarrow> 'g shared \<Rightarrow> 'g shared" where
  "shared_step gas i = (\<lambda>(g, ts).
     if i < length ts
     then (case thread_step gas (g, ts ! i) of (g', th) \<Rightarrow> (g', ts[i := th]))
     else (g, ts))"

definition run_shared :: "'g gas_ops \<Rightarrow> nat list \<Rightarrow> 'g shared \<Rightarrow> 'g shared" where
  "run_shared gas sched = fold (shared_step gas) sched"

definition owned_step :: "'g gas_ops \<Rightarrow> nat \<Rightarrow> 'g owned \<Rightarrow> 'g owned" where
  "owned_step gas i = (\<lambda>(gs, ts).
     if i < length ts \<and> i < length gs
     then (case thread_step gas (gs ! i, ts ! i) of (g', th) \<Rightarrow> (gs[i := g'], ts[i := th]))
     else (gs, ts))"

definition run_owned :: "'g gas_ops \<Rightarrow> nat list \<Rightarrow> 'g owned \<Rightarrow> 'g owned" where
  "run_owned gas sched = fold (owned_step gas) sched"

section \<open>One thread alone\<close>

lemma thread_step_Nil [simp]: "pc th = [] \<Longrightarrow> thread_step gas (g, th) = (g, th)"
  by (simp add: thread_step_def)

lemma thread_step_Cons:
  "pc th = op # ops \<Longrightarrow> thread_step gas (g, th) = exec_op gas op (g, th\<lparr>pc := ops\<rparr>)"
  by (simp add: thread_step_def)

lemma run_thread_0 [simp]: "run_thread gas 0 c = c"
  by (simp add: run_thread_def)

lemma run_thread_Suc: "run_thread gas (Suc n) c = run_thread gas n (thread_step gas c)"
  by (simp add: run_thread_def funpow_swap1)

lemma run_thread_add: "run_thread gas (m + n) c = run_thread gas n (run_thread gas m c)"
  by (simp add: run_thread_def funpow_add add.commute [of m n])

lemma run_thread_finished [simp]: "pc th = [] \<Longrightarrow> run_thread gas n (g, th) = (g, th)"
  by (induction n) (simp_all add: run_thread_Suc)

lemma run_thread_Cons:
  "pc th = op # ops \<Longrightarrow>
   run_thread gas (Suc n) (g, th) = run_thread gas n (exec_op gas op (g, th\<lparr>pc := ops\<rparr>))"
  by (simp add: run_thread_Suc thread_step_Cons)

lemma run_call:
  "run_thread gas 12 (g, spawn TDY1 TDY2) =
     (case set_TDY gas TDY1 g of
        Inl e \<Rightarrow> (g, \<lparr>pc = [], node1 = blank, node2 = blank, raised = Some e\<rparr>)
      | Inr g1 \<Rightarrow>
          (case set_TDY gas TDY2 g1 of
             Inl e \<Rightarrow>
               (g1, \<lparr>pc = [], node1 = properties_at gas g1, node2 = blank, raised = Some e\<rparr>)
           | Inr g2 \<Rightarrow>
               (g2, \<lparr>pc = [], node1 = properties_at gas g1, node2 = properties_at gas g2,
                  raised = None\<rparr>)))"
proof -
  have twelve: "12 = Suc (Suc (Suc (Suc (Suc (Suc (Suc (Suc (Suc (Suc (Suc (Suc 0)))))))))))"
    by simp
  show ?thesis
    unfolding twelve
    by (simp add: spawn_def adf_ops_def run_thread_Cons blank_def properties_at_def
        split: sum.splits)
qed

lemma finished_run_call [simp]: "pc (snd (run_thread gas 12 (g, spawn TDY1 TDY2))) = []"
  by (simp add: run_call split: sum.splits)

lemma provider_run_call:
  "fst (run_thread gas 12 (g, spawn TDY1 TDY2)) = snd (fickian_adf TDY1 TDY2 gas p tog g)"
  by (simp add: run_call fickian_adf_factor split: sum.splits)


lemma outcome_run_call:
  "outcome p tog (snd (run_thread gas 12 (g, spawn TDY1 TDY2))) =
     fst (fickian_adf TDY1 TDY2 gas p tog g)"
  by (simp add: run_call fickian_adf_factor outcome_def split: sum.splits)

lemma run_thread_beyond:
  assumes "12 \<le> n"
  shows "run_thread gas n (g, spawn TDY1 TDY2) = run_thread gas 12 (g, spawn TDY1 TDY2)"
proof -
  obtain m where n: "n = 12 + m"
    using assms by (auto simp: le_iff_add)
  obtain g' th where r: "run_thread gas 12 (g, spawn TDY1 TDY2) = (g', th)"
    by (cases "run_thread gas 12 (g, spawn TDY1 TDY2)")
  moreover from r have "pc th = []"
    using finished_run_call [of gas g TDY1 TDY2] by simp
  ultimately show ?thesis
    unfolding n run_thread_add by simp
qed

section \<open>Threads in a system\<close>

lemma run_shared_simps [simp]:
  "run_shared gas [] c = c"
  "run_shared gas (i # sched) c = run_shared gas sched (shared_step gas i c)"
  "run_shared gas (xs @ ys) c = run_shared gas ys (run_shared gas xs c)"
  by (simp_all add: run_shared_def)

lemma run_owned_simps [simp]:
  "run_owned gas [] c = c"
  "run_owned gas (i # sched) c = run_owned gas sched (owned_step gas i c)"
  by (simp_all add: run_owned_def)

lemma shared_step_nth:
  "i < length ts \<Longrightarrow>
   shared_step gas i (g, ts) =
     (fst (thread_step gas (g, ts ! i)), ts[i := snd (thread_step gas (g, ts ! i))])"
  by (simp add: shared_step_def split: prod.splits)

lemma length_shared_step [simp]: "length (snd (shared_step gas i c)) = length (snd c)"
  by (cases c) (simp add: shared_step_def split: prod.splits)

lemma run_shared_replicate:
  "i < length ts \<Longrightarrow>
   run_shared gas (replicate k i) (g, ts) =
     (fst (run_thread gas k (g, ts ! i)), ts[i := snd (run_thread gas k (g, ts ! i))])"
  by (induction k arbitrary: g ts) (simp_all add: shared_step_nth run_thread_Suc)

lemma owned_step_nth:
  assumes "i < length ts" "length gs = length ts"
  shows "owned_step gas j (gs, ts) = (gs', ts') \<Longrightarrow>
    length gs' = length ts' \<and> length ts' = length ts \<and>
    (gs' ! i, ts' ! i) = (if j = i then thread_step gas (gs ! i, ts ! i) else (gs ! i, ts ! i))"
  using assms by (auto simp: owned_step_def split: prod.splits if_splits)

lemma run_owned_nth:
  assumes "i < length ts" "length gs = length ts" "run_owned gas sched (gs, ts) = (gs', ts')"
  shows "(gs' ! i, ts' ! i) = run_thread gas (count_list sched i) (gs ! i, ts ! i)"
  using assms
proof (induction sched arbitrary: gs ts)
  case Nil
  then show ?case by simp
next
  case (Cons j sched)
  obtain gs1 ts1 where s: "owned_step gas j (gs, ts) = (gs1, ts1)"
    by (cases "owned_step gas j (gs, ts)")
  note n = owned_step_nth [OF Cons.prems(1,2) s]
  have "(gs' ! i, ts' ! i) = run_thread gas (count_list sched i) (gs1 ! i, ts1 ! i)"
    using Cons.prems n s by (intro Cons.IH) simp_all
  then show ?case
    using n by (simp add: run_thread_Suc)
qed

section \<open>A call that another thread interrupts\<close>

lemma store_all:
  "store gas g Attr_Y (store gas g Attr_P (store gas g Attr_mu (store gas g Attr_rho
     (store gas g Attr_D s)))) = properties_at gas g"
  by (cases s) (simp add: properties_at_def)

lemma run_call_tail:
  assumes "pc th = tl (adf_ops TDY1 TDY2)"
  shows "run_thread gas 11 (h, th) =
     (case set_TDY gas TDY2 h of
        Inl e \<Rightarrow> (h, th\<lparr>pc := [], node1 := properties_at gas h, raised := Some e\<rparr>)
      | Inr g2 \<Rightarrow>
          (g2, th\<lparr>pc := [], node1 := properties_at gas h, node2 := properties_at gas g2\<rparr>))"
proof -
  have eleven: "11 = Suc (Suc (Suc (Suc (Suc (Suc (Suc (Suc (Suc (Suc (Suc 0))))))))))"
    by simp
  show ?thesis
    using assms unfolding eleven
    by (simp add: adf_ops_def run_thread_Cons store_all split: sum.splits)
qed

lemma interrupted_call:
  assumes "set_TDY gas A1 g = Inr g1" "set_TDY gas B1 g1 = Inr h1" "set_TDY gas A2 h1 = Inr g2"
  shows "run_shared gas ([0, 1] @ replicate 11 0) (g, [spawn A1 A2, spawn B1 B2]) =
    (g2, [\<lparr>pc = [], node1 = properties_at gas h1, node2 = properties_at gas g2, raised = None\<rparr>,
          \<lparr>pc = tl (adf_ops B1 B2), node1 = blank, node2 = blank, raised = None\<rparr>])"
  using assms
  by (simp add: shared_step_nth thread_step_Cons [where ops = "tl (adf_ops A1 A2)"]
      thread_step_Cons [where ops = "tl (adf_ops B1 B2)"] spawn_def adf_ops_def
      run_shared_replicate run_call_tail [where ?TDY1.0 = A1 and ?TDY2.0 = A2])

section \<open>A call whose blocks of operations are not interrupted\<close>

lemma shared_step_keeps:
  assumes "i < length ts" "j \<noteq> i \<or> pc (ts ! i) = []"
  shows "snd (shared_step gas j (g, ts)) ! i = ts ! i"
proof (cases "j = i")
  case True
  then show ?thesis
    using assms by (simp add: shared_step_nth)
next
  case False
  then show ?thesis
    using assms by (cases "j < length ts") (simp_all add: shared_step_def split: prod.splits)
qed

lemma run_shared_keeps:
  assumes "i < length ts" "i \<notin> set sched \<or> pc (ts ! i) = []"
  shows "snd (run_shared gas sched (g, ts)) ! i = ts ! i \<and>
    length (snd (run_shared gas sched (g, ts))) = length ts"
  using assms
proof (induction sched arbitrary: g ts)
  case Nil
  then show ?case by simp
next
  case (Cons j sched)
  obtain g' ts' where s: "shared_step gas j (g, ts) = (g', ts')"
    by (cases "shared_step gas j (g, ts)")
  have k: "ts' ! i = ts ! i" "length ts' = length ts"
    using shared_step_keeps [OF Cons.prems(1), of j gas g] length_shared_step [of gas j "(g, ts)"]
      Cons.prems(2) s by auto
  then show ?case
    using Cons.IH [of ts' g'] Cons.prems s by auto
qed

lemma first_block:
  assumes "set_TDY gas TDY1 g = Inr a"
  shows "run_thread gas 6 (g, spawn TDY1 TDY2) =
    (a, \<lparr>pc = drop 6 (adf_ops TDY1 TDY2), node1 = properties_at gas a, node2 = blank,
       raised = None\<rparr>)"
proof -
  have six: "6 = Suc (Suc (Suc (Suc (Suc (Suc 0)))))"
    by simp
  show ?thesis
    using assms unfolding six
    by (simp add: spawn_def adf_ops_def run_thread_Cons blank_def properties_at_def)
qed

lemma second_block:
  assumes "set_TDY gas TDY2 g = Inr b" "pc th = drop 6 (adf_ops TDY1 TDY2)"
  shows "run_thread gas 6 (g, th) = (b, th\<lparr>pc := [], node2 := properties_at gas b\<rparr>)"
proof -
  have six: "6 = Suc (Suc (Suc (Suc (Suc (Suc 0)))))"
    by simp
  show ?thesis
    using assms unfolding six
    by (simp add: adf_ops_def run_thread_Cons store_all)
qed

lemma blocks_run:
  assumes "i < length ts" "ts ! i = spawn TDY1 TDY2" "i \<notin> set s1" "i \<notin> set s2"
    and "accepted gas TDY1" "accepted gas TDY2"
  shows "\<exists>g1 g2 a b. set_TDY gas TDY1 g1 = Inr a \<and> set_TDY gas TDY2 g2 = Inr b \<and>
    snd (run_shared gas (s1 @ replicate 6 i @ s2 @ replicate 6 i @ s3) (g, ts)) ! i =
      \<lparr>pc = [], node1 = properties_at gas a, node2 = properties_at gas b, raised = None\<rparr>"
proof -
  obtain g1 ts1 where c1: "run_shared gas s1 (g, ts) = (g1, ts1)"
    by (cases "run_shared gas s1 (g, ts)")
  then have k1: "ts1 ! i = spawn TDY1 TDY2" "i < length ts1"
    using run_shared_keeps [OF assms(1), of s1 gas g] assms(1-3) by simp_all
  obtain a where a: "set_TDY gas TDY1 g1 = Inr a"
    using assms(5) by (rule acceptedE)
  define th where "th = \<lparr>pc = drop 6 (adf_ops TDY1 TDY2), node1 = properties_at gas a,
    node2 = blank, raised = None\<rparr>"
  have c2: "run_shared gas (replicate 6 i) (g1, ts1) = (a, ts1[i := th])"
    by (simp add: run_shared_replicate [OF k1(2)] k1(1) first_block [OF a] th_def
        del: properties_at_simps)
  obtain g2 ts2 where c3: "run_shared gas s2 (a, ts1[i := th]) = (g2, ts2)"
    by (cases "run_shared gas s2 (a, ts1[i := th])")
  then have k2: "ts2 ! i = th" "i < length ts2"
    using run_shared_keeps [of i "ts1[i := th]" s2 gas a] k1(2) assms(4) by simp_all
  obtain b where b: "set_TDY gas TDY2 g2 = Inr b"
    using assms(6) by (rule acceptedE)
  define th' where "th' = th\<lparr>pc := [], node2 := properties_at gas b\<rparr>"
  have "run_thread gas 6 (g2, th) = (b, th')"
    unfolding th'_def by (rule second_block [OF b]) (simp add: th_def)
  then have c4: "run_shared gas (replicate 6 i) (g2, ts2) = (b, ts2[i := th'])"
    by (simp add: run_shared_replicate [OF k2(2)] k2(1))
  have run: "run_shared gas (s1 @ replicate 6 i @ s2 @ replicate 6 i @ s3) (g, ts) =
      run_shared gas s3 (b, ts2[i := th'])"
    by (simp add: c1 c2 c3 c4)
  have fin: "th' = \<lparr>pc = [], node1 = properties_at gas a, node2 = properties_at gas b,
      raised = None\<rparr>"
    by (simp add: th'_def th_def)
  have "snd (run_shared gas s3 (b, ts2[i := th'])) ! i = th'"
    using run_shared_keeps [of i "ts2[i := th']" s3 gas b] k2(2) by (simp add: th'_def)
  then show ?thesis
    using a b unfolding run fin by blast
qed

section \<open>Facts about the concrete threads\<close>

lemma demo_same_state_flux:
  "adf_pure (params_dict demo_q) (properties_at (demo_gas (Fin (1/50000))) demo_T2)
     (properties_at (demo_gas (Fin (1/50000))) demo_T2) (Scalar (Fin 1)) =
   Inr (Vec [Fin 0, Fin 0])"
proof -
  have "flux_spec demo_q (properties_at (demo_gas (Fin (1/50000))) demo_T2)
      (properties_at (demo_gas (Fin (1/50000))) demo_T2) (Fin 1) = [Fin 0, Fin 0]"
    by (simp add: flux_spec_defs demo_defs upt_rec)
  then show ?thesis
    by (simp add: adf_pure_closed_form [where n = 2 and q = demo_q] del: properties_at_simps)
qed

lemma demo_accepted [simp]:
  "accepted (demo_gas mu) demo_T1" "accepted (demo_gas mu) demo_T2"
  by (simp_all add: demo_gas_def)

section \<open>Properties of shared and owned providers\<close>

text \<open>
  C26 (the kernel is its protocol). A thread that starts a call and runs alone for twelve
  steps leaves the provider in the state in which \<open>fickian_adf\<close> leaves it, and the
  arithmetic on the properties it has read, or the exception it has met, is the outcome
  of \<open>fickian_adf\<close>.
\<close>

theorem kernel_is_protocol:
  "outcome p tog (snd (run_thread gas 12 (g, spawn TDY1 TDY2))) =
     fst (fickian_adf TDY1 TDY2 gas p tog g) \<and>
   fst (run_thread gas 12 (g, spawn TDY1 TDY2)) = snd (fickian_adf TDY1 TDY2 gas p tog g)"
  using outcome_run_call [of p tog gas g TDY1 TDY2] provider_run_call [of gas g TDY1 TDY2 p tog]
  by simp



text \<open>
  C28 (an interrupted call). If a second thread assigns its first state between the first
  thread's assignment of node 1 and its reads, the first thread computes its flux from
  the properties of the second thread's state in place of those of node 1.
\<close>

theorem shared_provider_race:
  assumes "set_TDY gas A1 g = Inr g1" "set_TDY gas B1 g1 = Inr h1" "set_TDY gas A2 h1 = Inr g2"
  shows "outcome p tog
      (snd (run_shared gas ([0, 1] @ replicate 11 0) (g, [spawn A1 A2, spawn B1 B2])) ! 0) =
    adf_pure p (properties_at gas h1) (properties_at gas g2) tog"
  by (simp only: interrupted_call [OF assms]) (simp add: outcome_def)

theorem shared_provider_race_witness:
  "outcome (params_dict demo_q) (Scalar (Fin 1))
     (snd (run_shared (demo_gas (Fin (1/50000))) ([0, 1] @ replicate 11 0)
        (demo_T1, [spawn demo_T1 demo_T2, spawn demo_T2 demo_T2])) ! 0) =
     Inr (Vec [Fin 0, Fin 0]) \<and>
   fst (fickian_adf demo_T1 demo_T2 (demo_gas (Fin (1/50000))) (params_dict demo_q)
     (Scalar (Fin 1)) demo_T1) = Inr (Vec [Fin (- (18683 / 64000)), Fin (- (21497 / 64000))])"
  using shared_provider_race [of "demo_gas (Fin (1/50000))" demo_T1 demo_T1 demo_T1 demo_T2
      demo_T2 demo_T2 demo_T2 "params_dict demo_q" "Scalar (Fin 1)" demo_T2]
  by (simp add: demo_same_state_flux demo_run del: run_shared_simps properties_at_simps)

text \<open>
  C29 (a provider per thread). When every thread has a provider of its own, a thread that
  starts a call and is scheduled at least twelve times returns the outcome of its call
  on its provider and leaves that provider as the call leaves it, whatever the schedule
  and the other threads are.
\<close>

theorem own_provider_safe:
  assumes "i < length ts" "length gs = length ts" "ts ! i = spawn TDY1 TDY2"
    and "12 \<le> count_list sched i" "run_owned gas sched (gs, ts) = (gs', ts')"
  shows "outcome p tog (ts' ! i) = fst (fickian_adf TDY1 TDY2 gas p tog (gs ! i)) \<and>
    gs' ! i = snd (fickian_adf TDY1 TDY2 gas p tog (gs ! i))"
proof -
  have eq: "run_thread gas 12 (gs ! i, spawn TDY1 TDY2) = (gs' ! i, ts' ! i)"
    using run_owned_nth [OF assms(1,2,5)] assms(3)
      run_thread_beyond [OF assms(4), of gas "gs ! i" TDY1 TDY2]
    by simp
  show ?thesis
    using outcome_run_call [of p tog gas "gs ! i" TDY1 TDY2]
      provider_run_call [of gas "gs ! i" TDY1 TDY2 p tog]
    unfolding eq by simp
qed

theorem own_provider_safe_witness:
  "outcome (params_dict demo_q) (Scalar (Fin 1))
     (snd (run_owned (demo_gas (Fin (1/50000)))
        [0, 1, 0, 1, 0, 1, 0, 1, 0, 1, 0, 1, 0, 1, 0, 1, 0, 1, 0, 1, 0, 1, 0, 1]
        ([demo_T1, demo_T1], [spawn demo_T1 demo_T2, spawn demo_T2 demo_T2])) ! 0) =
   Inr (Vec [Fin (- (18683 / 64000)), Fin (- (21497 / 64000))])"
  using own_provider_safe [of 0 "[spawn demo_T1 demo_T2, spawn demo_T2 demo_T2]"
      "[demo_T1, demo_T1]" demo_T1 demo_T2
      "[0, 1, 0, 1, 0, 1, 0, 1, 0, 1, 0, 1, 0, 1, 0, 1, 0, 1, 0, 1, 0, 1, 0, 1]"
      "demo_gas (Fin (1/50000))"
      "fst (run_owned (demo_gas (Fin (1/50000)))
        [0, 1, 0, 1, 0, 1, 0, 1, 0, 1, 0, 1, 0, 1, 0, 1, 0, 1, 0, 1, 0, 1, 0, 1]
        ([demo_T1, demo_T1], [spawn demo_T1 demo_T2, spawn demo_T2 demo_T2]))"
      "snd (run_owned (demo_gas (Fin (1/50000)))
        [0, 1, 0, 1, 0, 1, 0, 1, 0, 1, 0, 1, 0, 1, 0, 1, 0, 1, 0, 1, 0, 1, 0, 1]
        ([demo_T1, demo_T1], [spawn demo_T1 demo_T2, spawn demo_T2 demo_T2]))"
      "params_dict demo_q" "Scalar (Fin 1)"]
  by (simp add: demo_run del: run_owned_simps)

text \<open>
  C30 (a lock around each block suffices). On a provider that is determined by the state
  set and accepts both states of a call, a thread whose assignment of node 1 and the five
  reads after it are not interrupted by another thread, and likewise its assignment of
  node 2 and the five reads after it, returns the outcome of \<open>fickian_adf\<close> run alone,
  from any state of the provider, whatever the other threads do before, between and
  after the two blocks: the kernel reads the properties of a node directly after it has
  set the state of that node, and keeps nothing in the provider between the blocks.
\<close>

theorem locked_blocks_safe:
  assumes "state_determined gas" "accepted gas TDY1" "accepted gas TDY2"
    and "i < length ts" "ts ! i = spawn TDY1 TDY2" "i \<notin> set s1" "i \<notin> set s2"
  shows "outcome p tog
      (snd (run_shared gas (s1 @ replicate 6 i @ s2 @ replicate 6 i @ s3) (g, ts)) ! i) =
    fst (fickian_adf TDY1 TDY2 gas p tog g0)"
proof -
  obtain g1 g2 a b where r: "set_TDY gas TDY1 g1 = Inr a" "set_TDY gas TDY2 g2 = Inr b"
    "snd (run_shared gas (s1 @ replicate 6 i @ s2 @ replicate 6 i @ s3) (g, ts)) ! i =
      \<lparr>pc = [], node1 = properties_at gas a, node2 = properties_at gas b, raised = None\<rparr>"
    using blocks_run [OF assms(4-7,2,3)] by blast
  obtain a' b' where k: "set_TDY gas TDY1 g0 = Inr a'" "set_TDY gas TDY2 a' = Inr b'"
    using assms(2,3) by (meson acceptedE)
  have "properties_at gas a = properties_at gas a'" "properties_at gas b = properties_at gas b'"
    using assms(1) r(1,2) k by (blast intro: state_determinedD)+
  then show ?thesis
    unfolding r(3) by (simp add: outcome_def fickian_adf_accepted [OF k] del: properties_at_simps)
qed

theorem locked_blocks_safe_witness:
  "outcome (params_dict demo_q) (Scalar (Fin 1))
     (snd (run_shared (demo_gas (Fin (1/50000)))
        ([1] @ replicate 6 0 @ [1, 1] @ replicate 6 0 @ [1, 0])
        (demo_T1, [spawn demo_T1 demo_T2, spawn demo_T2 demo_T2])) ! 0) =
   Inr (Vec [Fin (- (18683 / 64000)), Fin (- (21497 / 64000))])"
  using locked_blocks_safe [of "demo_gas (Fin (1/50000))" demo_T1 demo_T2 0
      "[spawn demo_T1 demo_T2, spawn demo_T2 demo_T2]" "[1]" "[1, 1]" "params_dict demo_q"
      "Scalar (Fin 1)" "[1, 0]" demo_T1 demo_T1]
  by (simp add: demo_run del: run_shared_simps)

end
