(* ===== verification/Rounded.thy ===== *)
theory Rounded
  imports Fickian Radial
begin

text \<open>
  The arithmetic of the two kernels with rounding. The theories \<open>Fickian\<close> and \<open>Radial\<close>
  compute with exact reals; a double precision operation returns the rounded exact
  result. Here every operator of the two formulas, for one species and finite operands,
  is followed by a rounding function \<open>rnd\<close>, which stands for the rounding of the
  machine: the negation is exact, a division by zero has no finite result. The theory
  proves which properties of the exact model survive every rounding that is odd
  (symmetric about zero, as round-to-nearest is), shows one that does not, and proves
  that the rounding \<open>\<lambda>x. x\<close> gives back the exact closed forms.
\<close>

section \<open>The planar formula for one species\<close>

record face =
  f_D :: real
  f_rho :: real
  f_mu :: real
  f_P :: real
  f_Y :: real

record planar_r =
  r_wt1 :: real
  r_wt2 :: real
  r_K_g :: real
  r_inv_dy :: real
  r_eps_tau2 :: real

definition avg_r :: "(real \<Rightarrow> real) \<Rightarrow> planar_r \<Rightarrow> real \<Rightarrow> real \<Rightarrow> real" where
  "avg_r rnd q a b = rnd (rnd (r_wt1 q * a) + rnd (r_wt2 q * b))"

definition conv_r :: "(real \<Rightarrow> real) \<Rightarrow> planar_r \<Rightarrow> face \<Rightarrow> face \<Rightarrow> real option" where
  "conv_r rnd q n1 n2 =
     (let rho_k = avg_r rnd q (rnd (f_rho n1 * f_Y n1)) (rnd (f_rho n2 * f_Y n2));
          mu = avg_r rnd q (f_mu n1) (f_mu n2)
      in if mu = 0 then None
         else Some (rnd (rnd (rnd (rnd (- rho_k * r_K_g q) * rnd (f_P n2 - f_P n1))
                * r_inv_dy q) / mu)))"

definition diff_r :: "(real \<Rightarrow> real) \<Rightarrow> planar_r \<Rightarrow> face \<Rightarrow> face \<Rightarrow> real" where
  "diff_r rnd q n1 n2 =
     (let D_k = avg_r rnd q (f_D n1) (f_D n2);
          rho = avg_r rnd q (f_rho n1) (f_rho n2)
      in rnd (rnd (rnd (rnd (- r_eps_tau2 q * D_k) * rho) * rnd (f_Y n2 - f_Y n1))
           * r_inv_dy q))"

definition flux_r :: "(real \<Rightarrow> real) \<Rightarrow> planar_r \<Rightarrow> real \<Rightarrow> face \<Rightarrow> face \<Rightarrow> real option" where
  "flux_r rnd q tog n1 n2 =
     map_option (\<lambda>c. rnd (tog * rnd (c + diff_r rnd q n1 n2))) (conv_r rnd q n1 n2)"

definition swap_r :: "planar_r \<Rightarrow> planar_r" where
  "swap_r q = q\<lparr>r_wt1 := r_wt2 q, r_wt2 := r_wt1 q\<rparr>"

section \<open>The radial formula for one species\<close>

record shell_r =
  s_D :: real
  s_SA :: real
  s_eps :: real
  s_r_jph :: real
  s_inv_dr :: real
  s_inv_r_j :: real
  s_inv_t_shl :: real

definition mass_rate_r :: "(real \<Rightarrow> real) \<Rightarrow> shell_r \<Rightarrow> real \<Rightarrow> real \<Rightarrow> real" where
  "mass_rate_r rnd q x y =
     rnd (rnd (rnd (s_D q * s_SA q) * s_eps q)
       * rnd (rnd (rnd (s_r_jph q * s_r_jph q) * rnd (x - y)) * s_inv_dr q))"

definition rate_r :: "(real \<Rightarrow> real) \<Rightarrow> shell_r \<Rightarrow> int \<Rightarrow> real \<Rightarrow> real \<Rightarrow> real" where
  "rate_r rnd q ver x y =
     (if ver = 1 then mass_rate_r rnd q x y
      else rnd (rnd (mass_rate_r rnd q x y * rnd (s_inv_r_j q * s_inv_r_j q)) * s_inv_t_shl q))"

section \<open>Concrete data, for instances of the theorems\<close>

definition demo_planar_r :: planar_r where
  "demo_planar_r = \<lparr>r_wt1 = 1/2, r_wt2 = 1/2, r_K_g = 2, r_inv_dy = 1, r_eps_tau2 = 1\<rparr>"

definition demo_face1 :: face where
  "demo_face1 = \<lparr>f_D = 1, f_rho = 2, f_mu = 1, f_P = 3, f_Y = 1\<rparr>"

definition demo_face2 :: face where
  "demo_face2 = \<lparr>f_D = 1, f_rho = 4, f_mu = 3, f_P = 1, f_Y = 1/2\<rparr>"

definition demo_shell_r :: shell_r where
  "demo_shell_r = \<lparr>s_D = 3, s_SA = 1, s_eps = 1, s_r_jph = 1, s_inv_dr = 1, s_inv_r_j = 1,
     s_inv_t_shl = 2/5\<rparr>"

section \<open>Roundings\<close>

definition odd_rounding :: "(real \<Rightarrow> real) \<Rightarrow> bool" where
  "odd_rounding rnd \<longleftrightarrow> (\<forall>x. rnd (- x) = - rnd x)"

definition to_int :: "real \<Rightarrow> real" where
  "to_int x = sgn x * of_int \<lfloor>\<bar>x\<bar>\<rfloor>"

section \<open>The exact model as a rounding\<close>

definition planar_of :: "planar_r \<Rightarrow> planar_params" where
  "planar_of q = \<lparr>wt1 = Fin (r_wt1 q), wt2 = Fin (r_wt2 q), K_g = Fin (r_K_g q),
     inv_dy = Fin (r_inv_dy q), eps_tau2 = Fin (r_eps_tau2 q)\<rparr>"

definition snapshot_of :: "face \<Rightarrow> snapshot" where
  "snapshot_of n = \<lparr>snap_D_k = [Fin (f_D n)], snap_rho = Fin (f_rho n), snap_mu = Fin (f_mu n),
     snap_P = Fin (f_P n), snap_Y = [Fin (f_Y n)]\<rparr>"

definition shell_of :: "shell_r \<Rightarrow> shell_params" where
  "shell_of q = \<lparr>D_eff_naf = Fin (s_D q), p_eff_SAnaf = Fin (s_SA q), eps_tau2_n2 = Fin (s_eps q),
     r_jph = [Fin (s_r_jph q)], inv_dr = [Fin (s_inv_dr q)], inv_r_j = [Fin (s_inv_r_j q)],
     inv_t_shl = [Fin (s_inv_t_shl q)]\<rparr>"

section \<open>Laws of odd roundings\<close>

lemma odd_roundingD: "odd_rounding rnd \<Longrightarrow> rnd (- x) = - rnd x"
  by (simp add: odd_rounding_def)

lemma odd_rounding_zero: "odd_rounding rnd \<Longrightarrow> rnd 0 = 0"
  using odd_roundingD [of rnd 0] by simp

lemma odd_rounding_diff: "odd_rounding rnd \<Longrightarrow> rnd (y - x) = - rnd (x - y)"
  using odd_roundingD [of rnd "x - y"] by simp

lemma odd_rounding_id: "odd_rounding (\<lambda>x. x)"
  by (simp add: odd_rounding_def)

lemma odd_rounding_to_int: "odd_rounding to_int"
  by (simp add: odd_rounding_def to_int_def sgn_minus)

lemmas odd_simps = odd_roundingD odd_rounding_zero

lemma avg_r_swap: "avg_r rnd (swap_r q) b a = avg_r rnd q a b"
  by (simp add: avg_r_def swap_r_def add.commute)

lemma swap_r_simps [simp]:
  "r_K_g (swap_r q) = r_K_g q" "r_inv_dy (swap_r q) = r_inv_dy q"
  "r_eps_tau2 (swap_r q) = r_eps_tau2 q"
  by (simp_all add: swap_r_def)

lemma conv_r_swap:
  assumes "odd_rounding rnd"
  shows "conv_r rnd (swap_r q) n2 n1 = map_option uminus (conv_r rnd q n1 n2)"
  using odd_rounding_diff [OF assms, of "f_P n1" "f_P n2"]
  by (simp add: conv_r_def Let_def avg_r_swap odd_simps [OF assms])

lemma diff_r_swap:
  assumes "odd_rounding rnd"
  shows "diff_r rnd (swap_r q) n2 n1 = - diff_r rnd q n1 n2"
  using odd_rounding_diff [OF assms, of "f_Y n1" "f_Y n2"]
  by (simp add: diff_r_def Let_def avg_r_swap odd_simps [OF assms])

lemma mass_rate_r_swap:
  assumes "odd_rounding rnd"
  shows "mass_rate_r rnd q y x = - mass_rate_r rnd q x y"
  using odd_rounding_diff [OF assms, of x y]
  by (simp add: mass_rate_r_def odd_simps [OF assms])

lemma to_int_numeral [simp]:
  "to_int 0 = 0" "to_int 1 = 1" "to_int (numeral n) = numeral n"
  "to_int (- numeral n) = - numeral n"
  by (simp_all add: to_int_def)

lemma to_int_fraction [simp]:
  "to_int (1/2) = 0" "to_int (3/2) = 1" "to_int (2/5) = 0" "to_int (6/5) = 1"
  by (simp_all add: to_int_def)

lemmas demo_r_defs = demo_planar_r_def demo_face1_def demo_face2_def demo_shell_r_def

section \<open>Properties under rounding\<close>

text \<open>
  Antisymmetry survives rounding. For every odd rounding, swapping the two nodes
  together with the two weights negates the rounded planar flux of a species exactly,
  and a division by a zero viscosity stays one.
\<close>

theorem flux_r_antisymmetric:
  assumes "odd_rounding rnd"
  shows "flux_r rnd (swap_r q) tog n2 n1 = map_option uminus (flux_r rnd q tog n1 n2)"
proof (cases "conv_r rnd q n1 n2")
  case None
  then show ?thesis
    by (simp add: flux_r_def conv_r_swap [OF assms])
next
  case (Some c)
  have "rnd (tog * rnd (- c - diff_r rnd q n1 n2)) = - rnd (tog * rnd (c + diff_r rnd q n1 n2))"
    using odd_roundingD [OF assms, of "c + diff_r rnd q n1 n2"]
      odd_roundingD [OF assms, of "tog * rnd (c + diff_r rnd q n1 n2)"]
    by simp
  with Some show ?thesis
    by (simp add: flux_r_def conv_r_swap [OF assms] diff_r_swap [OF assms])
qed

theorem flux_r_antisymmetric_witness:
  "flux_r to_int demo_planar_r 1 demo_face1 demo_face2 = Some 8 \<and>
   flux_r to_int (swap_r demo_planar_r) 1 demo_face2 demo_face1 = Some (- 8)"
proof -
  have "flux_r to_int demo_planar_r 1 demo_face1 demo_face2 = Some 8"
    by (simp add: flux_r_def conv_r_def diff_r_def avg_r_def demo_r_defs)
  then show ?thesis
    using flux_r_antisymmetric [OF odd_rounding_to_int, of demo_planar_r 1 demo_face2 demo_face1]
    by simp
qed

text \<open>
  Radial antisymmetry survives rounding. For every odd rounding, swapping the two
  densities negates the rounded radial rate of a species exactly, in both variants.
\<close>

theorem rate_r_antisymmetric:
  assumes "odd_rounding rnd"
  shows "rate_r rnd q ver y x = - rate_r rnd q ver x y"
  by (simp add: rate_r_def mass_rate_r_swap [OF assms, where x = x and y = y]
      odd_simps [OF assms])

theorem rate_r_antisymmetric_witness:
  "rate_r to_int demo_shell_r 2 1 0 = 1 \<and> rate_r to_int demo_shell_r 2 0 1 = - 1"
proof -
  have "rate_r to_int demo_shell_r 2 1 0 = 1"
    by (simp add: rate_r_def mass_rate_r_def demo_r_defs)
  then show ?thesis
    using rate_r_antisymmetric [OF odd_rounding_to_int, of demo_shell_r 2 0 1] by simp
qed

text \<open>
  The exact planar model is the rounding that changes nothing. With the identity as
  rounding and a non-zero averaged viscosity, the rounded flux of a species is the
  closed-form flux of the exact model for the one-species provider state made of the
  same numbers.
\<close>

theorem flux_r_exact:
  assumes "flux_r (\<lambda>x. x) q tog n1 n2 = Some v"
  shows "flux_spec (planar_of q) (snapshot_of n1) (snapshot_of n2) (Fin tog) = [Fin v]"
  using assms
  by (auto simp: flux_r_def conv_r_def diff_r_def avg_r_def Let_def flux_spec_defs planar_of_def
      snapshot_of_def split: if_splits)

theorem flux_r_exact_witness:
  "flux_r (\<lambda>x. x) demo_planar_r 1 demo_face1 demo_face2 = Some (11/2) \<and>
   flux_spec (planar_of demo_planar_r) (snapshot_of demo_face1) (snapshot_of demo_face2) (Fin 1) =
     [Fin (11/2)]"
proof -
  have "flux_r (\<lambda>x. x) demo_planar_r 1 demo_face1 demo_face2 = Some (11/2)"
    by (simp add: flux_r_def conv_r_def diff_r_def avg_r_def demo_r_defs)
  then show ?thesis
    using flux_r_exact [of demo_planar_r 1 demo_face1 demo_face2 "11/2"] by simp
qed

text \<open>
  The exact radial model is the rounding that changes nothing. With the identity as
  rounding, the rounded rate of a species is the closed-form rate of the exact model at
  the one node of the parameter set made of the same numbers, in both variants.
\<close>

theorem rate_r_exact:
  assumes "ver = 1 \<or> ver = 2"
  shows "radial_spec (shell_of q) 0 ver [Fin x] [Fin y] = [Fin (rate_r (\<lambda>x. x) q ver x y)]"
  using assms
  by (auto simp: radial_spec_def rate_k_unfold rate_r_def mass_rate_r_def shell_of_def)

theorem rate_r_exact_witness:
  "radial_spec (shell_of demo_shell_r) 0 2 [Fin 1] [Fin 0] = [Fin (6/5)]"
  using rate_r_exact [of 2 demo_shell_r 1 0]
  by (simp add: rate_r_def mass_rate_r_def demo_r_defs)

text \<open>
  The two variants under rounding. Under rounding, variant 2 is not variant 1
  multiplied by the rounded product of the two shell factors: the code multiplies by
  one factor after the other and rounds in between. With truncation to integers as
  rounding the two differ on a concrete parameter set.
\<close>

theorem rate_r_variants_differ:
  "rate_r to_int demo_shell_r 2 1 0 = 1 \<and>
   to_int (rate_r to_int demo_shell_r 1 1 0 *
     to_int (to_int (s_inv_r_j demo_shell_r * s_inv_r_j demo_shell_r) *
       s_inv_t_shl demo_shell_r)) = 0"
  by (simp add: rate_r_def mass_rate_r_def demo_r_defs)

text \<open>
  Zero gradient survives rounding. For every odd rounding, equal properties at the
  two nodes and a non-zero rounded viscosity give a planar flux of exactly zero, and
  equal densities in the two shells give a radial rate of exactly zero.
\<close>

theorem rounded_zero_gradient:
  assumes "odd_rounding rnd" "avg_r rnd q (f_mu n) (f_mu n) \<noteq> 0"
  shows "flux_r rnd q tog n n = Some 0 \<and> rate_r rnd s ver x x = 0"
  using assms(2)
  by (simp add: flux_r_def conv_r_def diff_r_def Let_def rate_r_def mass_rate_r_def
      odd_rounding_zero [OF assms(1)])

theorem rounded_zero_gradient_witness:
  "flux_r to_int demo_planar_r 1 demo_face2 demo_face2 = Some 0 \<and>
   rate_r to_int demo_shell_r 2 7 7 = 0"
proof -
  have "avg_r to_int demo_planar_r (f_mu demo_face2) (f_mu demo_face2) \<noteq> 0"
    by (simp add: avg_r_def demo_r_defs)
  then show ?thesis
    using rounded_zero_gradient [OF odd_rounding_to_int, of demo_planar_r demo_face2 1
        demo_shell_r 2 7]
    by simp
qed

end
