(* ===== verification/Machine.thy ===== *)
theory Machine
  imports Rounded
begin

text \<open>
  The two kernels of \<^verbatim>\<open>src/Shared_Funcs/pemfc_transport_funcs.py\<close> in machine arithmetic.
  A floating-point operation computes the exact result of its operands and rounds it; a
  result at or beyond the threshold of the format overflows to an infinity. The format
  is a parameter: a rounding function on the reals and an optional threshold. The theory
  gives the operators of \<open>NumPy\<close> with this rounding, the two kernels written with them
  statement by statement, and their typed closed forms. It proves that the machine
  kernels in the format that rounds nothing are the kernels of \<open>Fickian\<close> and \<open>Radial\<close>,
  that they compute the closed forms, that without overflow and on finite data the
  closed forms are the rounded formulas of \<open>Rounded\<close>, that both kernels are
  antisymmetric exactly when the rounding is odd, that the two variants of the radial
  kernel are not related by the product of the shell factors under rounding, and that
  every component they return is a value of the format.
\<close>

section \<open>Formats and rounded operations\<close>

record format =
  fmt_rnd :: "real \<Rightarrow> real"
  fmt_max :: "real option"

definition round_f :: "format \<Rightarrow> pyfloat \<Rightarrow> pyfloat" where
  "round_f fmt x =
     (case x of
        Fin y \<Rightarrow>
          (case fmt_max fmt of
             None \<Rightarrow> Fin (fmt_rnd fmt y)
           | Some M \<Rightarrow>
               if M \<le> y then PInf else if y \<le> - M then NInf else Fin (fmt_rnd fmt y))
      | _ \<Rightarrow> x)"

definition exact :: format where
  "exact = \<lparr>fmt_rnd = (\<lambda>x. x), fmt_max = None\<rparr>"

definition fl_add :: "format \<Rightarrow> pyfloat \<Rightarrow> pyfloat \<Rightarrow> pyfloat" where
  "fl_add fmt a b = round_f fmt (a + b)"

definition fl_sub :: "format \<Rightarrow> pyfloat \<Rightarrow> pyfloat \<Rightarrow> pyfloat" where
  "fl_sub fmt a b = round_f fmt (a - b)"

definition fl_mul :: "format \<Rightarrow> pyfloat \<Rightarrow> pyfloat \<Rightarrow> pyfloat" where
  "fl_mul fmt a b = round_f fmt (a * b)"

definition fl_div :: "format \<Rightarrow> pyfloat \<Rightarrow> pyfloat \<Rightarrow> pyfloat" where
  "fl_div fmt a b = round_f fmt (a / b)"

definition in_format :: "format \<Rightarrow> pyfloat \<Rightarrow> bool" where
  "in_format fmt x =
     (case x of
        Fin y \<Rightarrow> fmt_rnd fmt y = y \<and> (case fmt_max fmt of None \<Rightarrow> True | Some M \<Rightarrow> \<bar>y\<bar> < M)
      | _ \<Rightarrow> True)"

definition sound_format :: "format \<Rightarrow> bool" where
  "sound_format fmt \<longleftrightarrow>
     (\<forall>x. fmt_rnd fmt (fmt_rnd fmt x) = fmt_rnd fmt x) \<and>
     (\<forall>M x. fmt_max fmt = Some M \<longrightarrow> \<bar>x\<bar> < M \<longrightarrow> \<bar>fmt_rnd fmt x\<bar> < M)"

definition odd_format :: "format \<Rightarrow> bool" where
  "odd_format fmt \<longleftrightarrow>
     odd_rounding (fmt_rnd fmt) \<and> (case fmt_max fmt of None \<Rightarrow> True | Some M \<Rightarrow> 0 < M)"

section \<open>The operators of NumPy in a format\<close>

fun np_truediv_r :: "format \<Rightarrow> pyval \<Rightarrow> pyval \<Rightarrow> pyval res" where
  "np_truediv_r fmt (Scalar a) (Scalar b) =
     (if b = Fin 0 then Inl ZeroDivisionError else Inr (Scalar (fl_div fmt a b)))"
| "np_truediv_r fmt (Scalar a) (Vec ys) = np_binop (fl_div fmt) (Scalar a) (Vec ys)"
| "np_truediv_r fmt (Vec xs) y = np_binop (fl_div fmt) (Vec xs) y"

definition addR :: "format \<Rightarrow> pyval res \<Rightarrow> pyval res \<Rightarrow> pyval res" where
  "addR fmt = lift2E (np_binop (fl_add fmt))"

definition subR :: "format \<Rightarrow> pyval res \<Rightarrow> pyval res \<Rightarrow> pyval res" where
  "subR fmt = lift2E (np_binop (fl_sub fmt))"

definition mulR :: "format \<Rightarrow> pyval res \<Rightarrow> pyval res \<Rightarrow> pyval res" where
  "mulR fmt = lift2E (np_binop (fl_mul fmt))"

definition divR :: "format \<Rightarrow> pyval res \<Rightarrow> pyval res \<Rightarrow> pyval res" where
  "divR fmt = lift2E (np_truediv_r fmt)"

definition powR :: "format \<Rightarrow> pyval res \<Rightarrow> nat \<Rightarrow> pyval res" where
  "powR fmt a n = map_res (np_map (\<lambda>x. round_f fmt (x ^ n))) a"

section \<open>The planar kernel in a format\<close>

definition boundary_avg_r :: "format \<Rightarrow> pdict \<Rightarrow> pyval \<Rightarrow> pyval \<Rightarrow> pyval res" where
  "boundary_avg_r fmt p x1 x2 =
     addR fmt (mulR fmt (getp p ''wt1'') (Inr x1)) (mulR fmt (getp p ''wt2'') (Inr x2))"

definition J_conv_r :: "format \<Rightarrow> pdict \<Rightarrow> pyval \<Rightarrow> pyval \<Rightarrow> pyval \<Rightarrow> pyval \<Rightarrow> pyval res" where
  "J_conv_r fmt p rho_k P1 P2 mu =
     divR fmt (mulR fmt (mulR fmt (mulR fmt (negE (Inr rho_k)) (getp p ''K_g''))
       (subR fmt (Inr P2) (Inr P1))) (getp p ''1/dy'')) (Inr mu)"

definition J_diff_r :: "format \<Rightarrow> pdict \<Rightarrow> pyval \<Rightarrow> pyval \<Rightarrow> pyval \<Rightarrow> pyval \<Rightarrow> pyval res" where
  "J_diff_r fmt p D_k rho Y1 Y2 =
     mulR fmt (mulR fmt (mulR fmt (mulR fmt (negE (getp p ''eps/tau2'')) (Inr D_k)) (Inr rho))
       (subR fmt (Inr Y2) (Inr Y1))) (getp p ''1/dy'')"

definition fickian_adf_g ::
  "format \<Rightarrow> (pyval res \<Rightarrow> pyval res) \<Rightarrow> tdy \<Rightarrow> tdy \<Rightarrow> 'g gas_ops \<Rightarrow> pdict \<Rightarrow> ('g, pyval) sx"
  where "fickian_adf_g fmt gate TDY1 TDY2 gas p =
     bindS (assignS (set_TDY gas TDY1)) (\<lambda>_.
     bindS (read_vec (mix_diff_coeffs_mass gas)) (\<lambda>D_k1.
     bindS (read_scalar (density_mass gas)) (\<lambda>rho1.
     bindS (read_scalar (viscosity gas)) (\<lambda>mu1.
     bindS (read_scalar (gas_P gas)) (\<lambda>P1.
     bindS (read_vec (gas_Y gas)) (\<lambda>Y1.
     bindS (evalS (mulR fmt (Inr rho1) (Inr Y1))) (\<lambda>rho_k1.
     bindS (assignS (set_TDY gas TDY2)) (\<lambda>_.
     bindS (read_vec (mix_diff_coeffs_mass gas)) (\<lambda>D_k2.
     bindS (read_scalar (density_mass gas)) (\<lambda>rho2.
     bindS (read_scalar (viscosity gas)) (\<lambda>mu2.
     bindS (read_scalar (gas_P gas)) (\<lambda>P2.
     bindS (read_vec (gas_Y gas)) (\<lambda>Y2.
     bindS (evalS (mulR fmt (Inr rho2) (Inr Y2))) (\<lambda>rho_k2.
     bindS (evalS (boundary_avg_r fmt p D_k1 D_k2)) (\<lambda>D_k.
     bindS (evalS (boundary_avg_r fmt p rho1 rho2)) (\<lambda>rho.
     bindS (evalS (boundary_avg_r fmt p mu1 mu2)) (\<lambda>mu.
     bindS (evalS (boundary_avg_r fmt p rho_k1 rho_k2)) (\<lambda>rho_k.
     bindS (evalS (J_conv_r fmt p rho_k P1 P2 mu)) (\<lambda>Jconv.
     bindS (evalS (J_diff_r fmt p D_k rho Y1 Y2)) (\<lambda>Jdiff.
     bindS (evalS (gate (addR fmt (Inr Jconv) (Inr Jdiff)))) (\<lambda>mass_flux.
     returnS mass_flux)))))))))))))))))))))"

definition fickian_adf_r ::
  "format \<Rightarrow> tdy \<Rightarrow> tdy \<Rightarrow> 'g gas_ops \<Rightarrow> pdict \<Rightarrow> pyval \<Rightarrow> ('g, pyval) sx" where
  "fickian_adf_r fmt TDY1 TDY2 gas p tog = fickian_adf_g fmt (mulR fmt (Inr tog)) TDY1 TDY2 gas p"

definition adf_pure_g ::
  "format \<Rightarrow> (pyval res \<Rightarrow> pyval res) \<Rightarrow> pdict \<Rightarrow> snapshot \<Rightarrow> snapshot \<Rightarrow> pyval res" where
  "adf_pure_g fmt gate p s1 s2 =
     bindE (mulR fmt (Inr (Scalar (snap_rho s1))) (Inr (Vec (snap_Y s1)))) (\<lambda>rho_k1.
     bindE (mulR fmt (Inr (Scalar (snap_rho s2))) (Inr (Vec (snap_Y s2)))) (\<lambda>rho_k2.
     bindE (boundary_avg_r fmt p (Vec (snap_D_k s1)) (Vec (snap_D_k s2))) (\<lambda>D_k.
     bindE (boundary_avg_r fmt p (Scalar (snap_rho s1)) (Scalar (snap_rho s2))) (\<lambda>rho.
     bindE (boundary_avg_r fmt p (Scalar (snap_mu s1)) (Scalar (snap_mu s2))) (\<lambda>mu.
     bindE (boundary_avg_r fmt p rho_k1 rho_k2) (\<lambda>rho_k.
     bindE (J_conv_r fmt p rho_k (Scalar (snap_P s1)) (Scalar (snap_P s2)) mu) (\<lambda>Jconv.
     bindE (J_diff_r fmt p D_k rho (Vec (snap_Y s1)) (Vec (snap_Y s2))) (\<lambda>Jdiff.
     gate (addR fmt (Inr Jconv) (Inr Jdiff))))))))))"

definition adf_pure_r :: "format \<Rightarrow> pdict \<Rightarrow> snapshot \<Rightarrow> snapshot \<Rightarrow> pyval \<Rightarrow> pyval res" where
  "adf_pure_r fmt p s1 s2 tog = adf_pure_g fmt (mulR fmt (Inr tog)) p s1 s2"

section \<open>The radial kernel in a format\<close>

definition radial_fdiff_r ::
  "format \<Rightarrow> pyval \<Rightarrow> pyval \<Rightarrow> pdict \<Rightarrow> int \<Rightarrow> int \<Rightarrow> 'f \<Rightarrow> pyval res" where
  "radial_fdiff_r fmt rho_k1 rho_k2 p node ver flag =
     (if ver = 1 then
        mulR fmt (mulR fmt (mulR fmt (getp p ''D_eff_naf'') (getp p ''p_eff_SAnaf''))
            (getp p ''eps/tau2_n2''))
          (mulR fmt (mulR fmt (powR fmt (idxE (getp p ''r_jph'') node) 2)
              (subR fmt (Inr rho_k1) (Inr rho_k2)))
             (idxE (getp p ''1/dr'') node))
      else if ver = 2 then
        mulR fmt (mulR fmt
          (mulR fmt (mulR fmt (mulR fmt (getp p ''D_eff_naf'') (getp p ''p_eff_SAnaf''))
                (getp p ''eps/tau2_n2''))
             (mulR fmt (mulR fmt (powR fmt (idxE (getp p ''r_jph'') node) 2)
                 (subR fmt (Inr rho_k1) (Inr rho_k2)))
                (idxE (getp p ''1/dr'') node)))
          (powR fmt (idxE (getp p ''1/r_j'') node) 2))
          (idxE (getp p ''1/t_shl'') node)
      else Inl (UnboundLocalError ''drho_dt''))"

section \<open>The closed forms in a format\<close>

definition avg_f :: "format \<Rightarrow> planar_params \<Rightarrow> pyfloat \<Rightarrow> pyfloat \<Rightarrow> pyfloat" where
  "avg_f fmt q a b = fl_add fmt (fl_mul fmt (wt1 q) a) (fl_mul fmt (wt2 q) b)"

definition conv_f :: "format \<Rightarrow> planar_params \<Rightarrow> snapshot \<Rightarrow> snapshot \<Rightarrow> nat \<Rightarrow> pyfloat" where
  "conv_f fmt q s1 s2 k =
     fl_div fmt
       (fl_mul fmt
         (fl_mul fmt
           (fl_mul fmt
             (- avg_f fmt q (fl_mul fmt (snap_rho s1) (snap_Y s1 ! k))
                  (fl_mul fmt (snap_rho s2) (snap_Y s2 ! k)))
             (K_g q))
           (fl_sub fmt (snap_P s2) (snap_P s1)))
         (inv_dy q))
       (avg_f fmt q (snap_mu s1) (snap_mu s2))"

definition diff_f :: "format \<Rightarrow> planar_params \<Rightarrow> snapshot \<Rightarrow> snapshot \<Rightarrow> nat \<Rightarrow> pyfloat" where
  "diff_f fmt q s1 s2 k =
     fl_mul fmt
       (fl_mul fmt
         (fl_mul fmt
           (fl_mul fmt (- eps_tau2 q) (avg_f fmt q (snap_D_k s1 ! k) (snap_D_k s2 ! k)))
           (avg_f fmt q (snap_rho s1) (snap_rho s2)))
         (fl_sub fmt (snap_Y s2 ! k) (snap_Y s1 ! k)))
       (inv_dy q)"

definition flux_f :: "format \<Rightarrow> planar_params \<Rightarrow> snapshot \<Rightarrow> snapshot \<Rightarrow> pyfloat \<Rightarrow> pyfloat list"
  where "flux_f fmt q s1 s2 tog =
     map (\<lambda>k. fl_mul fmt tog (fl_add fmt (conv_f fmt q s1 s2 k) (diff_f fmt q s1 s2 k)))
       [0..<length (snap_Y s1)]"

definition mass_f :: "format \<Rightarrow> shell_params \<Rightarrow> nat \<Rightarrow> pyfloat \<Rightarrow> pyfloat \<Rightarrow> pyfloat" where
  "mass_f fmt q j x y =
     fl_mul fmt (fl_mul fmt (fl_mul fmt (D_eff_naf q) (p_eff_SAnaf q)) (eps_tau2_n2 q))
       (fl_mul fmt (fl_mul fmt (round_f fmt ((r_jph q ! j)\<^sup>2)) (fl_sub fmt x y)) (inv_dr q ! j))"

definition rate_f :: "format \<Rightarrow> shell_params \<Rightarrow> nat \<Rightarrow> int \<Rightarrow> pyfloat \<Rightarrow> pyfloat \<Rightarrow> pyfloat" where
  "rate_f fmt q j ver x y =
     (if ver = 1 then mass_f fmt q j x y
      else fl_mul fmt (fl_mul fmt (mass_f fmt q j x y) (round_f fmt ((inv_r_j q ! j)\<^sup>2)))
             (inv_t_shl q ! j))"

definition radial_f ::
  "format \<Rightarrow> shell_params \<Rightarrow> nat \<Rightarrow> int \<Rightarrow> pyfloat list \<Rightarrow> pyfloat list \<Rightarrow> pyfloat list" where
  "radial_f fmt q j ver xs ys = map2 (rate_f fmt q j ver) xs ys"

section \<open>Concrete formats, for instances of the theorems\<close>

definition int_format :: "real option \<Rightarrow> format" where
  "int_format M = \<lparr>fmt_rnd = to_int, fmt_max = M\<rparr>"

definition mach_gas :: "tdy gas_ops" where
  "mach_gas = table_gas tdy_valid (ideal_props (Fin 1) (Fin 2) (Fin 3))"

definition mach_T1 :: tdy where
  "mach_T1 = (Fin 5, Fin 8, [Fin (1/4), Fin (3/4)])"

definition mach_T2 :: tdy where
  "mach_T2 = (Fin 3, Fin 4, [Fin (1/2), Fin (1/2)])"

definition mach_q :: planar_params where
  "mach_q = \<lparr>wt1 = Fin (1/2), wt2 = Fin (1/2), K_g = Fin 2, inv_dy = Fin 1, eps_tau2 = Fin 1\<rparr>"

definition mach_script :: script where
  "mach_script = (snapshot_of demo_face1, [snapshot_of demo_face1, snapshot_of demo_face2])"

section \<open>The format that rounds nothing\<close>

lemma round_f_simps [simp]:
  "round_f fmt NaN = NaN" "round_f fmt PInf = PInf" "round_f fmt NInf = NInf"
  by (simp_all add: round_f_def)

lemma round_f_Fin:
  "round_f fmt (Fin y) =
     (case fmt_max fmt of
        None \<Rightarrow> Fin (fmt_rnd fmt y)
      | Some M \<Rightarrow> if M \<le> y then PInf else if y \<le> - M then NInf else Fin (fmt_rnd fmt y))"
  by (simp add: round_f_def)

lemma round_f_exact [simp]: "round_f exact x = x"
  by (cases x) (simp_all add: round_f_Fin exact_def)

lemma fl_exact [simp]:
  "fl_add exact = (+)" "fl_sub exact = (-)" "fl_mul exact = (*)" "fl_div exact = (/)"
  by (simp_all add: fun_eq_iff fl_add_def fl_sub_def fl_mul_def fl_div_def)

lemma np_truediv_r_exact [simp]: "np_truediv_r exact = np_truediv"
proof (intro ext)
  fix x y show "np_truediv_r exact x y = np_truediv x y"
    by (cases x; cases y) simp_all
qed

lemma opsR_exact [simp]:
  "addR exact = addE" "subR exact = subE" "mulR exact = mulE" "divR exact = divE"
  by (simp_all add: addR_def subR_def mulR_def divR_def expr_defs np_add_def np_sub_def
      np_mul_def)

lemma powR_exact [simp]: "powR exact a n = powE a n"
  by (simp add: powR_def powE_def np_pow_def)

lemma kernel_parts_exact [simp]:
  "boundary_avg_r exact = boundary_avg" "J_conv_r exact = J_conv" "J_diff_r exact = J_diff"
  by (simp_all add: fun_eq_iff boundary_avg_r_def boundary_avg_def J_conv_r_def J_conv_def
      J_diff_r_def J_diff_def)

lemma opsR_simps [simp]:
  "addR fmt (Inl e) b = Inl e" "addR fmt (Inr x) (Inl e) = Inl e"
  "addR fmt (Inr x) (Inr y) = np_binop (fl_add fmt) x y"
  "subR fmt (Inl e) b = Inl e" "subR fmt (Inr x) (Inl e) = Inl e"
  "subR fmt (Inr x) (Inr y) = np_binop (fl_sub fmt) x y"
  "mulR fmt (Inl e) b = Inl e" "mulR fmt (Inr x) (Inl e) = Inl e"
  "mulR fmt (Inr x) (Inr y) = np_binop (fl_mul fmt) x y"
  "divR fmt (Inl e) b = Inl e" "divR fmt (Inr x) (Inl e) = Inl e"
  "divR fmt (Inr x) (Inr y) = np_truediv_r fmt x y"
  "powR fmt (Inl e) n = Inl e"
  "powR fmt (Inr x) n = Inr (np_map (\<lambda>a. round_f fmt (a ^ n)) x)"
  by (simp_all add: addR_def subR_def mulR_def divR_def powR_def)

lemma adf_pure_r_exact [simp]: "adf_pure_r exact = adf_pure"
  by (simp add: fun_eq_iff adf_pure_r_def adf_pure_g_def adf_pure_def)

section \<open>The machine kernel is the provider protocol followed by the arithmetic\<close>

lemma fickian_adf_g_factor:
  "fickian_adf_g fmt gate TDY1 TDY2 gas p g =
     (case set_TDY gas TDY1 g of
        Inl e \<Rightarrow> (Inl e, g)
      | Inr g1 \<Rightarrow>
          (case set_TDY gas TDY2 g1 of
             Inl e \<Rightarrow> (Inl e, g1)
           | Inr g2 \<Rightarrow>
               (adf_pure_g fmt gate p (properties_at gas g1) (properties_at gas g2), g2)))"
  by (simp add: fickian_adf_g_def adf_pure_g_def bindS_assignS bindS_evalS_evalS returnS_evalS
      split: sum.splits)

lemma fickian_adf_r_factor:
  "fickian_adf_r fmt TDY1 TDY2 gas p tog g =
     (case set_TDY gas TDY1 g of
        Inl e \<Rightarrow> (Inl e, g)
      | Inr g1 \<Rightarrow>
          (case set_TDY gas TDY2 g1 of
             Inl e \<Rightarrow> (Inl e, g1)
           | Inr g2 \<Rightarrow>
               (adf_pure_r fmt p (properties_at gas g1) (properties_at gas g2) tog, g2)))"
  by (simp add: fickian_adf_r_def adf_pure_r_def fickian_adf_g_factor split: sum.splits)

section \<open>The machine arithmetic computes the closed forms\<close>

lemma boundary_avg_r_Scalar:
  "has_params p q \<Longrightarrow> boundary_avg_r fmt p (Scalar a) (Scalar b) = Inr (Scalar (avg_f fmt q a b))"
  by (simp add: boundary_avg_r_def avg_f_def)

lemma boundary_avg_r_Vec:
  "has_params p q \<Longrightarrow> length xs = length ys \<Longrightarrow>
   boundary_avg_r fmt p (Vec xs) (Vec ys) = Inr (Vec (map2 (avg_f fmt q) xs ys))"
  by (simp add: boundary_avg_r_def avg_f_def map2_map_left map2_map_right)

lemma J_conv_r_closed:
  "has_params p q \<Longrightarrow>
   J_conv_r fmt p (Vec rk) (Scalar P1) (Scalar P2) (Scalar mu) =
     Inr (Vec (map (\<lambda>r. fl_div fmt (fl_mul fmt (fl_mul fmt (fl_mul fmt (- r) (K_g q))
       (fl_sub fmt P2 P1)) (inv_dy q)) mu) rk))"
  by (simp add: J_conv_r_def comp_def)

lemma J_diff_r_closed:
  "has_params p q \<Longrightarrow> length D = length Y1 \<Longrightarrow> length Y2 = length Y1 \<Longrightarrow>
   J_diff_r fmt p (Vec D) (Scalar rho) (Vec Y1) (Vec Y2) =
     Inr (Vec (map2 (\<lambda>d dy. fl_mul fmt (fl_mul fmt (fl_mul fmt (fl_mul fmt (- eps_tau2 q) d) rho)
       dy) (inv_dy q)) D (map2 (fl_sub fmt) Y2 Y1)))"
  by (auto simp: J_diff_r_def comp_def map2_map_left map_map2)

lemmas adf_r_closed = boundary_avg_r_Scalar boundary_avg_r_Vec J_conv_r_closed J_diff_r_closed

lemma length_flux_f [simp]: "length (flux_f fmt q s1 s2 tog) = length (snap_Y s1)"
  by (simp add: flux_f_def)

lemma nth_flux_f:
  "k < length (snap_Y s1) \<Longrightarrow>
   flux_f fmt q s1 s2 tog ! k =
     fl_mul fmt tog (fl_add fmt (conv_f fmt q s1 s2 k) (diff_f fmt q s1 s2 k))"
  by (simp add: flux_f_def)

lemma adf_pure_r_closed_form:
  assumes "has_params p q"
    and "length (snap_D_k s1) = n" "length (snap_Y s1) = n"
    and "length (snap_D_k s2) = n" "length (snap_Y s2) = n"
  shows "adf_pure_r fmt p s1 s2 (Scalar tog) = Inr (Vec (flux_f fmt q s1 s2 tog))"
proof -
  obtain xs where xs: "adf_pure_r fmt p s1 s2 (Scalar tog) = Inr (Vec xs)" "length xs = n"
    and nth: "\<And>k. k < n \<Longrightarrow>
      xs ! k = fl_mul fmt tog (fl_add fmt (conv_f fmt q s1 s2 k) (diff_f fmt q s1 s2 k))"
    using assms by (simp add: adf_pure_r_def adf_pure_g_def adf_r_closed conv_f_def diff_f_def)
  have "xs = flux_f fmt q s1 s2 tog"
    using assms xs(2) nth by (intro nth_equalityI) (simp_all add: nth_flux_f)
  with xs(1) show ?thesis by simp
qed

section \<open>The radial kernel computes its closed form\<close>

lemma radial_fdiff_r_typed:
  assumes "has_shell_params p q" "n_shells q n" "node_in_range n node" "ver = 1 \<or> ver = 2"
    and "length xs = length ys"
  shows "radial_fdiff_r fmt (Vec xs) (Vec ys) p node ver flag =
    Inr (Vec (radial_f fmt q (norm_node n node) ver xs ys))"
  using assms
  by (auto simp: radial_fdiff_r_def n_shells_lengths py_index_norm_node radial_f_def rate_f_def
      mass_f_def comp_def)

section \<open>Without overflow and on finite data the closed forms are the rounded formulas\<close>

lemma fl_Fin:
  assumes "fmt_max fmt = None"
  shows "fl_add fmt (Fin a) (Fin b) = Fin (fmt_rnd fmt (a + b))"
    and "fl_sub fmt (Fin a) (Fin b) = Fin (fmt_rnd fmt (a - b))"
    and "fl_mul fmt (Fin a) (Fin b) = Fin (fmt_rnd fmt (a * b))"
    and "b \<noteq> 0 \<Longrightarrow> fl_div fmt (Fin a) (Fin b) = Fin (fmt_rnd fmt (a / b))"
    and "round_f fmt (Fin a) = Fin (fmt_rnd fmt a)"
  using assms by (simp_all add: fl_add_def fl_sub_def fl_mul_def fl_div_def round_f_def)

lemma flux_f_rounded:
  assumes "fmt_max fmt = None" "flux_r (fmt_rnd fmt) q t n1 n2 = Some v"
  shows "flux_f fmt (planar_of q) (snapshot_of n1) (snapshot_of n2) (Fin t) = [Fin v]"
  using assms(2)
  by (auto simp: flux_r_def conv_r_def diff_r_def avg_r_def Let_def flux_f_def conv_f_def
      diff_f_def avg_f_def planar_of_def snapshot_of_def fl_Fin [OF assms(1)] split: if_splits)

lemma rate_f_rounded:
  assumes "fmt_max fmt = None"
  shows "rate_f fmt (shell_of q) 0 ver (Fin x) (Fin y) = Fin (rate_r (fmt_rnd fmt) q ver x y)"
  by (simp add: rate_f_def mass_f_def rate_r_def mass_rate_r_def shell_of_def power2_eq_square
      fl_Fin [OF assms])

section \<open>Every result is a value of the format\<close>

lemma in_format_round_f [simp]: "sound_format fmt \<Longrightarrow> in_format fmt (round_f fmt x)"
  by (cases x) (auto simp: in_format_def round_f_def sound_format_def split: option.splits)

lemma in_format_fl [simp]:
  assumes "sound_format fmt"
  shows "in_format fmt (fl_add fmt a b)" "in_format fmt (fl_sub fmt a b)"
    "in_format fmt (fl_mul fmt a b)" "in_format fmt (fl_div fmt a b)"
  using assms by (simp_all add: fl_add_def fl_sub_def fl_mul_def fl_div_def)

lemma np_binop_all:
  assumes "\<And>a b. P (f a b)" "np_binop f x y = Inr v"
  shows "list_all P (elems v)"
  using assms(2)
  by (cases x; cases y) (auto simp: assms(1) list_all_iff split: if_splits dest: set_zip_leftD)

lemma mulR_in_format:
  assumes "sound_format fmt" "mulR fmt a b = Inr v"
  shows "list_all (in_format fmt) (elems v)"
proof -
  obtain x y where "a = Inr x" "b = Inr y" "np_binop (fl_mul fmt) x y = Inr v"
    using assms(2) by (cases a; cases b) simp_all
  then show ?thesis
    using assms(1) by (auto intro: np_binop_all [where f = "fl_mul fmt"])
qed

lemma adf_pure_r_in_format:
  "sound_format fmt \<Longrightarrow> adf_pure_r fmt p s1 s2 tog = Inr v \<Longrightarrow>
   list_all (in_format fmt) (elems v)"
  unfolding adf_pure_r_def adf_pure_g_def bindE_eq_Inr_iff by (blast dest: mulR_in_format)

lemma radial_fdiff_r_in_format:
  "sound_format fmt \<Longrightarrow> radial_fdiff_r fmt r1 r2 p node ver flag = Inr v \<Longrightarrow>
   list_all (in_format fmt) (elems v)"
  by (auto simp: radial_fdiff_r_def split: if_splits dest: mulR_in_format)

lemma round_f_fixed: "in_format fmt x \<Longrightarrow> round_f fmt x = x"
  by (cases x) (auto simp: in_format_def round_f_def abs_less_iff split: option.splits)

lemma fl_mul_one: "in_format fmt x \<Longrightarrow> fl_mul fmt (Fin 1) x = x"
  by (simp add: fl_mul_def round_f_fixed)

lemma addR_in_format:
  assumes "sound_format fmt" "addR fmt a b = Inr v"
  shows "list_all (in_format fmt) (elems v)"
proof -
  obtain x y where "a = Inr x" "b = Inr y" "np_binop (fl_add fmt) x y = Inr v"
    using assms(2) by (cases a; cases b) simp_all
  then show ?thesis
    using assms(1) by (auto intro: np_binop_all [where f = "fl_add fmt"])
qed

lemma abs_to_int: "\<bar>to_int x\<bar> = of_int \<lfloor>\<bar>x\<bar>\<rfloor>"
  by (cases "x = 0") (simp_all add: to_int_def abs_mult)

lemma to_int_idem: "to_int (to_int x) = to_int x"
proof (cases "\<lfloor>\<bar>x\<bar>\<rfloor> = 0")
  case True
  then show ?thesis by (simp add: to_int_def)
next
  case False
  then have "0 < \<lfloor>\<bar>x\<bar>\<rfloor>" by (simp add: order_less_le)
  then have "sgn (to_int x) = sgn x" by (simp add: to_int_def sgn_mult)
  then show ?thesis
    using abs_to_int [of x] by (simp add: to_int_def [of "to_int x"]) (simp add: to_int_def)
qed

lemma abs_to_int_le: "\<bar>to_int x\<bar> \<le> \<bar>x\<bar>"
  by (simp add: abs_to_int)

lemma sound_format_int: "sound_format (int_format M)"
proof -
  have "\<bar>to_int x\<bar> < B" if "\<bar>x\<bar> < B" for x B
    using abs_to_int_le [of x] that by simp
  then show ?thesis
    by (simp add: sound_format_def int_format_def to_int_idem)
qed

section \<open>Swapping the two nodes in an odd format\<close>

lemma round_f_uminus: "odd_format fmt \<Longrightarrow> round_f fmt (- x) = - round_f fmt x"
  by (cases x) (auto simp: odd_format_def round_f_def odd_roundingD split: option.splits)

lemma fl_add_commute: "fl_add fmt a b = fl_add fmt b a"
  by (simp add: fl_add_def pyfloat_add_commute)

lemma fl_odd:
  assumes "odd_format fmt"
  shows "fl_mul fmt (- a) b = - fl_mul fmt a b" "fl_mul fmt a (- b) = - fl_mul fmt a b"
    and "fl_div fmt (- a) b = - fl_div fmt a b"
    and "fl_add fmt (- a) (- b) = - fl_add fmt a b"
    and "fl_sub fmt b a = - fl_sub fmt a b"
proof -
  note r = round_f_uminus [OF assms]
  show "fl_mul fmt (- a) b = - fl_mul fmt a b"
    by (simp add: fl_mul_def pyfloat_mult_uminus_left r)
  show "fl_mul fmt a (- b) = - fl_mul fmt a b"
    by (simp add: fl_mul_def pyfloat_mult_uminus_right r)
  show "fl_div fmt (- a) b = - fl_div fmt a b"
    by (simp add: fl_div_def pyfloat_divide_uminus_left r)
  show "fl_add fmt (- a) (- b) = - fl_add fmt a b"
    by (simp add: fl_add_def pyfloat_uminus_add [symmetric] r)
  show "fl_sub fmt b a = - fl_sub fmt a b"
    using pyfloat_minus_swap [of b a] by (simp add: fl_sub_def r)
qed

lemma mulR_negE_left: "odd_format fmt \<Longrightarrow> mulR fmt (negE a) b = negE (mulR fmt a b)"
  by (cases a; cases b) (simp_all add: np_binop_neg_left fl_odd negE_def)

lemma mulR_negE_right: "odd_format fmt \<Longrightarrow> mulR fmt a (negE b) = negE (mulR fmt a b)"
  by (cases a; cases b) (simp_all add: np_binop_neg_right fl_odd negE_def)

lemma np_truediv_r_neg_left:
  assumes "odd_format fmt"
  shows "np_truediv_r fmt (np_neg x) y = map_res np_neg (np_truediv_r fmt x y)"
proof (cases "\<exists>a b. x = Scalar a \<and> y = Scalar b")
  case True
  then show ?thesis by (auto simp: fl_odd [OF assms])
next
  case False
  then have "np_truediv_r fmt x y = np_binop (fl_div fmt) x y"
    "np_truediv_r fmt (np_neg x) y = np_binop (fl_div fmt) (np_neg x) y"
    by (cases x; cases y; simp)+
  then show ?thesis
    by (simp add: np_binop_neg_left fl_odd [OF assms])
qed

lemma divR_negE_left: "odd_format fmt \<Longrightarrow> divR fmt (negE a) b = negE (divR fmt a b)"
  by (cases a; cases b) (simp_all add: np_truediv_r_neg_left negE_def)

lemma addR_negE: "odd_format fmt \<Longrightarrow> addR fmt (negE a) (negE b) = negE (addR fmt a b)"
  by (cases a; cases b) (simp_all add: np_binop_neg_both fl_odd negE_def)

lemma subR_swap_values:
  assumes "odd_format fmt"
  shows "subR fmt (Inr y) (Inr x) = negE (subR fmt (Inr x) (Inr y))"
proof -
  have "np_binop (fl_sub fmt) y x = np_binop (\<lambda>a b. fl_sub fmt b a) x y"
    by (rule np_binop_swap) simp
  also have "\<dots> = map_res np_neg (np_binop (fl_sub fmt) x y)"
    by (rule np_binop_neg_result) (rule fl_odd [OF assms])
  finally show ?thesis by (simp add: negE_def)
qed

lemmas negR_out = mulR_negE_left mulR_negE_right divR_negE_left addR_negE

lemma addR_commute_binop:
  "addR fmt (np_binop f a x) (np_binop g b y) = addR fmt (np_binop g b y) (np_binop f a x)"
proof (cases "np_binop f a x"; cases "np_binop g b y")
  fix u v assume "np_binop f a x = Inr u" "np_binop g b y = Inr v"
  then show ?thesis
    using np_binop_swap [of "fl_add fmt" "fl_add fmt" u v] by (simp add: fl_add_commute)
qed (auto dest: np_binop_error)

lemma boundary_avg_r_swap:
  assumes "p ''wt1'' \<noteq> None" "p ''wt2'' \<noteq> None"
  shows "boundary_avg_r fmt (swap_wts p) x2 x1 = boundary_avg_r fmt p x1 x2"
  using assms
  by (auto simp: boundary_avg_r_def swap_wts_def getp_def addR_commute_binop)

lemma J_conv_r_swap:
  "odd_format fmt \<Longrightarrow> J_conv_r fmt p rho_k b a mu = negE (J_conv_r fmt p rho_k a b mu)"
  by (simp add: J_conv_r_def subR_swap_values [of fmt a b] negR_out del: opsR_simps)

lemma J_diff_r_swap:
  "odd_format fmt \<Longrightarrow> J_diff_r fmt p D_k rho b a = negE (J_diff_r fmt p D_k rho a b)"
  by (simp add: J_diff_r_def subR_swap_values [of fmt a b] negR_out del: opsR_simps)

lemma J_r_swap_wts [simp]:
  "J_conv_r fmt (swap_wts p) = J_conv_r fmt p" "J_diff_r fmt (swap_wts p) = J_diff_r fmt p"
  by (simp_all add: J_conv_r_def J_diff_r_def fun_eq_iff del: opsR_simps)

lemma adf_pure_r_unfold:
  "adf_pure_r fmt p s1 s2 tog =
     bindE (boundary_avg_r fmt p (Vec (snap_D_k s1)) (Vec (snap_D_k s2))) (\<lambda>D_k.
     bindE (boundary_avg_r fmt p (Scalar (snap_rho s1)) (Scalar (snap_rho s2))) (\<lambda>rho.
     bindE (boundary_avg_r fmt p (Scalar (snap_mu s1)) (Scalar (snap_mu s2))) (\<lambda>mu.
     bindE (boundary_avg_r fmt p (Vec (map (fl_mul fmt (snap_rho s1)) (snap_Y s1)))
       (Vec (map (fl_mul fmt (snap_rho s2)) (snap_Y s2)))) (\<lambda>rho_k.
     bindE (J_conv_r fmt p rho_k (Scalar (snap_P s1)) (Scalar (snap_P s2)) mu) (\<lambda>Jconv.
     bindE (J_diff_r fmt p D_k rho (Vec (snap_Y s1)) (Vec (snap_Y s2))) (\<lambda>Jdiff.
     mulR fmt (Inr tog) (addR fmt (Inr Jconv) (Inr Jdiff))))))))"
  by (simp add: adf_pure_r_def adf_pure_g_def)

lemma gate_neg_r:
  assumes "odd_format fmt"
  shows "mulR fmt (Inr tog) (addR fmt (Inr (np_neg a)) (Inr (np_neg b))) =
    negE (mulR fmt (Inr tog) (addR fmt (Inr a) (Inr b)))"
  using addR_negE [OF assms, of "Inr a" "Inr b"]
    mulR_negE_right [OF assms, of "Inr tog" "addR fmt (Inr a) (Inr b)"]
  by (simp del: opsR_simps)

lemma adf_pure_r_antisymmetric:
  assumes "odd_format fmt" "p ''wt1'' \<noteq> None" "p ''wt2'' \<noteq> None"
  shows "adf_pure_r fmt (swap_wts p) s2 s1 tog = negE (adf_pure_r fmt p s1 s2 tog)"
  by (simp only: adf_pure_r_unfold boundary_avg_r_swap [OF assms(2,3)] J_r_swap_wts
      J_conv_r_swap [OF assms(1), where a = "Scalar (snap_P s1)" and b = "Scalar (snap_P s2)"]
      J_diff_r_swap [OF assms(1), where a = "Vec (snap_Y s1)" and b = "Vec (snap_Y s2)"]
      bindE_negE negE_bindE gate_neg_r [OF assms(1)])

lemma radial_fdiff_r_swap:
  assumes "odd_format fmt"
  shows "radial_fdiff_r fmt r2 r1 p node ver flag = negE (radial_fdiff_r fmt r1 r2 p node ver flag)"
  by (simp add: radial_fdiff_r_def subR_swap_values [OF assms, of r2 r1] negR_out [OF assms]
      del: opsR_simps)

section \<open>Facts about the concrete formats and data\<close>

lemma odd_format_int: "odd_format (int_format None)" "0 < M \<Longrightarrow> odd_format (int_format (Some M))"
  by (simp_all add: odd_format_def int_format_def odd_rounding_to_int)

lemma int_format_simps [simp]:
  "fmt_rnd (int_format M) = to_int" "fmt_max (int_format M) = M"
  by (simp_all add: int_format_def)

lemma mach_set_TDY [simp]:
  "set_TDY mach_gas mach_T1 g = Inr mach_T1" "set_TDY mach_gas mach_T2 g = Inr mach_T2"
  by (simp_all add: mach_gas_def mach_T1_def mach_T2_def tdy_valid_def)

lemma mach_n_species [simp]: "n_species_ok mach_gas 2 mach_T1" "n_species_ok mach_gas 2 mach_T2"
  by (simp_all add: n_species_ok_def mach_gas_def mach_T1_def mach_T2_def)

lemma mach_state_determined [simp]: "state_determined mach_gas"
  by (simp add: mach_gas_def table_gas_state_determined)

lemmas fl_defs = fl_add_def fl_sub_def fl_mul_def fl_div_def round_f_def

lemmas flux_f_defs = flux_f_def conv_f_def diff_f_def avg_f_def

lemmas mach_defs = mach_gas_def mach_T1_def mach_T2_def mach_q_def params_dict_def

lemma mach_flux_f:
  "flux_f (int_format None) mach_q (properties_at mach_gas mach_T1)
     (properties_at mach_gas mach_T2) (Fin 1) = [Fin 56, Fin 112]"
  "flux_f (int_format (Some 200)) mach_q (properties_at mach_gas mach_T1)
     (properties_at mach_gas mach_T2) (Fin 1) = [Fin 56, PInf]"
  by (simp_all add: flux_f_defs fl_defs mach_defs upt_rec to_int_def)

lemma mach_run:
  "fickian_adf_r (int_format None) mach_T1 mach_T2 mach_gas (params_dict mach_q)
     (Scalar (Fin 1)) g = (Inr (Vec [Fin 56, Fin 112]), mach_T2)"
  "fickian_adf_r (int_format (Some 200)) mach_T1 mach_T2 mach_gas (params_dict mach_q)
     (Scalar (Fin 1)) g = (Inr (Vec [Fin 56, PInf]), mach_T2)"
proof -
  have "length (snap_D_k (properties_at mach_gas T)) = 2"
    "length (snap_Y (properties_at mach_gas T)) = 2" if "T = mach_T1 \<or> T = mach_T2" for T
    using that by (auto simp: mach_gas_def mach_T1_def mach_T2_def)
  then have "adf_pure_r fmt (params_dict mach_q) (properties_at mach_gas mach_T1)
      (properties_at mach_gas mach_T2) (Scalar (Fin 1)) =
    Inr (Vec (flux_f fmt mach_q (properties_at mach_gas mach_T1) (properties_at mach_gas mach_T2)
      (Fin 1)))" for fmt
    by (intro adf_pure_r_closed_form [where n = 2]) simp_all
  then show
    "fickian_adf_r (int_format None) mach_T1 mach_T2 mach_gas (params_dict mach_q)
       (Scalar (Fin 1)) g = (Inr (Vec [Fin 56, Fin 112]), mach_T2)"
    "fickian_adf_r (int_format (Some 200)) mach_T1 mach_T2 mach_gas (params_dict mach_q)
       (Scalar (Fin 1)) g = (Inr (Vec [Fin 56, PInf]), mach_T2)"
    by (simp_all add: fickian_adf_r_factor mach_flux_f del: properties_at_simps)
qed

lemma mach_script_flux: "flux_r to_int demo_planar_r 1 demo_face1 demo_face2 = Some 8"
  by (simp add: flux_r_def conv_r_def diff_r_def avg_r_def demo_r_defs)

section \<open>Properties of the kernels in machine arithmetic\<close>

text \<open>
  The exact kernels are the machine kernels that round nothing. In the format whose
  rounding is the identity and which has no overflow threshold, the machine kernels are
  the kernels of \<open>Fickian\<close> and \<open>Radial\<close>: they return the same result or raise the same
  exception on every input and leave the provider in the same state.
\<close>

theorem machine_exact:
  "fickian_adf_r exact TDY1 TDY2 gas p tog g = fickian_adf TDY1 TDY2 gas p tog g \<and>
   radial_fdiff_r exact r1 r2 p' node ver flag = radial_fdiff r1 r2 p' node ver flag"
  by (simp add: fickian_adf_r_def fickian_adf_g_def fickian_adf_def radial_fdiff_r_def
      radial_fdiff_def)

text \<open>
  C38 (the planar kernel in machine arithmetic). In every format, when the dictionary
  holds the five scalar coefficients, the provider accepts both states and reports as
  many diffusion coefficients as mass fractions in each, \<open>fickian_adf\<close> returns, for
  every species, the flux computed with one rounding after each operator of the source,
  the operators taken in the order in which Python evaluates them, an overflow giving an
  infinity; it leaves the provider in the second state.
\<close>

theorem fickian_adf_r_closed_form:
  assumes "has_params p q"
    and "set_TDY gas TDY1 g = Inr g1" "set_TDY gas TDY2 g1 = Inr g2"
    and "n_species_ok gas n g1" "n_species_ok gas n g2"
  shows "fickian_adf_r fmt TDY1 TDY2 gas p (Scalar tog) g =
    (Inr (Vec (flux_f fmt q (properties_at gas g1) (properties_at gas g2) tog)), g2)"
  using assms
  by (simp add: fickian_adf_r_factor adf_pure_r_closed_form [where n = n] n_species_ok_def)

theorem fickian_adf_r_closed_form_witness:
  "has_params (params_dict mach_q) mach_q \<and>
   fickian_adf_r (int_format None) mach_T1 mach_T2 mach_gas (params_dict mach_q)
     (Scalar (Fin 1)) mach_T1 = (Inr (Vec [Fin 56, Fin 112]), mach_T2)"
  using fickian_adf_r_closed_form [of "params_dict mach_q" mach_q mach_gas mach_T1 mach_T1
      mach_T1 mach_T2 mach_T2 2 "int_format None" "Fin 1"]
  by (simp add: mach_flux_f)

text \<open>
  C34 (the radial kernel in machine arithmetic). In every format, with the three
  coefficients and the four node arrays in the dictionary, a node index that Python
  accepts and one of the two variants, \<open>radial_fdiff\<close> on two species vectors of equal
  length returns, for every species, the rate computed with one rounding after each
  operator of the source, the squares included.
\<close>

theorem radial_fdiff_r_closed_form:
  assumes "has_shell_params p q" "n_shells q n" "node_in_range n node" "ver = 1 \<or> ver = 2"
    and "length xs = length ys"
  shows "radial_fdiff_r fmt (Vec xs) (Vec ys) p node ver flag =
    Inr (Vec (radial_f fmt q (norm_node n node) ver xs ys))"
  using assms by (rule radial_fdiff_r_typed)

theorem radial_fdiff_r_closed_form_witness:
  "radial_fdiff_r (int_format None) (Vec [Fin 1, Fin 7]) (Vec [Fin 0, Fin 2])
     (shell_dict (shell_of demo_shell_r)) (- 1) 2 () = Inr (Vec [Fin 1, Fin 6])"
  using radial_fdiff_r_closed_form [of "shell_dict (shell_of demo_shell_r)"
      "shell_of demo_shell_r" 1 "- 1" 2 "[Fin 1, Fin 7]" "[Fin 0, Fin 2]" "int_format None" "()"]
  by (simp add: n_shells_def node_in_range_def norm_node_def shell_of_def demo_shell_r_def
      radial_f_def rate_f_def mass_f_def fl_defs to_int_def)

text \<open>
  The machine kernel computes the rounded formula. In a format without overflow
  threshold, for one species and finite coefficients and properties, the planar kernel
  returns the number that the rounded formula \<open>flux_r\<close> gives with the rounding of the
  format, whenever the rounded average of the viscosities is not zero: what is proved of
  \<open>flux_r\<close> is proved of the result of the kernel.
\<close>

theorem fickian_adf_r_rounded:
  assumes "fmt_max fmt = None" "has_params p (planar_of q)"
    and "set_TDY gas TDY1 g = Inr g1" "set_TDY gas TDY2 g1 = Inr g2"
    and "properties_at gas g1 = snapshot_of n1" "properties_at gas g2 = snapshot_of n2"
    and "flux_r (fmt_rnd fmt) q t n1 n2 = Some v"
  shows "fickian_adf_r fmt TDY1 TDY2 gas p (Scalar (Fin t)) g = (Inr (Vec [Fin v]), g2)"
proof -
  have "adf_pure_r fmt p (snapshot_of n1) (snapshot_of n2) (Scalar (Fin t)) =
      Inr (Vec (flux_f fmt (planar_of q) (snapshot_of n1) (snapshot_of n2) (Fin t)))"
    using assms(2) by (rule adf_pure_r_closed_form [where n = 1]) (simp_all add: snapshot_of_def)
  then show ?thesis
    using assms(3-6) by (simp add: fickian_adf_r_factor flux_f_rounded [OF assms(1,7)]
        del: properties_at_simps)
qed

theorem fickian_adf_r_rounded_witness:
  "fickian_adf_r (int_format None) mach_T1 mach_T2 scripted_gas
     (params_dict (planar_of demo_planar_r)) (Scalar (Fin 1)) mach_script =
   (Inr (Vec [Fin 8]), (snapshot_of demo_face2, []))"
  using fickian_adf_r_rounded [of "int_format None" "params_dict (planar_of demo_planar_r)"
      demo_planar_r scripted_gas mach_T1 mach_script "(snapshot_of demo_face1, [snapshot_of demo_face2])"
      mach_T2 "(snapshot_of demo_face2, [])" demo_face1 demo_face2 1 8]
  by (simp add: mach_script_def mach_script_flux)

text \<open>
  C5 (antisymmetry in machine arithmetic). In every format whose rounding is odd, as
  rounding to nearest is, both kernels are antisymmetric exactly, with the rounding of
  every operator and with overflow. For a provider whose properties are determined by
  the state that was set, exchanging the two states together with the two weights
  negates the result of \<open>fickian_adf\<close>; swapping the two density arguments negates the
  result of \<open>radial_fdiff\<close>, for every dictionary, node and variant. An infinity becomes
  the opposite infinity and a raised exception stays.
\<close>

theorem machine_antisymmetric:
  assumes "odd_format fmt" "state_determined gas"
    and "set_TDY gas TDY1 g = Inr g1" "set_TDY gas TDY2 g1 = Inr g2"
    and "set_TDY gas TDY2 g = Inr h1" "set_TDY gas TDY1 h1 = Inr h2"
    and "p ''wt1'' \<noteq> None" "p ''wt2'' \<noteq> None"
  shows "fst (fickian_adf_r fmt TDY2 TDY1 gas (swap_wts p) tog g) =
      negE (fst (fickian_adf_r fmt TDY1 TDY2 gas p tog g)) \<and>
    radial_fdiff_r fmt r2 r1 p' node ver flag = negE (radial_fdiff_r fmt r1 r2 p' node ver flag)"
proof -
  have "properties_at gas h1 = properties_at gas g2" "properties_at gas h2 = properties_at gas g1"
    using assms(2-6) by (blast intro: state_determinedD)+
  then show ?thesis
    using assms
    by (simp add: fickian_adf_r_factor adf_pure_r_antisymmetric radial_fdiff_r_swap [of fmt r2 r1])
qed

theorem machine_antisymmetric_witness:
  "fst (fickian_adf_r (int_format (Some 200)) mach_T2 mach_T1 mach_gas
     (swap_wts (params_dict mach_q)) (Scalar (Fin 1)) mach_T1) = Inr (Vec [Fin (- 56), NInf]) \<and>
   radial_fdiff_r (int_format (Some 200)) (Vec [Fin 0, Fin 2]) (Vec [Fin 1, Fin 97])
     (shell_dict (shell_of demo_shell_r)) 0 2 () = Inr (Vec [Fin (- 1), NInf])"
proof -
  have "params_dict mach_q ''wt1'' \<noteq> None" "params_dict mach_q ''wt2'' \<noteq> None"
    by (simp_all add: params_dict_def)
  moreover have "radial_fdiff_r (int_format (Some 200)) (Vec [Fin 1, Fin 97]) (Vec [Fin 0, Fin 2])
     (shell_dict (shell_of demo_shell_r)) 0 2 () = Inr (Vec [Fin 1, PInf])"
    by (simp add: radial_fdiff_r_def shell_dict_def shell_of_def demo_shell_r_def py_index_def
        fl_defs to_int_def)
  ultimately show ?thesis
    using mach_run(2)
      machine_antisymmetric [of "int_format (Some 200)" mach_gas mach_T1 mach_T1
        mach_T1 mach_T2 mach_T2 mach_T2 mach_T1 "params_dict mach_q" "Scalar (Fin 1)"
        "Vec [Fin 0, Fin 2]" "Vec [Fin 1, Fin 97]" "shell_dict (shell_of demo_shell_r)" 0 2 "()"]
    by (simp add: odd_format_int)
qed

text \<open>
  The two variants in machine arithmetic. Under rounding the result of variant 2 is
  not the result of variant 1 multiplied by the product of the two shell factors: the
  code multiplies by one factor after the other and rounds in between. With truncation
  to integers as rounding, on a concrete dictionary, variant 2 returns 1 and variant 1
  times the rounded product of the factors is 0.
\<close>

theorem variant_consistency_rounded:
  "radial_fdiff_r (int_format None) (Vec [Fin 1]) (Vec [Fin 0])
     (shell_dict (shell_of demo_shell_r)) 0 2 () = Inr (Vec [Fin 1]) \<and>
   mulR (int_format None)
     (radial_fdiff_r (int_format None) (Vec [Fin 1]) (Vec [Fin 0])
        (shell_dict (shell_of demo_shell_r)) 0 1 ())
     (mulR (int_format None)
        (powR (int_format None) (idxE (getp (shell_dict (shell_of demo_shell_r)) ''1/r_j'') 0) 2)
        (idxE (getp (shell_dict (shell_of demo_shell_r)) ''1/t_shl'') 0)) = Inr (Vec [Fin 0])"
  by (simp add: radial_fdiff_r_def shell_dict_def shell_of_def demo_shell_r_def py_index_def
      fl_defs to_int_def)

end
