(* ===== verification/Binary64.thy ===== *)
theory Binary64
  imports Machine
begin

text \<open>
  Double precision as a format. Python floats are IEEE 754 binary64 numbers: 53 bits of
  precision, exponents of the unit in the last place from \<open>-1074\<close> (the subnormal
  numbers) upwards, rounding to nearest with ties to the even neighbour, and overflow to
  an infinity for an exact result of magnitude \<open>2\<^sup>1\<^sup>0\<^sup>2\<^sup>4 - 2\<^sup>9\<^sup>7\<^sup>0\<close> or more. The theory
  defines this rounding on the reals (\<open>round_to\<close>), proves that it is odd and idempotent
  and that it keeps every number below the threshold within the largest double, so that
  \<open>binary64\<close> is an odd and sound format, and instantiates the theorems of \<open>Machine\<close>:
  what they state for every such format holds for the kernels as Python runs them. The
  rounding is checked against known doubles (\<open>0.1\<close>, and \<open>0.1 + 0.2\<close> against \<open>0.3\<close>).
\<close>

section \<open>Rounding to nearest, ties to even\<close>

definition rne :: "real \<Rightarrow> int" where
  "rne x = (let f = \<lfloor>x\<rfloor>; d = x - of_int f
            in if d < 1/2 then f else if 1/2 < d then f + 1 else if even f then f else f + 1)"

definition ulp_exp :: "nat \<Rightarrow> int \<Rightarrow> real \<Rightarrow> int" where
  "ulp_exp p emin x = max (\<lfloor>log 2 \<bar>x\<bar>\<rfloor> - int p + 1) emin"

definition round_to :: "nat \<Rightarrow> int \<Rightarrow> real \<Rightarrow> real" where
  "round_to p emin x =
     (if x = 0 then 0
      else of_int (rne (x / 2 powr of_int (ulp_exp p emin x))) * 2 powr of_int (ulp_exp p emin x))"

definition binary64 :: format where
  "binary64 = \<lparr>fmt_rnd = round_to 53 (- 1074), fmt_max = Some (2 ^ 1024 - 2 ^ 970)\<rparr>"

definition dbl_gas :: "tdy gas_ops" where
  "dbl_gas = table_gas tdy_valid (ideal_props (Fin 1) (Fin 2) (Fin 4))"

section \<open>The integer nearest to a real\<close>

lemma rne_of_int [simp]: "rne (of_int n) = n"
  by (simp add: rne_def)

lemma rne_uminus: "rne (- x) = - rne x"
proof (cases "x = of_int \<lfloor>x\<rfloor>")
  case True
  then obtain n where "x = of_int n" ..
  then show ?thesis using rne_of_int [of "- n"] by simp
next
  case False
  then have f: "\<lfloor>- x\<rfloor> = - \<lfloor>x\<rfloor> - 1"
    by (intro floor_unique) (auto simp: less_le; linarith)+
  show ?thesis
    unfolding rne_def Let_def f by (auto; linarith?)
qed

lemma rne_le_half: "x < of_int n + 1/2 \<Longrightarrow> rne x \<le> n"
  using of_int_floor_le [of x] floor_less_iff [of x n] floor_less_iff [of x "n + 1"]
  unfolding rne_def Let_def by (auto; linarith?)

lemma rne_ge_half: "of_int n - 1/2 < x \<Longrightarrow> n \<le> rne x"
  using rne_le_half [of "- x" "- n"] by (simp add: rne_uminus)

lemma rne_le: "x \<le> of_int n \<Longrightarrow> rne x \<le> n"
  by (rule rne_le_half) simp

lemma rne_ge: "of_int n \<le> x \<Longrightarrow> n \<le> rne x"
  by (rule rne_ge_half) simp

lemma abs_rne_le: "\<bar>x\<bar> \<le> of_int n \<Longrightarrow> \<bar>rne x\<bar> \<le> n"
  using rne_le [of x n] rne_ge [of "- n" x] by (auto simp: abs_le_iff)

section \<open>The unit in the last place\<close>

lemma ulp_exp_uminus [simp]: "ulp_exp p emin (- x) = ulp_exp p emin x"
  by (simp add: ulp_exp_def)

lemma round_to_uminus: "round_to p emin (- x) = - round_to p emin x"
  by (simp add: round_to_def rne_uminus)

lemma round_to_0 [simp]: "round_to p emin 0 = 0"
  by (simp add: round_to_def)

lemma scaled_less:
  assumes "x \<noteq> 0"
  shows "\<bar>x\<bar> / 2 powr of_int (ulp_exp p emin x) < 2 ^ p"
proof -
  let ?l = "\<lfloor>log 2 \<bar>x\<bar>\<rfloor>"
  have "log 2 \<bar>x\<bar> < of_int (?l + 1)" by linarith
  then have "\<bar>x\<bar> < 2 powr of_int (?l + 1)"
    using assms by (simp add: log_less_iff del: of_int_add)
  also have "\<dots> \<le> 2 powr of_int (ulp_exp p emin x + int p)"
    by (simp add: ulp_exp_def del: of_int_add)
  also have "\<dots> = 2 powr of_int (ulp_exp p emin x) * 2 ^ p"
    by (simp add: powr_add powr_realpow)
  finally show ?thesis
    by (simp add: pos_divide_less_eq mult.commute)
qed

lemma abs_rne_scaled:
  assumes "x \<noteq> 0"
  shows "\<bar>rne (x / 2 powr of_int (ulp_exp p emin x))\<bar> \<le> 2 ^ p"
  using scaled_less [OF assms, of p emin] abs_rne_le [of "x / 2 powr of_int (ulp_exp p emin x)" "2 ^ p"]
  by simp

lemma floor_log_bounds:
  assumes "x \<noteq> 0"
  shows "2 powr of_int \<lfloor>log 2 \<bar>x\<bar>\<rfloor> \<le> \<bar>x\<bar>" "\<bar>x\<bar> < 2 powr of_int (\<lfloor>log 2 \<bar>x\<bar>\<rfloor> + 1)"
  using assms real_of_int_floor_add_one_gt [of "log 2 \<bar>x\<bar>"]
  by (simp_all add: powr_le_iff less_powr_iff)

lemma floor_log_less:
  assumes "x \<noteq> 0" "\<bar>x\<bar> < 2 powr of_int n"
  shows "\<lfloor>log 2 \<bar>x\<bar>\<rfloor> < n"
  using le_less_trans [OF floor_log_bounds(1) [OF assms(1)] assms(2)] by simp

lemma floor_log_ge:
  assumes "x \<noteq> 0" "2 powr of_int n \<le> \<bar>x\<bar>"
  shows "n \<le> \<lfloor>log 2 \<bar>x\<bar>\<rfloor>"
  using le_less_trans [OF assms(2) floor_log_bounds(2) [OF assms(1)]] by (simp del: of_int_add)

lemma of_int_le_pow:
  "k \<le> 2 ^ p \<Longrightarrow> of_int k \<le> (2 ^ p :: real)"
  "k \<le> 2 ^ p - 1 \<Longrightarrow> of_int k \<le> (2 ^ p - 1 :: real)"
  "(2 ^ p :: real) \<le> of_int k \<Longrightarrow> 2 ^ p \<le> k"
  using of_int_le_iff [of k "2 ^ p", where 'a = real]
    of_int_le_iff [of k "2 ^ p - 1", where 'a = real]
    of_int_le_iff [of "2 ^ p" k, where 'a = real]
  by simp_all

lemma powr_int_diff: "e' \<le> e \<Longrightarrow> 2 powr of_int e / 2 powr of_int e' = (2::real) ^ nat (e - e')"
  by (simp add: powr_diff [symmetric] powr_realpow [symmetric])

lemma ulp_exp_representable:
  fixes k :: int
  defines "y \<equiv> \<lambda>e. of_int k * 2 powr of_int e :: real"
  assumes "k \<noteq> 0" "\<bar>k\<bar> \<le> 2 ^ p" "emin \<le> e"
  shows "ulp_exp p emin (y e) \<le> e \<or> ulp_exp p emin (y e) = e + 1 \<and> \<bar>k\<bar> = 2 ^ p"
proof (cases "ulp_exp p emin (y e) \<le> e")
  case False
  have y: "y e \<noteq> 0" "\<bar>y e\<bar> = of_int \<bar>k\<bar> * 2 powr of_int e"
    using assms(2) by (simp_all add: y_def abs_mult)
  from False have l: "e + int p \<le> \<lfloor>log 2 \<bar>y e\<bar>\<rfloor>"
    using assms(4) by (simp add: ulp_exp_def)
  then have "2 powr of_int (e + int p) \<le> (2::real) powr of_int \<lfloor>log 2 \<bar>y e\<bar>\<rfloor>"
    by (simp del: of_int_add)
  then have "2 powr of_int (e + int p) \<le> \<bar>y e\<bar>"
    using floor_log_bounds(1) [OF y(1)] by (rule order_trans)
  then have "(2::real) ^ p \<le> of_int \<bar>k\<bar>"
    unfolding y(2) by (simp add: powr_add powr_realpow mult.commute)
  then have "2 ^ p \<le> \<bar>k\<bar>"
    by (rule of_int_le_pow)
  with assms(3) have k: "\<bar>k\<bar> = 2 ^ p" by simp
  then have "\<bar>y e\<bar> = 2 powr of_int (e + int p)"
    unfolding y(2) by (simp add: powr_add powr_realpow mult.commute)
  then have "\<bar>y e\<bar> < 2 powr of_int (e + int p + 1)"
    by (simp del: of_int_add)
  then have "\<lfloor>log 2 \<bar>y e\<bar>\<rfloor> < e + int p + 1"
    by (rule floor_log_less [OF y(1)])
  with l k show ?thesis
    using assms(4) by (simp add: ulp_exp_def)
qed simp

lemma scaled_integral:
  assumes "k \<noteq> 0" "\<bar>k\<bar> \<le> 2 ^ p" "emin \<le> e" "0 < p"
  shows "\<exists>m::int. (of_int k * 2 powr of_int e :: real) /
    2 powr of_int (ulp_exp p emin (of_int k * 2 powr of_int e)) = of_int m"
  using ulp_exp_representable [OF assms(1-3)]
proof
  let ?y = "of_int k * 2 powr of_int e :: real"
  let ?e = "ulp_exp p emin ?y"
  assume le: "?e \<le> e"
  have "?y / 2 powr of_int ?e = of_int k * (2 powr of_int e / 2 powr of_int ?e)"
    by simp
  then have "?y / 2 powr of_int ?e = of_int (k * 2 ^ nat (e - ?e))"
    unfolding powr_int_diff [OF le] by simp
  then show ?thesis ..
next
  let ?y = "of_int k * 2 powr of_int e :: real"
  let ?e = "ulp_exp p emin ?y"
  assume e: "?e = e + 1 \<and> \<bar>k\<bar> = 2 ^ p"
  then have "2 dvd \<bar>k\<bar>"
    using assms(4) by (cases p) simp_all
  then have "k = 2 * (k div 2)"
    by simp
  then have "?y / 2 powr of_int ?e = of_int (k div 2)"
    using e by (simp add: powr_add)
  then show ?thesis ..
qed

lemma round_to_representable:
  assumes "\<bar>k\<bar> \<le> 2 ^ p" "emin \<le> e" "0 < p"
  shows "round_to p emin (of_int k * 2 powr of_int e) = of_int k * 2 powr of_int e"
proof (cases "k = 0")
  case False
  let ?y = "of_int k * 2 powr of_int e :: real"
  obtain m :: int where m: "?y / 2 powr of_int (ulp_exp p emin ?y) = of_int m"
    using scaled_integral [OF False assms] ..
  then have "of_int m * 2 powr of_int (ulp_exp p emin ?y) = ?y"
    by (simp add: field_simps)
  with m False show ?thesis
    by (simp add: round_to_def)
qed (simp add: round_to_def)

lemma ulp_exp_ge: "emin \<le> ulp_exp p emin x"
  by (simp add: ulp_exp_def)

lemma round_to_idem:
  assumes "0 < p"
  shows "round_to p emin (round_to p emin x) = round_to p emin x"
proof (cases "x = 0")
  case False
  then show ?thesis
    using round_to_representable [OF abs_rne_scaled [OF False, of p emin] ulp_exp_ge [of emin p x]
        assms]
    by (simp add: round_to_def)
qed simp

lemma ulp_exp_below:
  assumes "x \<noteq> 0" "emin \<le> E" "\<bar>x\<bar> < 2 ^ p * 2 powr of_int E"
  shows "ulp_exp p emin x \<le> E"
proof -
  have "\<bar>x\<bar> < 2 powr of_int (E + int p)"
    using assms(3) by (simp add: powr_add powr_realpow mult.commute)
  then have "\<lfloor>log 2 \<bar>x\<bar>\<rfloor> < E + int p"
    by (rule floor_log_less [OF assms(1)])
  then show ?thesis
    using assms(2) by (simp add: ulp_exp_def)
qed

lemma abs_rne_top:
  assumes "\<bar>x\<bar> < (2 ^ p - 1/2) * 2 powr of_int E"
  shows "of_int \<bar>rne (x / 2 powr of_int E)\<bar> \<le> (2 ^ p - 1 :: real)"
proof -
  have "\<bar>x\<bar> / 2 powr of_int E < 2 ^ p - 1/2"
    using assms by (simp add: pos_divide_less_eq)
  moreover have "x / 2 powr of_int E \<le> \<bar>x\<bar> / 2 powr of_int E"
    "- (\<bar>x\<bar> / 2 powr of_int E) \<le> x / 2 powr of_int E"
    using divide_right_mono [of "- \<bar>x\<bar>" x "2 powr of_int E"]
    by (simp_all add: divide_right_mono)
  ultimately have "x / 2 powr of_int E < of_int (2 ^ p - 1) + 1/2"
    "of_int (- (2 ^ p - 1)) - 1/2 < x / 2 powr of_int E"
    by simp_all
  then have "\<bar>rne (x / 2 powr of_int E)\<bar> \<le> 2 ^ p - 1"
    using rne_le_half [of "x / 2 powr of_int E" "2 ^ p - 1"]
      rne_ge_half [of "- (2 ^ p - 1)" "x / 2 powr of_int E"]
    by (simp add: abs_le_iff)
  then show ?thesis
    by (rule of_int_le_pow)
qed

lemma round_to_below:
  assumes "0 < p" "emin \<le> E" "\<bar>x\<bar> < (2 ^ p - 1/2) * 2 powr of_int E"
  shows "\<bar>round_to p emin x\<bar> \<le> (2 ^ p - 1) * 2 powr of_int E"
proof (cases "x = 0")
  case False
  let ?e = "ulp_exp p emin x"
  let ?k = "rne (x / 2 powr of_int ?e)"
  have r: "\<bar>round_to p emin x\<bar> = of_int \<bar>?k\<bar> * 2 powr of_int ?e"
    using False by (simp add: round_to_def abs_mult)
  have "\<bar>x\<bar> < 2 ^ p * 2 powr of_int E"
    using assms(3) by (rule less_le_trans) (simp add: mult_right_mono)
  then have e: "?e \<le> E"
    by (rule ulp_exp_below [OF False assms(2)])
  show ?thesis
  proof (cases "?e = E")
    case True
    then show ?thesis
      using abs_rne_top [OF assms(3)] unfolding r by (simp add: mult_right_mono)
  next
    case False
    with e have "?e \<le> E - 1" by simp
    then have "2 powr of_int ?e \<le> (2::real) powr of_int (E - 1)"
      by (simp del: of_int_diff)
    moreover have "of_int \<bar>?k\<bar> \<le> (2 ^ p :: real)"
      using abs_rne_scaled [OF \<open>x \<noteq> 0\<close>, of p emin] by (rule of_int_le_pow)
    ultimately have "of_int \<bar>?k\<bar> * 2 powr of_int ?e \<le> (2 ^ p * 2 powr of_int (E - 1) :: real)"
      by (intro mult_mono) simp_all
    also have "\<dots> = 2 ^ (p - 1) * 2 powr of_int E"
      using assms(1) by (cases p) (simp_all add: powr_diff)
    also have "\<dots> \<le> (2 ^ p - 1) * 2 powr of_int E"
      using assms(1) by (cases p) (simp_all add: mult_right_mono)
    finally show ?thesis
      unfolding r .
  qed
qed simp

section \<open>Double precision is an odd and sound format\<close>

lemma binary64_simps [simp]:
  "fmt_rnd binary64 = round_to 53 (- 1074)" "fmt_max binary64 = Some (2 ^ 1024 - 2 ^ 970)"
  by (simp_all add: binary64_def)

lemma binary64_odd: "odd_format binary64"
  by (simp add: odd_format_def odd_rounding_def round_to_uminus)

lemma binary64_below:
  assumes "\<bar>x\<bar> < 2 ^ 1024 - 2 ^ 970"
  shows "\<bar>round_to 53 (- 1074) x\<bar> < 2 ^ 1024 - 2 ^ 970"
proof -
  have "(2 ^ 53 - 1/2) * 2 powr of_int 971 = (2 ^ 1024 - 2 ^ 970 :: real)"
    "(2 ^ 53 - 1) * 2 powr of_int 971 < (2 ^ 1024 - 2 ^ 970 :: real)"
    by (simp_all add: powr_realpow [symmetric])
  then show ?thesis
    using round_to_below [of 53 "- 1074" 971 x] assms by simp
qed

lemma binary64_sound: "sound_format binary64"
proof -
  have "\<bar>fmt_rnd binary64 x\<bar> < M" if "fmt_max binary64 = Some M" "\<bar>x\<bar> < M" for M x
    using that binary64_below [of x] by simp
  then show ?thesis
    by (simp add: sound_format_def round_to_idem del: binary64_simps(2))
qed

section \<open>Rounding concrete numbers\<close>

lemma floor_log_eq:
  assumes "2 powr of_int n \<le> \<bar>x\<bar>" "\<bar>x\<bar> < 2 powr of_int (n + 1)"
  shows "\<lfloor>log 2 \<bar>x\<bar>\<rfloor> = n"
proof -
  have "x \<noteq> 0"
    using assms(1) by (auto simp: not_le)
  then show ?thesis
    using floor_log_ge [OF _ assms(1)] floor_log_less [OF _ assms(2)] by simp
qed

lemma round_to_eval:
  assumes "2 powr of_int n \<le> \<bar>x\<bar>" "\<bar>x\<bar> < 2 powr of_int (n + 1)" "emin \<le> n - int p + 1"
  shows "round_to p emin x =
    of_int (rne (x / 2 powr of_int (n - int p + 1))) * 2 powr of_int (n - int p + 1)"
proof -
  have "x \<noteq> 0"
    using assms(1) by (auto simp: not_le)
  then show ?thesis
    using assms(3) by (simp add: round_to_def ulp_exp_def floor_log_eq [OF assms(1,2)])
qed

lemma round_to_int:
  "\<bar>k\<bar> \<le> 2 ^ 53 \<Longrightarrow> round_to 53 (- 1074) (of_int k) = of_int k"
  using round_to_representable [of k 53 "- 1074" 0] by simp

lemma round_to_numeral [simp]:
  "numeral n \<le> (2 ^ 53 :: int) \<Longrightarrow> round_to 53 (- 1074) (numeral n) = numeral n"
  "round_to 53 (- 1074) 1 = 1"
  using round_to_int [of "numeral n"] round_to_int [of 1] by simp_all

lemma double_tenth:
  "round_to 53 (- 1074) (1/10) = 3602879701896397 / 2 ^ 55"
  by (subst round_to_eval [where n = "- 4"]) (simp_all add: rne_def powr_neg_numeral)

lemma double_fifth:
  "round_to 53 (- 1074) (1/5) = 3602879701896397 / 2 ^ 54"
  by (subst round_to_eval [where n = "- 3"]) (simp_all add: rne_def powr_neg_numeral)

lemma double_sum:
  "fl_add binary64 (Fin (round_to 53 (- 1074) (1/10))) (Fin (round_to 53 (- 1074) (1/5))) =
     Fin (1351079888211149 / 2 ^ 52)"
  by (simp add: fl_add_def round_f_def double_tenth double_fifth,
      subst round_to_eval [where n = "- 2"], simp_all add: rne_def powr_neg_numeral)

lemma double_three_tenths:
  "round_f binary64 (Fin (3/10)) = Fin (5404319552844595 / 2 ^ 54)"
  by (simp add: round_f_def, subst round_to_eval [where n = "- 2"],
      simp_all add: rne_def powr_neg_numeral)

lemma round_to_quarter [simp]: "round_to 53 (- 1074) (1/4) = 1/4"
  using round_to_representable [of 1 53 "- 1074" "- 2"] by (simp add: powr_neg_numeral)

section \<open>A concrete call in double precision\<close>

lemma dbl_gas_simps [simp]:
  "set_TDY dbl_gas mach_T1 g = Inr mach_T1" "set_TDY dbl_gas mach_T2 g = Inr mach_T2"
  "state_determined dbl_gas"
  by (simp_all add: dbl_gas_def mach_T1_def mach_T2_def tdy_valid_def table_gas_state_determined)

lemma dbl_flux_f:
  "flux_f binary64 mach_q (properties_at dbl_gas mach_T1) (properties_at dbl_gas mach_T2) (Fin 1) =
     [Fin 25, Fin 59]"
  by (simp add: flux_f_defs fl_defs dbl_gas_def mach_T1_def mach_T2_def mach_q_def upt_rec
      round_to_uminus)

lemma dbl_run:
  "fickian_adf_r binary64 mach_T1 mach_T2 dbl_gas (params_dict mach_q) (Scalar (Fin 1)) g =
     (Inr (Vec [Fin 25, Fin 59]), mach_T2)"
proof -
  have "adf_pure_r binary64 (params_dict mach_q) (properties_at dbl_gas mach_T1)
      (properties_at dbl_gas mach_T2) (Scalar (Fin 1)) =
    Inr (Vec (flux_f binary64 mach_q (properties_at dbl_gas mach_T1)
      (properties_at dbl_gas mach_T2) (Fin 1)))"
    by (intro adf_pure_r_closed_form [where n = 2])
      (simp_all add: dbl_gas_def mach_T1_def mach_T2_def)
  then show ?thesis
    by (simp add: fickian_adf_r_factor dbl_flux_f del: properties_at_simps)
qed

section \<open>The kernels in double precision\<close>

text \<open>
  C22 (the kernels in double precision). In IEEE 754 double precision, the arithmetic of
  Python floats, with rounding to nearest after every operator, gradual underflow and
  overflow to infinity: for a provider whose properties are determined by the state set,
  exchanging the two states and the two weights negates the result of \<open>fickian_adf\<close>
  exactly; swapping the two densities negates the result of \<open>radial_fdiff\<close> exactly;
  and every component \<open>fickian_adf\<close> returns is a double, an infinity or NaN.
\<close>

theorem double_precision:
  assumes "state_determined gas"
    and "set_TDY gas TDY1 g = Inr g1" "set_TDY gas TDY2 g1 = Inr g2"
    and "set_TDY gas TDY2 g = Inr h1" "set_TDY gas TDY1 h1 = Inr h2"
    and "p ''wt1'' \<noteq> None" "p ''wt2'' \<noteq> None"
  shows "fst (fickian_adf_r binary64 TDY2 TDY1 gas (swap_wts p) tog g) =
      negE (fst (fickian_adf_r binary64 TDY1 TDY2 gas p tog g)) \<and>
    radial_fdiff_r binary64 r2 r1 p' node ver flag =
      negE (radial_fdiff_r binary64 r1 r2 p' node ver flag) \<and>
    (fst (fickian_adf_r binary64 TDY1 TDY2 gas p tog g) = Inr v \<longrightarrow>
       list_all (in_format binary64) (elems v))"
proof -
  have "properties_at gas h1 = properties_at gas g2" "properties_at gas h2 = properties_at gas g1"
    using assms(1-5) by (blast intro: state_determinedD)+
  then show ?thesis
    using assms adf_pure_r_in_format [OF binary64_sound]
    by (simp add: fickian_adf_r_factor adf_pure_r_antisymmetric [OF binary64_odd]
        radial_fdiff_r_swap [OF binary64_odd, of r2 r1] del: properties_at_simps)
qed

theorem double_precision_witness:
  "fst (fickian_adf_r binary64 mach_T2 mach_T1 dbl_gas (swap_wts (params_dict mach_q))
     (Scalar (Fin 1)) mach_T1) = Inr (Vec [Fin (- 25), Fin (- 59)]) \<and>
   list_all (in_format binary64) [Fin 25, Fin 59]"
proof -
  have "params_dict mach_q ''wt1'' \<noteq> None" "params_dict mach_q ''wt2'' \<noteq> None"
    by (simp_all add: params_dict_def)
  then show ?thesis
    using double_precision [of dbl_gas mach_T1 mach_T1 mach_T1 mach_T2 mach_T2 mach_T2 mach_T1
        "params_dict mach_q" "Scalar (Fin 1)" "Vec []" "Vec []" Map.empty 0 0 "()"
        "Vec [Fin 25, Fin 59]"]
      dbl_run [of mach_T1]
    by simp
qed

end
