(* ===== verification/Driver.thy ===== *)
theory Driver
  imports Machine
begin

text \<open>
  The caller of the planar kernel. The solver that uses
  \<^verbatim>\<open>src/Shared_Funcs/pemfc_transport_funcs.py\<close> is not part of the repository; the
  specification says of it that it calls \<^verbatim>\<open>fickian_adf\<close> once for every interface between
  two adjacent nodes, in one loop, on one provider. The theory gives this loop over a
  chain of nodes (\<open>sweep\<close>) as the sequence of the calls, each starting on the provider as
  the call before has left it. It proves that on a provider that is determined by the
  state set and accepts the states of the chain the loop returns, for every interface,
  what a call alone returns for it, that the first exception of a call ends the loop,
  and that the loop over the chain in the other direction, with the weights exchanged,
  returns the negated fluxes in the other order, in every machine arithmetic with an odd
  rounding.
\<close>

section \<open>The loop over the interfaces of a chain\<close>

fun sweep :: "format \<Rightarrow> 'g gas_ops \<Rightarrow> pdict \<Rightarrow> pyval \<Rightarrow> tdy list \<Rightarrow> ('g, pyval list) sx" where
  "sweep fmt gas p tog (T1 # T2 # Ts) =
     bindS (fickian_adf_r fmt T1 T2 gas p tog) (\<lambda>J.
     bindS (sweep fmt gas p tog (T2 # Ts)) (\<lambda>Js.
     returnS (J # Js)))"
| "sweep fmt gas p tog [T] = returnS []"
| "sweep fmt gas p tog [] = returnS []"

definition mach_chain :: "tdy list" where
  "mach_chain = [mach_T1, mach_T2, mach_T2]"

section \<open>One step of the loop\<close>

lemma sweep_Cons:
  "sweep fmt gas p tog (T1 # T2 # Ts) g =
     (case fickian_adf_r fmt T1 T2 gas p tog g of
        (Inl e, g') \<Rightarrow> (Inl e, g')
      | (Inr J, g') \<Rightarrow>
          (case sweep fmt gas p tog (T2 # Ts) g' of
             (Inl e, g'') \<Rightarrow> (Inl e, g'')
           | (Inr Js, g'') \<Rightarrow> (Inr (J # Js), g'')))"
  by (simp add: bindS_def split: prod.splits sum.splits)

declare sweep.simps(1) [simp del]

lemma sweep_raises:
  "fst (fickian_adf_r fmt T1 T2 gas p tog g) = Inl e \<Longrightarrow>
   sweep fmt gas p tog (T1 # T2 # Ts) g = (Inl e, snd (fickian_adf_r fmt T1 T2 gas p tog g))"
  by (cases "fickian_adf_r fmt T1 T2 gas p tog g") (simp add: sweep_Cons)

lemma fst_sweep_Cons_iff:
  "fst (sweep fmt gas p tog (T1 # T2 # Ts) g) = Inr Js \<longleftrightarrow>
     (\<exists>J Js'. Js = J # Js' \<and> fst (fickian_adf_r fmt T1 T2 gas p tog g) = Inr J \<and>
        fst (sweep fmt gas p tog (T2 # Ts) (snd (fickian_adf_r fmt T1 T2 gas p tog g))) = Inr Js')"
  by (auto simp: sweep_Cons split: prod.splits sum.splits)

section \<open>A call does not depend on the calls before it\<close>

lemma call_history:
  assumes "state_determined gas" "accepted gas T1" "accepted gas T2"
  shows "fst (fickian_adf_r fmt T1 T2 gas p tog g) = fst (fickian_adf_r fmt T1 T2 gas p tog h)"
proof -
  obtain g1 g2 h1 h2 where s: "set_TDY gas T1 g = Inr g1" "set_TDY gas T2 g1 = Inr g2"
    "set_TDY gas T1 h = Inr h1" "set_TDY gas T2 h1 = Inr h2"
    using assms(2,3) unfolding accepted_def by metis
  then have "properties_at gas g1 = properties_at gas h1" "properties_at gas g2 = properties_at gas h2"
    using assms(1) by (blast intro: state_determinedD)+
  with s show ?thesis
    by (simp add: fickian_adf_r_factor del: properties_at_simps)
qed

lemma call_swapped:
  assumes "odd_format fmt" "state_determined gas" "accepted gas T1" "accepted gas T2"
    and "p ''wt1'' \<noteq> None" "p ''wt2'' \<noteq> None"
  shows "fst (fickian_adf_r fmt T2 T1 gas (swap_wts p) tog g) =
    negE (fst (fickian_adf_r fmt T1 T2 gas p tog h))"
proof -
  obtain g1 g2 h1 h2 where s: "set_TDY gas T2 g = Inr g1" "set_TDY gas T1 g1 = Inr g2"
    "set_TDY gas T1 h = Inr h1" "set_TDY gas T2 h1 = Inr h2"
    using assms(3,4) unfolding accepted_def by metis
  then have "properties_at gas g1 = properties_at gas h2" "properties_at gas g2 = properties_at gas h1"
    using assms(2) by (blast intro: state_determinedD)+
  with s show ?thesis
    by (simp add: fickian_adf_r_factor adf_pure_r_antisymmetric [OF assms(1,5,6)]
        del: properties_at_simps)
qed

lemma sweep_iff:
  assumes "state_determined gas" "\<forall>T\<in>set Ts. accepted gas T"
  shows "fst (sweep fmt gas p tog Ts g) = Inr Js \<longleftrightarrow>
    length Js = length Ts - 1 \<and>
    (\<forall>i<length Js. \<forall>h. fst (fickian_adf_r fmt (Ts ! i) (Ts ! Suc i) gas p tog h) = Inr (Js ! i))"
  using assms
proof (induction fmt gas p tog Ts arbitrary: g Js rule: sweep.induct)
  case (1 fmt gas p tog T1 T2 Ts)
  let ?call = "fickian_adf_r fmt T1 T2 gas p tog"
  have "fst (?call h) = fst (?call g)" for h
    by (rule call_history) (use "1.prems" in simp_all)
  then have h: "(\<forall>h. fst (?call h) = r) \<longleftrightarrow> fst (?call g) = r" for r
    by auto
  have tail: "fst (sweep fmt gas p tog (T2 # Ts) g') = Inr Js' \<longleftrightarrow>
      length Js' = length Ts \<and>
      (\<forall>i<length Js'. \<forall>h. fst (fickian_adf_r fmt ((T2 # Ts) ! i) ((T2 # Ts) ! Suc i) gas p tog h) =
         Inr (Js' ! i))" for g' Js'
    using "1.prems" by (subst "1.IH") simp_all
  show ?case
  proof (cases Js)
    case Nil
    then show ?thesis by (simp add: fst_sweep_Cons_iff)
  next
    case (Cons J Js')
    then show ?thesis
      by (auto simp: fst_sweep_Cons_iff tail h All_less_Suc2)
  qed
qed auto

lemma sweep_reversed:
  assumes "odd_format fmt" "state_determined gas" "\<forall>T\<in>set Ts. accepted gas T"
    and "p ''wt1'' \<noteq> None" "p ''wt2'' \<noteq> None"
    and "fst (sweep fmt gas p tog Ts g) = Inr Js"
  shows "fst (sweep fmt gas (swap_wts p) tog (rev Ts) h) = Inr (rev (map np_neg Js))"
proof -
  have len: "length Js = length Ts - 1"
    and calls: "\<And>i h. i < length Js \<Longrightarrow>
      fst (fickian_adf_r fmt (Ts ! i) (Ts ! Suc i) gas p tog h) = Inr (Js ! i)"
    using assms(6) unfolding sweep_iff [OF assms(2,3)] by simp_all
  have acc: "\<forall>T\<in>set (rev Ts). accepted gas T"
    using assms(3) by simp
  have "fst (fickian_adf_r fmt (rev Ts ! i) (rev Ts ! Suc i) gas (swap_wts p) tog h') =
      Inr (rev (map np_neg Js) ! i)" if "i < length Js" for i h'
  proof -
    let ?j = "length Js - Suc i"
    have j: "?j < length Js" "Suc ?j < length Ts"
      using that len by simp_all
    then have "accepted gas (Ts ! ?j)" "accepted gas (Ts ! Suc ?j)"
      using assms(3) by simp_all
    moreover have "rev Ts ! i = Ts ! Suc ?j" "rev Ts ! Suc i = Ts ! ?j"
      using that len by (simp_all add: rev_nth Suc_diff_Suc)
    ultimately show ?thesis
      using call_swapped [OF assms(1,2) _ _ assms(4,5), of "Ts ! ?j" "Ts ! Suc ?j" tog h' h']
        calls [OF j(1), of h'] that
      by (simp add: rev_nth)
  qed
  then show ?thesis
    using len unfolding sweep_iff [OF assms(2) acc] by simp
qed

section \<open>Facts about the concrete chain\<close>

lemma mach_accepted [simp]: "accepted mach_gas mach_T1" "accepted mach_gas mach_T2"
  by (simp_all add: mach_gas_def mach_T1_def mach_T2_def tdy_valid_def)

lemma mach_still:
  "fickian_adf_r (int_format None) mach_T2 mach_T2 mach_gas (params_dict mach_q)
     (Scalar (Fin 1)) g = (Inr (Vec [Fin 0, Fin 0]), mach_T2)"
proof -
  have "adf_pure_r (int_format None) (params_dict mach_q) (properties_at mach_gas mach_T2)
      (properties_at mach_gas mach_T2) (Scalar (Fin 1)) =
    Inr (Vec (flux_f (int_format None) mach_q (properties_at mach_gas mach_T2)
      (properties_at mach_gas mach_T2) (Fin 1)))"
    by (intro adf_pure_r_closed_form [where n = 2]) (simp_all add: mach_gas_def mach_T2_def)
  moreover have "flux_f (int_format None) mach_q (properties_at mach_gas mach_T2)
      (properties_at mach_gas mach_T2) (Fin 1) = [Fin 0, Fin 0]"
    by (simp add: flux_f_defs fl_defs mach_defs upt_rec to_int_def)
  ultimately show ?thesis
    by (simp add: fickian_adf_r_factor del: properties_at_simps)
qed

lemma mach_sweep:
  "sweep (int_format None) mach_gas (params_dict mach_q) (Scalar (Fin 1)) mach_chain g =
     (Inr [Vec [Fin 56, Fin 112], Vec [Fin 0, Fin 0]], mach_T2)"
  by (simp add: mach_chain_def sweep_Cons mach_run mach_still)

section \<open>Properties of the loop\<close>

text \<open>
  C32 (the calls of a loop do not disturb each other). On a provider whose properties are
  determined by the state that was set and which accepts every state of the chain, the
  loop over the interfaces returns exactly when every call returns, and it returns, for
  every interface, what \<open>fickian_adf\<close> returns for its two states on the provider in any
  state: one flux for every interface, none influenced by the state in which the calls
  before it have left the provider.
\<close>

theorem sweep_independent:
  assumes "state_determined gas" "\<forall>T\<in>set Ts. accepted gas T"
  shows "fst (sweep fmt gas p tog Ts g) = Inr Js \<longleftrightarrow>
    length Js = length Ts - 1 \<and>
    (\<forall>i<length Js. \<forall>h. fst (fickian_adf_r fmt (Ts ! i) (Ts ! Suc i) gas p tog h) = Inr (Js ! i))"
  using assms by (rule sweep_iff)

theorem sweep_independent_witness:
  "fst (fickian_adf_r (int_format None) mach_T2 mach_T2 mach_gas (params_dict mach_q)
     (Scalar (Fin 1)) mach_T1) = Inr (Vec [Fin 0, Fin 0])"
  using sweep_independent [of mach_gas mach_chain "int_format None" "params_dict mach_q"
      "Scalar (Fin 1)" mach_T1 "[Vec [Fin 56, Fin 112], Vec [Fin 0, Fin 0]]"]
    mach_sweep [of mach_T1]
  by (simp add: mach_chain_def All_less_Suc del: split_paired_All)

text \<open>
  C33 (the loop in the other direction). In every format whose rounding is odd, on a
  provider determined by the state set that accepts every state of the chain, the loop
  over the chain in the other direction with the two weights exchanged returns the
  negated fluxes of the loop in the other order, exactly: what leaves a node through an
  interface in one direction enters it in the other, with the rounding of every operator
  and with overflow.
\<close>

theorem sweep_reverse:
  assumes "odd_format fmt" "state_determined gas" "\<forall>T\<in>set Ts. accepted gas T"
    and "p ''wt1'' \<noteq> None" "p ''wt2'' \<noteq> None"
    and "fst (sweep fmt gas p tog Ts g) = Inr Js"
  shows "fst (sweep fmt gas (swap_wts p) tog (rev Ts) h) = Inr (rev (map np_neg Js))"
  using assms by (rule sweep_reversed)

theorem sweep_reverse_witness:
  "fst (sweep (int_format None) mach_gas (swap_wts (params_dict mach_q)) (Scalar (Fin 1))
     [mach_T2, mach_T2, mach_T1] mach_T1) = Inr [Vec [Fin 0, Fin 0], Vec [Fin (- 56), Fin (- 112)]]"
proof -
  have "params_dict mach_q ''wt1'' \<noteq> None" "params_dict mach_q ''wt2'' \<noteq> None"
    by (simp_all add: params_dict_def)
  then show ?thesis
    using sweep_reverse [of "int_format None" mach_gas mach_chain "params_dict mach_q"
        "Scalar (Fin 1)" mach_T1 "[Vec [Fin 56, Fin 112], Vec [Fin 0, Fin 0]]" mach_T1]
      mach_sweep [of mach_T1]
    by (simp add: mach_chain_def odd_format_int)
qed

end
