(* ===== verification/Gating.thy ===== *)
theory Gating
  imports Binary64
begin

text \<open>
  The toggle of \<open>fickian_adf\<close> as the Python value the caller passes. The source documents
  it as \<^verbatim>\<open>0\<close> or \<^verbatim>\<open>1\<close>; a caller may equally pass \<^verbatim>\<open>False\<close> or \<^verbatim>\<open>True\<close>, a float or an array.
  The last statement of the kernel multiplies it with the sum of the two fluxes, and
  \<open>NumPy\<close> converts it to a float at that multiplication, after the sum has been computed.
  The theory gives the conversion, the kernel with the typed toggle, and proves at the
  level of the machine arithmetic that the three ways of writing "on" return the sum of
  the two fluxes unchanged, that the three ways of writing "off" return a zero for every
  finite component and a NaN for every other one, that two equal states give zeros or
  NaNs only, and that an integer too large for the format raises its exception after the
  provider has been set to the second state. The arithmetic of zeros and NaNs that
  carries the proof for two equal states carries the same statement for two equal
  densities of \<open>radial_fdiff\<close>.
\<close>

section \<open>The toggle as a Python value\<close>

datatype pytoggle = PyBool bool | PyInt int | PyFloat pyfloat | PyArray "pyfloat list"

definition toggle_operand :: "format \<Rightarrow> pytoggle \<Rightarrow> pyval res" where
  "toggle_operand fmt t =
     (case t of
        PyBool b \<Rightarrow> Inr (Scalar (Fin (if b then 1 else 0)))
      | PyInt i \<Rightarrow>
          (case round_f fmt (Fin (of_int i)) of
             Fin y \<Rightarrow> Inr (Scalar (Fin y))
           | _ \<Rightarrow> Inl OverflowError)
      | PyFloat x \<Rightarrow> Inr (Scalar x)
      | PyArray xs \<Rightarrow> Inr (Vec xs))"

definition gateR :: "format \<Rightarrow> pytoggle \<Rightarrow> pyval res \<Rightarrow> pyval res" where
  "gateR fmt t x =
     bindE x (\<lambda>v. bindE (toggle_operand fmt t) (\<lambda>c. np_binop (fl_mul fmt) c v))"

definition fickian_adf_t ::
  "format \<Rightarrow> tdy \<Rightarrow> tdy \<Rightarrow> 'g gas_ops \<Rightarrow> pdict \<Rightarrow> pytoggle \<Rightarrow> ('g, pyval) sx" where
  "fickian_adf_t fmt TDY1 TDY2 gas p t = fickian_adf_g fmt (gateR fmt t) TDY1 TDY2 gas p"

definition mach_q_big :: planar_params where
  "mach_q_big = mach_q\<lparr>K_g := Fin (2 ^ 1023)\<rparr>"

definition zero_or_nan :: "pyfloat \<Rightarrow> bool" where
  "zero_or_nan x \<longleftrightarrow> x = Fin 0 \<or> x = NaN"

definition gated_off :: "pyfloat \<Rightarrow> pyfloat" where
  "gated_off x = (if is_fin x then Fin 0 else NaN)"

definition zn_res :: "pyval res \<Rightarrow> bool" where
  "zn_res r \<longleftrightarrow> (\<forall>v. r = Inr v \<longrightarrow> list_all zero_or_nan (elems v))"

definition face_finite :: "format \<Rightarrow> planar_params \<Rightarrow> snapshot \<Rightarrow> pyfloat \<Rightarrow> nat \<Rightarrow> bool" where
  "face_finite fmt q s tog k \<longleftrightarrow>
     is_fin tog \<and> is_fin (inv_dy q) \<and> is_fin (snap_P s) \<and> is_fin (snap_Y s ! k) \<and>
     is_fin (fl_mul fmt (avg_f fmt q (fl_mul fmt (snap_rho s) (snap_Y s ! k))
        (fl_mul fmt (snap_rho s) (snap_Y s ! k))) (K_g q)) \<and>
     is_fin (fl_mul fmt (fl_mul fmt (eps_tau2 q) (avg_f fmt q (snap_D_k s ! k) (snap_D_k s ! k)))
        (avg_f fmt q (snap_rho s) (snap_rho s))) \<and>
     \<not> zero_or_nan (avg_f fmt q (snap_mu s) (snap_mu s))"

definition shell_finite :: "format \<Rightarrow> shell_params \<Rightarrow> nat \<Rightarrow> int \<Rightarrow> bool" where
  "shell_finite fmt q j ver \<longleftrightarrow>
     is_fin (fl_mul fmt (fl_mul fmt (D_eff_naf q) (p_eff_SAnaf q)) (eps_tau2_n2 q)) \<and>
     is_fin (round_f fmt ((r_jph q ! j)\<^sup>2)) \<and> is_fin (inv_dr q ! j) \<and>
     (ver = 1 \<or> is_fin (round_f fmt ((inv_r_j q ! j)\<^sup>2)) \<and> is_fin (inv_t_shl q ! j))"

section \<open>The conversion of the toggle\<close>

lemma toggle_operand_simps [simp]:
  "toggle_operand fmt (PyBool b) = Inr (Scalar (Fin (if b then 1 else 0)))"
  "toggle_operand fmt (PyFloat x) = Inr (Scalar x)"
  "toggle_operand fmt (PyArray xs) = Inr (Vec xs)"
  by (simp_all add: toggle_operand_def)

lemma toggle_operand_int:
  "in_format fmt (Fin (of_int i)) \<Longrightarrow> toggle_operand fmt (PyInt i) = Inr (Scalar (Fin (of_int i)))"
  by (simp add: toggle_operand_def round_f_fixed)

lemma toggle_operand_error: "toggle_operand fmt t = Inl e \<Longrightarrow> e = OverflowError"
  by (auto simp: toggle_operand_def split: pytoggle.splits pyfloat.splits)

lemma round_f_zero: "odd_format fmt \<Longrightarrow> round_f fmt (Fin 0) = Fin 0"
  using odd_roundingD [of "fmt_rnd fmt" 0]
  by (auto simp: odd_format_def round_f_def split: option.splits)

lemma toggle_operand_on:
  assumes "in_format fmt (Fin 1)" "t \<in> {PyBool True, PyInt 1, PyFloat (Fin 1)}"
  shows "toggle_operand fmt t = Inr (Scalar (Fin 1))"
  using assms toggle_operand_int [of fmt 1] by auto

lemma toggle_operand_off:
  assumes "odd_format fmt" "t \<in> {PyBool False, PyInt 0, PyFloat (Fin 0)}"
  shows "toggle_operand fmt t = Inr (Scalar (Fin 0))"
  using assms by (auto simp: toggle_operand_def round_f_zero)

section \<open>The last multiplication\<close>

lemma gateR_operand: "toggle_operand fmt t = Inr c \<Longrightarrow> gateR fmt t x = mulR fmt (Inr c) x"
  by (cases x) (simp_all add: gateR_def mulR_def)

lemma gateR_overflow:
  "toggle_operand fmt t = Inl e \<Longrightarrow> gateR fmt t x = bindE x (\<lambda>_. Inl e)"
  by (simp add: gateR_def)

lemma fl_mul_zero: "odd_format fmt \<Longrightarrow> fl_mul fmt (Fin 0) x = gated_off x"
  by (simp add: fl_mul_def Fin_zero_times gated_off_def round_f_zero)

lemma gateR_on:
  assumes "sound_format fmt" "in_format fmt (Fin 1)"
    and "t \<in> {PyBool True, PyInt 1, PyFloat (Fin 1)}"
  shows "gateR fmt t (addR fmt a b) = addR fmt a b"
proof (cases "addR fmt a b")
  case (Inr v)
  then have "np_map (fl_mul fmt (Fin 1)) v = np_map (\<lambda>x. x) v"
    using addR_in_format [OF assms(1) Inr]
    by (intro np_map_cong_elem) (simp add: list_all_iff fl_mul_one)
  then show ?thesis
    using Inr by (simp add: gateR_def toggle_operand_on [OF assms(2,3)] np_binop_Scalar_left)
qed (simp add: gateR_def)

lemma gateR_off:
  assumes "odd_format fmt" "t \<in> {PyBool False, PyInt 0, PyFloat (Fin 0)}"
  shows "gateR fmt t x = map_res (np_map gated_off) x"
proof (cases x)
  case (Inr v)
  have "fl_mul fmt (Fin 0) = gated_off"
    using assms(1) by (simp add: fun_eq_iff fl_mul_zero)
  then show ?thesis
    using Inr by (simp add: gateR_def toggle_operand_off [OF assms] np_binop_Scalar_left)
qed (simp add: gateR_def)

section \<open>The kernel depends on the gate only through the last statement\<close>

lemma adf_pure_g_cong:
  assumes "\<And>a b. gate (addR fmt (Inr a) (Inr b)) = gate' (addR fmt (Inr a) (Inr b))"
  shows "adf_pure_g fmt gate p s1 s2 = adf_pure_g fmt gate' p s1 s2"
  unfolding adf_pure_g_def by (simp only: assms)

lemma adf_pure_g_map_res:
  "adf_pure_g fmt (\<lambda>x. map_res h (gate x)) p s1 s2 = map_res h (adf_pure_g fmt gate p s1 s2)"
  by (simp add: adf_pure_g_def map_res_bindE)

lemma adf_pure_g_bindE:
  "adf_pure_g fmt (\<lambda>x. bindE (gate x) k) p s1 s2 = bindE (adf_pure_g fmt gate p s1 s2) k"
  by (simp add: adf_pure_g_def bindE_assoc)

lemma fickian_adf_t_operand:
  assumes "toggle_operand fmt t = Inr c"
  shows "fickian_adf_t fmt TDY1 TDY2 gas p t = fickian_adf_r fmt TDY1 TDY2 gas p c"
proof -
  have "gateR fmt t = mulR fmt (Inr c)"
    using assms by (simp add: fun_eq_iff gateR_operand)
  then show ?thesis
    by (simp add: fickian_adf_t_def fickian_adf_r_def)
qed

section \<open>Zeros and NaNs through the operators\<close>

lemma zero_or_nan_simps [simp]:
  "zero_or_nan (Fin a) \<longleftrightarrow> a = 0" "zero_or_nan NaN" "\<not> zero_or_nan PInf" "\<not> zero_or_nan NInf"
  by (simp_all add: zero_or_nan_def)

lemma zero_or_nan_gated_off [simp]: "zero_or_nan (gated_off x)"
  by (simp add: gated_off_def)

lemma zn_fl:
  assumes "odd_format fmt"
  shows "zero_or_nan b \<Longrightarrow> zero_or_nan (fl_mul fmt a b)"
    and "zero_or_nan a \<Longrightarrow> zero_or_nan (fl_mul fmt a b)"
    and "zero_or_nan a \<Longrightarrow> zero_or_nan (fl_div fmt a b)"
    and "zero_or_nan a \<Longrightarrow> zero_or_nan b \<Longrightarrow> zero_or_nan (fl_add fmt a b)"
    and "zero_or_nan (fl_sub fmt a a)"
proof -
  note z = round_f_zero [OF assms]
  show "zero_or_nan b \<Longrightarrow> zero_or_nan (fl_mul fmt a b)"
    by (cases "is_fin a") (auto simp: zero_or_nan_def fl_mul_def times_Fin_zero z)
  show "zero_or_nan a \<Longrightarrow> zero_or_nan (fl_mul fmt a b)"
    by (cases "is_fin b") (auto simp: zero_or_nan_def fl_mul_def Fin_zero_times z)
  show "zero_or_nan a \<Longrightarrow> zero_or_nan (fl_div fmt a b)"
    by (cases b) (auto simp: zero_or_nan_def fl_div_def signed_inf_def z)
  show "zero_or_nan a \<Longrightarrow> zero_or_nan b \<Longrightarrow> zero_or_nan (fl_add fmt a b)"
    by (auto simp: zero_or_nan_def fl_add_def z)
  show "zero_or_nan (fl_sub fmt a a)"
    by (simp add: fl_sub_def pyfloat_minus_self z)
qed

lemma list_all_True [simp]: "list_all (\<lambda>_. True) xs"
  by (simp add: list_all_iff)

lemma hd_in_elems: "length xs = Suc 0 \<Longrightarrow> hd xs \<in> set xs"
  by (cases xs) simp_all

lemma np_binop_all2:
  assumes "\<And>a b. P a \<Longrightarrow> Q b \<Longrightarrow> R (f a b)"
    and "list_all P (elems x)" "list_all Q (elems y)" "np_binop f x y = Inr v"
  shows "list_all R (elems v)"
proof -
  have "R (f a b)" if "a \<in> set (elems x)" "b \<in> set (elems y)" for a b
    using that assms(1-3) by (simp add: list_all_iff)
  then show ?thesis
    using assms(4)
    by (cases x; cases y)
      (auto simp: list_all_iff hd_in_elems split: if_splits elim!: in_set_zipE)
qed

lemma np_binop_self:
  assumes "\<And>a. R (f a a)" "np_binop f x x = Inr v"
  shows "list_all R (elems v)"
  using assms(2) by (cases x) (auto simp: assms(1) list_all_iff zip_same)

lemma np_truediv_r_all:
  assumes "\<And>a b. P a \<Longrightarrow> R (fl_div fmt a b)"
    and "list_all P (elems x)" "np_truediv_r fmt x y = Inr v"
  shows "list_all R (elems v)"
proof (cases "\<exists>a b. x = Scalar a \<and> y = Scalar b")
  case True
  then show ?thesis
    using assms by (auto split: if_splits)
next
  case False
  then have b: "np_binop (fl_div fmt) x y = Inr v"
    using assms(3) by (cases x; cases y) simp_all
  show ?thesis
    by (rule np_binop_all2 [where P = P and Q = "\<lambda>_. True", OF _ assms(2) _ b])
      (simp_all add: assms(1))
qed

lemma zn_res_simps [simp]:
  "zn_res (Inl e)" "zn_res (Inr v) \<longleftrightarrow> list_all zero_or_nan (elems v)"
  by (simp_all add: zn_res_def)

lemma zn_res_bindE: "(\<And>x. zn_res (f x)) \<Longrightarrow> zn_res (bindE m f)"
  by (cases m) simp_all

lemma zn_resR:
  assumes "odd_format fmt"
  shows "zn_res b \<Longrightarrow> zn_res (mulR fmt a b)"
    and "zn_res a \<Longrightarrow> zn_res (mulR fmt a b)"
    and "zn_res a \<Longrightarrow> zn_res (divR fmt a b)"
    and "zn_res a \<Longrightarrow> zn_res b \<Longrightarrow> zn_res (addR fmt a b)"
    and "zn_res (subR fmt (Inr x) (Inr x))"
proof -
  note zn = zn_fl [OF assms]
  show "zn_res b \<Longrightarrow> zn_res (mulR fmt a b)"
    by (cases a; cases b) (auto simp: zn_res_def
        intro: np_binop_all2 [where f = "fl_mul fmt" and P = "\<lambda>_. True" and Q = zero_or_nan] zn)
  show "zn_res a \<Longrightarrow> zn_res (mulR fmt a b)"
    by (cases a; cases b) (auto simp: zn_res_def
        intro: np_binop_all2 [where f = "fl_mul fmt" and Q = "\<lambda>_. True" and P = zero_or_nan] zn)
  show "zn_res a \<Longrightarrow> zn_res b \<Longrightarrow> zn_res (addR fmt a b)"
    by (cases a; cases b) (auto simp: zn_res_def
        intro: np_binop_all2 [where f = "fl_add fmt" and P = zero_or_nan and Q = zero_or_nan] zn)
  show "zn_res (subR fmt (Inr x) (Inr x))"
    by (auto simp: zn_res_def intro: np_binop_self [where f = "fl_sub fmt"] zn)
  show "zn_res a \<Longrightarrow> zn_res (divR fmt a b)"
    by (cases a; cases b) (auto simp: zn_res_def divR_def
        intro: np_truediv_r_all [where P = zero_or_nan] zn)
qed

lemma zn_res_bindE_Inr: "(\<And>x. m = Inr x \<Longrightarrow> zn_res (f x)) \<Longrightarrow> zn_res (bindE m f)"
  by (cases m) simp_all

lemma zn_res_gateR:
  assumes "odd_format fmt" "zn_res x"
  shows "zn_res (gateR fmt t x)"
proof -
  have "list_all zero_or_nan (elems w)"
    if "list_all zero_or_nan (elems v)" "np_binop (fl_mul fmt) c v = Inr w" for c v w
    using that zn_fl(1) [OF assms(1)]
    by (auto intro: np_binop_all2 [where f = "fl_mul fmt" and P = "\<lambda>_. True" and Q = zero_or_nan])
  then show ?thesis
    using assms(2) by (cases x; cases "toggle_operand fmt t") (auto simp: gateR_def zn_res_def)
qed

section \<open>Two equal states\<close>

lemma J_conv_r_same: "odd_format fmt \<Longrightarrow> zn_res (J_conv_r fmt p rho_k P P mu)"
  unfolding J_conv_r_def by (intro zn_resR(3) zn_resR(2) zn_resR(1) [OF _ zn_resR(5)])

lemma J_diff_r_same: "odd_format fmt \<Longrightarrow> zn_res (J_diff_r fmt p D_k rho Y Y)"
  unfolding J_diff_r_def by (intro zn_resR(2) zn_resR(1) [OF _ zn_resR(5)])

lemma adf_pure_g_same:
  assumes "odd_format fmt" "\<And>x. zn_res x \<Longrightarrow> zn_res (gate x)"
  shows "zn_res (adf_pure_g fmt gate p s s)"
  unfolding adf_pure_g_def
proof (intro zn_res_bindE_Inr assms(2) zn_resR(4) [OF assms(1)])
  fix rho_k mu Jconv D_k rho Jdiff
  show "zn_res (Inr Jconv)"
    if "J_conv_r fmt p rho_k (Scalar (snap_P s)) (Scalar (snap_P s)) mu = Inr Jconv"
    using J_conv_r_same [OF assms(1), of p rho_k "Scalar (snap_P s)" mu] that by simp
  show "zn_res (Inr Jdiff)"
    if "J_diff_r fmt p D_k rho (Vec (snap_Y s)) (Vec (snap_Y s)) = Inr Jdiff"
    using J_diff_r_same [OF assms(1), of p D_k rho "Vec (snap_Y s)"] that by simp
qed

lemma zero_iff:
  assumes "odd_format fmt"
  shows "zero_or_nan b \<Longrightarrow> fl_mul fmt a b = Fin 0 \<longleftrightarrow> is_fin a \<and> b = Fin 0"
    and "zero_or_nan a \<Longrightarrow> fl_mul fmt a b = Fin 0 \<longleftrightarrow> a = Fin 0 \<and> is_fin b"
    and "zero_or_nan a \<Longrightarrow> fl_div fmt a b = Fin 0 \<longleftrightarrow> a = Fin 0 \<and> \<not> zero_or_nan b"
    and "zero_or_nan a \<Longrightarrow> zero_or_nan b \<Longrightarrow> fl_add fmt a b = Fin 0 \<longleftrightarrow> a = Fin 0 \<and> b = Fin 0"
    and "fl_sub fmt a a = Fin 0 \<longleftrightarrow> is_fin a"
proof -
  note z = round_f_zero [OF assms]
  show "zero_or_nan b \<Longrightarrow> fl_mul fmt a b = Fin 0 \<longleftrightarrow> is_fin a \<and> b = Fin 0"
    by (cases "is_fin a") (auto simp: zero_or_nan_def fl_mul_def times_Fin_zero z)
  show "zero_or_nan a \<Longrightarrow> fl_mul fmt a b = Fin 0 \<longleftrightarrow> a = Fin 0 \<and> is_fin b"
    by (cases "is_fin b") (auto simp: zero_or_nan_def fl_mul_def Fin_zero_times z)
  show "zero_or_nan a \<Longrightarrow> fl_div fmt a b = Fin 0 \<longleftrightarrow> a = Fin 0 \<and> \<not> zero_or_nan b"
    by (cases b) (auto simp: zero_or_nan_def fl_div_def signed_inf_def z)
  show "zero_or_nan a \<Longrightarrow> zero_or_nan b \<Longrightarrow> fl_add fmt a b = Fin 0 \<longleftrightarrow> a = Fin 0 \<and> b = Fin 0"
    by (auto simp: zero_or_nan_def fl_add_def z)
  show "fl_sub fmt a a = Fin 0 \<longleftrightarrow> is_fin a"
    by (simp add: fl_sub_def pyfloat_minus_self z)
qed

lemma is_fin_fl_mul_uminus:
  assumes "odd_format fmt"
  shows "is_fin (fl_mul fmt (- a) b) \<longleftrightarrow> is_fin (fl_mul fmt a b)"
    "is_fin (fl_mul fmt (fl_mul fmt (- a) b) c) \<longleftrightarrow> is_fin (fl_mul fmt (fl_mul fmt a b) c)"
  by (simp_all add: fl_odd [OF assms])

lemma flux_f_same:
  assumes "odd_format fmt" "k < length (snap_Y s)"
  shows "flux_f fmt q s s tog ! k = (if face_finite fmt q s tog k then Fin 0 else NaN)"
proof -
  note zn = zn_fl [OF assms(1)] and zi = zero_iff [OF assms(1)]
  have c: "zero_or_nan (conv_f fmt q s s k)" and d: "zero_or_nan (diff_f fmt q s s k)"
    by (simp_all add: conv_f_def diff_f_def zn)
  then have z: "zero_or_nan (flux_f fmt q s s tog ! k)"
    using assms(2) by (simp add: nth_flux_f zn)
  have "conv_f fmt q s s k = Fin 0 \<and> diff_f fmt q s s k = Fin 0 \<and> is_fin tog \<longleftrightarrow>
      face_finite fmt q s tog k"
    by (auto simp: conv_f_def diff_f_def face_finite_def zi zn is_fin_fl_mul_uminus [OF assms(1)])
  then have "flux_f fmt q s s tog ! k = Fin 0 \<longleftrightarrow> face_finite fmt q s tog k"
    using assms(2) c d by (auto simp: nth_flux_f zi zn)
  with z show ?thesis
    by (auto simp: zero_or_nan_def)
qed

lemma rate_f_same:
  assumes "odd_format fmt"
  shows "rate_f fmt q j ver x x = (if shell_finite fmt q j ver \<and> is_fin x then Fin 0 else NaN)"
proof -
  note zn = zn_fl [OF assms] and zi = zero_iff [OF assms]
  have m: "zero_or_nan (mass_f fmt q j x x)"
    by (simp add: mass_f_def zn)
  then have z: "zero_or_nan (rate_f fmt q j ver x x)"
    by (simp add: rate_f_def zn)
  have "mass_f fmt q j x x = Fin 0 \<longleftrightarrow> shell_finite fmt q j 1 \<and> is_fin x"
    by (auto simp: mass_f_def shell_finite_def zi zn)
  then have "rate_f fmt q j ver x x = Fin 0 \<longleftrightarrow> shell_finite fmt q j ver \<and> is_fin x"
    using m by (auto simp: rate_f_def shell_finite_def zi zn)
  with z show ?thesis
    by (auto simp: zero_or_nan_def)
qed

lemma zero_or_nan_conv: "zero_or_nan x \<Longrightarrow> x = gated_off x"
  by (auto simp: zero_or_nan_def gated_off_def)

section \<open>The kernel with the toggle on, off and out of range\<close>

lemma fickian_adf_g_ungated:
  assumes "sound_format fmt" "in_format fmt (Fin 1)"
  shows "fickian_adf_g fmt (\<lambda>x. x) TDY1 TDY2 gas p = fickian_adf_r fmt TDY1 TDY2 gas p (Scalar (Fin 1))"
proof -
  have "adf_pure_g fmt (gateR fmt (PyFloat (Fin 1))) p s1 s2 = adf_pure_g fmt (\<lambda>x. x) p s1 s2"
    for s1 s2
    by (intro adf_pure_g_cong gateR_on [OF assms]) simp
  then have "fickian_adf_g fmt (gateR fmt (PyFloat (Fin 1))) TDY1 TDY2 gas p =
      fickian_adf_g fmt (\<lambda>x. x) TDY1 TDY2 gas p"
    by (simp add: fun_eq_iff fickian_adf_g_factor split: sum.splits)
  then show ?thesis
    using fickian_adf_t_operand [of fmt "PyFloat (Fin 1)" "Scalar (Fin 1)" TDY1 TDY2 gas p]
    by (simp add: fickian_adf_t_def)
qed

lemma fickian_adf_g_gated:
  assumes "\<And>x. gate x = f x" "\<And>e. f (Inl e) = Inl e"
    and "\<And>s1 s2. adf_pure_g fmt f p s1 s2 = f (adf_pure_g fmt (\<lambda>x. x) p s1 s2)"
  shows "fickian_adf_g fmt gate TDY1 TDY2 gas p g =
    (f (fst (fickian_adf_g fmt (\<lambda>x. x) TDY1 TDY2 gas p g)),
     snd (fickian_adf_g fmt (\<lambda>x. x) TDY1 TDY2 gas p g))"
proof -
  have "gate = f"
    using assms(1) by (simp add: fun_eq_iff)
  then show ?thesis
    by (simp add: fickian_adf_g_factor assms(2,3) split: sum.splits)
qed

lemmas mach_ungated =
  fickian_adf_g_ungated [OF sound_format_int, of "Some 200"]
  fickian_adf_g_ungated [OF sound_format_int, of None]
  fickian_adf_g_ungated [OF binary64_sound]

lemma in_format_one [simp]:
  "in_format (int_format None) (Fin 1)" "in_format (int_format (Some 200)) (Fin 1)"
  "in_format binary64 (Fin 1)"
  by (simp_all add: in_format_def to_int_def)

lemma mach_zero_run:
  "face_finite binary64 mach_q (properties_at dbl_gas mach_T1) (Fin 1) 0"
  "face_finite binary64 mach_q (properties_at dbl_gas mach_T1) (Fin 1) (Suc 0)"
  by (simp_all add: face_finite_def avg_f_def fl_defs dbl_gas_def mach_T1_def mach_q_def)

lemma mach_zero_overflow:
  "\<not> face_finite binary64 mach_q_big (properties_at dbl_gas mach_T1) (Fin 1) 0"
  "\<not> face_finite binary64 mach_q_big (properties_at dbl_gas mach_T1) (Fin 1) (Suc 0)"
  by (simp_all add: face_finite_def avg_f_def fl_defs dbl_gas_def mach_T1_def mach_q_def
      mach_q_big_def)

section \<open>Properties of the gated kernel\<close>

text \<open>
  C12 (the three ways of switching the flux on agree bit for bit). In every sound format
  that contains the number 1, \<open>fickian_adf\<close> called with the toggle \<^verbatim>\<open>True\<close>, \<^verbatim>\<open>1\<close> or \<^verbatim>\<open>1.0\<close>
  behaves on every provider, dictionary and pair of states as the kernel without the
  last multiplication: it returns the sum of the convective and the diffusive flux
  unchanged, raises the same exception, and leaves the provider in the same state. The
  multiplication by one rounds a value of the format to itself.
\<close>

theorem gating_on:
  assumes "sound_format fmt" "in_format fmt (Fin 1)"
    and "t \<in> {PyBool True, PyInt 1, PyFloat (Fin 1)}"
  shows "fickian_adf_t fmt TDY1 TDY2 gas p t = fickian_adf_g fmt (\<lambda>x. x) TDY1 TDY2 gas p"
  using fickian_adf_t_operand [OF toggle_operand_on [OF assms(2,3)]]
  by (simp add: fickian_adf_g_ungated [OF assms(1,2)])

theorem gating_on_witness:
  "fickian_adf_t binary64 mach_T1 mach_T2 dbl_gas (params_dict mach_q) (PyBool True) mach_T2 =
     (Inr (Vec [Fin 25, Fin 59]), mach_T2) \<and>
   fickian_adf_t binary64 mach_T1 mach_T2 dbl_gas (params_dict mach_q) (PyInt 1) mach_T2 =
     (Inr (Vec [Fin 25, Fin 59]), mach_T2)"
  using gating_on [OF binary64_sound, of "PyBool True" mach_T1 mach_T2 dbl_gas "params_dict mach_q"]
    gating_on [OF binary64_sound, of "PyInt 1" mach_T1 mach_T2 dbl_gas "params_dict mach_q"]
  by (simp add: mach_ungated dbl_run)

text \<open>
  C11 (the three ways of switching the flux off). In every format with an odd rounding,
  \<open>fickian_adf\<close> called with the toggle \<^verbatim>\<open>False\<close>, \<^verbatim>\<open>0\<close> or \<^verbatim>\<open>0.0\<close> raises what the kernel without
  the last multiplication raises, leaves the provider in the same state, and returns a
  zero for every component of the sum of the two fluxes that is finite and a NaN for
  every component that is an infinity or a NaN. The result is the zero vector exactly
  when the flux that is switched off is finite.
\<close>

theorem gating_off:
  assumes "odd_format fmt" "t \<in> {PyBool False, PyInt 0, PyFloat (Fin 0)}"
  shows "fickian_adf_t fmt TDY1 TDY2 gas p t g =
    (map_res (np_map gated_off) (fst (fickian_adf_g fmt (\<lambda>x. x) TDY1 TDY2 gas p g)),
     snd (fickian_adf_g fmt (\<lambda>x. x) TDY1 TDY2 gas p g))"
  unfolding fickian_adf_t_def
  by (intro fickian_adf_g_gated gateR_off [OF assms] adf_pure_g_map_res [of _ _ "\<lambda>x. x"]) simp

theorem gating_off_witness:
  "fickian_adf_t (int_format (Some 200)) mach_T1 mach_T2 mach_gas (params_dict mach_q)
     (PyInt 0) mach_T2 = (Inr (Vec [Fin 0, NaN]), mach_T2)"
  using gating_off [OF odd_format_int(2), of 200 "PyInt 0" mach_T1 mach_T2 mach_gas
      "params_dict mach_q" mach_T2]
  by (simp add: mach_ungated mach_run gated_off_def)

text \<open>
  C16 (an integer toggle too large for the format). The conversion of the toggle fails
  only with \<open>OverflowError\<close>, and it is made by the last multiplication: the call raises
  what the kernel without that multiplication raises and, when that kernel returns, it
  raises \<open>OverflowError\<close>; in both cases the provider is left as that kernel leaves it,
  in the second state when both assignments were accepted.
\<close>

theorem toggle_overflow:
  assumes "toggle_operand fmt t = Inl e"
  shows "e = OverflowError \<and>
    fickian_adf_t fmt TDY1 TDY2 gas p t g =
      (bindE (fst (fickian_adf_g fmt (\<lambda>x. x) TDY1 TDY2 gas p g)) (\<lambda>v. Inl OverflowError),
       snd (fickian_adf_g fmt (\<lambda>x. x) TDY1 TDY2 gas p g))"
proof -
  have e: "e = OverflowError"
    using assms by (rule toggle_operand_error)
  have "fickian_adf_g fmt (gateR fmt t) TDY1 TDY2 gas p g =
    (bindE (fst (fickian_adf_g fmt (\<lambda>x. x) TDY1 TDY2 gas p g)) (\<lambda>v. Inl OverflowError),
     snd (fickian_adf_g fmt (\<lambda>x. x) TDY1 TDY2 gas p g))"
    using assms e
    by (intro fickian_adf_g_gated gateR_overflow adf_pure_g_bindE [of _ "\<lambda>x. x"]) simp_all
  with e show ?thesis
    by (simp add: fickian_adf_t_def)
qed

theorem toggle_overflow_witness:
  "fickian_adf_t (int_format (Some 200)) mach_T1 mach_T2 mach_gas (params_dict mach_q)
     (PyInt 200) mach_T2 = (Inl OverflowError, mach_T2) \<and>
   toggle_operand binary64 (PyInt (2 ^ 1024)) = Inl OverflowError"
proof -
  have "toggle_operand (int_format (Some 200)) (PyInt 200) = Inl OverflowError"
    "toggle_operand binary64 (PyInt (2 ^ 1024)) = Inl OverflowError"
    by (simp_all add: toggle_operand_def round_f_def)
  then show ?thesis
    using toggle_overflow [of "int_format (Some 200)" "PyInt 200" OverflowError mach_T1 mach_T2
        mach_gas "params_dict mach_q" mach_T2]
    by (simp add: mach_ungated mach_run)
qed

text \<open>
  C10 (two equal states in machine arithmetic). In every format with an odd rounding, if
  the provider's properties are determined by the state, the dictionary holds the five
  scalar coefficients and the toggle converts to a scalar, then \<open>fickian_adf\<close> called with
  the same state for both nodes returns, for every species, exactly zero when the toggle,
  the inverse distance, the pressure, the mass fraction and the two products of
  coefficients that multiply the vanishing differences are finite and the averaged
  viscosity is neither zero nor NaN, and NaN otherwise. It never returns a non-zero
  number.
\<close>

theorem zero_gradient_machine:
  assumes "odd_format fmt" "state_determined gas" "has_params p q"
    and "set_TDY gas TDY g = Inr g1" "set_TDY gas TDY g1 = Inr g2" "n_species_ok gas n g1"
    and "toggle_operand fmt t = Inr (Scalar tog)"
  shows "fickian_adf_t fmt TDY TDY gas p t g =
    (Inr (Vec (map (\<lambda>k. if face_finite fmt q (properties_at gas g1) tog k then Fin 0 else NaN)
       [0..<n])), g2)"
proof -
  let ?s = "properties_at gas g1"
  have same: "properties_at gas g2 = ?s"
    using assms(2,4,5) by (blast intro: state_determinedD)
  have len: "length (snap_D_k ?s) = n" "length (snap_Y ?s) = n"
    using assms(6) by (simp_all add: n_species_ok_def)
  have "flux_f fmt q ?s ?s tog =
      map (\<lambda>k. if face_finite fmt q ?s tog k then Fin 0 else NaN) [0..<n]"
    using len by (intro nth_equalityI) (simp_all add: flux_f_same [OF assms(1)])
  then show ?thesis
    using assms(3-5) len
    by (simp add: fickian_adf_t_operand [OF assms(7)] fickian_adf_r_factor same
        adf_pure_r_closed_form [where n = n] del: properties_at_simps)
qed

theorem zero_gradient_machine_witness:
  "fickian_adf_t binary64 mach_T1 mach_T1 dbl_gas (params_dict mach_q) (PyBool True) mach_T2 =
     (Inr (Vec [Fin 0, Fin 0]), mach_T1) \<and>
   fickian_adf_t binary64 mach_T1 mach_T1 dbl_gas (params_dict mach_q_big) (PyBool True) mach_T2 =
     (Inr (Vec [NaN, NaN]), mach_T1)"
proof -
  have "n_species_ok dbl_gas 2 mach_T1"
    by (simp add: n_species_ok_def dbl_gas_def mach_T1_def)
  then show ?thesis
    using zero_gradient_machine [OF binary64_odd, of dbl_gas "params_dict mach_q" mach_q mach_T1
        mach_T2 mach_T1 mach_T1 2 "PyBool True" "Fin 1"]
      zero_gradient_machine [OF binary64_odd, of dbl_gas "params_dict mach_q_big" mach_q_big
        mach_T1 mach_T2 mach_T1 mach_T1 2 "PyBool True" "Fin 1"]
    by (simp add: mach_zero_run mach_zero_overflow upt_rec del: properties_at_simps)
qed

text \<open>
  C37 (two equal densities in machine arithmetic). In every format with an odd rounding,
  with typed parameters, a node in range and a variant 1 or 2, \<open>radial_fdiff\<close> called
  with the same densities for both shells returns, for every species, exactly zero when
  the density, the product of the three coefficients, the rounded squares and the
  node's factors are finite, and NaN otherwise. It never returns a non-zero number.
\<close>

theorem radial_zero_gradient_machine:
  assumes "odd_format fmt" "has_shell_params p q" "n_shells q n" "node_in_range n node"
    and "ver = 1 \<or> ver = 2"
  shows "radial_fdiff_r fmt (Vec xs) (Vec xs) p node ver flag =
    Inr (Vec (map (\<lambda>x. if shell_finite fmt q (norm_node n node) ver \<and> is_fin x then Fin 0
      else NaN) xs))"
  by (simp add: radial_fdiff_r_typed [OF assms(2-5)] radial_f_def map2_same
      rate_f_same [OF assms(1)])

theorem radial_zero_gradient_machine_witness:
  "radial_fdiff_r binary64 (Vec [Fin 5, PInf]) (Vec [Fin 5, PInf])
     (shell_dict (shell_of demo_shell_r)) (- 1) 2 () = Inr (Vec [Fin 0, NaN])"
  using radial_zero_gradient_machine [OF binary64_odd, of "shell_dict (shell_of demo_shell_r)"
      "shell_of demo_shell_r" 1 "- 1" 2 "[Fin 5, PInf]" "()"]
  by (simp add: has_shell_params_def shell_dict_def n_shells_def node_in_range_def norm_node_def
      shell_finite_def shell_of_def demo_shell_r_def fl_defs)

text \<open>
  Two equal states with any dictionary and any toggle. In every format with an odd
  rounding and with a provider whose properties are determined by the state, whatever
  the shapes of the coefficients and of the toggle, every component that \<open>fickian_adf\<close>
  returns for two equal states is a zero or a NaN.
\<close>

theorem equal_states_zero_or_nan:
  assumes "odd_format fmt" "state_determined gas"
    and "fst (fickian_adf_t fmt TDY TDY gas p t g) = Inr v"
  shows "list_all zero_or_nan (elems v)"
proof -
  obtain g1 g2 where g: "set_TDY gas TDY g = Inr g1" "set_TDY gas TDY g1 = Inr g2"
    using assms(3) by (auto simp: fickian_adf_t_def fickian_adf_g_factor split: sum.splits)
  then have "properties_at gas g2 = properties_at gas g1"
    using assms(2) by (blast intro: state_determinedD)
  then have "adf_pure_g fmt (gateR fmt t) p (properties_at gas g1) (properties_at gas g1) = Inr v"
    using assms(3) g by (simp add: fickian_adf_t_def fickian_adf_g_factor)
  then show ?thesis
    using adf_pure_g_same [OF assms(1), of "gateR fmt t" p "properties_at gas g1"]
      zn_res_gateR [OF assms(1)]
    by simp
qed

theorem equal_states_zero_or_nan_witness:
  "list_all zero_or_nan [Fin 0, Fin 0]"
  using equal_states_zero_or_nan [OF binary64_odd, of dbl_gas mach_T1 "params_dict mach_q"
      "PyBool True" mach_T2 "Vec [Fin 0, Fin 0]"]
  by simp

end
