(* ===== verification/Double_Eval.thy ===== *)
theory Double_Eval
  imports Binary64 "HOL-Library.Log_Nat"
begin

text \<open>
  Rounding to double precision, computed. The rounding \<open>round_to\<close> of \<open>Binary64\<close> is defined
  with a logarithm; on a fraction of two integers the same number is found with integer
  arithmetic only: the binary exponent from the bit lengths of numerator and denominator,
  the nearest integer from a quotient and a remainder. The theory proves the two equal
  and uses the computed form to evaluate the planar kernel in double precision on data
  that no double represents exactly.
\<close>

section \<open>The computed rounding\<close>

definition flog2 :: "int \<Rightarrow> int \<Rightarrow> int" where
  "flog2 a b =
     (let d = bitlen a - bitlen b
      in if (if 0 \<le> d then b * 2 ^ nat d \<le> a else b \<le> a * 2 ^ nat (- d)) then d else d - 1)"

definition rne_frac :: "int \<Rightarrow> int \<Rightarrow> int" where
  "rne_frac a b =
     (let f = a div b; r = a mod b
      in if 2 * r < b then f else if b < 2 * r then f + 1 else if even f then f else f + 1)"

definition round_frac :: "nat \<Rightarrow> int \<Rightarrow> int \<Rightarrow> int \<Rightarrow> real" where
  "round_frac p emin a b =
     (if a = 0 then 0
      else let e = max (flog2 \<bar>a\<bar> b - int p + 1) emin
           in if 0 \<le> e then of_int (rne_frac a (b * 2 ^ nat e)) * 2 ^ nat e
              else of_int (rne_frac (a * 2 ^ nat (- e)) b) / 2 ^ nat (- e))"

section \<open>Data as Python stores it\<close>

text \<open>
  A decimal literal denotes the double nearest to it. \<open>dbl\<close> is that double, \<open>dbl_dict\<close>,
  \<open>dbl_snap\<close> and \<open>dbl_script\<close> convert a dictionary, a snapshot and a script of snapshots
  whose numbers are written as decimal fractions.
\<close>

definition dbl :: "real \<Rightarrow> pyfloat" where
  "dbl x = round_f binary64 (Fin x)"

definition dbl_dict :: "pdict \<Rightarrow> pdict" where
  "dbl_dict p = map_option (np_map (round_f binary64)) \<circ> p"

definition dbl_snap :: "snapshot \<Rightarrow> snapshot" where
  "dbl_snap s = \<lparr>snap_D_k = map (round_f binary64) (snap_D_k s),
     snap_rho = round_f binary64 (snap_rho s), snap_mu = round_f binary64 (snap_mu s),
     snap_P = round_f binary64 (snap_P s), snap_Y = map (round_f binary64) (snap_Y s)\<rparr>"

definition dbl_script :: "script \<Rightarrow> script" where
  "dbl_script = (\<lambda>(c, ss). (dbl_snap c, map dbl_snap ss))"

section \<open>Bit lengths and the binary exponent\<close>

lemma bitlen_numeral [simp]:
  "bitlen 1 = 1" "bitlen (numeral Num.One) = 1"
  "bitlen (numeral (Num.Bit0 k)) = bitlen (numeral k) + 1"
  "bitlen (numeral (Num.Bit1 k)) = bitlen (numeral k) + 1"
  by (subst compute_bitlen, simp)+

lemma bitlen_powr:
  assumes "0 < a"
  shows "2 powr of_int (bitlen a - 1) \<le> (of_int a :: real)" "(of_int a :: real) < 2 powr of_int (bitlen a)"
proof -
  have b: "1 \<le> bitlen a"
    using assms by (simp add: bitlen_alt_def)
  have "(2 ^ nat (bitlen a - 1) :: real) \<le> of_int a" "(of_int a :: real) < 2 ^ nat (bitlen a)"
    using bitlen_bounds [OF assms] of_int_le_iff [of "2 ^ nat (bitlen a - 1)" a, where ?'a = real]
      of_int_less_iff [of a "2 ^ nat (bitlen a)", where ?'a = real]
    by simp_all
  then show "2 powr of_int (bitlen a - 1) \<le> (of_int a :: real)"
    "(of_int a :: real) < 2 powr of_int (bitlen a)"
    using b by (simp_all add: powr_int del: of_int_diff)
qed

lemma frac_bounds:
  assumes "0 < a" "0 < b"
  shows "2 powr of_int (bitlen a - bitlen b - 1) < (of_int a / of_int b :: real)"
    and "(of_int a / of_int b :: real) < 2 powr of_int (bitlen a - bitlen b + 1)"
proof -
  note A = bitlen_powr [OF assms(1)] and B = bitlen_powr [OF assms(2)]
  have "2 powr of_int (bitlen a - bitlen b - 1) =
      (2 powr of_int (bitlen a - 1) / 2 powr of_int (bitlen b) :: real)"
    by (simp add: powr_diff [symmetric] algebra_simps)
  also have "\<dots> \<le> of_int a / 2 powr of_int (bitlen b)"
    using A(1) by (simp add: divide_right_mono)
  also have "\<dots> < of_int a / of_int b"
    using B(2) assms by (simp add: divide_strict_left_mono)
  finally show "2 powr of_int (bitlen a - bitlen b - 1) < (of_int a / of_int b :: real)" .
  have "(of_int a / of_int b :: real) < 2 powr of_int (bitlen a) / of_int b"
    using A(2) assms(2) by (simp add: divide_strict_right_mono)
  also have "\<dots> \<le> 2 powr of_int (bitlen a) / 2 powr of_int (bitlen b - 1)"
    using B(1) assms(2) by (intro divide_left_mono) simp_all
  also have "\<dots> = (2 powr of_int (bitlen a - bitlen b + 1) :: real)"
    by (simp add: powr_diff [symmetric] algebra_simps)
  finally show "(of_int a / of_int b :: real) < 2 powr of_int (bitlen a - bitlen b + 1)" .
qed

lemma flog2_test:
  assumes "0 < b"
  shows "(if 0 \<le> d then b * 2 ^ nat d \<le> a else b \<le> a * 2 ^ nat (- d)) \<longleftrightarrow>
    2 powr of_int d \<le> (of_int a / of_int b :: real)"
proof -
  have "b * 2 ^ n \<le> a \<longleftrightarrow> (2 ^ n :: real) \<le> of_int a / of_int b" for n
    using assms of_int_le_iff [of "b * 2 ^ n" a, where ?'a = real]
    by (simp add: pos_le_divide_eq mult.commute)
  moreover have "b \<le> a * 2 ^ n \<longleftrightarrow> (1 / 2 ^ n :: real) \<le> of_int a / of_int b" for n
    using assms of_int_le_iff [of b "a * 2 ^ n", where ?'a = real]
    by (simp add: pos_le_divide_eq pos_divide_le_eq mult.commute)
  ultimately show ?thesis
    by (simp add: powr_int)
qed

lemma flog2_correct:
  assumes "0 < a" "0 < b"
  shows "\<lfloor>log 2 (of_int a / of_int b :: real)\<rfloor> = flog2 a b"
proof -
  let ?x = "of_int a / of_int b :: real" and ?d = "bitlen a - bitlen b"
  have x: "\<bar>?x\<bar> = ?x"
    using assms by simp
  show ?thesis
  proof (cases "2 powr of_int ?d \<le> ?x")
    case True
    then have "\<lfloor>log 2 ?x\<rfloor> = ?d"
      using floor_log_eq [of ?d ?x] frac_bounds(2) [OF assms] unfolding x by simp
    then show ?thesis
      using True by (simp add: flog2_def flog2_test [OF assms(2)])
  next
    case False
    then have "\<lfloor>log 2 ?x\<rfloor> = ?d - 1"
      using floor_log_eq [of "?d - 1" ?x] frac_bounds(1) [OF assms] unfolding x by simp
    then show ?thesis
      using False by (simp add: flog2_def flog2_test [OF assms(2)])
  qed
qed

section \<open>The nearest integer of a fraction\<close>

lemma rne_frac_correct:
  assumes "0 < b"
  shows "rne (of_int a / of_int b) = rne_frac a b"
proof -
  let ?d = "(of_int (a mod b) / of_int b :: real)"
  have d: "of_int a / of_int b - of_int (a div b) = ?d"
    using of_int_div_aux [of a b, where ?'a = real] by simp
  have lt: "?d < 1/2 \<longleftrightarrow> 2 * (a mod b) < b" and gt: "1/2 < ?d \<longleftrightarrow> b < 2 * (a mod b)"
    using assms of_int_less_iff [of "2 * (a mod b)" b, where ?'a = real]
      of_int_less_iff [of b "2 * (a mod b)", where ?'a = real]
    by (simp_all add: pos_divide_less_eq pos_less_divide_eq mult.commute)
  show ?thesis
    unfolding rne_def rne_frac_def Let_def floor_divide_of_int_eq d lt gt by (rule refl)
qed

section \<open>The computed rounding is the rounding\<close>

lemma round_frac_correct:
  assumes "0 < b"
  shows "round_to p emin (of_int a / of_int b) = round_frac p emin a b"
proof (cases "a = 0")
  case False
  let ?x = "of_int a / of_int b :: real"
  let ?e = "max (flog2 \<bar>a\<bar> b - int p + 1) emin"
  have "\<bar>?x\<bar> = of_int \<bar>a\<bar> / of_int b"
    using assms by simp
  then have e: "ulp_exp p emin ?x = ?e"
    using flog2_correct [of "\<bar>a\<bar>" b] False assms by (simp add: ulp_exp_def)
  have x: "?x \<noteq> 0"
    using False assms by simp
  have "?x / 2 ^ n = of_int a / of_int (b * 2 ^ n)" "?x * 2 ^ n = of_int (a * 2 ^ n) / of_int b"
    for n
    by simp_all
  then have "rne (?x / 2 ^ n) = rne_frac a (b * 2 ^ n)" "rne (?x * 2 ^ n) = rne_frac (a * 2 ^ n) b"
    for n
    using assms rne_frac_correct [of "b * 2 ^ n" a] rne_frac_correct [of b "a * 2 ^ n"]
    by simp_all
  then show ?thesis
    using False x unfolding round_to_def e
    by (simp add: round_frac_def Let_def powr_int del: of_int_mult of_int_power)
qed (simp add: round_to_def round_frac_def)

lemma round_to_fraction:
  "round_to p emin (numeral a / numeral b) = round_frac p emin (numeral a) (numeral b)"
  "round_to p emin (numeral a) = round_frac p emin (numeral a) 1"
  "round_to p emin (1 / numeral b) = round_frac p emin 1 (numeral b)"
  using round_frac_correct [of "numeral b" p emin "numeral a"]
    round_frac_correct [of 1 p emin "numeral a"] round_frac_correct [of "numeral b" p emin 1]
  by simp_all

lemmas double_eval = round_to_fraction round_to_uminus round_frac_def flog2_def rne_frac_def
  Let_def

lemma double_eval_tenth: "round_to 53 (- 1074) (1/10) = 3602879701896397 / 2 ^ 55"
  by (simp add: double_eval)

lemma double_eval_K: "round_to 53 (- 1074) (1 / 10 ^ 12) = 4951760157141521 / 2 ^ 92"
  by (simp add: double_eval)

end
