(* ===== verification/Signed_Zero.thy ===== *)
theory Signed_Zero
  imports Gating
begin

text \<open>
  The sign of zero. A double has two zeros, and the other theories have one: there a
  zero result is the one zero and a division by it takes the sign of its result from the
  numerator alone. This theory adds the negative zero to the floats, gives the sign of
  every zero result by the rules of IEEE 754 (the sign of a product or a quotient is the
  exclusive or of the signs of the operands; a sum that is exactly zero is positive
  unless both operands are the negative zero), and writes the flux of one species of the
  planar kernel and the rate of one species of the radial kernel with these operations.
  It proves that forgetting the sign of zero turns this flux into the flux of \<open>Machine\<close>
  unless the averaged viscosity is the negative zero, that the multiplication by the
  toggle 1 keeps every bit, and that between two equal states with positive data the
  flux is the negative zero in every component: it compares equal to zero and is not
  the positive zero. Swapping the two nodes negates the flux with its sign bit in every
  component whose two terms do not cancel, and negates the radial rate with its sign bit
  wherever the rounded difference of the densities is not a zero.
\<close>

section \<open>Floats with two zeros\<close>

datatype sfloat = Val pyfloat | NegZero

primrec sval :: "sfloat \<Rightarrow> pyfloat" where
  "sval (Val x) = x"
| "sval NegZero = Fin 0"

fun sign_bit :: "sfloat \<Rightarrow> bool" where
  "sign_bit NegZero = True"
| "sign_bit (Val (Fin y)) = (y < 0)"
| "sign_bit (Val NInf) = True"
| "sign_bit (Val PInf) = False"
| "sign_bit (Val NaN) = False"

definition zerosign :: "bool \<Rightarrow> pyfloat \<Rightarrow> sfloat" where
  "zerosign s x = (if x = Fin 0 \<and> s then NegZero else Val x)"

definition sz_neg :: "sfloat \<Rightarrow> sfloat" where
  "sz_neg a = (case a of NegZero \<Rightarrow> Val (Fin 0) | Val x \<Rightarrow> zerosign True (- x))"

definition sz_mul :: "format \<Rightarrow> sfloat \<Rightarrow> sfloat \<Rightarrow> sfloat" where
  "sz_mul fmt a b = zerosign (sign_bit a \<noteq> sign_bit b) (fl_mul fmt (sval a) (sval b))"

definition sz_div :: "format \<Rightarrow> sfloat \<Rightarrow> sfloat \<Rightarrow> sfloat" where
  "sz_div fmt a b =
     (if b = NegZero then zerosign (\<not> sign_bit a) (- fl_div fmt (sval a) (Fin 0))
      else zerosign (sign_bit a \<noteq> sign_bit b) (fl_div fmt (sval a) (sval b)))"

definition add_sign :: "sfloat \<Rightarrow> sfloat \<Rightarrow> bool" where
  "add_sign a b =
     (case sval a + sval b of
        Fin y \<Rightarrow> if y = 0 then a = NegZero \<and> b = NegZero else y < 0
      | _ \<Rightarrow> False)"

definition sz_add :: "format \<Rightarrow> sfloat \<Rightarrow> sfloat \<Rightarrow> sfloat" where
  "sz_add fmt a b = zerosign (add_sign a b) (fl_add fmt (sval a) (sval b))"

definition sz_sub :: "format \<Rightarrow> sfloat \<Rightarrow> sfloat \<Rightarrow> sfloat" where
  "sz_sub fmt a b = sz_add fmt a (sz_neg b)"

section \<open>The flux of one species with signed zeros\<close>

definition avg_z :: "format \<Rightarrow> planar_params \<Rightarrow> sfloat \<Rightarrow> sfloat \<Rightarrow> sfloat" where
  "avg_z fmt q a b = sz_add fmt (sz_mul fmt (Val (wt1 q)) a) (sz_mul fmt (Val (wt2 q)) b)"

definition conv_z :: "format \<Rightarrow> planar_params \<Rightarrow> snapshot \<Rightarrow> snapshot \<Rightarrow> nat \<Rightarrow> sfloat" where
  "conv_z fmt q s1 s2 k =
     sz_div fmt
       (sz_mul fmt
         (sz_mul fmt
           (sz_mul fmt
             (sz_neg (avg_z fmt q (sz_mul fmt (Val (snap_rho s1)) (Val (snap_Y s1 ! k)))
                  (sz_mul fmt (Val (snap_rho s2)) (Val (snap_Y s2 ! k)))))
             (Val (K_g q)))
           (sz_sub fmt (Val (snap_P s2)) (Val (snap_P s1))))
         (Val (inv_dy q)))
       (avg_z fmt q (Val (snap_mu s1)) (Val (snap_mu s2)))"

definition diff_z :: "format \<Rightarrow> planar_params \<Rightarrow> snapshot \<Rightarrow> snapshot \<Rightarrow> nat \<Rightarrow> sfloat" where
  "diff_z fmt q s1 s2 k =
     sz_mul fmt
       (sz_mul fmt
         (sz_mul fmt
           (sz_mul fmt (sz_neg (Val (eps_tau2 q)))
             (avg_z fmt q (Val (snap_D_k s1 ! k)) (Val (snap_D_k s2 ! k))))
           (avg_z fmt q (Val (snap_rho s1)) (Val (snap_rho s2))))
         (sz_sub fmt (Val (snap_Y s2 ! k)) (Val (snap_Y s1 ! k))))
       (Val (inv_dy q))"

definition flux_z :: "format \<Rightarrow> planar_params \<Rightarrow> snapshot \<Rightarrow> snapshot \<Rightarrow> pyfloat \<Rightarrow> sfloat list"
  where "flux_z fmt q s1 s2 tog =
     map (\<lambda>k. sz_mul fmt (Val tog) (sz_add fmt (conv_z fmt q s1 s2 k) (diff_z fmt q s1 s2 k)))
       [0..<length (snap_Y s1)]"

definition swap_q :: "planar_params \<Rightarrow> planar_params" where
  "swap_q q = q\<lparr>wt1 := wt2 q, wt2 := wt1 q\<rparr>"

section \<open>The rate of one species with signed zeros\<close>

definition mass_z :: "format \<Rightarrow> shell_params \<Rightarrow> nat \<Rightarrow> pyfloat \<Rightarrow> pyfloat \<Rightarrow> sfloat" where
  "mass_z fmt q j x y =
     sz_mul fmt
       (sz_mul fmt (sz_mul fmt (Val (D_eff_naf q)) (Val (p_eff_SAnaf q))) (Val (eps_tau2_n2 q)))
       (sz_mul fmt
         (sz_mul fmt (Val (round_f fmt ((r_jph q ! j)\<^sup>2))) (sz_sub fmt (Val x) (Val y)))
         (Val (inv_dr q ! j)))"

definition rate_z :: "format \<Rightarrow> shell_params \<Rightarrow> nat \<Rightarrow> int \<Rightarrow> pyfloat \<Rightarrow> pyfloat \<Rightarrow> sfloat" where
  "rate_z fmt q j ver x y =
     (if ver = 1 then mass_z fmt q j x y
      else sz_mul fmt (sz_mul fmt (mass_z fmt q j x y) (Val (round_f fmt ((inv_r_j q ! j)\<^sup>2))))
             (Val (inv_t_shl q ! j)))"

section \<open>Signs\<close>

definition sign_format :: "format \<Rightarrow> bool" where
  "sign_format fmt \<longleftrightarrow> (\<forall>x. 0 \<le> x \<longrightarrow> 0 \<le> fmt_rnd fmt x)"

definition fpos :: "sfloat \<Rightarrow> bool" where
  "fpos a \<longleftrightarrow> is_fin (sval a) \<and> \<not> sign_bit a"

definition fneg :: "sfloat \<Rightarrow> bool" where
  "fneg a \<longleftrightarrow> is_fin (sval a) \<and> sign_bit a"

definition face_nonneg :: "planar_params \<Rightarrow> snapshot \<Rightarrow> pyfloat \<Rightarrow> nat \<Rightarrow> bool" where
  "face_nonneg q s tog k \<longleftrightarrow>
     is_nonneg tog \<and> is_nonneg (wt1 q) \<and> is_nonneg (wt2 q) \<and> is_nonneg (K_g q) \<and>
     is_nonneg (inv_dy q) \<and> is_nonneg (eps_tau2 q) \<and> is_nonneg (snap_rho s) \<and>
     is_nonneg (snap_mu s) \<and> is_nonneg (snap_D_k s ! k) \<and> is_nonneg (snap_Y s ! k)"

section \<open>Forgetting the sign of zero\<close>

lemma sval_zerosign [simp]: "sval (zerosign s x) = x"
  by (simp add: zerosign_def)

lemma zerosign_eq_NegZero [simp]: "zerosign s x = NegZero \<longleftrightarrow> x = Fin 0 \<and> s"
  by (simp add: zerosign_def)

lemma zerosign_False [simp]: "zerosign False x = Val x"
  by (simp add: zerosign_def)

lemma sval_sz_neg [simp]: "sval (sz_neg a) = - sval a"
  by (cases a) (simp_all add: sz_neg_def)

lemma sval_sz_mul [simp]: "sval (sz_mul fmt a b) = fl_mul fmt (sval a) (sval b)"
  by (simp add: sz_mul_def)

lemma sval_sz_add [simp]: "sval (sz_add fmt a b) = fl_add fmt (sval a) (sval b)"
  by (simp add: sz_add_def)

lemma sval_sz_sub [simp]: "sval (sz_sub fmt a b) = fl_sub fmt (sval a) (sval b)"
  by (simp add: sz_sub_def fl_add_def fl_sub_def minus_pyfloat_def)

lemma sval_sz_div:
  "sval (sz_div fmt a b) =
     (if b = NegZero then - fl_div fmt (sval a) (Fin 0) else fl_div fmt (sval a) (sval b))"
  by (simp add: sz_div_def)

lemma sval_avg_z [simp]: "sval (avg_z fmt q a b) = avg_f fmt q (sval a) (sval b)"
  by (simp add: avg_z_def avg_f_def)

lemma sval_diff_z [simp]: "sval (diff_z fmt q s1 s2 k) = diff_f fmt q s1 s2 k"
  by (simp add: diff_z_def diff_f_def)

lemma sval_conv_z:
  assumes "avg_z fmt q (Val (snap_mu s1)) (Val (snap_mu s2)) \<noteq> NegZero"
  shows "sval (conv_z fmt q s1 s2 k) = conv_f fmt q s1 s2 k"
  using assms by (simp add: conv_z_def conv_f_def sval_sz_div)

lemma length_flux_z [simp]: "length (flux_z fmt q s1 s2 tog) = length (snap_Y s1)"
  by (simp add: flux_z_def)

lemma map_sval_flux_z:
  assumes "avg_z fmt q (Val (snap_mu s1)) (Val (snap_mu s2)) \<noteq> NegZero"
  shows "map sval (flux_z fmt q s1 s2 tog) = flux_f fmt q s1 s2 tog"
  by (simp add: flux_z_def flux_f_def sval_conv_z [OF assms])

section \<open>The signs of finite results\<close>

lemma fpos_conv: "fpos a \<longleftrightarrow> (\<exists>y\<ge>0. a = Val (Fin y))"
proof (cases a)
  case (Val x)
  then show ?thesis by (cases x) (auto simp: fpos_def)
qed (simp add: fpos_def)

lemma fneg_conv: "fneg a \<longleftrightarrow> a = NegZero \<or> (\<exists>y<0. a = Val (Fin y))"
proof (cases a)
  case (Val x)
  then show ?thesis by (cases x) (auto simp: fneg_def)
qed (simp add: fneg_def)

lemma fpos_Val [simp]: "fpos (Val x) \<longleftrightarrow> is_nonneg x"
  by (cases x) (auto simp: fpos_def)

lemma sign_formatD:
  assumes "odd_format fmt" "sign_format fmt"
  shows "0 \<le> x \<Longrightarrow> 0 \<le> fmt_rnd fmt x" "x \<le> 0 \<Longrightarrow> fmt_rnd fmt x \<le> 0"
proof -
  show "0 \<le> x \<Longrightarrow> 0 \<le> fmt_rnd fmt x"
    using assms(2) by (simp add: sign_format_def)
  have "odd_rounding (fmt_rnd fmt)"
    using assms(1) by (simp add: odd_format_def)
  then have "fmt_rnd fmt x = - fmt_rnd fmt (- x)"
    by (simp add: odd_roundingD)
  moreover have "x \<le> 0 \<Longrightarrow> 0 \<le> fmt_rnd fmt (- x)"
    using assms(2) by (simp add: sign_format_def)
  ultimately show "x \<le> 0 \<Longrightarrow> fmt_rnd fmt x \<le> 0"
    by simp
qed

lemma round_f_Fin_cases:
  assumes "is_fin (round_f fmt (Fin x))"
  shows "round_f fmt (Fin x) = Fin (fmt_rnd fmt x)"
  using assms by (auto simp: round_f_def split: option.splits if_splits)

lemma is_fin_fl:
  "is_fin (fl_mul fmt a b) \<Longrightarrow> is_fin a \<and> is_fin b"
  "is_fin (fl_add fmt a b) \<Longrightarrow> is_fin a \<and> is_fin b"
proof -
  have r: "is_fin (round_f fmt x) \<Longrightarrow> is_fin x" for x
    by (cases x) simp_all
  show "is_fin (fl_mul fmt a b) \<Longrightarrow> is_fin a \<and> is_fin b"
    using r [of "a * b"] by (auto simp: fl_mul_def)
  show "is_fin (fl_add fmt a b) \<Longrightarrow> is_fin a \<and> is_fin b"
    using r [of "a + b"] by (auto simp: fl_add_def)
qed

lemma fpos_sz_mul:
  assumes "odd_format fmt" "sign_format fmt" "fpos a" "fpos b"
    and "is_fin (fl_mul fmt (sval a) (sval b))"
  shows "fpos (sz_mul fmt a b)"
proof -
  obtain x y where xy: "a = Val (Fin x)" "0 \<le> x" "b = Val (Fin y)" "0 \<le> y"
    using assms(3,4) by (auto simp: fpos_conv)
  then have "fl_mul fmt (Fin x) (Fin y) = Fin (fmt_rnd fmt (x * y))"
    using assms(5) round_f_Fin_cases [of fmt "x * y"] by (simp add: fl_mul_def)
  then show ?thesis
    using xy sign_formatD(1) [OF assms(1,2), of "x * y"] by (simp add: sz_mul_def)
qed

lemma fpos_sz_add:
  assumes "odd_format fmt" "sign_format fmt" "fpos a" "fpos b"
    and "is_fin (fl_add fmt (sval a) (sval b))"
  shows "fpos (sz_add fmt a b)"
proof -
  obtain x y where xy: "a = Val (Fin x)" "0 \<le> x" "b = Val (Fin y)" "0 \<le> y"
    using assms(3,4) by (auto simp: fpos_conv)
  then have "fl_add fmt (Fin x) (Fin y) = Fin (fmt_rnd fmt (x + y))"
    using assms(5) round_f_Fin_cases [of fmt "x + y"] by (simp add: fl_add_def)
  then show ?thesis
    using xy sign_formatD(1) [OF assms(1,2), of "x + y"]
    by (simp add: sz_add_def add_sign_def zerosign_def)
qed

lemma fpos_avg_z:
  assumes "odd_format fmt" "sign_format fmt" "is_nonneg (wt1 q)" "is_nonneg (wt2 q)"
    and "fpos a" "fpos b" "is_fin (avg_f fmt q (sval a) (sval b))"
  shows "fpos (avg_z fmt q a b)"
  using assms(3-) is_fin_fl(2) [of fmt "fl_mul fmt (wt1 q) (sval a)" "fl_mul fmt (wt2 q) (sval b)"]
  unfolding avg_z_def avg_f_def
  by (intro fpos_sz_add fpos_sz_mul assms(1,2)) simp_all

lemma fneg_sz_neg: "fpos a \<Longrightarrow> fneg (sz_neg a)"
  by (auto simp: fpos_conv fneg_def sz_neg_def zerosign_def)

lemma fneg_sz_mul:
  assumes "odd_format fmt" "sign_format fmt" "fneg a" "fpos b"
    and "is_fin (fl_mul fmt (sval a) (sval b))"
  shows "fneg (sz_mul fmt a b)"
proof -
  obtain x y where xy: "sval a = Fin x" "x \<le> 0" "sign_bit a" "b = Val (Fin y)" "0 \<le> y"
    using assms(3,4) by (auto simp: fpos_conv fneg_conv)
  then have "fl_mul fmt (Fin x) (Fin y) = Fin (fmt_rnd fmt (x * y))"
    using assms(5) round_f_Fin_cases [of fmt "x * y"] by (simp add: fl_mul_def)
  moreover have "fmt_rnd fmt (x * y) \<le> 0"
    using xy by (intro sign_formatD(2) [OF assms(1,2)]) (simp add: mult_nonpos_nonneg)
  ultimately show ?thesis
    using xy by (auto simp: sz_mul_def fneg_conv zerosign_def order_less_le)
qed

section \<open>Zeros and their signs\<close>

lemma sz_zero:
  assumes "odd_format fmt"
  shows "fneg a \<Longrightarrow> sz_mul fmt a (Val (Fin 0)) = NegZero"
    and "fpos b \<Longrightarrow> sz_mul fmt NegZero b = NegZero"
    and "fpos a \<Longrightarrow> sz_mul fmt a NegZero = NegZero"
    and "fpos b \<Longrightarrow> \<not> zero_or_nan (sval b) \<Longrightarrow> sz_div fmt NegZero b = NegZero"
    and "sz_add fmt NegZero NegZero = NegZero"
    and "is_fin x \<Longrightarrow> sz_sub fmt (Val x) (Val x) = Val (Fin 0)"
proof -
  note z = round_f_zero [OF assms]
  show "fneg a \<Longrightarrow> sz_mul fmt a (Val (Fin 0)) = NegZero"
    by (auto simp: fneg_def sz_mul_def fl_mul_def times_Fin_zero z)
  show "fpos b \<Longrightarrow> sz_mul fmt NegZero b = NegZero"
    by (auto simp: fpos_def sz_mul_def fl_mul_def Fin_zero_times z)
  show "fpos a \<Longrightarrow> sz_mul fmt a NegZero = NegZero"
    by (auto simp: fpos_def sz_mul_def fl_mul_def times_Fin_zero z)
  show "fpos b \<Longrightarrow> \<not> zero_or_nan (sval b) \<Longrightarrow> sz_div fmt NegZero b = NegZero"
    by (auto simp: fpos_conv sz_div_def fl_div_def z)
  show "sz_add fmt NegZero NegZero = NegZero"
    by (simp add: sz_add_def add_sign_def fl_add_def z)
  show "is_fin x \<Longrightarrow> sz_sub fmt (Val x) (Val x) = Val (Fin 0)"
    by (cases x) (simp_all add: sz_sub_def sz_neg_def sz_add_def add_sign_def fl_add_def
        zerosign_def z)
qed

lemma conv_z_same:
  assumes "odd_format fmt" "sign_format fmt" "face_nonneg q s tog k" "face_finite fmt q s tog k"
    and "is_fin (avg_f fmt q (snap_mu s) (snap_mu s))"
  shows "conv_z fmt q s s k = NegZero"
proof -
  let ?r = "fl_mul fmt (snap_rho s) (snap_Y s ! k)"
  let ?R = "sz_mul fmt (Val (snap_rho s)) (Val (snap_Y s ! k))"
  note nn = assms(3) [unfolded face_nonneg_def] and ff = assms(4) [unfolded face_finite_def]
  have c: "is_fin (fl_mul fmt (avg_f fmt q ?r ?r) (K_g q))"
    using ff by simp
  then have a: "is_fin (avg_f fmt q ?r ?r)"
    by (blast dest: is_fin_fl)
  then have "is_fin ?r"
    unfolding avg_f_def by (blast dest: is_fin_fl)
  then have "fpos ?R"
    using nn by (intro fpos_sz_mul assms(1,2)) simp_all
  then have "fpos (avg_z fmt q ?R ?R)"
    using nn a by (intro fpos_avg_z assms(1,2)) simp_all
  then have "fneg (sz_mul fmt (sz_neg (avg_z fmt q ?R ?R)) (Val (K_g q)))"
    using nn c by (intro fneg_sz_mul fneg_sz_neg assms(1,2)) (simp_all add: fl_odd [OF assms(1)])
  moreover have "fpos (avg_z fmt q (Val (snap_mu s)) (Val (snap_mu s)))"
    using nn assms(5) by (intro fpos_avg_z assms(1,2)) simp_all
  ultimately show ?thesis
    using nn ff by (simp add: conv_z_def sz_zero [OF assms(1)])
qed

lemma diff_z_same:
  assumes "odd_format fmt" "sign_format fmt" "face_nonneg q s tog k" "face_finite fmt q s tog k"
  shows "diff_z fmt q s s k = NegZero"
proof -
  let ?D = "avg_z fmt q (Val (snap_D_k s ! k)) (Val (snap_D_k s ! k))"
  let ?rho = "avg_z fmt q (Val (snap_rho s)) (Val (snap_rho s))"
  note nn = assms(3) [unfolded face_nonneg_def] and ff = assms(4) [unfolded face_finite_def]
  have c: "is_fin (fl_mul fmt (fl_mul fmt (eps_tau2 q) (sval ?D)) (sval ?rho))"
    using ff by simp
  then have b: "is_fin (fl_mul fmt (eps_tau2 q) (sval ?D))" "is_fin (sval ?rho)"
    by (blast dest: is_fin_fl)+
  then have d: "is_fin (sval ?D)"
    by (blast dest: is_fin_fl)
  have "fpos ?D" "fpos ?rho"
    using nn b(2) d by (simp_all add: fpos_avg_z [OF assms(1,2)])
  then have "fneg (sz_mul fmt (sz_mul fmt (sz_neg (Val (eps_tau2 q))) ?D) ?rho)"
    using nn b(1) c
    by (intro fneg_sz_mul fneg_sz_neg assms(1,2)) (simp_all add: fl_odd [OF assms(1)])
  then show ?thesis
    using nn ff by (simp add: diff_z_def sz_zero [OF assms(1)])
qed

lemma avg_f_swap: "avg_f fmt (swap_q q) b a = avg_f fmt q a b"
  by (simp add: avg_f_def swap_q_def fl_add_commute)

lemma face_swap:
  "face_nonneg (swap_q q) s tog k = face_nonneg q s tog k"
  "face_finite fmt (swap_q q) s tog k = face_finite fmt q s tog k"
  by (auto simp: face_nonneg_def face_finite_def avg_f_swap) (simp_all add: swap_q_def)

lemma flux_z_same:
  assumes "odd_format fmt" "sign_format fmt" "face_nonneg q s tog k" "face_finite fmt q s tog k"
    and "is_fin (avg_f fmt q (snap_mu s) (snap_mu s))" "k < length (snap_Y s)"
  shows "flux_z fmt q s s tog ! k = NegZero"
proof -
  have "is_nonneg tog"
    using assms(3) by (simp add: face_nonneg_def)
  then show ?thesis
    using assms(6)
    by (simp add: flux_z_def conv_z_same [OF assms(1-5)] diff_z_same [OF assms(1-4)]
        sz_zero [OF assms(1)])
qed

section \<open>The multiplication by one keeps every bit\<close>

lemma sz_mul_one:
  assumes "in_format fmt (sval x)"
  shows "sz_mul fmt (Val (Fin 1)) x = x"
proof (cases x)
  case (Val y)
  then show ?thesis
    using assms fl_mul_one [of fmt y] by (cases y) (auto simp: sz_mul_def zerosign_def)
next
  case NegZero
  then show ?thesis
    using assms fl_mul_one [of fmt "Fin 0"] by (simp add: sz_mul_def)
qed

section \<open>Sign-preserving formats\<close>

lemma binary64_sign: "sign_format binary64"
proof -
  have "0 \<le> round_to 53 (- 1074) x" if "0 \<le> x" for x
  proof -
    have "0 \<le> rne (x / 2 powr of_int (ulp_exp 53 (- 1074) x))"
      using that by (intro rne_ge) simp
    then show ?thesis
      by (simp add: round_to_def)
  qed
  then show ?thesis
    by (simp add: sign_format_def)
qed

lemma int_format_sign: "sign_format (int_format M)"
  by (simp add: sign_format_def int_format_def to_int_def sgn_if)

lemma avg_z_not_NegZero:
  assumes "odd_format fmt" "sign_format fmt"
    and "is_nonneg (wt1 q)" "is_nonneg (wt2 q)" "is_nonneg a" "is_nonneg b"
  shows "avg_z fmt q (Val a) (Val b) \<noteq> NegZero"
proof -
  obtain w1 w2 x y where v: "wt1 q = Fin w1" "wt2 q = Fin w2" "a = Fin x" "b = Fin y"
    and nn: "0 \<le> w1" "0 \<le> w2" "0 \<le> x" "0 \<le> y"
    using assms(3-) by (auto simp: is_nonneg_conv)
  have m: "sz_mul fmt (Val (Fin u)) (Val (Fin v)) = Val (fl_mul fmt (Fin u) (Fin v))"
    if "0 \<le> u" "0 \<le> v" for u v
    using that by (simp add: sz_mul_def)
  have "is_nonneg r \<or> \<not> is_fin r" if "r = fl_mul fmt (Fin u) (Fin v)" "0 \<le> u" "0 \<le> v" for r u v
    using that sign_formatD(1) [OF assms(1,2), of "u * v"]
    by (auto simp: fl_mul_def round_f_def split: option.splits)
  then have "is_nonneg (fl_mul fmt (Fin w1) (Fin x)) \<or> \<not> is_fin (fl_mul fmt (Fin w1) (Fin x))"
    "is_nonneg (fl_mul fmt (Fin w2) (Fin y)) \<or> \<not> is_fin (fl_mul fmt (Fin w2) (Fin y))"
    using nn by blast+
  then show ?thesis
    unfolding avg_z_def v m [OF nn(1,3)] m [OF nn(2,4)]
    by (cases "fl_mul fmt (Fin w1) (Fin x)"; cases "fl_mul fmt (Fin w2) (Fin y)")
      (auto simp: sz_add_def add_sign_def)
qed

section \<open>Negation, bit for bit\<close>

lemma Val_sval: "sval x \<noteq> Fin 0 \<Longrightarrow> Val (sval x) = x"
  by (cases x) simp_all

lemma sz_neg_Val: "x \<noteq> Fin 0 \<Longrightarrow> sz_neg (Val x) = Val (- x)"
  by (cases x) (simp_all add: sz_neg_def zerosign_def)

lemma sz_neg_sz_neg [simp]: "sz_neg (sz_neg a) = a"
proof (cases a)
  case (Val x)
  then show ?thesis
    by (cases x) (simp_all add: sz_neg_def zerosign_def)
qed (simp add: sz_neg_def)

lemma sign_bit_sz_neg: "\<not> is_nan (sval a) \<Longrightarrow> sign_bit (sz_neg a) \<longleftrightarrow> \<not> sign_bit a"
proof (cases a)
  case (Val x)
  then show "\<not> is_nan (sval a) \<Longrightarrow> sign_bit (sz_neg a) \<longleftrightarrow> \<not> sign_bit a"
    by (cases x) (auto simp: sz_neg_def zerosign_def)
qed (simp add: sz_neg_def)

lemma sz_neg_zerosign:
  "\<not> is_nan x \<Longrightarrow> sz_neg (zerosign s x) = zerosign (\<not> s) (- x)"
  "sz_neg (zerosign s NaN) = Val NaN"
  by (cases x; simp add: sz_neg_def zerosign_def)+

lemma add_sign_commute: "add_sign a b = add_sign b a"
  unfolding add_sign_def pyfloat_add_commute [of "sval a" "sval b"]
  by (auto split: pyfloat.splits)

lemma sz_add_commute: "sz_add fmt a b = sz_add fmt b a"
  by (simp add: sz_add_def add_sign_commute [of a b] fl_add_commute [of fmt "sval a"])

lemma fl_mul_nan_operand:
  assumes "\<not> is_nan (fl_mul fmt x y)"
  shows "\<not> is_nan x" and "\<not> is_nan y"
proof -
  have "\<not> is_nan (x * y)"
    using assms by (cases "x * y") (auto simp: fl_mul_def round_f_def split: option.splits)
  then show "\<not> is_nan x" and "\<not> is_nan y"
    by (cases x; cases y; simp)+
qed

lemma sz_mul_neg_nan:
  assumes "odd_format fmt" "is_nan (fl_mul fmt (sval a) (sval b))"
  shows "sz_mul fmt (sz_neg a) b = sz_neg (sz_mul fmt a b)"
    and "sz_mul fmt a (sz_neg b) = sz_neg (sz_mul fmt a b)"
proof -
  have n: "zerosign s NaN = Val NaN" "sz_neg (Val NaN) = Val NaN" for s
    by (simp_all add: zerosign_def sz_neg_def)
  have "fl_mul fmt (sval a) (sval b) = NaN"
    using assms(2) by (cases "fl_mul fmt (sval a) (sval b)") simp_all
  then show "sz_mul fmt (sz_neg a) b = sz_neg (sz_mul fmt a b)"
    and "sz_mul fmt a (sz_neg b) = sz_neg (sz_mul fmt a b)"
    by (simp_all add: sz_mul_def fl_odd [OF assms(1)] n sz_neg_zerosign(2))
qed

lemma sz_mul_neg:
  assumes "odd_format fmt"
  shows "sz_mul fmt (sz_neg a) b = sz_neg (sz_mul fmt a b)"
    and "sz_mul fmt a (sz_neg b) = sz_neg (sz_mul fmt a b)"
proof -
  show "sz_mul fmt (sz_neg a) b = sz_neg (sz_mul fmt a b)"
  proof (cases "is_nan (fl_mul fmt (sval a) (sval b))")
    case False
    then show ?thesis
      using fl_mul_nan_operand(1) [OF False]
      by (simp add: sz_mul_def fl_odd [OF assms] sz_neg_zerosign sign_bit_sz_neg)
  qed (rule sz_mul_neg_nan [OF assms])
  show "sz_mul fmt a (sz_neg b) = sz_neg (sz_mul fmt a b)"
  proof (cases "is_nan (fl_mul fmt (sval a) (sval b))")
    case False
    then show ?thesis
      using fl_mul_nan_operand(2) [OF False]
      by (auto simp: sz_mul_def fl_odd [OF assms] sz_neg_zerosign sign_bit_sz_neg)
  qed (rule sz_mul_neg_nan [OF assms])
qed

lemma sz_sub_swap:
  assumes "odd_format fmt" "fl_sub fmt a b \<noteq> Fin 0"
  shows "sz_sub fmt (Val b) (Val a) = sz_neg (sz_sub fmt (Val a) (Val b))"
proof -
  have "sval (sz_sub fmt (Val b) (Val a)) = - sval (sz_sub fmt (Val a) (Val b))"
    by (simp add: fl_odd(5) [OF assms(1), of a b])
  moreover have "sval (sz_sub fmt (Val a) (Val b)) \<noteq> Fin 0"
    using assms(2) by simp
  moreover have "- x \<noteq> Fin 0" if "x \<noteq> Fin 0" for x
    using that by (cases x) simp_all
  ultimately show ?thesis
    by (metis Val_sval sz_neg_Val)
qed

section \<open>Swapping the two nodes, bit for bit\<close>

lemma swap_q_simps [simp]:
  "wt1 (swap_q q) = wt2 q" "wt2 (swap_q q) = wt1 q" "K_g (swap_q q) = K_g q"
  "inv_dy (swap_q q) = inv_dy q" "eps_tau2 (swap_q q) = eps_tau2 q"
  by (simp_all add: swap_q_def)

lemma avg_z_swap: "avg_z fmt (swap_q q) b a = avg_z fmt q a b"
  by (simp add: avg_z_def sz_add_commute [of fmt "sz_mul fmt (Val (wt2 q)) b"])

lemma terms_f_swap:
  assumes "odd_format fmt"
  shows "conv_f fmt (swap_q q) s2 s1 k = - conv_f fmt q s1 s2 k"
    and "diff_f fmt (swap_q q) s2 s1 k = - diff_f fmt q s1 s2 k"
  using fl_odd(5) [OF assms, of "snap_P s2" "snap_P s1"]
    fl_odd(5) [OF assms, of "snap_Y s2 ! k" "snap_Y s1 ! k"]
  by (simp_all add: conv_f_def diff_f_def avg_f_swap fl_odd(1,2,3) [OF assms])

lemma sum_z_swap:
  assumes "odd_format fmt" "avg_z fmt q (Val (snap_mu s1)) (Val (snap_mu s2)) \<noteq> NegZero"
    and "fl_add fmt (conv_f fmt q s1 s2 k) (diff_f fmt q s1 s2 k) \<noteq> Fin 0"
  shows "sz_add fmt (conv_z fmt (swap_q q) s2 s1 k) (diff_z fmt (swap_q q) s2 s1 k) =
    sz_neg (sz_add fmt (conv_z fmt q s1 s2 k) (diff_z fmt q s1 s2 k))"
proof -
  let ?S = "sz_add fmt (conv_z fmt q s1 s2 k) (diff_z fmt q s1 s2 k)"
  let ?S' = "sz_add fmt (conv_z fmt (swap_q q) s2 s1 k) (diff_z fmt (swap_q q) s2 s1 k)"
  let ?c = "conv_f fmt q s1 s2 k" and ?d = "diff_f fmt q s1 s2 k"
  have "sval (conv_z fmt (swap_q q) s2 s1 k) = - ?c"
    using assms(2) by (simp add: sval_conv_z avg_z_swap terms_f_swap [OF assms(1)])
  then have "sval ?S' = fl_add fmt (- ?c) (- ?d)"
    by (simp add: terms_f_swap [OF assms(1)])
  moreover have v: "sval ?S = fl_add fmt ?c ?d"
    by (simp add: sval_conv_z [OF assms(2)])
  ultimately have v': "sval ?S' = - sval ?S"
    by (simp only: fl_odd(4) [OF assms(1)])
  have "sval ?S \<noteq> Fin 0"
    using assms(3) by (simp only: v not_False_eq_True)
  moreover from this have "sval ?S' \<noteq> Fin 0"
    unfolding v' by (cases "sval ?S") simp_all
  ultimately show ?thesis
    using v' by (metis Val_sval sz_neg_Val)
qed

section \<open>The rate: its value and its negation\<close>

lemma sval_rate_z [simp]: "sval (rate_z fmt q j ver x y) = rate_f fmt q j ver x y"
  by (simp add: rate_z_def mass_z_def rate_f_def mass_f_def)

lemma rate_z_swap:
  assumes "odd_format fmt" "fl_sub fmt x y \<noteq> Fin 0"
  shows "rate_z fmt q j ver y x = sz_neg (rate_z fmt q j ver x y)"
  by (simp add: rate_z_def mass_z_def sz_sub_swap [OF assms] sz_mul_neg [OF assms(1)])

section \<open>A concrete face in double precision\<close>

lemma dbl_face_nonneg:
  "face_nonneg mach_q (properties_at dbl_gas mach_T1) (Fin 1) 0"
  "face_nonneg mach_q (properties_at dbl_gas mach_T1) (Fin 1) (Suc 0)"
  by (simp_all add: face_nonneg_def dbl_gas_def mach_T1_def mach_q_def)

lemmas sz_defs = sz_mul_def sz_div_def sz_add_def sz_sub_def sz_neg_def add_sign_def zerosign_def

lemma dbl_terms_z:
  "conv_z binary64 mach_q (properties_at dbl_gas mach_T1) (properties_at dbl_gas mach_T2) 0 =
     Val (Fin 28)"
  "diff_z binary64 mach_q (properties_at dbl_gas mach_T1) (properties_at dbl_gas mach_T2) 0 =
     Val (Fin (- 3))"
  "conv_z binary64 mach_q (properties_at dbl_gas mach_T1) (properties_at dbl_gas mach_T2) (Suc 0) =
     Val (Fin 56)"
  "diff_z binary64 mach_q (properties_at dbl_gas mach_T1) (properties_at dbl_gas mach_T2) (Suc 0) =
     Val (Fin 3)"
  by (simp_all add: conv_z_def diff_z_def avg_z_def sz_defs fl_defs dbl_gas_def mach_T1_def
      mach_T2_def mach_q_def round_to_uminus)

lemma dbl_flux_z:
  "flux_z binary64 mach_q (properties_at dbl_gas mach_T1) (properties_at dbl_gas mach_T2) (Fin 1) =
     [Val (Fin 25), Val (Fin 59)]"
proof -
  have l: "[0..<length (snap_Y (properties_at dbl_gas mach_T1))] = [0, Suc 0]"
    by (simp add: dbl_gas_def mach_T1_def upt_rec)
  show ?thesis
    unfolding flux_z_def l list.map dbl_terms_z by (simp add: sz_defs fl_defs)
qed

lemma dbl_sum_f:
  "fl_add binary64
     (conv_f binary64 mach_q (properties_at dbl_gas mach_T1) (properties_at dbl_gas mach_T2) 0)
     (diff_f binary64 mach_q (properties_at dbl_gas mach_T1) (properties_at dbl_gas mach_T2) 0) =
   Fin 25"
  by (simp add: conv_f_def diff_f_def avg_f_def fl_defs dbl_gas_def mach_T1_def mach_T2_def
      mach_q_def round_to_uminus)

lemma dbl_avg_mu:
  "avg_z binary64 mach_q (Val (snap_mu (properties_at dbl_gas mach_T1)))
     (Val (snap_mu (properties_at dbl_gas mach_T2))) \<noteq> NegZero"
  by (intro avg_z_not_NegZero binary64_odd binary64_sign)
    (simp_all add: mach_q_def dbl_gas_def mach_T1_def mach_T2_def)

section \<open>Properties of the flux and the rate with signed zeros\<close>

text \<open>
  C27 (the kernel returns the values of the flux with signed zeros). In every format, when
  the dictionary holds the five scalar coefficients, the provider accepts both states and
  reports as many diffusion coefficients as mass fractions, and the averaged viscosity is
  not the negative zero, \<open>fickian_adf\<close> in machine arithmetic returns for every species
  the value of the flux computed with the two zeros of IEEE 754: the two differ in the
  sign of zero components only. The averaged viscosity is not the negative zero when the
  weights and the two viscosities are non-negative.
\<close>

theorem signed_zero_refinement:
  assumes "has_params p q"
    and "set_TDY gas TDY1 g = Inr g1" "set_TDY gas TDY2 g1 = Inr g2"
    and "n_species_ok gas n g1" "n_species_ok gas n g2"
    and "avg_z fmt q (Val (viscosity gas g1)) (Val (viscosity gas g2)) \<noteq> NegZero"
  shows "fickian_adf_r fmt TDY1 TDY2 gas p (Scalar tog) g =
    (Inr (Vec (map sval (flux_z fmt q (properties_at gas g1) (properties_at gas g2) tog))), g2)"
proof -
  have "map sval (flux_z fmt q (properties_at gas g1) (properties_at gas g2) tog) =
      flux_f fmt q (properties_at gas g1) (properties_at gas g2) tog"
    using assms(6) by (intro map_sval_flux_z) simp
  then show ?thesis
    using assms(1-5)
    by (simp add: fickian_adf_r_factor adf_pure_r_closed_form [where n = n] n_species_ok_def)
qed

theorem signed_zero_refinement_witness:
  "fickian_adf_r binary64 mach_T1 mach_T2 dbl_gas (params_dict mach_q) (Scalar (Fin 1)) mach_T2 =
     (Inr (Vec (map sval [Val (Fin 25), Val (Fin 59)])), mach_T2)"
proof -
  have "avg_z binary64 mach_q (Val (viscosity dbl_gas mach_T1)) (Val (viscosity dbl_gas mach_T2))
      \<noteq> NegZero"
    by (intro avg_z_not_NegZero binary64_odd binary64_sign)
      (simp_all add: mach_q_def dbl_gas_def mach_T1_def mach_T2_def)
  moreover have "n_species_ok dbl_gas 2 mach_T1" "n_species_ok dbl_gas 2 mach_T2"
    by (simp_all add: n_species_ok_def dbl_gas_def mach_T1_def mach_T2_def)
  ultimately show ?thesis
    using signed_zero_refinement [of "params_dict mach_q" mach_q dbl_gas mach_T1 mach_T2 mach_T1
        mach_T2 mach_T2 2 binary64 "Fin 1"]
    by (simp add: dbl_flux_z del: properties_at_simps)
qed

text \<open>
  C36 (between two equal states the flux is the negative zero). In every format whose
  rounding is odd and keeps the sign, for two equal states with non-negative
  coefficients, properties and toggle, finite products of coefficients and a finite
  non-zero averaged viscosity, every component of the flux computed with the two zeros of
  IEEE 754 is the negative zero: the pressure difference and the difference of the mass
  fractions are the positive zero and the leading minus signs of both terms make each
  product negative. The flux compares equal to zero, and swapping the two nodes and the
  weights returns the same negative zero, not its negation.
\<close>

theorem zero_gradient_negative_zero:
  assumes "odd_format fmt" "sign_format fmt" "face_nonneg q s tog k" "face_finite fmt q s tog k"
    and "is_fin (avg_f fmt q (snap_mu s) (snap_mu s))" "k < length (snap_Y s)"
  shows "flux_z fmt q s s tog ! k = NegZero \<and>
    flux_z fmt (swap_q q) s s tog ! k \<noteq> sz_neg (flux_z fmt q s s tog ! k)"
proof -
  have "flux_z fmt q s s tog ! k = NegZero"
    using assms by (rule flux_z_same)
  moreover have "flux_z fmt (swap_q q) s s tog ! k = NegZero"
    using assms by (intro flux_z_same) (simp_all add: face_swap avg_f_swap)
  ultimately show ?thesis
    by (simp add: sz_neg_def)
qed

theorem zero_gradient_negative_zero_witness:
  "flux_z binary64 mach_q (properties_at dbl_gas mach_T1) (properties_at dbl_gas mach_T1) (Fin 1) ! 0
     = NegZero"
proof -
  have "is_fin (avg_f binary64 mach_q (snap_mu (properties_at dbl_gas mach_T1))
      (snap_mu (properties_at dbl_gas mach_T1)))"
    by (simp add: avg_f_def fl_defs dbl_gas_def mach_T1_def mach_q_def)
  moreover have "0 < length (snap_Y (properties_at dbl_gas mach_T1))"
    by (simp add: dbl_gas_def mach_T1_def)
  ultimately show ?thesis
    using zero_gradient_negative_zero [OF binary64_odd binary64_sign dbl_face_nonneg(1)
        mach_zero_run(1)]
    by simp
qed

text \<open>
  C6 (swapping the nodes negates the flux, bit for bit). In every format with an odd
  rounding, when the averaged viscosity is not the negative zero and the sum of the
  advective and the diffusive term of a species is not a zero, the flux of that species
  computed with the two zeros of IEEE 754 for the swapped nodes and weights is the
  negation of the flux for the nodes as given, sign bit included, also when the product
  with the toggle is a zero.
\<close>

theorem swap_negates_bits:
  assumes "odd_format fmt" "avg_z fmt q (Val (snap_mu s1)) (Val (snap_mu s2)) \<noteq> NegZero"
    and "fl_add fmt (conv_f fmt q s1 s2 k) (diff_f fmt q s1 s2 k) \<noteq> Fin 0"
    and "k < length (snap_Y s1)" "k < length (snap_Y s2)"
  shows "flux_z fmt (swap_q q) s2 s1 tog ! k = sz_neg (flux_z fmt q s1 s2 tog ! k)"
  using assms(4,5)
  by (simp add: flux_z_def sum_z_swap [OF assms(1-3)] sz_mul_neg [OF assms(1)])

theorem swap_negates_bits_witness:
  "flux_z binary64 (swap_q mach_q) (properties_at dbl_gas mach_T2) (properties_at dbl_gas mach_T1)
     (Fin 1) ! 0 = Val (Fin (- 25))"
proof -
  have "0 < length (snap_Y (properties_at dbl_gas mach_T1))"
    "0 < length (snap_Y (properties_at dbl_gas mach_T2))"
    by (simp_all add: dbl_gas_def mach_T1_def mach_T2_def)
  then show ?thesis
    using swap_negates_bits [OF binary64_odd dbl_avg_mu, of 0 "Fin 1"]
    by (simp add: dbl_sum_f dbl_flux_z sz_neg_def zerosign_def del: properties_at_simps)
qed

text \<open>
  C35 (the radial rate with signed zeros). In every format with an odd rounding, with the
  typed parameters in the dictionary, a node index that Python accepts and one of the two
  variants, \<open>radial_fdiff\<close> in machine arithmetic returns for every species the value of
  the rate computed with the two zeros of IEEE 754, and for every species whose rounded
  difference of densities is not a zero the rate for the swapped densities is the
  negation of the rate for the densities as given, sign bit included.
\<close>

theorem radial_signed_zero:
  assumes "has_shell_params p q" "n_shells q n" "node_in_range n node" "ver = 1 \<or> ver = 2"
    and "length xs = length ys" "odd_format fmt"
  shows "radial_fdiff_r fmt (Vec xs) (Vec ys) p node ver flag =
      Inr (Vec (map2 (\<lambda>x y. sval (rate_z fmt q (norm_node n node) ver x y)) xs ys)) \<and>
    (\<forall>k<length xs. fl_sub fmt (xs ! k) (ys ! k) \<noteq> Fin 0 \<longrightarrow>
       rate_z fmt q (norm_node n node) ver (ys ! k) (xs ! k) =
       sz_neg (rate_z fmt q (norm_node n node) ver (xs ! k) (ys ! k)))"
  using radial_fdiff_r_typed [OF assms(1-5), of fmt flag]
  by (simp add: radial_f_def rate_z_swap [OF assms(6)])

theorem radial_signed_zero_witness:
  "radial_fdiff_r (int_format None) (Vec [Fin 1, Fin 7]) (Vec [Fin 0, Fin 2])
     (shell_dict (shell_of demo_shell_r)) (- 1) 2 () = Inr (Vec [Fin 1, Fin 6]) \<and>
   rate_z (int_format None) (shell_of demo_shell_r) 0 2 (Fin 0) (Fin 1) = Val (Fin (- 1))"
proof -
  have "rate_z (int_format None) (shell_of demo_shell_r) 0 2 (Fin 0) (Fin 1) = Val (Fin (- 1))"
    by (simp add: shell_of_def demo_shell_r_def rate_z_def mass_z_def sz_defs fl_defs to_int_def)
  moreover have "has_shell_params (shell_dict (shell_of demo_shell_r)) (shell_of demo_shell_r)"
    "n_shells (shell_of demo_shell_r) 1" "node_in_range 1 (- 1)"
    by (simp_all add: n_shells_def node_in_range_def shell_of_def)
  ultimately show ?thesis
    using radial_signed_zero [of "shell_dict (shell_of demo_shell_r)" "shell_of demo_shell_r" 1
        "- 1" 2 "[Fin 1, Fin 7]" "[Fin 0, Fin 2]" "int_format None" "()", THEN conjunct1]
    by (simp add: odd_format_int norm_node_def shell_of_def demo_shell_r_def rate_f_def mass_f_def
        fl_defs to_int_def)
qed

end
