(* ===== verification/Averaging.thy ===== *)
theory Averaging
  imports Double_Eval
begin

text \<open>
  The boundary average in double precision. Between two interior nodes both weights are
  one half. Halving a double is exact unless the double is so small that its half falls
  below the subnormal grid, and then the sum of the two halves is rounded once: the
  boundary value is the double nearest to the arithmetic mean, it lies between the two
  node values, and the boundary value of two equal node values is that value. For other
  weights that add up to one none of this holds: the theory evaluates the average of
  \<open>3.0\<close> and \<open>3.0\<close> with the weights \<open>0.2\<close> and \<open>0.8\<close>, and the average of the smallest
  positive double with itself.
\<close>

section \<open>Doubles whose half is a double\<close>

definition halvable :: "pyfloat \<Rightarrow> bool" where
  "halvable x =
     (case x of Fin y \<Rightarrow> in_format binary64 x \<and> (y = 0 \<or> 1 / 2 ^ 1021 \<le> \<bar>y\<bar>) | _ \<Rightarrow> True)"

text \<open>
  Data for the two cases in which the average of equal node values is not that value:
  weights of a boundary face, \<open>0.2\<close> and \<open>0.8\<close> as Python stores them, and the smallest
  positive double.
\<close>

definition fifth_q :: planar_params where
  "fifth_q = mach_q\<lparr>wt1 := dbl (1/5), wt2 := dbl (4/5)\<rparr>"

definition tiny :: pyfloat where
  "tiny = Fin (1 / 2 ^ 1074)"

definition half_dict :: pdict where
  "half_dict = map_of [(''wt1'', Scalar (Fin (1/2))), (''wt2'', Scalar (Fin (1/2)))]"

section \<open>Representable numbers\<close>

lemma pow_powr: "(2::real) ^ n * 2 powr of_int e = 2 powr of_int (e + int n)"
  by (simp add: powr_add powr_realpow mult.commute)

lemma powr_pred:
  "0 < p \<Longrightarrow> (2::real) powr of_int (e + int p - 1) = 2 ^ (p - 1) * 2 powr of_int e"
  using pow_powr [of "p - 1" e] by (simp add: of_nat_diff algebra_simps)

lemma representable_scaled:
  assumes "round_to p emin x = x" "x \<noteq> 0" "e = ulp_exp p emin x"
  obtains k :: int where "\<bar>k\<bar> \<le> 2 ^ p" "x = of_int k * 2 powr of_int e"
proof
  show "\<bar>rne (x / 2 powr of_int e)\<bar> \<le> 2 ^ p"
    unfolding assms(3) by (rule abs_rne_scaled [OF assms(2)])
  have "round_to p emin x = of_int (rne (x / 2 powr of_int e)) * 2 powr of_int e"
    using assms(2) by (simp add: round_to_def assms(3))
  then show "x = of_int (rne (x / 2 powr of_int e)) * 2 powr of_int e"
    unfolding assms(1) .
qed

lemma round_to_half:
  assumes "0 < p" "round_to p emin x = x" "x = 0 \<or> 2 powr of_int (emin + int p) \<le> \<bar>x\<bar>"
  shows "round_to p emin (x / 2) = x / 2"
proof (cases "x = 0")
  case False
  define e where "e = ulp_exp p emin x"
  obtain k :: int where k: "\<bar>k\<bar> \<le> 2 ^ p" "x = of_int k * 2 powr of_int e"
    using representable_scaled [OF assms(2) False e_def] .
  have "emin + int p \<le> \<lfloor>log 2 \<bar>x\<bar>\<rfloor>"
    using assms(3) False by (auto intro: floor_log_ge)
  then have e: "emin \<le> e - 1"
    by (simp add: e_def ulp_exp_def)
  have "x / 2 = of_int k * 2 powr of_int (e - 1)"
    unfolding k(2) by (simp add: powr_diff)
  then show ?thesis
    using round_to_representable [OF k(1) e assms(1)] by simp
qed simp

section \<open>Rounding keeps the order of doubles\<close>

lemma round_to_scaled:
  "x \<noteq> 0 \<Longrightarrow> e = ulp_exp p emin x \<Longrightarrow>
   round_to p emin x = of_int (rne (x / 2 powr of_int e)) * 2 powr of_int e"
  by (simp add: round_to_def)

lemma round_to_nonneg: "0 \<le> x \<Longrightarrow> 0 \<le> round_to p emin x"
  using rne_ge [of 0 "x / 2 powr of_int (ulp_exp p emin x)"] by (simp add: round_to_def)

lemma ulp_exp_mono:
  assumes "0 < x" "x \<le> y"
  shows "ulp_exp p emin x \<le> ulp_exp p emin y"
proof -
  have "\<lfloor>log 2 \<bar>x\<bar>\<rfloor> \<le> \<lfloor>log 2 \<bar>y\<bar>\<rfloor>"
    using assms by (intro floor_mono) simp
  then show ?thesis
    unfolding ulp_exp_def by linarith
qed

lemma ulp_exp_above:
  assumes "x \<noteq> 0" "emin < ulp_exp p emin x" "e = ulp_exp p emin x"
  shows "2 powr of_int (e + int p - 1) \<le> \<bar>x\<bar>"
proof -
  have "e + int p - 1 = \<lfloor>log 2 \<bar>x\<bar>\<rfloor>"
    using assms(2,3) by (simp add: ulp_exp_def)
  then show ?thesis
    using floor_log_bounds(1) [OF assms(1)] by simp
qed

lemma round_to_binade:
  assumes "0 < p" "0 < x" "emin < ulp_exp p emin x"
  shows "2 powr of_int (ulp_exp p emin x + int p - 1) \<le> round_to p emin x"
proof -
  define e where "e = ulp_exp p emin x"
  have x: "x \<noteq> 0" "\<bar>x\<bar> = x"
    using assms(2) by simp_all
  have "2 powr of_int (e + int p - 1) \<le> x"
    using ulp_exp_above [OF x(1) assms(3) e_def] x(2) by simp
  then have "of_int (2 ^ (p - 1)) \<le> x / 2 powr of_int e"
    unfolding powr_pred [OF assms(1)] by (simp add: pos_le_divide_eq)
  then have "2 ^ (p - 1) \<le> rne (x / 2 powr of_int e)"
    by (rule rne_ge)
  then have "of_int (2 ^ (p - 1)) * 2 powr of_int e \<le> round_to p emin x"
    unfolding round_to_scaled [OF x(1) e_def]
    by (intro mult_right_mono) (simp_all only: of_int_le_iff powr_ge_zero)
  then show ?thesis
    unfolding powr_pred [OF assms(1)] e_def by simp
qed

lemma round_to_lower:
  assumes "0 < p" "round_to p emin lo = lo" "0 < lo" "lo \<le> x"
  shows "lo \<le> round_to p emin x"
proof -
  define e el where "e = ulp_exp p emin x" and "el = ulp_exp p emin lo"
  have x: "x \<noteq> 0" "lo \<noteq> 0" "0 < x"
    using assms(3,4) by simp_all
  obtain k :: int where k: "\<bar>k\<bar> \<le> 2 ^ p" "lo = of_int k * 2 powr of_int el"
    using representable_scaled [OF assms(2) x(2) el_def] .
  have le: "el \<le> e"
    unfolding e_def el_def using assms(3,4) by (rule ulp_exp_mono)
  show ?thesis
  proof (cases "el = e")
    case True
    have "of_int k \<le> x / 2 powr of_int e"
      using assms(4) unfolding k(2) True by (simp add: pos_le_divide_eq)
    then have "k \<le> rne (x / 2 powr of_int e)"
      by (rule rne_ge)
    then show ?thesis
      unfolding round_to_scaled [OF x(1) e_def] k(2) True by (simp add: mult_right_mono)
  next
    case False
    then have lt: "el \<le> e - 1" "emin < ulp_exp p emin x"
      using le ulp_exp_ge [of emin p lo] by (simp_all add: e_def el_def)
    have "of_int k \<le> (2 ^ p :: real)"
      using k(1) by (intro of_int_le_pow) simp
    then have "lo \<le> 2 ^ p * 2 powr of_int el"
      unfolding k(2) by (simp add: mult_right_mono)
    also have "\<dots> \<le> 2 powr of_int (e + int p - 1)"
      using lt(1) by (simp add: pow_powr del: of_int_add of_int_diff)
    finally show ?thesis
      using round_to_binade [OF assms(1) x(3) lt(2)] by (simp add: e_def)
  qed
qed

lemma round_to_upper:
  assumes "0 < p" "round_to p emin hi = hi" "0 < x" "x \<le> hi"
  shows "round_to p emin x \<le> hi"
proof -
  define e eh where "e = ulp_exp p emin x" and "eh = ulp_exp p emin hi"
  have x: "x \<noteq> 0" "hi \<noteq> 0" "\<bar>hi\<bar> = hi"
    using assms(3,4) by simp_all
  obtain k :: int where k: "\<bar>k\<bar> \<le> 2 ^ p" "hi = of_int k * 2 powr of_int eh"
    using representable_scaled [OF assms(2) x(2) eh_def] .
  note r = round_to_scaled [OF x(1) e_def]
  have le: "e \<le> eh"
    unfolding e_def eh_def using assms(3,4) by (rule ulp_exp_mono)
  show ?thesis
  proof (cases "eh = e")
    case True
    have "x / 2 powr of_int e \<le> of_int k"
      using assms(4) unfolding k(2) True by (simp add: pos_divide_le_eq)
    then have "rne (x / 2 powr of_int e) \<le> k"
      by (rule rne_le)
    then show ?thesis
      unfolding r k(2) True by (simp add: mult_right_mono)
  next
    case False
    then have lt: "e + 1 \<le> eh" "emin < ulp_exp p emin hi"
      using le ulp_exp_ge [of emin p x] by (simp_all add: e_def eh_def)
    have "rne (x / 2 powr of_int e) \<le> 2 ^ p"
      using abs_rne_scaled [OF x(1), of p emin] by (simp add: e_def)
    then have "of_int (rne (x / 2 powr of_int e)) \<le> (2 ^ p :: real)"
      by (rule of_int_le_pow)
    then have "round_to p emin x \<le> 2 ^ p * 2 powr of_int e"
      unfolding r by (simp add: mult_right_mono)
    also have "\<dots> \<le> 2 powr of_int (eh + int p - 1)"
      using lt(1) by (simp add: pow_powr del: of_int_add of_int_diff)
    also have "\<dots> \<le> hi"
      using ulp_exp_above [OF x(2) lt(2) eh_def] x(3) by simp
    finally show ?thesis .
  qed
qed

lemma round_to_between_pos:
  assumes "0 < p" "round_to p emin lo = lo" "round_to p emin hi = hi" "lo \<le> x" "x \<le> hi" "0 < x"
  shows "lo \<le> round_to p emin x \<and> round_to p emin x \<le> hi"
proof (cases "0 < lo")
  case True
  then show ?thesis
    using round_to_lower [OF assms(1,2) True assms(4)] round_to_upper [OF assms(1,3,6,5)] by simp
next
  case False
  then show ?thesis
    using round_to_nonneg [of x p emin] round_to_upper [OF assms(1,3,6,5)] assms(6) by simp
qed

lemma round_to_between:
  assumes "0 < p" "round_to p emin lo = lo" "round_to p emin hi = hi" "lo \<le> x" "x \<le> hi"
  shows "lo \<le> round_to p emin x \<and> round_to p emin x \<le> hi"
proof -
  consider "0 < x" | "x = 0" | "0 < - x" by linarith
  then show ?thesis
  proof cases
    case 1
    then show ?thesis
      by (rule round_to_between_pos [OF assms])
  next
    case 2
    then show ?thesis
      using assms(4,5) by simp
  next
    case 3
    have "- hi \<le> round_to p emin (- x) \<and> round_to p emin (- x) \<le> - lo"
      using assms(2-5) by (intro round_to_between_pos [OF assms(1) _ _ _ _ 3])
        (simp_all add: round_to_uminus)
    then show ?thesis
      by (simp add: round_to_uminus)
  qed
qed

section \<open>Halving a double\<close>

lemma halvableD:
  "halvable (Fin y) \<Longrightarrow> round_to 53 (- 1074) y = y"
  "halvable (Fin y) \<Longrightarrow> \<bar>y\<bar> < 2 ^ 1024 - 2 ^ 970"
  "halvable (Fin y) \<Longrightarrow> y = 0 \<or> 1 / 2 ^ 1021 \<le> \<bar>y\<bar>"
  by (simp_all add: halvable_def in_format_def)

lemma halvable_in_format: "halvable x \<Longrightarrow> in_format binary64 x"
  by (cases x) (simp_all add: halvable_def in_format_def)

lemma abs_mean_less:
  fixes x y M :: real
  shows "\<bar>x\<bar> < M \<Longrightarrow> \<bar>y\<bar> < M \<Longrightarrow> \<bar>(x + y) / 2\<bar> < M"
  by (simp add: abs_less_iff)

lemma round_f_double:
  "\<bar>y\<bar> < 2 ^ 1024 - 2 ^ 970 \<Longrightarrow> round_f binary64 (Fin y) = Fin (round_to 53 (- 1074) y)"
  by (auto simp: round_f_Fin abs_less_iff)

lemma round_half_double:
  assumes "halvable (Fin y)"
  shows "round_to 53 (- 1074) (y / 2) = y / 2"
proof -
  have e: "(2::real) powr of_int (- 1074 + int 53) = 1 / 2 ^ 1021"
    by (simp add: powr_minus_divide)
  show ?thesis
  proof (rule round_to_half)
    show "y = 0 \<or> 2 powr of_int (- 1074 + int 53) \<le> \<bar>y\<bar>"
      unfolding e by (rule halvableD(3) [OF assms])
  qed (simp_all add: halvableD(1) [OF assms])
qed

lemma fl_mul_half:
  assumes "halvable a"
  shows "fl_mul binary64 (Fin (1/2)) a = Fin (1/2) * a"
proof (cases a)
  case (Fin y)
  have "\<bar>y / 2\<bar> < 2 ^ 1024 - 2 ^ 970"
    using abs_mean_less [OF halvableD(2), of y 0] assms Fin by simp
  then show ?thesis
    using round_half_double [of y] assms Fin by (simp add: fl_mul_def round_f_double)
qed (simp_all add: fl_mul_def round_f_def)

section \<open>The average of two doubles\<close>

lemma half_sum:
  "halvable a \<Longrightarrow> halvable b \<Longrightarrow>
   fl_add binary64 (fl_mul binary64 (Fin (1/2)) a) (fl_mul binary64 (Fin (1/2)) b) =
     round_f binary64 ((a + b) / Fin 2)"
  by (simp add: fl_mul_half fl_add_def pyfloat_half_sum)

lemma avg_f_half:
  assumes "wt1 q = Fin (1/2)" "wt2 q = Fin (1/2)" "halvable a" "halvable b"
  shows "avg_f binary64 q a b = round_f binary64 ((a + b) / Fin 2)"
  by (simp add: avg_f_def assms half_sum)

lemma mean_same: "(a + a) / Fin 2 = a"
  by (cases a) simp_all

lemma half_sum_same:
  "halvable a \<Longrightarrow>
   fl_add binary64 (fl_mul binary64 (Fin (1/2)) a) (fl_mul binary64 (Fin (1/2)) a) = a"
  by (simp add: half_sum mean_same round_f_fixed halvable_in_format)

lemma map2_half_sum:
  assumes "list_all halvable xs" "list_all halvable ys"
  shows "map2 (\<lambda>x y. fl_add binary64 (fl_mul binary64 (Fin (1/2)) x)
      (fl_mul binary64 (Fin (1/2)) y)) xs ys =
    map2 (\<lambda>x y. round_f binary64 ((x + y) / Fin 2)) xs ys"
  using assms by (intro map2_cong_elem half_sum) (auto simp: list_all_iff elim!: in_set_zipE)

lemma map2_half_same:
  assumes "list_all halvable xs"
  shows "map2 (\<lambda>x y. fl_add binary64 (fl_mul binary64 (Fin (1/2)) x)
      (fl_mul binary64 (Fin (1/2)) y)) xs xs = xs"
  using assms by (simp add: map2_same list_all_iff half_sum_same map_idI)

lemma mean_between:
  assumes "halvable (Fin x)" "halvable (Fin y)"
  shows "round_f binary64 ((Fin x + Fin y) / Fin 2) = Fin (round_to 53 (- 1074) ((x + y) / 2))"
    and "min x y \<le> round_to 53 (- 1074) ((x + y) / 2)"
    and "round_to 53 (- 1074) ((x + y) / 2) \<le> max x y"
proof -
  show "round_f binary64 ((Fin x + Fin y) / Fin 2) = Fin (round_to 53 (- 1074) ((x + y) / 2))"
    using abs_mean_less [OF halvableD(2) [OF assms(1)] halvableD(2) [OF assms(2)]]
    by (simp add: round_f_double)
  have "round_to 53 (- 1074) (min x y) = min x y" "round_to 53 (- 1074) (max x y) = max x y"
    using halvableD(1) [OF assms(1)] halvableD(1) [OF assms(2)] by (simp_all add: min_def max_def)
  then have "min x y \<le> round_to 53 (- 1074) ((x + y) / 2) \<and>
      round_to 53 (- 1074) ((x + y) / 2) \<le> max x y"
    by (intro round_to_between) simp_all
  then show "min x y \<le> round_to 53 (- 1074) ((x + y) / 2)"
    "round_to 53 (- 1074) ((x + y) / 2) \<le> max x y"
    by simp_all
qed

lemma boundary_avg_r_weights:
  assumes "p ''wt1'' = Some (Scalar w1)" "p ''wt2'' = Some (Scalar w2)"
  shows "boundary_avg_r fmt p (Scalar a) (Scalar b) =
      Inr (Scalar (fl_add fmt (fl_mul fmt w1 a) (fl_mul fmt w2 b)))"
    and "length xs = length ys \<Longrightarrow> boundary_avg_r fmt p (Vec xs) (Vec ys) =
      Inr (Vec (map2 (\<lambda>x y. fl_add fmt (fl_mul fmt w1 x) (fl_mul fmt w2 y)) xs ys))"
  using assms by (simp_all add: boundary_avg_r_def getp_def map2_map_left map2_map_right)

section \<open>Concrete doubles\<close>

lemma halvable_simps [simp]:
  "halvable (Fin 0)" "halvable (Fin 1)" "halvable (Fin 3)" "halvable (Fin 4)"
  "halvable PInf" "halvable NInf" "halvable NaN"
  by (simp_all add: halvable_def in_format_def)

lemma halvable_tenths:
  "halvable (Fin (3602879701896397 / 2 ^ 55))" "halvable (Fin (5404319552844595 / 2 ^ 54))"
  by (simp_all add: halvable_def in_format_def double_eval)

lemma halvable_lists:
  "list_all halvable [Fin (3602879701896397 / 2 ^ 55), Fin 1, PInf]"
  "list_all halvable [Fin (5404319552844595 / 2 ^ 54), Fin 4, Fin 3]"
  using halvable_tenths by simp_all

lemma half_dict_simps [simp]:
  "half_dict ''wt1'' = Some (Scalar (Fin (1/2)))" "half_dict ''wt2'' = Some (Scalar (Fin (1/2)))"
  by (simp_all add: half_dict_def)

lemma fifth_q_simps [simp]:
  "wt1 fifth_q = Fin (3602879701896397 / 2 ^ 54)" "wt2 fifth_q = Fin (3602879701896397 / 2 ^ 52)"
  by (simp_all add: fifth_q_def dbl_def round_f_Fin double_eval)

section \<open>Properties of the boundary average in double precision\<close>

text \<open>
  C15 (weight normalisation in double precision). With both weights equal to one half,
  the boundary value of a property is the double nearest to the arithmetic mean of the two
  node values, for scalars and, componentwise, for vectors of equal length; the boundary
  value of two equal node values is that value; the boundary value of two finite node
  values lies between them. All this holds when every finite node value is a double that
  is zero or of magnitude \<open>2\<^sup>-\<^sup>1\<^sup>0\<^sup>2\<^sup>1\<close> or more; infinite node values and NaN are included.
\<close>

theorem mean_in_double_precision:
  assumes "p ''wt1'' = Some (Scalar (Fin (1/2)))" "p ''wt2'' = Some (Scalar (Fin (1/2)))"
    and "halvable a" "halvable b"
    and "length xs = length ys" "list_all halvable xs" "list_all halvable ys"
  shows "boundary_avg_r binary64 p (Scalar a) (Scalar b) =
      Inr (Scalar (round_f binary64 ((a + b) / Fin 2))) \<and>
    boundary_avg_r binary64 p (Vec xs) (Vec ys) =
      Inr (Vec (map2 (\<lambda>x y. round_f binary64 ((x + y) / Fin 2)) xs ys)) \<and>
    boundary_avg_r binary64 p (Scalar a) (Scalar a) = Inr (Scalar a) \<and>
    boundary_avg_r binary64 p (Vec xs) (Vec xs) = Inr (Vec xs) \<and>
    (\<forall>x y. a = Fin x \<and> b = Fin y \<longrightarrow>
       (\<exists>m. round_f binary64 ((a + b) / Fin 2) = Fin m \<and> min x y \<le> m \<and> m \<le> max x y))"
proof -
  note w = boundary_avg_r_weights [OF assms(1,2)]
  have "\<exists>m. round_f binary64 ((a + b) / Fin 2) = Fin m \<and> min x y \<le> m \<and> m \<le> max x y"
    if "a = Fin x" "b = Fin y" for x y
    using mean_between [of x y] assms(3,4) that by simp
  then show ?thesis
    unfolding w(1) w(2) [OF assms(5)] w(2) [OF refl] half_sum [OF assms(3,4)]
      half_sum_same [OF assms(3)] map2_half_sum [OF assms(6,7)] map2_half_same [OF assms(6)]
    by simp
qed

theorem mean_in_double_precision_witness:
  "boundary_avg_r binary64 half_dict (Vec [Fin (3602879701896397 / 2 ^ 55), Fin 1, PInf])
     (Vec [Fin (5404319552844595 / 2 ^ 54), Fin 4, Fin 3]) =
     Inr (Vec [Fin (3602879701896397 / 2 ^ 54), Fin (5/2), PInf])"
  using mean_in_double_precision [OF half_dict_simps halvable_simps(2) halvable_simps(2) _
      halvable_lists, THEN conjunct2, THEN conjunct1]
  by (simp add: round_f_Fin double_eval)

text \<open>
  Where the average of equal values is not that value. The doubles nearest to \<open>0.2\<close>
  and \<open>0.8\<close>, the weights of a boundary face, add up to one in double precision, and the
  boundary value of two node values \<open>3.0\<close> computed with them is the next double above
  \<open>3.0\<close>: it does not lie between the node values. With both weights equal to one half, the
  boundary value of two node values equal to the smallest positive double is zero: each
  half is a tie between zero and that double and rounds to zero.
\<close>

theorem average_of_equal_values:
  "fl_add binary64 (wt1 fifth_q) (wt2 fifth_q) = Fin 1 \<and>
   avg_f binary64 fifth_q (Fin 3) (Fin 3) = Fin (3 + 1 / 2 ^ 51) \<and>
   in_format binary64 tiny \<and> avg_f binary64 mach_q tiny tiny = Fin 0"
  by (simp add: tiny_def in_format_def avg_f_def mach_q_def fl_defs round_f_Fin double_eval)

end
