(* ===== verification/Exceptions.thy ===== *)
theory Exceptions
  imports Gating
begin

text \<open>
  Exceptions in machine arithmetic. Whether a kernel raises, which exception it raises
  and the shape of the array it returns are decided by the keys of the dictionary, by the
  provider and by the shapes of the operands, never by the value of a float: rounding
  and overflow change numbers, and the only division has an array as its numerator. The
  theory relates two outcomes that are the same exception or arrays of the same shape,
  proves that every operator of NumPy maps related operands to related outcomes in any
  two formats, and concludes that both kernels raise in machine arithmetic exactly what
  they raise in exact arithmetic; the conversion of an integer toggle adds
  \<open>OverflowError\<close>.
\<close>

section \<open>Outcomes of the same kind\<close>

definition same_outcome :: "pyval res \<Rightarrow> pyval res \<Rightarrow> bool" where
  "same_outcome r r' \<longleftrightarrow> map_res shape r = map_res shape r'"

named_theorems shape_intros \<open>rules that relate the outcomes of an expression in two formats\<close>

section \<open>The relation\<close>

lemma same_outcome_simps [simp]:
  "same_outcome (Inl e) r \<longleftrightarrow> r = Inl e"
  "same_outcome r (Inl e) \<longleftrightarrow> r = Inl e"
  "same_outcome (Inr v) (Inr v') \<longleftrightarrow> shape v = shape v'"
  by (cases r; auto simp: same_outcome_def)+

lemma same_outcome_refl [simp, shape_intros]: "same_outcome r r"
  by (cases r) simp_all

lemma same_outcome_sym: "same_outcome r r' \<Longrightarrow> same_outcome r' r"
  by (cases r; cases r') simp_all

lemma same_outcome_trans: "same_outcome r r' \<Longrightarrow> same_outcome r' r'' \<Longrightarrow> same_outcome r r''"
  by (cases r; cases r'; cases r'') simp_all

lemma same_outcome_error: "same_outcome r r' \<Longrightarrow> r = Inl e \<longleftrightarrow> r' = Inl e"
  by (cases r; cases r') auto

lemma same_outcome_raises_only:
  "same_outcome r r' \<Longrightarrow> raises_only E r' \<Longrightarrow> raises_only E r"
  by (cases r; cases r') auto

lemma shape_is_vec: "shape x = shape x' \<Longrightarrow> is_vec x \<longleftrightarrow> is_vec x'"
  by (cases x; cases x') simp_all

section \<open>The operators keep the relation\<close>

lemma shape_np_binop:
  assumes "shape x = shape x'" "shape y = shape y'"
  shows "same_outcome (np_binop f x y) (np_binop g x' y')"
  using assms by (cases x; cases x'; cases y; cases y') auto

lemma shape_np_truediv_r:
  assumes "is_vec x" "shape x = shape x'" "shape y = shape y'"
  shows "same_outcome (np_truediv_r fmt x y) (np_truediv_r fmt' x' y')"
  using assms shape_np_binop [of x x' y y' "fl_div fmt" "fl_div fmt'"]
  by (cases x; cases x') simp_all

lemma same_outcome_bindE:
  assumes "same_outcome m m'"
    and "\<And>v v'. m = Inr v \<Longrightarrow> m' = Inr v' \<Longrightarrow> shape v = shape v' \<Longrightarrow> same_outcome (f v) (f' v')"
  shows "same_outcome (bindE m f) (bindE m' f')"
  using assms by (cases m; cases m') (simp_all add: bindE_def)

lemma same_outcome_lift2E:
  assumes "same_outcome a a'" "same_outcome b b'"
    and "\<And>x x' y y'. shape x = shape x' \<Longrightarrow> shape y = shape y' \<Longrightarrow> same_outcome (h x y) (h' x' y')"
  shows "same_outcome (lift2E h a b) (lift2E h' a' b')"
  using assms by (cases a; cases a'; cases b; cases b') (simp_all add: lift2E_def bindE_def)

lemma same_outcome_ops [shape_intros]:
  assumes "same_outcome a a'" "same_outcome b b'"
  shows "same_outcome (addR fmt a b) (addR fmt' a' b')"
    and "same_outcome (subR fmt a b) (subR fmt' a' b')"
    and "same_outcome (mulR fmt a b) (mulR fmt' a' b')"
  unfolding addR_def subR_def mulR_def
  by (intro same_outcome_lift2E assms shape_np_binop; assumption)+

lemma same_outcome_divR [shape_intros]:
  assumes "same_outcome a a'" "same_outcome b b'" "vec_res a"
  shows "same_outcome (divR fmt a b) (divR fmt' a' b')"
  using assms
  by (cases a; cases a'; cases b; cases b') (simp_all add: shape_np_truediv_r)

lemma same_outcome_unary [shape_intros]:
  assumes "same_outcome a a'"
  shows "same_outcome (negE a) (negE a')"
    and "same_outcome (powR fmt a n) (powR fmt' a' n)"
    and "same_outcome (idxE a i) (idxE a' i)"
proof -
  show "same_outcome (negE a) (negE a')" "same_outcome (powR fmt a n) (powR fmt' a' n)"
    using assms by (cases a; cases a'; simp add: negE_def np_neg_def)+
  have "same_outcome (py_index v i) (py_index v' i)" if "shape v = shape v'" for v v'
    using that by (cases v; cases v') (simp_all add: py_index_def Let_def)
  then show "same_outcome (idxE a i) (idxE a' i)"
    using assms by (cases a; cases a') (simp_all add: idxE_def lift1E_def bindE_def)
qed

lemma vec_res_opsR [simp]:
  "vec_res a \<or> vec_res b \<Longrightarrow> vec_res (addR fmt a b)"
  "vec_res a \<or> vec_res b \<Longrightarrow> vec_res (subR fmt a b)"
  "vec_res a \<or> vec_res b \<Longrightarrow> vec_res (mulR fmt a b)"
  unfolding addR_def subR_def mulR_def by (rule vec_res_lift2E_np_binop; assumption)+

section \<open>The parts of the planar kernel\<close>

lemma same_outcome_boundary_avg_r [shape_intros]:
  "shape x1 = shape x1' \<Longrightarrow> shape x2 = shape x2' \<Longrightarrow>
   same_outcome (boundary_avg_r fmt p x1 x2) (boundary_avg_r fmt' p x1' x2')"
  unfolding boundary_avg_r_def by (intro shape_intros) simp_all

lemma boundary_avg_r_is_vec:
  "boundary_avg_r fmt p (Vec xs) (Vec ys) = Inr v \<Longrightarrow> is_vec v"
  using vec_res_opsR(1) [of "mulR fmt (getp p ''wt1'') (Inr (Vec xs))"
      "mulR fmt (getp p ''wt2'') (Inr (Vec ys))" fmt]
  by (simp add: boundary_avg_r_def del: opsR_simps)

lemma same_outcome_J_conv_r [shape_intros]:
  assumes "is_vec rho_k" "shape rho_k = shape rho_k'" "shape P1 = shape P1'"
    "shape P2 = shape P2'" "shape mu = shape mu'"
  shows "same_outcome (J_conv_r fmt p rho_k P1 P2 mu) (J_conv_r fmt' p rho_k' P1' P2' mu')"
  unfolding J_conv_r_def
  by (intro shape_intros) (simp_all add: assms vec_res_ops(4) del: opsR_simps negE_simps)

lemma same_outcome_J_diff_r [shape_intros]:
  assumes "shape D_k = shape D_k'" "shape rho = shape rho'" "shape Y1 = shape Y1'"
    "shape Y2 = shape Y2'"
  shows "same_outcome (J_diff_r fmt p D_k rho Y1 Y2) (J_diff_r fmt' p D_k' rho' Y1' Y2')"
  unfolding J_diff_r_def by (intro shape_intros) (simp_all add: assms)

lemma scalar_times_vec:
  "mulR fmt (Inr (Scalar a)) (Inr (Vec ys)) = Inr (Vec (map (fl_mul fmt a) ys))"
  by simp

lemma same_outcome_adf_pure_g:
  assumes "\<And>r r'. same_outcome r r' \<Longrightarrow> same_outcome (gate r) (gate' r')"
  shows "same_outcome (adf_pure_g fmt gate p s1 s2) (adf_pure_g fmt' gate' p s1 s2)"
  unfolding adf_pure_g_def scalar_times_vec bindE_Inr
  by (intro same_outcome_bindE shape_intros assms boundary_avg_r_is_vec; (assumption | simp))

lemma same_outcome_fickian_adf_g:
  assumes "\<And>r r'. same_outcome r r' \<Longrightarrow> same_outcome (gate r) (gate' r')"
  shows "same_outcome (fst (fickian_adf_g fmt gate TDY1 TDY2 gas p g))
      (fst (fickian_adf_g fmt' gate' TDY1 TDY2 gas p g)) \<and>
    snd (fickian_adf_g fmt gate TDY1 TDY2 gas p g) =
      snd (fickian_adf_g fmt' gate' TDY1 TDY2 gas p g)"
  by (simp add: fickian_adf_g_factor same_outcome_adf_pure_g [OF assms] split: sum.splits)

lemma same_outcome_fickian_adf_r:
  "same_outcome (fst (fickian_adf_r fmt TDY1 TDY2 gas p tog g))
      (fst (fickian_adf_r fmt' TDY1 TDY2 gas p tog g)) \<and>
    snd (fickian_adf_r fmt TDY1 TDY2 gas p tog g) = snd (fickian_adf_r fmt' TDY1 TDY2 gas p tog g)"
  unfolding fickian_adf_r_def
  by (rule same_outcome_fickian_adf_g) (intro shape_intros)

section \<open>The radial kernel\<close>

lemma same_outcome_radial_fdiff_r:
  "same_outcome (radial_fdiff_r fmt r1 r2 p node ver flag)
     (radial_fdiff_r fmt' r1 r2 p node ver flag)"
  unfolding radial_fdiff_r_def
  by (simp del: opsR_simps) (intro conjI impI shape_intros)

section \<open>The toggle\<close>

lemma toggle_operand_exact: "\<exists>c. toggle_operand exact t = Inr c"
  by (cases t) (simp_all add: toggle_operand_def)

lemma same_outcome_toggle_operand:
  "toggle_operand fmt t = Inr c \<Longrightarrow> same_outcome (toggle_operand fmt t) (toggle_operand fmt' t) \<or>
     toggle_operand fmt' t = Inl OverflowError"
  by (cases t) (auto simp: toggle_operand_def split: pyfloat.splits)

lemma same_outcome_gateR:
  assumes "same_outcome (toggle_operand fmt t) (toggle_operand fmt' t)" "same_outcome r r'"
  shows "same_outcome (gateR fmt t r) (gateR fmt' t r')"
  unfolding gateR_def
  by (intro same_outcome_bindE assms shape_np_binop; assumption)

lemma snd_fickian_adf_g:
  "snd (fickian_adf_g fmt gate TDY1 TDY2 gas p g) = snd (fickian_adf_g fmt' gate' TDY1 TDY2 gas p g)"
  by (simp add: fickian_adf_g_factor split: sum.splits)

lemma adf_pure_g_gateR:
  "adf_pure_g fmt (gateR fmt t) p s1 s2 = gateR fmt t (adf_pure_g fmt (\<lambda>x. x) p s1 s2)"
  unfolding gateR_def by (rule adf_pure_g_bindE [of fmt "\<lambda>x. x"])

lemma raises_only_ungated: "raises_only planar_errors (adf_pure_g fmt (\<lambda>x. x) p s1 s2)"
proof -
  have "same_outcome r (mulR exact (Inr (Scalar (Fin 1))) r')" if "same_outcome r r'" for r r'
    using that shape_np_binop [of "Scalar (Fin 1)" "Scalar (Fin 1)"] 
    by (cases r; cases r') (auto simp: np_binop_shape same_outcome_def)
  then have "same_outcome (adf_pure_g fmt (\<lambda>x. x) p s1 s2)
      (adf_pure_r exact p s1 s2 (Scalar (Fin 1)))"
    unfolding adf_pure_r_def by (rule same_outcome_adf_pure_g)
  then show ?thesis
    by (rule same_outcome_raises_only) (simp add: raises_only_adf_pure)
qed

lemma raises_only_gateR:
  assumes "raises_only E r" "ValueError \<in> E"
    and "toggle_operand fmt t = Inl OverflowError \<Longrightarrow> OverflowError \<in> E"
  shows "raises_only E (gateR fmt t r)"
proof (cases "toggle_operand fmt t")
  case (Inl e)
  then show ?thesis
    using assms toggle_operand_error [OF Inl] by (cases r) (simp_all add: gateR_def)
next
  case (Inr c)
  then show ?thesis
    using assms(1,2) by (cases r) (auto simp: gateR_def raises_only_iff dest: np_binop_error)
qed

lemma fickian_adf_t_same_outcome:
  assumes "toggle_operand fmt t \<noteq> Inl OverflowError"
  shows "same_outcome (fst (fickian_adf_t fmt TDY1 TDY2 gas p t g))
    (fst (fickian_adf_t exact TDY1 TDY2 gas p t g))"
proof -
  obtain c where "toggle_operand fmt t = Inr c"
    using assms toggle_operand_error [of fmt t] by (cases "toggle_operand fmt t") auto
  then have "same_outcome (toggle_operand fmt t) (toggle_operand exact t)"
    using same_outcome_toggle_operand [of fmt t c exact] toggle_operand_exact [of t] by auto
  then show ?thesis
    unfolding fickian_adf_t_def
    by (intro same_outcome_fickian_adf_g [THEN conjunct1] same_outcome_gateR)
qed

lemma raises_only_adf_pure_t:
  "raises_only (planar_errors \<union> {e. e = OverflowError \<and> toggle_operand fmt t = Inl e})
     (adf_pure_g fmt (gateR fmt t) p s1 s2)"
  unfolding adf_pure_g_gateR
  by (intro raises_only_gateR raises_only_mono [OF raises_only_ungated]) auto

lemma fickian_adf_t_raises:
  assumes "fst (fickian_adf_t fmt TDY1 TDY2 gas p t g) = Inl e"
  shows "set_TDY gas TDY1 g = Inl e \<or>
    (\<exists>g1. set_TDY gas TDY1 g = Inr g1 \<and> set_TDY gas TDY2 g1 = Inl e) \<or>
    e \<in> planar_errors \<or> e = OverflowError \<and> toggle_operand fmt t = Inl OverflowError"
  using assms raises_only_adf_pure_t [of fmt t p]
  by (auto simp: fickian_adf_t_def fickian_adf_g_factor raises_only_iff split: sum.splits)

section \<open>Properties: what the kernels raise in machine arithmetic\<close>

text \<open>
  C24 (the exceptions of the planar kernel in machine arithmetic). In every format, for
  every toggle Python accepts: unless the conversion of the toggle overflows,
  \<open>fickian_adf\<close> raises the exception it raises in exact arithmetic or returns an array of
  the shape it returns there; the provider is left in the same state in any case; and an
  exception of the call is the provider's refusal of the first state, its refusal of the
  second state, \<open>KeyError\<close> for one of the five keys, \<open>ValueError\<close> from operands that do
  not broadcast, or \<open>OverflowError\<close> from the conversion of the toggle. Rounding and
  overflow of the floats raise nothing.
\<close>

theorem planar_exceptions_machine:
  "(toggle_operand fmt t \<noteq> Inl OverflowError \<longrightarrow>
      same_outcome (fst (fickian_adf_t fmt TDY1 TDY2 gas p t g))
        (fst (fickian_adf_t exact TDY1 TDY2 gas p t g))) \<and>
   snd (fickian_adf_t fmt TDY1 TDY2 gas p t g) = snd (fickian_adf_t exact TDY1 TDY2 gas p t g) \<and>
   (fst (fickian_adf_t fmt TDY1 TDY2 gas p t g) = Inl e \<longrightarrow>
      set_TDY gas TDY1 g = Inl e \<or>
      (\<exists>g1. set_TDY gas TDY1 g = Inr g1 \<and> set_TDY gas TDY2 g1 = Inl e) \<or>
      e \<in> planar_errors \<or> e = OverflowError \<and> toggle_operand fmt t = Inl OverflowError)"
  using fickian_adf_t_same_outcome [of fmt t TDY1 TDY2 gas p g]
    fickian_adf_t_raises [of fmt TDY1 TDY2 gas p t g e]
    snd_fickian_adf_g [of fmt "gateR fmt t" TDY1 TDY2 gas p g exact "gateR exact t"]
  by (simp add: fickian_adf_t_def)

theorem planar_exceptions_machine_witness:
  "fst (fickian_adf_t binary64 mach_T1 mach_T2 dbl_gas Map.empty (PyInt (2 ^ 1024)) mach_T2) =
     Inl (KeyError ''wt1'') \<and>
   toggle_operand binary64 (PyInt (2 ^ 1024)) = Inl OverflowError \<and>
   KeyError ''wt1'' \<in> planar_errors"
  using planar_exceptions_machine [of binary64 "PyInt (2 ^ 1024)" mach_T1 mach_T2 dbl_gas
      Map.empty mach_T2 "KeyError ''wt1''"]
  by (simp add: fickian_adf_t_def fickian_adf_g_factor adf_pure_g_def boundary_avg_r_def getp_def
      toggle_operand_def round_f_def)

text \<open>
  C25 (the exceptions of the radial kernel in machine arithmetic). In every format and
  whatever its arguments are, \<open>radial_fdiff\<close> raises the exception it raises in exact
  arithmetic or returns an array of the shape it returns there, and it raises nothing
  but \<open>KeyError\<close> for one of its seven keys, \<open>TypeError\<close> or \<open>IndexError\<close> from a subscript by
  the node, \<open>ValueError\<close> from operands that do not broadcast, and \<open>UnboundLocalError\<close> for
  \<open>drho_dt\<close>.
\<close>

theorem radial_exceptions_machine:
  "same_outcome (radial_fdiff_r fmt r1 r2 p node ver flag) (radial_fdiff r1 r2 p node ver flag) \<and>
   raises_only radial_errors (radial_fdiff_r fmt r1 r2 p node ver flag)"
proof -
  have "same_outcome (radial_fdiff_r fmt r1 r2 p node ver flag)
      (radial_fdiff r1 r2 p node ver flag)"
    using same_outcome_radial_fdiff_r [of fmt r1 r2 p node ver flag exact]
    by (simp add: machine_exact)
  then show ?thesis
    using radial_fdiff_exceptions [of r1 r2 p node ver flag]
    by (blast intro: same_outcome_raises_only)
qed

end
