(* ===== verification/Accuracy.thy ===== *)
theory Accuracy
  imports Averaging
begin

text \<open>
  The accuracy of the kernels in double precision. Each operation of a format returns the
  exact result times a factor between \<open>1 - u\<close> and \<open>1 / (1 - u)\<close>, unless the result
  overflows or falls below the normal range; \<open>u\<close> is \<open>2\<^sup>-\<^sup>5\<^sup>3\<close> for doubles. The theory
  counts these factors through the two formulas: the advective and the diffusive term of
  the planar flux carry at most twelve of them each and the radial rate at most ten,
  whatever the data are, as long as no operation leaves the normal range and the
  weighted averages have no cancellation. Two properties that hold exactly in exact
  arithmetic hold up to three roundings: the rate of variant 2 is the rate of variant 1
  times the two shell factors, and the boundary value of two equal node values is that
  value when the weights add up to one.
\<close>

section \<open>Relative error\<close>

definition nearly :: "real \<Rightarrow> nat \<Rightarrow> real \<Rightarrow> real \<Rightarrow> bool" where
  "nearly u n x' x \<longleftrightarrow> (\<exists>d. x' = d * x \<and> (1 - u) ^ n \<le> d \<and> d * (1 - u) ^ n \<le> 1)"

definition unit_roundoff :: "real \<Rightarrow> bool" where
  "unit_roundoff u \<longleftrightarrow> 0 \<le> u \<and> u < 1"

definition approx :: "real \<Rightarrow> nat \<Rightarrow> pyfloat \<Rightarrow> pyfloat \<Rightarrow> bool" where
  "approx u n a x = (case (a, x) of (Fin a', Fin x') \<Rightarrow> nearly u n a' x' | _ \<Rightarrow> False)"

definition rel_err :: "real \<Rightarrow> pyfloat \<Rightarrow> pyfloat \<Rightarrow> bool" where
  "rel_err e a x = (case (a, x) of (Fin a', Fin x') \<Rightarrow> \<bar>a' - x'\<bar> \<le> e * \<bar>x'\<bar> | _ \<Rightarrow> False)"

section \<open>Formats with a relative error\<close>

text \<open>
  A format is accurate with unit roundoff \<open>u\<close> above \<open>lo\<close> when it rounds zero to zero and
  every number of magnitude \<open>lo\<close> or more with a relative error of at most \<open>u\<close>. The exact
  result of an operation is safe when it is zero or of magnitude \<open>lo\<close> or more, and below
  the overflow threshold.
\<close>

definition accurate :: "format \<Rightarrow> real \<Rightarrow> real \<Rightarrow> bool" where
  "accurate fmt u lo \<longleftrightarrow>
     unit_roundoff u \<and> fmt_rnd fmt 0 = 0 \<and> (\<forall>x. lo \<le> \<bar>x\<bar> \<longrightarrow> \<bar>fmt_rnd fmt x - x\<bar> \<le> u * \<bar>x\<bar>)"

text \<open>
  Double precision: the unit roundoff, the smallest normal number, and the bounds on the
  relative error of at most twelve and of at most three roundings.
\<close>

definition dbl_u :: real where
  "dbl_u = 1 / 2 ^ 53"

definition dbl_lo :: real where
  "dbl_lo = 1 / 2 ^ 1022"

definition dbl_tol :: real where
  "dbl_tol = 1 / 2 ^ 49"

definition dbl_tol3 :: real where
  "dbl_tol3 = 1 / 2 ^ 51"

definition safe :: "format \<Rightarrow> real \<Rightarrow> pyfloat \<Rightarrow> bool" where
  "safe fmt lo x =
     (case x of
        Fin y \<Rightarrow> (y = 0 \<or> lo \<le> \<bar>y\<bar>) \<and> (case fmt_max fmt of None \<Rightarrow> True | Some M \<Rightarrow> \<bar>y\<bar> < M)
      | _ \<Rightarrow> False)"

section \<open>The operations of a face and of a shell\<close>

text \<open>
  The operations of one face. \<open>face_ok\<close> states that the weights and the averaged
  properties of a node are finite and not negative, so that no average cancels, and that
  the other data are finite. \<open>avg_safe\<close>, \<open>conv_safe\<close>, \<open>diff_safe\<close> and \<open>flux_safe\<close> state
  that the exact result of every operation of lines 46 to 56, computed from the rounded
  operands, is safe.
\<close>

definition face_ok :: "planar_params \<Rightarrow> snapshot \<Rightarrow> nat \<Rightarrow> bool" where
  "face_ok q s k \<longleftrightarrow>
     is_nonneg (wt1 q) \<and> is_nonneg (wt2 q) \<and> is_fin (K_g q) \<and> is_fin (inv_dy q) \<and>
     is_fin (eps_tau2 q) \<and> is_nonneg (snap_rho s) \<and> is_nonneg (snap_mu s) \<and> is_fin (snap_P s) \<and>
     is_nonneg (snap_D_k s ! k) \<and> is_nonneg (snap_Y s ! k)"

definition avg_safe :: "format \<Rightarrow> real \<Rightarrow> planar_params \<Rightarrow> pyfloat \<Rightarrow> pyfloat \<Rightarrow> bool" where
  "avg_safe fmt lo q a b \<longleftrightarrow>
     safe fmt lo (wt1 q * a) \<and> safe fmt lo (wt2 q * b) \<and>
     safe fmt lo (fl_mul fmt (wt1 q) a + fl_mul fmt (wt2 q) b)"

definition conv_safe :: "format \<Rightarrow> real \<Rightarrow> planar_params \<Rightarrow> snapshot \<Rightarrow> snapshot \<Rightarrow> nat \<Rightarrow> bool"
  where "conv_safe fmt lo q s1 s2 k \<longleftrightarrow>
     (let r1 = fl_mul fmt (snap_rho s1) (snap_Y s1 ! k);
          r2 = fl_mul fmt (snap_rho s2) (snap_Y s2 ! k);
          t1 = fl_mul fmt (- avg_f fmt q r1 r2) (K_g q);
          dP = fl_sub fmt (snap_P s2) (snap_P s1);
          t2 = fl_mul fmt t1 dP;
          t3 = fl_mul fmt t2 (inv_dy q)
      in safe fmt lo (snap_rho s1 * snap_Y s1 ! k) \<and> safe fmt lo (snap_rho s2 * snap_Y s2 ! k) \<and>
         avg_safe fmt lo q r1 r2 \<and> safe fmt lo (- avg_f fmt q r1 r2 * K_g q) \<and>
         safe fmt lo (snap_P s2 - snap_P s1) \<and> safe fmt lo (t1 * dP) \<and>
         safe fmt lo (t2 * inv_dy q) \<and> avg_safe fmt lo q (snap_mu s1) (snap_mu s2) \<and>
         safe fmt lo (t3 / avg_f fmt q (snap_mu s1) (snap_mu s2)))"

definition diff_safe :: "format \<Rightarrow> real \<Rightarrow> planar_params \<Rightarrow> snapshot \<Rightarrow> snapshot \<Rightarrow> nat \<Rightarrow> bool"
  where "diff_safe fmt lo q s1 s2 k \<longleftrightarrow>
     (let D = avg_f fmt q (snap_D_k s1 ! k) (snap_D_k s2 ! k);
          rho = avg_f fmt q (snap_rho s1) (snap_rho s2);
          t1 = fl_mul fmt (- eps_tau2 q) D;
          t2 = fl_mul fmt t1 rho;
          dY = fl_sub fmt (snap_Y s2 ! k) (snap_Y s1 ! k);
          t3 = fl_mul fmt t2 dY
      in avg_safe fmt lo q (snap_D_k s1 ! k) (snap_D_k s2 ! k) \<and>
         avg_safe fmt lo q (snap_rho s1) (snap_rho s2) \<and> safe fmt lo (- eps_tau2 q * D) \<and>
         safe fmt lo (t1 * rho) \<and> safe fmt lo (snap_Y s2 ! k - snap_Y s1 ! k) \<and>
         safe fmt lo (t2 * dY) \<and> safe fmt lo (t3 * inv_dy q))"

definition flux_safe ::
  "format \<Rightarrow> real \<Rightarrow> planar_params \<Rightarrow> snapshot \<Rightarrow> snapshot \<Rightarrow> pyfloat \<Rightarrow> nat \<Rightarrow> bool" where
  "flux_safe fmt lo q s1 s2 tog k \<longleftrightarrow>
     conv_safe fmt lo q s1 s2 k \<and> diff_safe fmt lo q s1 s2 k \<and>
     safe fmt lo (conv_f fmt q s1 s2 k + diff_f fmt q s1 s2 k) \<and>
     safe fmt lo (tog * fl_add fmt (conv_f fmt q s1 s2 k) (diff_f fmt q s1 s2 k))"

text \<open>
  The operations of one shell, lines 88 to 94: \<open>shell_fin\<close> states that the parameters at
  node \<open>j\<close> are finite, \<open>mass_safe\<close> and \<open>rate_safe\<close> that the exact result of every
  operation, computed from the rounded operands, is safe.
\<close>

definition shell_fin :: "shell_params \<Rightarrow> nat \<Rightarrow> bool" where
  "shell_fin q j \<longleftrightarrow>
     is_fin (D_eff_naf q) \<and> is_fin (p_eff_SAnaf q) \<and> is_fin (eps_tau2_n2 q) \<and>
     is_fin (r_jph q ! j) \<and> is_fin (inv_dr q ! j) \<and> is_fin (inv_r_j q ! j) \<and>
     is_fin (inv_t_shl q ! j)"

definition mass_safe :: "format \<Rightarrow> real \<Rightarrow> shell_params \<Rightarrow> nat \<Rightarrow> pyfloat \<Rightarrow> pyfloat \<Rightarrow> bool"
  where "mass_safe fmt lo q j x y \<longleftrightarrow>
     (let c1 = fl_mul fmt (D_eff_naf q) (p_eff_SAnaf q);
          c2 = fl_mul fmt c1 (eps_tau2_n2 q);
          g1 = fl_mul fmt (round_f fmt ((r_jph q ! j)\<^sup>2)) (fl_sub fmt x y);
          g2 = fl_mul fmt g1 (inv_dr q ! j)
      in safe fmt lo (D_eff_naf q * p_eff_SAnaf q) \<and> safe fmt lo (c1 * eps_tau2_n2 q) \<and>
         safe fmt lo ((r_jph q ! j)\<^sup>2) \<and> safe fmt lo (x - y) \<and>
         safe fmt lo (round_f fmt ((r_jph q ! j)\<^sup>2) * fl_sub fmt x y) \<and>
         safe fmt lo (g1 * inv_dr q ! j) \<and> safe fmt lo (c2 * g2))"

definition rate_safe ::
  "format \<Rightarrow> real \<Rightarrow> shell_params \<Rightarrow> nat \<Rightarrow> int \<Rightarrow> pyfloat \<Rightarrow> pyfloat \<Rightarrow> bool" where
  "rate_safe fmt lo q j ver x y \<longleftrightarrow>
     mass_safe fmt lo q j x y \<and>
     (ver = 1 \<or>
      safe fmt lo ((inv_r_j q ! j)\<^sup>2) \<and>
      safe fmt lo (mass_f fmt q j x y * round_f fmt ((inv_r_j q ! j)\<^sup>2)) \<and>
      safe fmt lo (fl_mul fmt (mass_f fmt q j x y) (round_f fmt ((inv_r_j q ! j)\<^sup>2)) *
        inv_t_shl q ! j))"

text \<open>
  A face and a shell of doubles on which the operations round: the face of \<open>Binary64\<close>
  with the double nearest to \<open>1/10\<close> as inverse distance, and the shell of \<open>Rounded\<close>
  with the double nearest to \<open>2/5\<close> as inverse thickness.
\<close>

definition tenth_q :: planar_params where
  "tenth_q = mach_q\<lparr>inv_dy := Fin (3602879701896397 / 2 ^ 55)\<rparr>"

definition fifth_shell :: shell_params where
  "fifth_shell = (shell_of demo_shell_r)\<lparr>inv_t_shl := [Fin (3602879701896397 / 2 ^ 53)]\<rparr>"

text \<open>
  The operations of one boundary average of equal node values, line 46, and the weights
  \<open>0.2\<close> and \<open>0.8\<close> of a boundary face as doubles.
\<close>

definition mean_safe :: "pyfloat \<Rightarrow> pyfloat \<Rightarrow> pyfloat \<Rightarrow> bool" where
  "mean_safe w1 w2 x \<longleftrightarrow>
     is_fin x \<and> safe binary64 dbl_lo (w1 * x) \<and> safe binary64 dbl_lo (w2 * x) \<and>
     safe binary64 dbl_lo (fl_mul binary64 w1 x + fl_mul binary64 w2 x)"

definition fifth_dict :: pdict where
  "fifth_dict = map_of [(''wt1'', Scalar (Fin (3602879701896397 / 2 ^ 54))),
     (''wt2'', Scalar (Fin (3602879701896397 / 2 ^ 52)))]"

section \<open>Factors close to one\<close>

lemma factor_pos:
  assumes "unit_roundoff u"
  shows "0 < (1 - u) ^ n" "(1 - u) ^ n \<le> 1"
  using assms by (simp_all add: unit_roundoff_def power_le_one)

lemma factor_mult:
  fixes c e d1 d2 :: real
  assumes "0 < c" "0 < e" "c \<le> d1" "d1 * c \<le> 1" "e \<le> d2" "d2 * e \<le> 1"
  shows "c * e \<le> d1 * d2" "d1 * d2 * (c * e) \<le> 1"
proof -
  show "c * e \<le> d1 * d2"
    using assms by (intro mult_mono) simp_all
  have "(d1 * c) * (d2 * e) \<le> 1 * 1"
    using assms by (intro mult_mono) simp_all
  then show "d1 * d2 * (c * e) \<le> 1"
    by (simp add: mult_ac)
qed

lemma factor_divide:
  fixes c e d1 d2 :: real
  assumes "0 < c" "0 < e" "c \<le> d1" "d1 * c \<le> 1" "e \<le> d2" "d2 * e \<le> 1"
  shows "c * e \<le> d1 / d2" "d1 / d2 * (c * e) \<le> 1"
proof -
  have d2: "0 < d2"
    using assms(2,5) by simp
  have "c * (d2 * e) \<le> d1 * 1"
    using assms by (intro mult_mono) simp_all
  then show "c * e \<le> d1 / d2"
    using d2 by (simp add: pos_le_divide_eq mult_ac)
  have "(d1 * c) * e \<le> 1 * d2"
    using assms by (intro mult_mono) simp_all
  then show "d1 / d2 * (c * e) \<le> 1"
    using d2 by (simp add: pos_divide_le_eq mult_ac)
qed

section \<open>Laws of the relative error\<close>

lemma nearlyI: "x' = d * x \<Longrightarrow> (1 - u) ^ n \<le> d \<Longrightarrow> d * (1 - u) ^ n \<le> 1 \<Longrightarrow> nearly u n x' x"
  by (auto simp: nearly_def)

lemma nearly_refl: "unit_roundoff u \<Longrightarrow> nearly u n x x"
  using factor_pos [of u n] by (intro nearlyI [of _ 1]) simp_all

lemma nearly_zero_iff:
  assumes "unit_roundoff u" "nearly u n x' x"
  shows "x' = 0 \<longleftrightarrow> x = 0"
  using assms(2) factor_pos(1) [OF assms(1), of n] by (auto simp: nearly_def)

lemma nearly_mono:
  assumes "unit_roundoff u" "nearly u n x' x" "n \<le> m"
  shows "nearly u m x' x"
proof -
  obtain d where d: "x' = d * x" "(1 - u) ^ n \<le> d" "d * (1 - u) ^ n \<le> 1"
    using assms(2) by (auto simp: nearly_def)
  have le: "(1 - u) ^ m \<le> (1 - u) ^ n"
    using assms(1,3) by (intro power_decreasing) (simp_all add: unit_roundoff_def)
  have "0 \<le> d"
    using d(2) factor_pos(1) [OF assms(1), of n] by simp
  then have "d * (1 - u) ^ m \<le> d * (1 - u) ^ n"
    using le by (rule mult_left_mono [rotated])
  then show ?thesis
    using d le by (intro nearlyI [of _ d]) simp_all
qed

lemma nearly_uminus: "nearly u n x' x \<Longrightarrow> nearly u n (- x') (- x)"
  by (auto simp: nearly_def)

lemma nearly_mult:
  assumes "unit_roundoff u" "nearly u n a' a" "nearly u m b' b"
  shows "nearly u (n + m) (a' * b') (a * b)"
proof -
  obtain d1 d2 where d: "a' = d1 * a" "(1 - u) ^ n \<le> d1" "d1 * (1 - u) ^ n \<le> 1"
    "b' = d2 * b" "(1 - u) ^ m \<le> d2" "d2 * (1 - u) ^ m \<le> 1"
    using assms(2,3) by (auto simp: nearly_def)
  show ?thesis
    using factor_mult [OF factor_pos(1) [OF assms(1)] factor_pos(1) [OF assms(1)] d(2,3,5,6)] d(1,4)
    by (intro nearlyI [of _ "d1 * d2"]) (simp_all add: power_add)
qed

lemma nearly_divide:
  assumes "unit_roundoff u" "nearly u n a' a" "nearly u m b' b"
  shows "nearly u (n + m) (a' / b') (a / b)"
proof -
  obtain d1 d2 where d: "a' = d1 * a" "(1 - u) ^ n \<le> d1" "d1 * (1 - u) ^ n \<le> 1"
    "b' = d2 * b" "(1 - u) ^ m \<le> d2" "d2 * (1 - u) ^ m \<le> 1"
    using assms(2,3) by (auto simp: nearly_def)
  show ?thesis
    using factor_divide [OF factor_pos(1) [OF assms(1)] factor_pos(1) [OF assms(1)] d(2,3,5,6)]
      d(1,4)
    by (intro nearlyI [of _ "d1 / d2"]) (simp_all add: power_add)
qed

lemma nearly_trans:
  assumes "unit_roundoff u" "nearly u n x'' x'" "nearly u m x' x"
  shows "nearly u (n + m) x'' x"
proof -
  obtain d1 d2 where d: "x'' = d1 * x'" "(1 - u) ^ n \<le> d1" "d1 * (1 - u) ^ n \<le> 1"
    "x' = d2 * x" "(1 - u) ^ m \<le> d2" "d2 * (1 - u) ^ m \<le> 1"
    using assms(2,3) by (auto simp: nearly_def)
  show ?thesis
    using factor_mult [OF factor_pos(1) [OF assms(1)] factor_pos(1) [OF assms(1)] d(2,3,5,6)] d(1,4)
    by (intro nearlyI [of _ "d1 * d2"]) (simp_all add: power_add)
qed

lemma nearly_add_nonneg:
  assumes "unit_roundoff u" "nearly u n a' a" "nearly u n b' b" "0 \<le> a" "0 \<le> b"
  shows "nearly u n (a' + b') (a + b)"
proof (cases "a + b = 0")
  case True
  then have z: "a = 0" "b = 0"
    using assms(4,5) by simp_all
  then have "a' = 0" "b' = 0"
    using nearly_zero_iff [OF assms(1,2)] nearly_zero_iff [OF assms(1,3)] by simp_all
  then show ?thesis
    using z by (simp add: nearly_refl [OF assms(1)])
next
  case False
  obtain d1 d2 where d: "a' = d1 * a" "(1 - u) ^ n \<le> d1" "d1 * (1 - u) ^ n \<le> 1"
    "b' = d2 * b" "(1 - u) ^ n \<le> d2" "d2 * (1 - u) ^ n \<le> 1"
    using assms(2,3) by (auto simp: nearly_def)
  let ?c = "(1 - u) ^ n"
  have s: "0 < a + b"
    using False assms(4,5) by simp
  have lo: "?c * a \<le> d1 * a" "?c * b \<le> d2 * b"
    using d(2,5) assms(4,5) by (simp_all add: mult_right_mono)
  have hi: "d1 * ?c * a \<le> a" "d2 * ?c * b \<le> b"
    using mult_right_mono [OF d(3) assms(4)] mult_right_mono [OF d(6) assms(5)] by simp_all
  show ?thesis
  proof (intro nearlyI [of _ "(d1 * a + d2 * b) / (a + b)"])
    show "a' + b' = (d1 * a + d2 * b) / (a + b) * (a + b)"
      using s d(1,4) by simp
    show "?c \<le> (d1 * a + d2 * b) / (a + b)"
      using s lo by (simp add: pos_le_divide_eq algebra_simps)
    show "(d1 * a + d2 * b) / (a + b) * ?c \<le> 1"
      using s hi by (simp add: pos_divide_le_eq algebra_simps)
  qed
qed

lemma nearly_add:
  assumes "unit_roundoff u" "nearly u n a' a" "nearly u n b' b" "0 \<le> a * b"
  shows "nearly u n (a' + b') (a + b)"
proof (cases "0 \<le> a \<and> 0 \<le> b")
  case True
  then show ?thesis
    using assms(1-3) by (simp add: nearly_add_nonneg)
next
  case False
  then have "0 \<le> - a" "0 \<le> - b"
    using assms(4) by (auto simp: zero_le_mult_iff)
  then have "nearly u n (- a' + - b') (- a + - b)"
    using assms(1-3) by (intro nearly_add_nonneg nearly_uminus)
  then have "nearly u n (- (- a' + - b')) (- (- a + - b))"
    by (rule nearly_uminus)
  then show ?thesis
    by (simp add: ac_simps)
qed

lemma nearly_sgn:
  assumes "unit_roundoff u" "nearly u n x' x"
  shows "sgn x' = sgn x"
proof -
  obtain d where d: "x' = d * x" "(1 - u) ^ n \<le> d"
    using assms(2) by (auto simp: nearly_def)
  then have "0 < d"
    using factor_pos(1) [OF assms(1), of n] by simp
  then show ?thesis
    by (simp add: d(1) sgn_mult)
qed

lemma nearly_error:
  assumes "unit_roundoff u" "nearly u n x' x"
  shows "\<bar>x' - x\<bar> * (1 - u) ^ n \<le> (1 - (1 - u) ^ n) * \<bar>x\<bar>"
proof -
  obtain d where d: "x' = d * x" "(1 - u) ^ n \<le> d" "d * (1 - u) ^ n \<le> 1"
    using assms(2) by (auto simp: nearly_def)
  let ?c = "(1 - u) ^ n"
  note c = factor_pos [OF assms(1), of n]
  have "\<bar>d - 1\<bar> * ?c \<le> 1 - ?c"
  proof (cases "1 \<le> d")
    case True
    then show ?thesis
      using d(3) c by (simp add: algebra_simps)
  next
    case False
    have "(1 - d) * ?c \<le> (1 - ?c) * 1"
      using False d(2) c by (intro mult_mono) simp_all
    then show ?thesis
      using False by simp
  qed
  then have "\<bar>d - 1\<bar> * ?c * \<bar>x\<bar> \<le> (1 - ?c) * \<bar>x\<bar>"
    by (intro mult_right_mono) simp_all
  moreover have "\<bar>x' - x\<bar> = \<bar>d - 1\<bar> * \<bar>x\<bar>"
    by (simp add: d(1) abs_mult [symmetric] algebra_simps)
  ultimately show ?thesis
    by (simp add: mult_ac)
qed

lemma nearly_gamma:
  assumes "unit_roundoff u" "nearly u n x' x"
  shows "\<bar>x' - x\<bar> * (1 - of_nat n * u) \<le> of_nat n * u * \<bar>x\<bar>"
proof -
  have b: "1 - of_nat n * u \<le> (1 - u) ^ n"
    using Bernoulli_inequality [of "- u" n] assms(1) by (simp add: unit_roundoff_def)
  have "\<bar>x' - x\<bar> * (1 - of_nat n * u) \<le> \<bar>x' - x\<bar> * (1 - u) ^ n"
    using b by (intro mult_left_mono) simp_all
  also have "\<dots> \<le> (1 - (1 - u) ^ n) * \<bar>x\<bar>"
    by (rule nearly_error [OF assms])
  also have "\<dots> \<le> of_nat n * u * \<bar>x\<bar>"
    using b by (intro mult_right_mono) simp_all
  finally show ?thesis .
qed

section \<open>One rounding\<close>

lemma round_nearly:
  assumes "accurate fmt u lo" "y = 0 \<or> lo \<le> \<bar>y\<bar>"
  shows "nearly u 1 (fmt_rnd fmt y) y"
proof (cases "y = 0")
  case True
  then show ?thesis
    using assms(1) by (simp add: accurate_def nearly_refl)
next
  case False
  let ?d = "fmt_rnd fmt y / y"
  have u: "0 \<le> u" "u < 1"
    using assms(1) by (simp_all add: accurate_def unit_roundoff_def)
  have "\<bar>fmt_rnd fmt y - y\<bar> \<le> u * \<bar>y\<bar>"
    using assms False by (simp add: accurate_def)
  then have "\<bar>?d - 1\<bar> * \<bar>y\<bar> \<le> u * \<bar>y\<bar>"
    using False by (simp add: abs_mult [symmetric] algebra_simps)
  then have d: "\<bar>?d - 1\<bar> \<le> u"
    using False by simp
  have "?d * (1 - u) \<le> (1 + u) * (1 - u)"
    using d u by (intro mult_right_mono) (simp_all add: abs_le_iff)
  also have "\<dots> \<le> 1"
    by (simp add: algebra_simps)
  finally show ?thesis
    using d False by (intro nearlyI [of _ ?d]) (simp_all add: abs_le_iff)
qed

lemma safe_Fin:
  "safe fmt lo x \<Longrightarrow> \<exists>y. x = Fin y \<and> (y = 0 \<or> lo \<le> \<bar>y\<bar>) \<and> round_f fmt x = Fin (fmt_rnd fmt y)"
  by (cases x) (auto simp: safe_def round_f_Fin abs_less_iff split: option.splits)

section \<open>Approximation of floats\<close>

lemma approx_iff:
  "approx u n a x \<longleftrightarrow> (\<exists>a' x'. a = Fin a' \<and> x = Fin x' \<and> nearly u n a' x')"
  by (cases a; cases x) (simp_all add: approx_def)

lemma approx_Fin [simp]: "approx u n (Fin a) (Fin x) \<longleftrightarrow> nearly u n a x"
  by (simp add: approx_def)

lemma approx_is_fin: "approx u n a x \<Longrightarrow> is_fin a \<and> is_fin x"
  by (auto simp: approx_iff)

lemma approx_input: "unit_roundoff u \<Longrightarrow> is_fin a \<Longrightarrow> approx u 0 a a"
  by (cases a) (simp_all add: nearly_refl)

lemma approx_mono: "unit_roundoff u \<Longrightarrow> approx u n a x \<Longrightarrow> n \<le> m \<Longrightarrow> approx u m a x"
  by (auto simp: approx_iff intro: nearly_mono)

lemma approx_uminus: "approx u n a x \<Longrightarrow> approx u n (- a) (- x)"
  by (auto simp: approx_iff intro: nearly_uminus)

lemma approx_round:
  assumes "accurate fmt u lo" "approx u n a x" "safe fmt lo a"
  shows "approx u (Suc n) (round_f fmt a) x"
proof -
  obtain y where y: "a = Fin y" "y = 0 \<or> lo \<le> \<bar>y\<bar>" "round_f fmt a = Fin (fmt_rnd fmt y)"
    using safe_Fin [OF assms(3)] by blast
  obtain x' where x: "x = Fin x'" "nearly u n y x'"
    using assms(2) y(1) by (auto simp: approx_iff)
  have "nearly u (1 + n) (fmt_rnd fmt y) x'"
    using assms(1) by (intro nearly_trans [OF _ round_nearly [OF assms(1) y(2)] x(2)])
      (simp add: accurate_def)
  then show ?thesis
    by (simp add: y(3) x(1))
qed

section \<open>One operation\<close>

lemma approx_mul:
  assumes "accurate fmt u lo" "approx u n a x" "approx u m b y" "safe fmt lo (a * b)"
    and "Suc (n + m) \<le> k"
  shows "approx u k (fl_mul fmt a b) (x * y)"
proof -
  have u: "unit_roundoff u"
    using assms(1) by (simp add: accurate_def)
  have "approx u (n + m) (a * b) (x * y)"
    using assms(2,3) by (auto simp: approx_iff intro: nearly_mult [OF u])
  then show ?thesis
    unfolding fl_mul_def by (intro approx_mono [OF u approx_round [OF assms(1) _ assms(4)] assms(5)])
qed

lemma approx_div:
  assumes "accurate fmt u lo" "approx u n a x" "approx u m b y" "safe fmt lo (a / b)"
    and "Suc (n + m) \<le> k"
  shows "approx u k (fl_div fmt a b) (x / y)"
proof -
  have u: "unit_roundoff u"
    using assms(1) by (simp add: accurate_def)
  obtain a' x' b' y' where v: "a = Fin a'" "x = Fin x'" "nearly u n a' x'"
    "b = Fin b'" "y = Fin y'" "nearly u m b' y'"
    using assms(2,3) by (auto simp: approx_iff)
  have "b' \<noteq> 0"
    using assms(4) v(1,4) by (auto simp: safe_def signed_inf_def split: if_splits)
  then have "y' \<noteq> 0"
    using nearly_zero_iff [OF u v(6)] by simp
  with \<open>b' \<noteq> 0\<close> have "approx u (n + m) (a / b) (x / y)"
    using v by (simp add: nearly_divide [OF u])
  then show ?thesis
    unfolding fl_div_def by (intro approx_mono [OF u approx_round [OF assms(1) _ assms(4)] assms(5)])
qed

lemma approx_add:
  assumes "accurate fmt u lo" "approx u n a x" "approx u m b y" "is_nonneg (x * y)"
    and "safe fmt lo (a + b)" "Suc (max n m) \<le> k"
  shows "approx u k (fl_add fmt a b) (x + y)"
proof -
  have u: "unit_roundoff u"
    using assms(1) by (simp add: accurate_def)
  obtain a' x' b' y' where v: "a = Fin a'" "x = Fin x'" "nearly u n a' x'"
    "b = Fin b'" "y = Fin y'" "nearly u m b' y'"
    using assms(2,3) by (auto simp: approx_iff)
  have "nearly u (max n m) (a' + b') (x' + y')"
    using assms(4) v(2,5)
    by (intro nearly_add [OF u nearly_mono [OF u v(3)] nearly_mono [OF u v(6)]]) simp_all
  then have "approx u (max n m) (a + b) (x + y)"
    by (simp add: v)
  then show ?thesis
    unfolding fl_add_def by (intro approx_mono [OF u approx_round [OF assms(1) _ assms(5)] assms(6)])
qed

lemma approx_sub_input:
  assumes "accurate fmt u lo" "is_fin a" "is_fin b" "safe fmt lo (a - b)" "1 \<le> k"
  shows "approx u k (fl_sub fmt a b) (a - b)"
proof -
  have u: "unit_roundoff u"
    using assms(1) by (simp add: accurate_def)
  have "approx u 0 (a - b) (a - b)"
    using assms(2,3) by (intro approx_input [OF u]) simp
  then show ?thesis
    using assms(5) unfolding fl_sub_def
    by (intro approx_mono [OF u approx_round [OF assms(1) _ assms(4)]]) simp_all
qed

lemma approx_avg:
  assumes "accurate fmt u lo" "approx u n a x" "approx u n b y"
    and "is_nonneg (wt1 q)" "is_nonneg (wt2 q)" "is_nonneg x" "is_nonneg y"
    and "avg_safe fmt lo q a b" "n + 2 \<le> k"
  shows "approx u k (avg_f fmt q a b) (avg q x y)"
proof -
  have u: "unit_roundoff u"
    using assms(1) by (simp add: accurate_def)
  note s = assms(8) [unfolded avg_safe_def]
  have w: "approx u 0 (wt1 q) (wt1 q)" "approx u 0 (wt2 q) (wt2 q)"
    using assms(4,5) by (simp_all add: approx_input [OF u])
  have m: "approx u (Suc n) (fl_mul fmt (wt1 q) a) (wt1 q * x)"
    "approx u (Suc n) (fl_mul fmt (wt2 q) b) (wt2 q * y)"
    using s by (auto intro!: approx_mul [OF assms(1)] w assms(2,3))
  have nn: "is_nonneg (wt1 q * x * (wt2 q * y))"
    using assms(4-7) by (intro is_nonneg_times)
  show ?thesis
    unfolding avg_f_def avg_def
  proof (rule approx_add [OF assms(1) m nn])
    show "Suc (max (Suc n) (Suc n)) \<le> k"
      using assms(9) by simp
    show "safe fmt lo (fl_mul fmt (wt1 q) a + fl_mul fmt (wt2 q) b)"
      using s by simp
  qed
qed

lemma approx_same_value:
  assumes "accurate fmt u lo" "is_nonneg w1" "is_nonneg w2" "is_fin x"
    and "safe fmt lo (w1 * x)" "safe fmt lo (w2 * x)"
    and "safe fmt lo (fl_mul fmt w1 x + fl_mul fmt w2 x)"
  shows "approx u 2 (fl_add fmt (fl_mul fmt w1 x) (fl_mul fmt w2 x)) ((w1 + w2) * x)"
proof -
  have u: "unit_roundoff u"
    using assms(1) by (simp add: accurate_def)
  note inp = approx_input [OF u]
  obtain a b v where v: "w1 = Fin a" "w2 = Fin b" "x = Fin v" "0 \<le> a" "0 \<le> b"
    using assms(2-4) by (cases w1; cases w2; cases x; simp)
  have "0 \<le> (a * b) * (v * v)"
    using v(4,5) by (simp add: mult_nonneg_nonneg)
  then have nn: "is_nonneg (w1 * x * (w2 * x))"
    by (simp add: v mult_ac)
  have f: "is_fin w1" "is_fin w2"
    by (simp_all add: v)
  have m: "approx u 1 (fl_mul fmt w1 x) (w1 * x)" "approx u 1 (fl_mul fmt w2 x) (w2 * x)"
    by (rule approx_mul [OF assms(1) inp inp _]; simp add: f assms(4-6))+
  have "approx u 2 (fl_add fmt (fl_mul fmt w1 x) (fl_mul fmt w2 x)) (w1 * x + w2 * x)"
    using assms(7) by (intro approx_add [OF assms(1) m nn]) simp_all
  moreover have "w1 * x + w2 * x = (w1 + w2) * x"
    by (simp add: v algebra_simps)
  ultimately show ?thesis
    by simp
qed

section \<open>The two terms of the planar flux\<close>

lemma face_okD:
  assumes "face_ok q s k"
  shows "is_nonneg (wt1 q)" "is_nonneg (wt2 q)" "is_fin (K_g q)" "is_fin (inv_dy q)"
    "is_fin (eps_tau2 q)" "is_nonneg (snap_rho s)" "is_nonneg (snap_mu s)" "is_fin (snap_P s)"
    "is_nonneg (snap_D_k s ! k)" "is_nonneg (snap_Y s ! k)"
  using assms by (simp_all add: face_ok_def)

lemma approx_conv:
  assumes "accurate fmt u lo" "face_ok q s1 k" "face_ok q s2 k" "conv_safe fmt lo q s1 s2 k"
  shows "approx u 10 (conv_f fmt q s1 s2 k) (conv_k q s1 s2 k)"
proof -
  have u: "unit_roundoff u"
    using assms(1) by (simp add: accurate_def)
  note a = face_okD [OF assms(2)] and b = face_okD [OF assms(3)]
    and s = assms(4) [unfolded conv_safe_def Let_def] and inp = approx_input [OF u]
  have r: "approx u 1 (fl_mul fmt (snap_rho s1) (snap_Y s1 ! k)) (snap_rho s1 * snap_Y s1 ! k)"
    "approx u 1 (fl_mul fmt (snap_rho s2) (snap_Y s2 ! k)) (snap_rho s2 * snap_Y s2 ! k)"
    using s a b by (auto intro!: approx_mul [OF assms(1)] inp)
  have rk: "approx u 3 (avg_f fmt q (fl_mul fmt (snap_rho s1) (snap_Y s1 ! k))
      (fl_mul fmt (snap_rho s2) (snap_Y s2 ! k)))
    (avg q (snap_rho s1 * snap_Y s1 ! k) (snap_rho s2 * snap_Y s2 ! k))"
    using s a b by (intro approx_avg [OF assms(1) r] is_nonneg_times) simp_all
  have t1: "approx u 4 (fl_mul fmt (- avg_f fmt q (fl_mul fmt (snap_rho s1) (snap_Y s1 ! k))
      (fl_mul fmt (snap_rho s2) (snap_Y s2 ! k))) (K_g q))
    (- avg q (snap_rho s1 * snap_Y s1 ! k) (snap_rho s2 * snap_Y s2 ! k) * K_g q)"
    using s a by (intro approx_mul [OF assms(1) approx_uminus [OF rk] inp]) simp_all
  have dP: "approx u 1 (fl_sub fmt (snap_P s2) (snap_P s1)) (snap_P s2 - snap_P s1)"
    using s a b by (intro approx_sub_input [OF assms(1)]) simp_all
  have mu: "approx u 2 (avg_f fmt q (snap_mu s1) (snap_mu s2)) (avg q (snap_mu s1) (snap_mu s2))"
    using s a b by (intro approx_avg [OF assms(1) inp inp]) simp_all
  note t2 = approx_mul [OF assms(1) t1 dP, of 6]
  note t3 = approx_mul [OF assms(1) t2 inp, of _ 7]
  show ?thesis
    unfolding conv_f_def conv_k_def using s a
    by (intro approx_div [OF assms(1) t3 mu]) simp_all
qed

lemma approx_diff:
  assumes "accurate fmt u lo" "face_ok q s1 k" "face_ok q s2 k" "diff_safe fmt lo q s1 s2 k"
  shows "approx u 9 (diff_f fmt q s1 s2 k) (diff_k q s1 s2 k)"
proof -
  have u: "unit_roundoff u"
    using assms(1) by (simp add: accurate_def)
  note a = face_okD [OF assms(2)] and b = face_okD [OF assms(3)]
    and s = assms(4) [unfolded diff_safe_def Let_def] and inp = approx_input [OF u]
  have D: "approx u 2 (avg_f fmt q (snap_D_k s1 ! k) (snap_D_k s2 ! k))
      (avg q (snap_D_k s1 ! k) (snap_D_k s2 ! k))"
    using s a b by (intro approx_avg [OF assms(1) inp inp]) simp_all
  have rho: "approx u 2 (avg_f fmt q (snap_rho s1) (snap_rho s2))
      (avg q (snap_rho s1) (snap_rho s2))"
    using s a b by (intro approx_avg [OF assms(1) inp inp]) simp_all
  have e: "approx u 0 (- eps_tau2 q) (- eps_tau2 q)"
    using a by (intro approx_uminus inp)
  have dY: "approx u 1 (fl_sub fmt (snap_Y s2 ! k) (snap_Y s1 ! k)) (snap_Y s2 ! k - snap_Y s1 ! k)"
    using s a b by (intro approx_sub_input [OF assms(1)]) simp_all
  note t1 = approx_mul [OF assms(1) e D, of 3]
  note t2 = approx_mul [OF assms(1) t1 rho, of 6]
  note t3 = approx_mul [OF assms(1) t2 dY, of 8]
  show ?thesis
    unfolding diff_f_def diff_k_def using s a
    by (intro approx_mul [OF assms(1) t3 inp]) simp_all
qed

section \<open>The flux of one species\<close>

lemma nearly_factor: "nearly u n x' x \<Longrightarrow> \<exists>g. x' = g * x \<and> nearly u n g 1"
  by (auto simp: nearly_def)

lemma round_factor:
  assumes "accurate fmt u lo" "safe fmt lo (Fin z)"
  obtains g where "round_f fmt (Fin z) = Fin (g * z)" "nearly u 1 g 1"
proof -
  have "round_f fmt (Fin z) = Fin (fmt_rnd fmt z)" "z = 0 \<or> lo \<le> \<bar>z\<bar>"
    using safe_Fin [OF assms(2)] by auto
  then show ?thesis
    using nearly_factor [OF round_nearly [OF assms(1), of z]] that by auto
qed

lemma approx_gated_sum:
  assumes "accurate fmt u lo" "approx u n c x" "approx u m d y" "is_fin t"
    and "safe fmt lo (c + d)" "safe fmt lo (t * fl_add fmt c d)"
  shows "\<exists>A B. fl_mul fmt t (fl_add fmt c d) = A + B \<and>
    approx u (n + 2) A (t * x) \<and> approx u (m + 2) B (t * y)"
proof -
  have u: "unit_roundoff u"
    using assms(1) by (simp add: accurate_def)
  obtain c' x' d' y' t' where v: "c = Fin c'" "x = Fin x'" "nearly u n c' x'"
    "d = Fin d'" "y = Fin y'" "nearly u m d' y'" "t = Fin t'"
    using assms(2-4) by (auto simp: approx_iff is_fin_conv)
  obtain g1 where g1: "fl_add fmt c d = Fin (g1 * (c' + d'))" "nearly u 1 g1 1"
    using round_factor [OF assms(1), of "c' + d'"] assms(5) by (auto simp: v fl_add_def)
  have "safe fmt lo (Fin (t' * (g1 * (c' + d'))))"
    using assms(6) unfolding g1(1) v(7) by simp
  then obtain g2 where g2: "fl_mul fmt t (fl_add fmt c d) = Fin (g2 * (t' * (g1 * (c' + d'))))"
    "nearly u 1 g2 1"
    using round_factor [OF assms(1)] unfolding g1(1) v(7) fl_mul_def by auto
  have g: "nearly u 2 (g2 * g1) 1"
    using nearly_mult [OF u g2(2) g1(2)] by (simp add: numeral_2_eq_2)
  have tc: "nearly u n (t' * c') (t' * x')" "nearly u m (t' * d') (t' * y')"
    using nearly_mult [OF u nearly_refl [OF u, of 0 t'] v(3)]
      nearly_mult [OF u nearly_refl [OF u, of 0 t'] v(6)]
    by simp_all
  have "nearly u (2 + n) (g2 * g1 * (t' * c')) (1 * (t' * x'))"
    "nearly u (2 + m) (g2 * g1 * (t' * d')) (1 * (t' * y'))"
    by (rule nearly_mult [OF u g tc(1)], rule nearly_mult [OF u g tc(2)])
  then have "approx u (n + 2) (Fin (g2 * g1 * (t' * c'))) (t * x)"
    "approx u (m + 2) (Fin (g2 * g1 * (t' * d'))) (t * y)"
    by (simp_all add: v add.commute)
  moreover have "fl_mul fmt t (fl_add fmt c d) =
      Fin (g2 * g1 * (t' * c')) + Fin (g2 * g1 * (t' * d'))"
    by (simp add: g2(1) algebra_simps)
  ultimately show ?thesis
    by blast
qed

lemma approx_flux:
  assumes "accurate fmt u lo" "k < length (snap_Y s1)" "face_ok q s1 k" "face_ok q s2 k"
    and "is_fin tog" "flux_safe fmt lo q s1 s2 tog k"
  shows "\<exists>A B. flux_f fmt q s1 s2 tog ! k = A + B \<and>
      approx u 12 A (tog * conv_k q s1 s2 k) \<and> approx u 12 B (tog * diff_k q s1 s2 k)"
    and "is_nonneg (conv_k q s1 s2 k * diff_k q s1 s2 k) \<Longrightarrow>
      approx u 12 (flux_f fmt q s1 s2 tog ! k) (flux_spec q s1 s2 tog ! k)"
proof -
  have u: "unit_roundoff u"
    using assms(1) by (simp add: accurate_def)
  note s = assms(6) [unfolded flux_safe_def]
  have c: "approx u 10 (conv_f fmt q s1 s2 k) (conv_k q s1 s2 k)"
    and d: "approx u 10 (diff_f fmt q s1 s2 k) (diff_k q s1 s2 k)"
    using s approx_conv [OF assms(1,3,4)] approx_mono [OF u approx_diff [OF assms(1,3,4)], of 10]
    by simp_all
  show "\<exists>A B. flux_f fmt q s1 s2 tog ! k = A + B \<and>
      approx u 12 A (tog * conv_k q s1 s2 k) \<and> approx u 12 B (tog * diff_k q s1 s2 k)"
    using approx_gated_sum [OF assms(1) c d assms(5)] s by (simp add: nth_flux_f [OF assms(2)])
  assume "is_nonneg (conv_k q s1 s2 k * diff_k q s1 s2 k)"
  then have sum: "approx u 11 (fl_add fmt (conv_f fmt q s1 s2 k) (diff_f fmt q s1 s2 k))
      (conv_k q s1 s2 k + diff_k q s1 s2 k)"
    using s by (intro approx_add [OF assms(1) c d]) simp_all
  show "approx u 12 (flux_f fmt q s1 s2 tog ! k) (flux_spec q s1 s2 tog ! k)"
    unfolding nth_flux_f [OF assms(2)] nth_flux_spec [OF assms(2)] using s
    by (intro approx_mul [OF assms(1) approx_input [OF u assms(5)] sum]) simp_all
qed

section \<open>Double precision\<close>

lemma rne_error: "\<bar>of_int (rne z) - z\<bar> \<le> 1/2"
  by (simp add: rne_def Let_def)

lemma round_to_rel:
  assumes "0 < p" "2 powr of_int (emin + int p - 1) \<le> \<bar>x\<bar>"
  shows "\<bar>round_to p emin x - x\<bar> \<le> \<bar>x\<bar> / 2 ^ p"
proof -
  define e where "e = ulp_exp p emin x"
  have x: "x \<noteq> 0"
    using assms(2) by (auto simp: not_le)
  have "emin + int p - 1 \<le> \<lfloor>log 2 \<bar>x\<bar>\<rfloor>"
    using assms(2) by (rule floor_log_ge [OF x])
  then have e: "\<lfloor>log 2 \<bar>x\<bar>\<rfloor> = e + int p - 1"
    by (simp add: e_def ulp_exp_def)
  have "round_to p emin x - x =
      (of_int (rne (x / 2 powr of_int e)) - x / 2 powr of_int e) * 2 powr of_int e"
    unfolding round_to_scaled [OF x e_def] by (simp add: left_diff_distrib)
  then have "\<bar>round_to p emin x - x\<bar> =
      \<bar>of_int (rne (x / 2 powr of_int e)) - x / 2 powr of_int e\<bar> * 2 powr of_int e"
    by (simp add: abs_mult)
  also have "\<dots> \<le> 1/2 * 2 powr of_int e"
    by (intro mult_right_mono rne_error) simp
  finally have "\<bar>round_to p emin x - x\<bar> \<le> 2 powr of_int e / 2"
    by simp
  also have "2 powr of_int e * 2 ^ p / 2 \<le> \<bar>x\<bar>"
    using floor_log_bounds(1) [OF x] assms(1) unfolding e powr_pred [OF assms(1)]
    by (cases p) (simp_all add: mult.commute)
  then have "2 powr of_int e / 2 \<le> \<bar>x\<bar> / 2 ^ p"
    by (simp add: pos_le_divide_eq)
  finally show ?thesis .
qed

lemma binary64_accurate: "accurate binary64 dbl_u dbl_lo"
proof -
  have "(2::real) powr of_int (- 1074 + int 53 - 1) = 1 / 2 ^ 1022"
    by (simp add: powr_minus_divide)
  then have "\<bar>round_to 53 (- 1074) x - x\<bar> \<le> \<bar>x\<bar> / 2 ^ 53" if "1 / 2 ^ 1022 \<le> \<bar>x\<bar>" for x
    using round_to_rel [of 53 "- 1074" x] that by simp
  then show ?thesis
    by (simp add: accurate_def unit_roundoff_def dbl_u_def dbl_lo_def)
qed

lemma approx_rel_err:
  assumes "approx dbl_u n a x" "n \<le> 12"
  shows "rel_err dbl_tol a x"
proof -
  have u: "unit_roundoff dbl_u"
    by (simp add: unit_roundoff_def dbl_u_def)
  obtain a' x' where v: "a = Fin a'" "x = Fin x'" "nearly dbl_u 12 a' x'"
    using approx_mono [OF u assms] by (auto simp: approx_iff)
  have "\<bar>a' - x'\<bar> * (1 - 12 / 2 ^ 53) \<le> 12 / 2 ^ 53 * \<bar>x'\<bar>"
    using nearly_gamma [OF u v(3)] by (simp add: dbl_u_def)
  then have "\<bar>a' - x'\<bar> \<le> \<bar>x'\<bar> / 2 ^ 49"
    by simp
  then show ?thesis
    by (simp add: rel_err_def v dbl_tol_def)
qed

lemma approx_rel_err3:
  assumes "approx dbl_u n a x" "n \<le> 3"
  shows "rel_err dbl_tol3 a x"
proof -
  have u: "unit_roundoff dbl_u"
    by (simp add: unit_roundoff_def dbl_u_def)
  obtain a' x' where v: "a = Fin a'" "x = Fin x'" "nearly dbl_u 3 a' x'"
    using approx_mono [OF u assms] by (auto simp: approx_iff)
  have "\<bar>a' - x'\<bar> * (1 - 3 / 2 ^ 53) \<le> 3 / 2 ^ 53 * \<bar>x'\<bar>"
    using nearly_gamma [OF u v(3)] by (simp add: dbl_u_def)
  then have "\<bar>a' - x'\<bar> \<le> \<bar>x'\<bar> / 2 ^ 51"
    by simp
  then show ?thesis
    by (simp add: rel_err_def v dbl_tol3_def)
qed

lemma same_value_double:
  assumes "is_nonneg w1" "is_nonneg w2" "mean_safe w1 w2 x"
  shows "rel_err dbl_tol3 (fl_add binary64 (fl_mul binary64 w1 x) (fl_mul binary64 w2 x))
    ((w1 + w2) * x)"
  using assms(3) unfolding mean_safe_def
  by (intro approx_rel_err3 [OF approx_same_value [OF binary64_accurate assms(1,2)]]) simp_all

section \<open>The radial rate\<close>

lemma approx_square_input:
  assumes "accurate fmt u lo" "is_fin a" "safe fmt lo (a\<^sup>2)"
  shows "approx u 1 (round_f fmt (a\<^sup>2)) (a\<^sup>2)"
proof -
  have "approx u (Suc 0) (round_f fmt (a\<^sup>2)) (a\<^sup>2)"
    using assms(1,2) by (intro approx_round [OF assms(1) approx_input assms(3)])
      (simp_all add: accurate_def)
  then show ?thesis
    by simp
qed

lemma approx_mass:
  assumes "accurate fmt u lo" "shell_fin q j" "is_fin x" "is_fin y" "mass_safe fmt lo q j x y"
  shows "approx u 7 (mass_f fmt q j x y) (mass_rate q j (x - y))"
proof -
  have u: "unit_roundoff u"
    using assms(1) by (simp add: accurate_def)
  note a = assms(2) [unfolded shell_fin_def] and s = assms(5) [unfolded mass_safe_def Let_def]
    and inp = approx_input [OF u]
  have c1: "approx u 1 (fl_mul fmt (D_eff_naf q) (p_eff_SAnaf q)) (D_eff_naf q * p_eff_SAnaf q)"
    using s a by (intro approx_mul [OF assms(1) inp inp]) simp_all
  have r: "approx u 1 (round_f fmt ((r_jph q ! j)\<^sup>2)) ((r_jph q ! j)\<^sup>2)"
    using s a by (intro approx_square_input [OF assms(1)]) simp_all
  have d: "approx u 1 (fl_sub fmt x y) (x - y)"
    using s assms(3,4) by (intro approx_sub_input [OF assms(1)]) simp_all
  note c2 = approx_mul [OF assms(1) c1 inp, of _ 2]
  note g1 = approx_mul [OF assms(1) r d, of 3]
  note g2 = approx_mul [OF assms(1) g1 inp, of _ 4]
  show ?thesis
    unfolding mass_f_def mass_rate_def using s a
    by (intro approx_mul [OF assms(1) c2 g2]) simp_all
qed

lemma approx_rate:
  assumes "accurate fmt u lo" "shell_fin q j" "is_fin x" "is_fin y" "rate_safe fmt lo q j ver x y"
  shows "approx u 10 (rate_f fmt q j ver x y) (rate_k q j ver (x - y))"
proof -
  have u: "unit_roundoff u"
    using assms(1) by (simp add: accurate_def)
  note a = assms(2) [unfolded shell_fin_def] and s = assms(5) [unfolded rate_safe_def]
    and inp = approx_input [OF u]
  have m: "approx u 7 (mass_f fmt q j x y) (mass_rate q j (x - y))"
    using s by (intro approx_mass [OF assms(1-4)]) simp
  show ?thesis
  proof (cases "ver = 1")
    case True
    then show ?thesis
      using approx_mono [OF u m, of 10] by (simp add: rate_f_def rate_k_def)
  next
    case False
    have r: "approx u 1 (round_f fmt ((inv_r_j q ! j)\<^sup>2)) ((inv_r_j q ! j)\<^sup>2)"
      using s a False by (intro approx_square_input [OF assms(1)]) simp_all
    note t = approx_mul [OF assms(1) m r, of 9]
    show ?thesis
      unfolding rate_f_def rate_k_def using s a False
      by (simp only: if_False) (intro approx_mul [OF assms(1) t inp]; simp)
  qed
qed

lemma approx_variants:
  assumes "accurate fmt u lo" "shell_fin q j" "is_fin x" "is_fin y" "rate_safe fmt lo q j 2 x y"
  shows "approx u 3 (rate_f fmt q j 2 x y)
    (rate_f fmt q j 1 x y * (inv_r_j q ! j)\<^sup>2 * inv_t_shl q ! j)"
proof -
  have u: "unit_roundoff u"
    using assms(1) by (simp add: accurate_def)
  note a = assms(2) [unfolded shell_fin_def] and inp = approx_input [OF u]
  have s: "mass_safe fmt lo q j x y" "safe fmt lo ((inv_r_j q ! j)\<^sup>2)"
    "safe fmt lo (mass_f fmt q j x y * round_f fmt ((inv_r_j q ! j)\<^sup>2))"
    "safe fmt lo (fl_mul fmt (mass_f fmt q j x y) (round_f fmt ((inv_r_j q ! j)\<^sup>2)) *
      inv_t_shl q ! j)"
    using assms(5) by (simp_all add: rate_safe_def)
  have "is_fin (mass_f fmt q j x y)"
    using approx_mass [OF assms(1-4) s(1)] by (simp add: approx_is_fin)
  then have m: "approx u 0 (mass_f fmt q j x y) (mass_f fmt q j x y)"
    by (rule inp)
  have r: "approx u 1 (round_f fmt ((inv_r_j q ! j)\<^sup>2)) ((inv_r_j q ! j)\<^sup>2)"
    using a by (intro approx_square_input [OF assms(1) _ s(2)]) simp
  note t = approx_mul [OF assms(1) m r s(3), of 2]
  have "approx u 3 (fl_mul fmt (fl_mul fmt (mass_f fmt q j x y)
      (round_f fmt ((inv_r_j q ! j)\<^sup>2))) (inv_t_shl q ! j))
      (mass_f fmt q j x y * (inv_r_j q ! j)\<^sup>2 * inv_t_shl q ! j)"
    using a by (intro approx_mul [OF assms(1) t inp s(4)]) simp_all
  then show ?thesis
    by (simp add: rate_f_def)
qed

section \<open>Concrete faces and shells\<close>

lemmas tenth_defs = dbl_gas_def mach_T1_def mach_T2_def mach_q_def tenth_q_def

lemma tenth_face_ok:
  "face_ok tenth_q (properties_at dbl_gas mach_T1) (Suc 0)"
  "face_ok tenth_q (properties_at dbl_gas mach_T2) (Suc 0)"
  by (simp_all add: face_ok_def tenth_defs)

lemma tenth_terms:
  "conv_f binary64 tenth_q (properties_at dbl_gas mach_T1) (properties_at dbl_gas mach_T2) (Suc 0) =
     Fin (6305039478318695 / 2 ^ 50)"
  "diff_f binary64 tenth_q (properties_at dbl_gas mach_T1) (properties_at dbl_gas mach_T2) (Suc 0) =
     Fin (1351079888211149 / 2 ^ 52)"
  by (simp_all add: conv_f_def diff_f_def avg_f_def fl_defs tenth_defs double_eval)

lemma tenth_conv_safe:
  "conv_safe binary64 dbl_lo tenth_q (properties_at dbl_gas mach_T1)
     (properties_at dbl_gas mach_T2) (Suc 0)"
  by (simp add: conv_safe_def avg_safe_def safe_def avg_f_def fl_defs tenth_defs double_eval
      dbl_lo_def)

lemma tenth_diff_safe:
  "diff_safe binary64 dbl_lo tenth_q (properties_at dbl_gas mach_T1)
     (properties_at dbl_gas mach_T2) (Suc 0)"
  by (simp add: diff_safe_def avg_safe_def safe_def avg_f_def fl_defs tenth_defs double_eval
      dbl_lo_def)

lemma tenth_flux_safe:
  "flux_safe binary64 dbl_lo tenth_q (properties_at dbl_gas mach_T1)
     (properties_at dbl_gas mach_T2) (Fin 1) (Suc 0)"
  by (simp add: flux_safe_def tenth_conv_safe tenth_diff_safe tenth_terms)
    (simp add: safe_def fl_defs dbl_lo_def double_eval)

lemma tenth_flux:
  "flux_f binary64 tenth_q (properties_at dbl_gas mach_T1) (properties_at dbl_gas mach_T2)
     (Fin 1) ! Suc 0 = Fin (6642809450371482 / 2 ^ 50)"
  "flux_spec tenth_q (properties_at dbl_gas mach_T1) (properties_at dbl_gas mach_T2)
     (Fin 1) ! Suc 0 = Fin (212569902411887423 / 2 ^ 55)"
proof -
  have l: "Suc 0 < length (snap_Y (properties_at dbl_gas mach_T1))"
    by (simp add: tenth_defs)
  show "flux_f binary64 tenth_q (properties_at dbl_gas mach_T1) (properties_at dbl_gas mach_T2)
     (Fin 1) ! Suc 0 = Fin (6642809450371482 / 2 ^ 50)"
    unfolding nth_flux_f [OF l] tenth_terms by (simp add: fl_defs double_eval)
  show "flux_spec tenth_q (properties_at dbl_gas mach_T1) (properties_at dbl_gas mach_T2)
     (Fin 1) ! Suc 0 = Fin (212569902411887423 / 2 ^ 55)"
    unfolding nth_flux_spec [OF l] by (simp add: conv_k_def diff_k_def avg_def tenth_defs)
qed

lemma fifth_shell_simps [simp]:
  "D_eff_naf fifth_shell = Fin 3" "p_eff_SAnaf fifth_shell = Fin 1"
  "eps_tau2_n2 fifth_shell = Fin 1" "r_jph fifth_shell = [Fin 1]" "inv_dr fifth_shell = [Fin 1]"
  "inv_r_j fifth_shell = [Fin 1]"
  "inv_t_shl fifth_shell = [Fin (3602879701896397 / 2 ^ 53)]"
  by (simp_all add: fifth_shell_def shell_of_def demo_shell_r_def)

lemma fifth_mass: "mass_f binary64 fifth_shell 0 (Fin 1) (Fin 0) = Fin 3"
  by (simp add: mass_f_def fl_defs)

lemma fifth_rate_safe: "rate_safe binary64 dbl_lo fifth_shell 0 2 (Fin 1) (Fin 0)"
  by (simp add: rate_safe_def fifth_mass) (simp add: mass_safe_def safe_def fl_defs dbl_lo_def)

lemma fifth_rate:
  "rate_f binary64 fifth_shell 0 2 (Fin 1) (Fin 0) = Fin (5404319552844596 / 2 ^ 52)"
  "rate_k fifth_shell 0 2 (Fin 1 - Fin 0) = Fin (10808639105689191 / 2 ^ 53)"
  by (simp_all add: rate_f_def fifth_mass rate_k_def mass_rate_def)
    (simp add: fl_defs double_eval)

lemma fifth_mean_safe:
  "mean_safe (Fin (3602879701896397 / 2 ^ 54)) (Fin (3602879701896397 / 2 ^ 52)) (Fin 3)"
  by (simp add: mean_safe_def safe_def dbl_lo_def fl_defs double_eval)

lemma fifth_kernel:
  "has_shell_params (shell_dict fifth_shell) fifth_shell" "n_shells fifth_shell 1"
  "radial_fdiff_r binary64 (Vec [Fin 1]) (Vec [Fin 0]) (shell_dict fifth_shell) (- 1) 1 () =
     Inr (Vec [Fin 3])"
  "radial_fdiff_r binary64 (Vec [Fin 1]) (Vec [Fin 0]) (shell_dict fifth_shell) (- 1) 2 () =
     Inr (Vec [Fin (5404319552844596 / 2 ^ 52)])"
proof -
  show p: "has_shell_params (shell_dict fifth_shell) fifth_shell" "n_shells fifth_shell 1"
    by (simp_all add: has_shell_params_def shell_dict_def n_shells_def)
  note k = radial_fdiff_r_typed [OF p, of "- 1" _ "[Fin 1]" "[Fin 0]" binary64 "()"]
  show "radial_fdiff_r binary64 (Vec [Fin 1]) (Vec [Fin 0]) (shell_dict fifth_shell) (- 1) 1 () =
     Inr (Vec [Fin 3])"
    by (simp add: k node_in_range_def norm_node_def radial_f_def rate_f_def fifth_mass)
  show "radial_fdiff_r binary64 (Vec [Fin 1]) (Vec [Fin 0]) (shell_dict fifth_shell) (- 1) 2 () =
     Inr (Vec [Fin (5404319552844596 / 2 ^ 52)])"
    by (simp add: k node_in_range_def norm_node_def radial_f_def fifth_rate)
qed

section \<open>Properties: the accuracy of the kernels in double precision\<close>

text \<open>
  When the two terms of a species have opposite signs their sum can cancel, and the
  error of the flux is bounded against the magnitudes of the terms instead of against
  the magnitude of the flux.
\<close>

lemma rel_err_Fin:
  assumes "rel_err e a x"
  obtains a' x' where "a = Fin a'" "x = Fin x'" "\<bar>a' - x'\<bar> \<le> e * \<bar>x'\<bar>"
  using assms by (auto simp: rel_err_def split: pyfloat.splits)

lemma flux_error_bound:
  assumes "k < length (snap_Y s1)" "face_ok q s1 k" "face_ok q s2 k" "is_fin tog"
    and "flux_safe binary64 dbl_lo q s1 s2 tog k"
  shows "\<exists>f t c d. flux_f binary64 q s1 s2 tog ! k = Fin f \<and> tog = Fin t \<and>
      conv_k q s1 s2 k = Fin c \<and> diff_k q s1 s2 k = Fin d \<and>
      flux_spec q s1 s2 tog ! k = Fin (t * (c + d)) \<and>
      \<bar>f - t * (c + d)\<bar> \<le> dbl_tol * (\<bar>t * c\<bar> + \<bar>t * d\<bar>)"
proof -
  note acc = binary64_accurate and s = assms(5) [unfolded flux_safe_def]
  obtain t where t: "tog = Fin t"
    using assms(4) by (cases tog) simp_all
  obtain c d where v: "conv_k q s1 s2 k = Fin c" "diff_k q s1 s2 k = Fin d"
    using s approx_conv [OF acc assms(2,3)] approx_diff [OF acc assms(2,3)]
    by (auto simp: approx_iff)
  obtain A B where f: "flux_f binary64 q s1 s2 tog ! k = A + B"
    and "rel_err dbl_tol A (tog * conv_k q s1 s2 k)" "rel_err dbl_tol B (tog * diff_k q s1 s2 k)"
    using approx_flux(1) [OF acc assms] by (blast intro: approx_rel_err)
  then obtain a b where e: "A = Fin a" "B = Fin b" "\<bar>a - t * c\<bar> \<le> dbl_tol * \<bar>t * c\<bar>"
      "\<bar>b - t * d\<bar> \<le> dbl_tol * \<bar>t * d\<bar>"
    unfolding t v by (auto elim!: rel_err_Fin)
  have "\<bar>a + b - t * (c + d)\<bar> \<le> \<bar>a - t * c\<bar> + \<bar>b - t * d\<bar>"
    by (simp add: algebra_simps)
  then have "\<bar>a + b - t * (c + d)\<bar> \<le> dbl_tol * (\<bar>t * c\<bar> + \<bar>t * d\<bar>)"
    using e(3,4) by (simp add: algebra_simps)
  then show ?thesis
    by (simp add: f [unfolded t] e t v nth_flux_spec [OF assms(1)])
qed

text \<open>
  C21 (the accuracy of the planar flux). In double precision, for a species \<open>k\<close> of a
  face whose weights, densities, viscosities, diffusion coefficients and mass fractions
  are finite and not negative and whose other data are finite, when no operation
  overflows or leaves the normal range: the advective term and the diffusive term the
  kernel computes differ from the exact terms \<open>conv_k\<close> and \<open>diff_k\<close> by at most \<open>2\<^sup>-\<^sup>4\<^sup>9\<close> of
  their magnitude; the flux is the sum of two numbers that differ from the exact gated
  terms by at most \<open>2\<^sup>-\<^sup>4\<^sup>9\<close> of their magnitude; and when the two exact terms have the same
  sign, the flux differs from the exact flux \<open>flux_spec\<close> by at most \<open>2\<^sup>-\<^sup>4\<^sup>9\<close> of its
  magnitude. When the terms have opposite signs, the error is relative to the sum of
  their magnitudes.
\<close>

theorem planar_accuracy:
  assumes "k < length (snap_Y s1)" "face_ok q s1 k" "face_ok q s2 k" "is_fin tog"
    and "flux_safe binary64 dbl_lo q s1 s2 tog k"
  shows "rel_err dbl_tol (conv_f binary64 q s1 s2 k) (conv_k q s1 s2 k) \<and>
    rel_err dbl_tol (diff_f binary64 q s1 s2 k) (diff_k q s1 s2 k) \<and>
    (\<exists>A B. flux_f binary64 q s1 s2 tog ! k = A + B \<and>
       rel_err dbl_tol A (tog * conv_k q s1 s2 k) \<and>
       rel_err dbl_tol B (tog * diff_k q s1 s2 k)) \<and>
    (is_nonneg (conv_k q s1 s2 k * diff_k q s1 s2 k) \<longrightarrow>
       rel_err dbl_tol (flux_f binary64 q s1 s2 tog ! k) (flux_spec q s1 s2 tog ! k))"
proof -
  note acc = binary64_accurate and s = assms(5) [unfolded flux_safe_def]
  have "rel_err dbl_tol (conv_f binary64 q s1 s2 k) (conv_k q s1 s2 k)"
    "rel_err dbl_tol (diff_f binary64 q s1 s2 k) (diff_k q s1 s2 k)"
    using s approx_conv [OF acc assms(2,3)] approx_diff [OF acc assms(2,3)]
    by (auto intro: approx_rel_err)
  moreover have "\<exists>A B. flux_f binary64 q s1 s2 tog ! k = A + B \<and>
      rel_err dbl_tol A (tog * conv_k q s1 s2 k) \<and>
      rel_err dbl_tol B (tog * diff_k q s1 s2 k)"
    using approx_flux(1) [OF acc assms] by (blast intro: approx_rel_err)
  moreover have "rel_err dbl_tol (flux_f binary64 q s1 s2 tog ! k) (flux_spec q s1 s2 tog ! k)"
    if "is_nonneg (conv_k q s1 s2 k * diff_k q s1 s2 k)"
    using approx_flux(2) [OF acc assms that] by (rule approx_rel_err) simp
  ultimately show ?thesis
    by blast
qed

theorem planar_accuracy_witness:
  "rel_err dbl_tol (Fin (6642809450371482 / 2 ^ 50)) (Fin (212569902411887423 / 2 ^ 55)) \<and>
   flux_f binary64 tenth_q (properties_at dbl_gas mach_T1) (properties_at dbl_gas mach_T2)
     (Fin 1) ! Suc 0 = Fin (6642809450371482 / 2 ^ 50) \<and>
   flux_spec tenth_q (properties_at dbl_gas mach_T1) (properties_at dbl_gas mach_T2)
     (Fin 1) ! Suc 0 = Fin (212569902411887423 / 2 ^ 55)"
  using planar_accuracy [OF _ tenth_face_ok _ tenth_flux_safe] tenth_flux
  by (simp add: conv_k_def diff_k_def avg_def tenth_defs)

text \<open>
  C39 (the accuracy of the radial rate). In double precision, for finite parameters at
  the node and finite densities, when no operation overflows or leaves the normal range,
  the rate the kernel computes for a species differs from the exact rate \<open>rate_k\<close> by at
  most \<open>2\<^sup>-\<^sup>4\<^sup>9\<close> of its magnitude, in both variants and whatever the signs are: the only
  subtraction is the first operation on the two densities.
\<close>

theorem radial_accuracy:
  assumes "shell_fin q j" "is_fin x" "is_fin y" "rate_safe binary64 dbl_lo q j ver x y"
  shows "rel_err dbl_tol (rate_f binary64 q j ver x y) (rate_k q j ver (x - y))"
  using approx_rate [OF binary64_accurate assms] by (rule approx_rel_err) simp

theorem radial_accuracy_witness:
  "rel_err dbl_tol (Fin (5404319552844596 / 2 ^ 52)) (Fin (10808639105689191 / 2 ^ 53)) \<and>
   rate_f binary64 fifth_shell 0 2 (Fin 1) (Fin 0) = Fin (5404319552844596 / 2 ^ 52) \<and>
   rate_k fifth_shell 0 2 (Fin 1 - Fin 0) = Fin (10808639105689191 / 2 ^ 53)"
  using radial_accuracy [OF _ _ _ fifth_rate_safe] fifth_rate
  by (simp add: shell_fin_def)

text \<open>
  C9 (the two variants in double precision). For typed parameters, a node in range and
  density arrays of equal length, the two variants of \<open>radial_fdiff\<close> in double precision
  return arrays of the length of the arguments, and at every species whose operations
  neither overflow nor leave the normal range the value of variant 2 is the value that
  variant 1 returns, multiplied by \<open>(1/r_j)\<^sup>2\<close> and by \<open>1/t_shl\<close>, up to a relative error of
  \<open>2\<^sup>-\<^sup>5\<^sup>1\<close>: the three roundings of line 94.
\<close>

theorem variant_consistency_double:
  assumes "has_shell_params p q" "n_shells q n" "node_in_range n node"
    and "length xs = length ys" "i < length xs"
    and "shell_fin q (norm_node n node)" "is_fin (xs ! i)" "is_fin (ys ! i)"
    and "rate_safe binary64 dbl_lo q (norm_node n node) 2 (xs ! i) (ys ! i)"
  shows "\<exists>m r. radial_fdiff_r binary64 (Vec xs) (Vec ys) p node 1 flag = Inr (Vec m) \<and>
      radial_fdiff_r binary64 (Vec xs) (Vec ys) p node 2 flag = Inr (Vec r) \<and>
      length m = length xs \<and> length r = length xs \<and>
      rel_err dbl_tol3 (r ! i)
        (m ! i * (inv_r_j q ! norm_node n node)\<^sup>2 * inv_t_shl q ! norm_node n node)"
proof -
  note k = radial_fdiff_r_typed [OF assms(1-3) _ assms(4), of _ binary64 flag]
  have "rel_err dbl_tol3 (radial_f binary64 q (norm_node n node) 2 xs ys ! i)
      (radial_f binary64 q (norm_node n node) 1 xs ys ! i * (inv_r_j q ! norm_node n node)\<^sup>2 *
        inv_t_shl q ! norm_node n node)"
    using assms(4,5) approx_variants [OF binary64_accurate assms(6-9)]
    by (simp add: radial_f_def approx_rel_err3)
  then show ?thesis
    using assms(4) by (simp add: k radial_f_def)
qed

theorem variant_consistency_double_witness:
  "radial_fdiff_r binary64 (Vec [Fin 1]) (Vec [Fin 0]) (shell_dict fifth_shell) (- 1) 1 () =
     Inr (Vec [Fin 3]) \<and>
   radial_fdiff_r binary64 (Vec [Fin 1]) (Vec [Fin 0]) (shell_dict fifth_shell) (- 1) 2 () =
     Inr (Vec [Fin (5404319552844596 / 2 ^ 52)]) \<and>
   rel_err dbl_tol3 (Fin (5404319552844596 / 2 ^ 52)) (Fin (10808639105689191 / 2 ^ 53))"
  using variant_consistency_double [OF fifth_kernel(1,2), of "- 1" "[Fin 1]" "[Fin 0]" 0 "()"]
    fifth_rate_safe
  by (simp add: fifth_kernel(3,4) node_in_range_def norm_node_def shell_fin_def)

text \<open>
  C23 (weight normalisation in double precision, any weights). With finite weights that
  are not negative, the boundary value of two equal node values in double precision is
  that value multiplied by the sum of the weights, up to a relative error of \<open>2\<^sup>-\<^sup>5\<^sup>1\<close>,
  for a scalar and for every component of a vector, while neither product nor the sum
  overflows or leaves the normal range; so it is the node value up to that error when
  the weights add up to one. It need not be the node value: with the doubles nearest to
  \<open>0.2\<close> and \<open>0.8\<close> the boundary value of \<open>3.0\<close> and \<open>3.0\<close> is the next double above \<open>3.0\<close>.
\<close>

theorem weight_normalisation_double:
  assumes "p ''wt1'' = Some (Scalar w1)" "p ''wt2'' = Some (Scalar w2)"
    and "is_nonneg w1" "is_nonneg w2" "mean_safe w1 w2 x" "list_all (mean_safe w1 w2) xs"
  shows "(\<exists>m. boundary_avg_r binary64 p (Scalar x) (Scalar x) = Inr (Scalar m) \<and>
       rel_err dbl_tol3 m ((w1 + w2) * x) \<and> (w1 + w2 = Fin 1 \<longrightarrow> rel_err dbl_tol3 m x)) \<and>
    (\<exists>ms. boundary_avg_r binary64 p (Vec xs) (Vec xs) = Inr (Vec ms) \<and> length ms = length xs \<and>
       (\<forall>i<length xs. rel_err dbl_tol3 (ms ! i) ((w1 + w2) * xs ! i)))"
proof -
  note r = same_value_double [OF assms(3,4)]
  have "(w1 + w2) * x = x" if "w1 + w2 = Fin 1"
    using assms(5) that by (cases x) (simp_all add: mean_safe_def)
  then have "\<exists>m. boundary_avg_r binary64 p (Scalar x) (Scalar x) = Inr (Scalar m) \<and>
      rel_err dbl_tol3 m ((w1 + w2) * x) \<and> (w1 + w2 = Fin 1 \<longrightarrow> rel_err dbl_tol3 m x)"
    using r [OF assms(5)] by (auto simp: boundary_avg_r_weights(1) [OF assms(1,2)])
  moreover have "rel_err dbl_tol3
      (map2 (\<lambda>x y. fl_add binary64 (fl_mul binary64 w1 x) (fl_mul binary64 w2 y)) xs xs ! i)
      ((w1 + w2) * xs ! i)" if "i < length xs" for i
    using that assms(6) by (simp add: r list_all_length)
  ultimately show ?thesis
    by (simp add: boundary_avg_r_weights(2) [OF assms(1,2)])
qed

theorem weight_normalisation_double_witness:
  "boundary_avg_r binary64 fifth_dict (Scalar (Fin 3)) (Scalar (Fin 3)) =
     Inr (Scalar (Fin (3 + 1 / 2 ^ 51))) \<and>
   rel_err dbl_tol3 (Fin (3 + 1 / 2 ^ 51)) (Fin (3 * (18014398509481985 / 2 ^ 54)))"
  using weight_normalisation_double [OF _ _ _ _ fifth_mean_safe, of fifth_dict "[]"]
  by (simp add: fifth_dict_def fl_defs double_eval boundary_avg_r_weights(1))

end
