(* ===== verification/Spec2Isabelle.thy ===== *)
theory Spec2Isabelle
  imports Fickian Radial Sharing Rounded Machine Binary64 Driver Gating Double_Eval Signed_Zero
    Averaging Exceptions Accuracy
begin

text \<open>
  \<^bold>\<open>The program.\<close> \<^verbatim>\<open>src/Shared_Funcs/pemfc_transport_funcs.py\<close> holds the two transport
  kernels of a pseudo-2D model of a PEM fuel-cell cathode. \<^verbatim>\<open>fickian_adf\<close> computes the
  mass flux of every gas species through the face between two adjacent nodes, as the sum
  of a Darcy term driven by the pressure difference and a Fickian term driven by the
  difference of the mass fractions; it obtains the properties of the gas from a provider
  object (a Cantera solution) that it sets to the state of each node in turn.
  \<^verbatim>\<open>radial_fdiff\<close> computes the rate of diffusion between two adjacent shells of a
  spherical agglomerate from a parameter dictionary, in two variants selected by an
  integer. The kernels do not call each other; they share the run-time they are written
  against: Python floats, NumPy arrays with broadcasting, dictionaries subscripted by
  strings, arrays subscripted by integers, and exceptions.

  \<^bold>\<open>The theories.\<close>
  \<^descr> \<open>Transport_Prelude\<close> has the exceptions (\<open>pyerr\<close>), results as values of the sum type
  \<open>pyerr + 'a\<close>, the sequencing of expressions (\<open>bindE\<close>, \<open>lift2E\<close>: left operand, right
  operand, operator, the first exception wins) and of statements over the one mutable
  object (\<open>bindS\<close>, \<open>assignS\<close>, \<open>readS\<close>, \<open>evalS\<close>), with their laws and the list lemmas
  for elementwise arithmetic.
  \<^descr> \<open>PyFloat\<close> has the floats: \<open>pyfloat\<close> is a finite real, an infinity or NaN, with
  the IEEE rules for the special values, as an instance of the arithmetic type classes,
  and the predicates \<open>is_fin\<close>, \<open>is_pos\<close>, \<open>is_nonneg\<close> with their closure lemmas.
  \<^descr> \<open>NumPy\<close> has the values (\<open>pyval\<close>: a scalar or a one-dimensional array), the
  broadcasting binary operator \<open>np_binop\<close> and its instances, true division with the
  \<open>ZeroDivisionError\<close> of two Python scalars, the subscripts \<open>getp\<close> (\<open>KeyError\<close>) and
  \<open>py_index\<close> (negative indices, \<open>IndexError\<close>, \<open>TypeError\<close>), the operators lifted to
  results (\<open>addE\<close>, \<open>subE\<close>, \<open>mulE\<close>, \<open>divE\<close>, \<open>negE\<close>, \<open>powE\<close>, \<open>idxE\<close>), and two
  analyses of expressions: which can raise \<open>ZeroDivisionError\<close> (\<open>no_zde\<close>, \<open>vec_res\<close>)
  and which exceptions one can raise at all (\<open>raises_only\<close>).
  \<^descr> \<open>Provider\<close> has the interface of the provider: the record \<open>gas_ops\<close> of the
  attributes the kernel uses (assignment to \<^verbatim>\<open>TDY\<close>; \<^verbatim>\<open>mix_diff_coeffs_mass\<close>,
  \<^verbatim>\<open>density_mass\<close>, \<^verbatim>\<open>viscosity\<close>, \<^verbatim>\<open>P\<close>, \<^verbatim>\<open>Y\<close>) over the type of the provider's state, the
  assumptions a caller can make of a provider (\<open>state_determined\<close>, \<open>accepted\<close>,
  \<open>n_species_ok\<close>), and two implementations: \<open>table_gas\<close>, whose properties are a
  function of the state last set and which refuses invalid states, and \<open>scripted_gas\<close>,
  which serves prepared property sets whatever state is set.
  \<^descr> \<open>Fickian\<close> has \<open>fickian_adf\<close> statement by statement (lines 12 to 59 of the source):
  two assignments to the provider, ten reads, the four boundary averages \<open>boundary_avg\<close>,
  the terms \<open>J_conv\<close> and \<open>J_diff\<close>, the product with the toggle. \<open>adf_pure\<close> is the
  arithmetic alone on two sets of properties, \<open>flux_spec\<close> the closed form over typed
  parameters (\<open>planar_params\<close>).
  \<^descr> \<open>Radial\<close> has \<open>radial_fdiff\<close> (lines 71 to 98): the expression of each variant and
  the read of the unassigned local when the selector is neither 1 nor 2; \<open>radial_spec\<close>
  is the closed form over typed parameters (\<open>shell_params\<close>).
  \<^descr> \<open>Sharing\<close> has calls of \<open>fickian_adf\<close> that run at the same time: the twelve
  statements of a call that touch the provider as a list of operations (\<open>adf_ops\<close>), a
  thread that executes them one at a time on its own local variables (\<open>thread_step\<close>,
  \<open>run_thread\<close>), and systems of threads under a schedule, a list of thread numbers, on
  one shared provider (\<open>run_shared\<close>) or on a provider each (\<open>run_owned\<close>). The threads
  are the specification's: the source has none.
  \<^descr> \<open>Rounded\<close> has the two formulas for one species and finite operands with a
  rounding function after every operator (\<open>conv_r\<close>, \<open>diff_r\<close>, \<open>flux_r\<close> for lines 46 to
  56, \<open>mass_rate_r\<close>, \<open>rate_r\<close> for lines 88 to 94); the rounding is a parameter.
  \<^descr> \<open>Machine\<close> has the two kernels in machine arithmetic: a \<open>format\<close> is a rounding
  function on the reals and an optional overflow threshold, \<open>round_f\<close> rounds a float in
  it (a finite result at or beyond the threshold becomes an infinity), \<open>fl_add\<close>,
  \<open>fl_sub\<close>, \<open>fl_mul\<close>, \<open>fl_div\<close> are the operations followed by one rounding, \<open>addR\<close> to
  \<open>powR\<close> the operators of NumPy with them. \<open>fickian_adf_r\<close> and \<open>radial_fdiff_r\<close> are the
  two kernels, statement by statement and operator by operator as in \<open>Fickian\<close> and
  \<open>Radial\<close>, with these operators; \<open>flux_f\<close> and \<open>radial_f\<close> are their closed forms for
  typed parameters. The theorems hold for every format, under the stated assumptions on
  the rounding.
  \<^descr> \<open>Binary64\<close> has double precision, the arithmetic of Python floats, as a format:
  \<open>round_to\<close> rounds a real to the nearest number with 53 bits, ties to the even one
  (\<open>rne\<close>), with the unit in the last place not below \<open>2\<^sup>-\<^sup>1\<^sup>0\<^sup>7\<^sup>4\<close> (\<open>ulp_exp\<close>), and
  \<open>binary64\<close> overflows at \<open>2\<^sup>1\<^sup>0\<^sup>2\<^sup>4 - 2\<^sup>9\<^sup>7\<^sup>0\<close>.
  \<^descr> \<open>Driver\<close> has the loop of the caller over the interfaces of a chain of nodes
  (\<open>sweep\<close>): the calls of \<open>fickian_adf_r\<close> for the adjacent pairs, in order, on one
  provider. The caller is the specification's: the source has none.
  \<^descr> \<open>Gating\<close> has the toggle of \<open>fickian_adf\<close> as the Python value the caller passes
  (\<open>pytoggle\<close>: a \<^verbatim>\<open>bool\<close>, an \<^verbatim>\<open>int\<close>, a \<^verbatim>\<open>float\<close> or an array), its conversion to a float at
  the last multiplication (\<open>toggle_operand\<close>, \<open>gateR\<close>, line 56), and the kernel with it
  (\<open>fickian_adf_t\<close>). \<open>fickian_adf_g\<close> of \<open>Machine\<close> is the statement list of the kernel
  with the left operand of that multiplication as a parameter; \<open>fickian_adf_r\<close> and
  \<open>fickian_adf_t\<close> are its two instances. \<open>face_finite\<close> and \<open>shell_finite\<close> are the
  conditions under which two equal states and two equal densities give a zero.
  \<^descr> \<open>Double_Eval\<close> has the rounding of \<open>Binary64\<close> on fractions of integers computed
  with integer arithmetic (\<open>flog2\<close>, \<open>rne_frac\<close>, \<open>round_frac\<close>), proved equal to
  \<open>round_to\<close>, and the conversion of decimal data to doubles (\<open>dbl\<close>, \<open>dbl_dict\<close>,
  \<open>dbl_snap\<close>, \<open>dbl_script\<close>).
  \<^descr> \<open>Signed_Zero\<close> has the floats with the two zeros of IEEE 754 (\<open>sfloat\<close>), the five
  operations of the kernels on them with the sign rules for zero results
  (\<open>sz_neg\<close>, \<open>sz_add\<close>, \<open>sz_sub\<close>, \<open>sz_mul\<close>, \<open>sz_div\<close>), and the flux and the rate of
  one species written with them (\<open>avg_z\<close>, \<open>conv_z\<close>, \<open>diff_z\<close>, \<open>flux_z\<close> for lines 46 to
  56, \<open>mass_z\<close>, \<open>rate_z\<close> for lines 88 to 94); \<open>sval\<close> forgets the sign of a zero.
  \<^descr> \<open>Averaging\<close> has the boundary average of lines 46 to 49 in double precision: the
  doubles whose half is a double (\<open>halvable\<close>), the facts that halving them is exact and
  that rounding keeps a number between the doubles that enclose it (\<open>round_to_half\<close>,
  \<open>round_to_between\<close>), and the data of two faces on which the average of equal node
  values is not that value (\<open>fifth_q\<close>, \<open>tiny\<close>).
  \<^descr> \<open>Exceptions\<close> has the relation between two outcomes that are the same exception or
  arrays of the same shape (\<open>same_outcome\<close>) and the rules that carry it through the
  operators of \<open>Machine\<close> and the statements of both kernels, in any two formats.
  \<^descr> \<open>Accuracy\<close> has the relative error of the two formulas in double precision: the
  relation between a computed and an exact number that differ by \<open>n\<close> roundings
  (\<open>nearly\<close>, \<open>approx\<close>), the formats whose rounding has a relative error \<open>u\<close> above a
  threshold (\<open>accurate\<close>), the conditions that no intermediate result of lines 46 to 56
  and 88 to 94 overflows or falls below the normal range (\<open>flux_safe\<close>, \<open>rate_safe\<close>)
  and that the averaged data are not negative (\<open>face_ok\<close>), the same for one boundary
  average of equal node values (\<open>mean_safe\<close>), and a face, a shell and a pair of weights
  of doubles on which the operations round (\<open>tenth_q\<close>, \<open>fifth_shell\<close>, \<open>fifth_dict\<close>).
  \<^descr> This theory has the concrete scenario of the specification, which needs the
  scripted provider and the planar kernel together, in exact arithmetic and in double
  precision.

  \<^bold>\<open>What is proved.\<close> For \<open>fickian_adf\<close>: it factors into the provider protocol followed
  by \<open>adf_pure\<close> (\<open>fickian_adf_factor\<close>), which computes \<open>flux_spec\<close> when the dictionary
  holds the five scalar coefficients and the provider reports as many diffusion
  coefficients as mass fractions (\<open>fickian_adf_closed_form\<close>); the provider is left in
  the second state on success and on every exception raised after the second assignment,
  and in the state of the last accepted assignment otherwise; swapping the nodes and the
  weights negates the flux; equal states give a zero flux under a state-determined
  provider; the sign convention of the source holds for positive data; the toggle 0
  gives zero exactly when the flux is finite and NaN otherwise; no call raises
  \<open>ZeroDivisionError\<close>. For \<open>radial_fdiff\<close>: it computes \<open>radial_spec\<close> for typed
  parameters, for vectors, scalars and broadcast operands (\<open>radial_fdiff_closed_form\<close>,
  \<open>radial_fdiff_broadcast\<close>); it is antisymmetric in the two densities for every input;
  a selector other than 1 and 2 raises \<open>UnboundLocalError\<close>; a node outside \<open>-n \<le> node < n\<close> raises
  \<open>IndexError\<close> and a negative node inside it is counted from the end; both area factors
  are read by both variants. For both kernels the exceptions they can raise are
  enumerated (\<open>fickian_adf_exceptions\<close>, \<open>radial_fdiff_exceptions\<close>). For calls that
  share a provider: a thread alone is the kernel (\<open>kernel_is_protocol\<close>); calls scheduled
  one after the other are the calls in sequence (\<open>serial_calls\<close>); a call interrupted
  between its assignment and its reads computes with the other call's state
  (\<open>shared_provider_race\<close>); with a provider per thread every schedule gives every call
  its own outcome (\<open>own_provider_safe\<close>); on a shared provider that is determined by the
  state set, a call whose two blocks of six operations, an assignment and the five
  reads after it, each run without interruption returns its own outcome whatever the
  other threads do before, between and after them (\<open>locked_blocks_safe\<close>). Under
  rounding: both antisymmetries and both zero-gradient properties hold exactly for every
  odd rounding; the equality of variant 2 with variant 1 times the shell factor does
  not; the identity rounding gives the exact closed forms (\<open>flux_r_exact\<close>,
  \<open>rate_r_exact\<close>). In machine arithmetic: the machine kernels in the format that rounds
  nothing are the kernels of \<open>Fickian\<close> and \<open>Radial\<close> (\<open>machine_exact\<close>), so everything
  above is the special case of an exact format; in every format they compute their
  closed forms (\<open>fickian_adf_r_closed_form\<close>, \<open>radial_fdiff_r_closed_form\<close>); without
  overflow and on finite data the planar kernel returns the value of the rounded formula
  \<open>flux_r\<close> (\<open>fickian_adf_r_rounded\<close>); for every odd rounding both kernels are
  antisymmetric exactly, overflow included (\<open>machine_antisymmetric\<close>); for every
  idempotent rounding that respects the threshold every component returned is a value of
  the format (\<open>adf_pure_r_in_format\<close>, \<open>radial_fdiff_r_in_format\<close>). Double precision is
  an odd and sound format (\<open>binary64_odd\<close>, \<open>binary64_sound\<close>), so the antisymmetry and
  the bound hold for the kernels as Python runs them (\<open>double_precision\<close>); its rounding gives the known
  doubles for \<open>0.1\<close> and for \<open>0.1 + 0.2\<close>, which is not the double for \<open>0.3\<close>. For the loop of the caller, on a provider
  determined by the state set that accepts the states of the chain: it returns for every
  interface what a call alone returns (\<open>sweep_independent\<close>), and in the other direction
  with the weights exchanged it returns the negated fluxes in the other order, exactly,
  in every format with an odd rounding (\<open>sweep_reverse\<close>). For the toggle, in machine
  arithmetic: \<^verbatim>\<open>True\<close>, \<^verbatim>\<open>1\<close> and \<^verbatim>\<open>1.0\<close> return the sum of the two fluxes bit for bit in
  every sound format that contains 1 (\<open>gating_on\<close>); \<^verbatim>\<open>False\<close>, \<^verbatim>\<open>0\<close> and \<^verbatim>\<open>0.0\<close> return a zero
  for every finite component of that sum and a NaN for every other one (\<open>gating_off\<close>);
  an integer too large for the format raises \<open>OverflowError\<close> after the flux has been
  computed and the provider set (\<open>toggle_overflow\<close>); two equal states give, component
  by component, exactly zero or NaN, and which of the two is characterised
  (\<open>zero_gradient_machine\<close>, \<open>equal_states_zero_or_nan\<close>); the same holds for
  \<open>radial_fdiff\<close> on two equal densities (\<open>radial_zero_gradient_machine\<close>). For the scenario: the kernel
  in double precision on the doubles nearest to the data of the specification returns
  the double nearest to \<open>1.25 * 10\<^sup>-\<^sup>4\<close> (\<open>scenario_flux\<close>). For the sign of zero: the
  kernel of \<open>Machine\<close> returns the values of the flux with two zeros unless the averaged
  viscosity is the negative zero, which non-negative weights and viscosities exclude
  (\<open>signed_zero_refinement\<close>, \<open>avg_z_not_NegZero\<close>); the multiplication by the toggle 1
  keeps the sign of a zero (\<open>sz_mul_one\<close>); between two equal states with non-negative
  data every component of the flux is the negative zero, and so is every component of
  the flux of the swapped call (\<open>zero_gradient_negative_zero\<close>): the zero-gradient and
  the antisymmetry properties hold for the values and not for the sign bit of a zero.
  Where the sum of the two terms of a species is not a zero, swapping the nodes and the
  weights negates the flux with its sign bit (\<open>swap_negates_bits\<close>); the radial kernel
  returns the values of the rate with two zeros, and where the rounded difference of the
  densities is not a zero the rate of the swapped densities is the negation with its
  sign bit (\<open>radial_signed_zero\<close>). For the boundary average in double precision: with
  both weights one half it is the double nearest to the arithmetic mean, it lies between
  the node values and it is the node value when both are equal, for doubles that are
  zero or of magnitude \<open>2\<^sup>-\<^sup>1\<^sup>0\<^sup>2\<^sup>1\<close> or more (\<open>mean_in_double_precision\<close>); with the
  weights \<open>0.2\<close> and \<open>0.8\<close> the average of \<open>3.0\<close> and \<open>3.0\<close> is the next double above \<open>3.0\<close>,
  and with the weights one half the average of the smallest positive double with itself
  is zero (\<open>average_of_equal_values\<close>); with any finite weights that are not negative
  the average of two equal node values is that value times the sum of the weights up to
  a relative error of \<open>2\<^sup>-\<^sup>5\<^sup>1\<close>, while nothing leaves the normal range
  (\<open>weight_normalisation_double\<close>). For the exceptions in machine arithmetic: in
  every format both kernels raise the exception they raise in exact arithmetic or
  return an array of the same shape, and leave the provider in the same state; the
  exceptions enumerated for exact arithmetic are all there are, with \<open>OverflowError\<close> from
  the conversion of an integer toggle in addition (\<open>planar_exceptions_machine\<close>,
  \<open>radial_exceptions_machine\<close>). For the accuracy in double precision: the rounding of
  \<open>binary64\<close> has a relative error of at most \<open>2\<^sup>-\<^sup>5\<^sup>3\<close> on numbers of magnitude
  \<open>2\<^sup>-\<^sup>1\<^sup>0\<^sup>2\<^sup>2\<close> or more (\<open>binary64_accurate\<close>); the advective term carries at most ten
  roundings, the diffusive term nine, each of them twelve after the multiplication by
  the toggle, the radial mass rate seven and the rate of variant 2 ten; so, while no
  intermediate result leaves the normal range and the averaged densities, viscosities
  and diffusion coefficients are not negative, each term of the flux has a relative
  error of at most \<open>2\<^sup>-\<^sup>4\<^sup>9\<close>, the flux is the sum of two such terms, and it has that
  relative error itself when the two terms do not have opposite signs
  (\<open>planar_accuracy\<close>); the radial rate has it for both variants (\<open>radial_accuracy\<close>),
  and what the kernel returns for variant 2 is what it returns for variant 1 times
  \<open>(1/r_j)\<^sup>2\<close> and \<open>1/t_shl\<close> up to the three roundings of line 94, a relative error of
  \<open>2\<^sup>-\<^sup>5\<^sup>1\<close> (\<open>variant_consistency_double\<close>); with truncation to integers as rounding the
  two differ by the whole result (\<open>variant_consistency_rounded\<close>). When the two terms of
  the flux have opposite signs their sum can cancel and no relative bound holds; the
  error of the flux is then at most \<open>2\<^sup>-\<^sup>4\<^sup>9\<close> of the sum of the magnitudes of the two
  terms (\<open>flux_error_bound\<close>).

  \<^bold>\<open>Idealisations.\<close> In \<open>PyFloat\<close>, \<open>NumPy\<close>, \<open>Fickian\<close>, \<open>Radial\<close> and \<open>Sharing\<close> finite
  floats are real numbers: the arithmetic on them is exact, there is no rounding and no
  overflow to infinity, so a theorem of those theories that states an equality of finite
  results states it up to the rounding of the double precision arithmetic, unless
  \<open>Machine\<close> proves it under rounding. In \<open>Machine\<close>, \<open>Binary64\<close> and \<open>Driver\<close> every
  operator rounds once and overflows at the threshold; the rounding of a format is any
  function on the reals, and that of \<open>binary64\<close> has the gradual underflow of the
  subnormal numbers. The arguments of a call need not be numbers of the format. The
  kernels themselves are written over floats with one zero: a zero result is the one
  zero, and a finite non-zero number divided by it is the infinity of the sign of the
  numerator. \<open>Signed_Zero\<close> has the two zeros for the flux and the rate of one species,
  on data without negative zeros, and shows where the kernels with one zero differ from
  it: in the sign of zero components, and in the sign of the advective term when the
  averaged viscosity is the negative zero. The radial kernel has no division, so there
  the one zero loses the sign of zero results only. The floating-point
  exception flags are not modelled. The special values behave as in IEEE 754 (zero by zero and zero times
  an infinity are NaN). \<open>Scalar\<close> stands both for a Python \<^verbatim>\<open>float\<close> and for a NumPy
  scalar; the division of two scalars is Python's, which raises. Arrays have one dimension. The getters of
  the provider return well-typed values and raise nothing; only the assignment to \<^verbatim>\<open>TDY\<close>
  can be refused, and a refused assignment leaves the provider as it was: a provider
  that changes its state before it rejects one is outside the model, and so are
  exceptions of its getters. Subscripting a \<open>Scalar\<close> raises \<open>TypeError\<close>, as a Python
  float does; a NumPy scalar would raise \<open>IndexError\<close>. The dictionary holds floats and
  arrays of floats only, so the \<open>TypeError\<close> of an operand that is no number does not
  occur. The square \<^verbatim>\<open>**2\<close> of lines 90 and 94 is one operation with one rounding.
  The closed forms \<open>rate_k\<close> and \<open>rate_f\<close> take every selector other than 1 for variant
  2; the kernels raise for a selector other than 1 and 2, and every theorem that
  connects a closed form with a kernel has the selector 1 or 2. The node index and the variant selector are integers; the toggle is a
  float or an array in \<open>Fickian\<close> and \<open>Machine\<close> and a \<^verbatim>\<open>bool\<close>, an \<^verbatim>\<open>int\<close>, a float or an
  array in \<open>Gating\<close>, where an integer that no double holds is rounded like a literal. There are no loops in the kernels, so no fuel is needed: every
  definition is a total function and every result is a value. The one bound of the
  development is the number of steps of a thread: twelve, the length of \<open>adf_ops\<close>;
  further steps change nothing (\<open>run_thread_beyond\<close>). An operation on the provider is
  atomic in the thread model, as an attribute access under the interpreter lock is.

  \<^bold>\<open>Not modelled.\<close> The solver that calls the kernels at every time step, the set-up of
  the geometry that fills the dictionaries, and the thermodynamics inside the provider
  are not part of the source file. Of the provider only the interface is modelled, of
  the solver only the loop over the interfaces; its time integration and the assembly of
  the conservation equations are not. The radial kernel has no such loop in \<open>Driver\<close>: it
  touches no shared object, so its calls are independent by construction.
\<close>

section \<open>The concrete scenario of the specification\<close>

text \<open>
  One species, weights one half, permeability \<open>10\<^sup>-\<^sup>1\<^sup>2\<close>, inverse spacing 100, porosity
  factor one half; the provider reports diffusion coefficient and viscosity
  \<open>2 * 10\<^sup>-\<^sup>5\<close>, density 1 and mass fraction 1 at both nodes, and the pressures 101325 and
  101300. Both nodes have the same state, so only a provider that is not determined by
  the state can report two pressures: the scenario is run on the scripted provider.
\<close>

definition scen_p :: pdict where
  "scen_p = map_of [(''wt1'', Scalar (Fin (1/2))), (''wt2'', Scalar (Fin (1/2))),
     (''K_g'', Scalar (Fin (1/10^12))), (''1/dy'', Scalar (Fin 100)),
     (''eps/tau2'', Scalar (Fin (1/2)))]"

definition scen_snap :: "real \<Rightarrow> snapshot" where
  "scen_snap P = \<lparr>snap_D_k = [Fin (2/10^5)], snap_rho = Fin 1, snap_mu = Fin (2/10^5),
     snap_P = Fin P, snap_Y = [Fin 1]\<rparr>"

definition scen_T :: tdy where
  "scen_T = (Fin 350, Fin 1, [Fin 1])"

definition scen_script :: script where
  "scen_script = (scen_snap 0, [scen_snap 101325, scen_snap 101300])"

text \<open>
  The scenario of the specification. On the scenario the kernel returns the flux \<open>1/8000 = 1.25 * 10\<^sup>-\<^sup>4\<close>
  for the one species: the pressure falls from node 1 to node 2, so the flux is positive,
  from node 1 into node 2, and its magnitude is \<open>1 * 10\<^sup>-\<^sup>1\<^sup>2 * 25 * 100 / (2 * 10\<^sup>-\<^sup>5)\<close>.
  In double precision, with every number of the scenario replaced by the double nearest
  to it, the toggle the integer 1 and one rounding after each operator, the kernel
  returns the double nearest to \<open>1.25 * 10\<^sup>-\<^sup>4\<close>: the four roundings on the way do not
  move the result off the correctly rounded value.
\<close>

theorem scenario_flux:
  "fst (fickian_adf scen_T scen_T scripted_gas scen_p (Scalar (Fin 1)) scen_script) =
     Inr (Vec [Fin (1/8000)]) \<and>
   fst (fickian_adf_t binary64 scen_T scen_T scripted_gas (dbl_dict scen_p) (PyInt 1)
     (dbl_script scen_script)) = Inr (Vec [dbl (1/8000)])"
proof -
  have "fickian_adf_t binary64 scen_T scen_T scripted_gas (dbl_dict scen_p) (PyInt 1) =
      fickian_adf_r binary64 scen_T scen_T scripted_gas (dbl_dict scen_p) (Scalar (Fin 1))"
    by (intro fickian_adf_t_operand) (simp add: toggle_operand_def round_f_def)
  then have "fst (fickian_adf_t binary64 scen_T scen_T scripted_gas (dbl_dict scen_p) (PyInt 1)
      (dbl_script scen_script)) = Inr (Vec [dbl (1/8000)])"
    by (simp add: fickian_adf_r_def fickian_adf_g_def scen_p_def scen_snap_def scen_script_def
        stmt_simps boundary_avg_r_def J_conv_r_def J_diff_r_def dbl_def dbl_dict_def
        dbl_snap_def dbl_script_def fl_defs double_eval)
  then show ?thesis
    by (simp add: fickian_adf_def scen_p_def scen_snap_def scen_script_def stmt_simps
        boundary_avg_def J_conv_def J_diff_def)
qed

end
